(* ===== verification/Prelude.thy ===== *)
theory Prelude imports Main "HOL-Library.Word" begin

text \<open>
  Shared vocabulary of the development: the collections of rewrite rules the component
  theories fill and use, the names of the Go types the model works with, and generic lemmas
  on lists and options.
  A Go \<open>string\<close> and a Go \<open>[]byte\<close> are both lists of 8-bit characters; a slice that the
  code compares with \<open>nil\<close> is an \<open>option\<close>. \<open>uint64\<close> and \<open>int64\<close> are 64-bit words, read
  with \<open>unat\<close> and \<open>sint\<close>.
\<close>

named_theorems prog_simps \<open>evaluation rules of the computation combinators\<close>
named_theorems api_defs \<open>the external calls, unfolded to the environment\<close>

type_synonym bytes = string
type_synonym u64 = "64 word"
type_synonym i64 = "64 word"

subsection \<open>Lists\<close>

text \<open>Concatenation of strings with a separator between them, as \<open>strings.Join\<close>.\<close>

fun join_with :: "'a list \<Rightarrow> 'a list list \<Rightarrow> 'a list" where
  "join_with sep [] = []"
| "join_with sep [x] = x"
| "join_with sep (x # y # ys) = x @ sep @ join_with sep (y # ys)"

lemma join_with_Cons: "xs \<noteq> [] \<Longrightarrow> join_with sep (x # xs) = x @ sep @ join_with sep xs"
  by (cases xs) auto

end
