(* ===== verification/Go_Errors.thy ===== *)
theory Go_Errors imports Prelude "HOL-Library.Sublist" begin

text \<open>
  Go errors. An error is a leaf with a message (\<open>errors.New\<close>, \<open>errors.Errorf\<close>,
  \<open>fmt.Errorf\<close> without \<open>%w\<close>, an error of a library), a message wrapped around an error
  (\<open>errors.Wrap\<close>, \<open>fmt.Errorf\<close> with a final \<open>%w\<close>), a sentinel wrapped around its cause
  (\<open>fmt.Errorf\<close> with \<open>%w: %w\<close>), or a list joined by \<open>errors.Join\<close>.
  \<open>Error\<close> is the text \<open>err.Error()\<close> returns; \<open>is_error\<close> is \<open>errors.Is\<close>.
\<close>

datatype error =
  New string
| Wrap string error
| Both error error
| Joined "error list"

fun Error :: "error \<Rightarrow> string" where
  "Error (New m) = m"
| "Error (Wrap m e) = m @ '': '' @ Error e"
| "Error (Both a b) = Error a @ '': '' @ Error b"
| "Error (Joined es) = join_with [CHR 0x0A] (map Error es)"

fun is_error :: "error \<Rightarrow> error \<Rightarrow> bool" where
  "is_error t (New m) \<longleftrightarrow> t = New m"
| "is_error t (Wrap m e) \<longleftrightarrow> t = Wrap m e \<or> is_error t e"
| "is_error t (Both a b) \<longleftrightarrow> t = Both a b \<or> is_error t a \<or> is_error t b"
| "is_error t (Joined es) \<longleftrightarrow> t = Joined es \<or> (\<exists>e \<in> set es. is_error t e)"

lemma is_error_refl [simp]: "is_error e e"
  by (cases e) auto

text \<open>
  \<open>errors.Join\<close> drops the \<open>nil\<close> arguments and is \<open>nil\<close> when nothing is left.
  A Go value of type \<open>error\<close> that may be \<open>nil\<close> is an \<open>error option\<close>.
\<close>

definition errors_Join :: "error option list \<Rightarrow> error option" where
  "errors_Join es =
     (let l = List.map_filter (\<lambda>e. e) es in if l = [] then None else Some (Joined l))"

lemma map_filter_id_empty: "List.map_filter (\<lambda>e. e) es = [] \<longleftrightarrow> (\<forall>e \<in> set es. e = None)"
  by (induction es) (auto simp: List.map_filter_def)

lemma errors_Join_None_iff: "errors_Join es = None \<longleftrightarrow> (\<forall>e \<in> set es. e = None)"
  by (simp add: errors_Join_def Let_def map_filter_id_empty)

lemma errors_Join_Nil [simp]: "errors_Join [] = None"
  by (simp add: errors_Join_None_iff)

lemma errors_Join_reports:
  assumes "Some e \<in> set es"
  shows "\<exists>j. errors_Join es = Some j \<and> is_error e j"
proof -
  have "e \<in> set (List.map_filter (\<lambda>e. e) es)"
    using assms by (force simp: List.map_filter_def)
  moreover from this have "List.map_filter (\<lambda>e. e) es \<noteq> []" by auto
  ultimately show ?thesis
    by (intro exI [of _ "Joined (List.map_filter (\<lambda>e. e) es)"])
      (simp add: errors_Join_def, blast intro: is_error_refl)
qed

subsection \<open>Searching in strings\<close>

text \<open>\<open>strings.Contains\<close> and \<open>strings.HasPrefix\<close>, as functions that compute.\<close>

fun HasPrefix :: "string \<Rightarrow> string \<Rightarrow> bool" where
  "HasPrefix s [] = True"
| "HasPrefix [] (p # ps) = False"
| "HasPrefix (c # s) (p # ps) \<longleftrightarrow> c = p \<and> HasPrefix s ps"

fun Contains :: "string \<Rightarrow> string \<Rightarrow> bool" where
  "Contains [] t \<longleftrightarrow> t = []"
| "Contains (c # s) t \<longleftrightarrow> HasPrefix (c # s) t \<or> Contains s t"

lemma HasPrefix_iff: "HasPrefix s p \<longleftrightarrow> prefix p s"
  by (induction s p rule: HasPrefix.induct) auto

lemma Contains_iff: "Contains s t \<longleftrightarrow> sublist t s"
proof (induction s)
  case Nil
  show ?case by simp
next
  case (Cons c s)
  then show ?case by (simp only: Contains.simps HasPrefix_iff sublist_Cons_right)
qed

text \<open>Wrapping an error keeps what its text contains, so a test on the text still sees it.\<close>

lemma Contains_Wrap: "Contains (Error e) t \<Longrightarrow> Contains (Error (Wrap m e)) t"
  by (simp add: Contains_iff sublist_append sublist_Cons_right)

end
