(* ===== verification/Prog.thy ===== *)
theory Prog imports Go_Errors begin

text \<open>
  Computations of the Go code. A program runs in a world \<open>'w\<close> (everything outside the
  repository: the node, the ledger, the network, the databases), calls it through external
  functions that are parameters of the model, and ends with a value, with a Go error, or with a
  panic. Every external call is recorded as an \<open>event\<close>: what was called, whether it
  succeeded, and the world it left. The list of events of a run is its trace, so a property of
  the order in which the code calls its environment is a property of the trace.
\<close>

datatype 'a res = Ok 'a | Err error | Panic string

datatype ('c, 'w) event = Event (op: 'c) (succeeded: bool) (after: 'w)

type_synonym ('c, 'w, 'a) prog = "'w \<Rightarrow> 'a res \<times> ('c, 'w) event list \<times> 'w"

definition ret :: "'a \<Rightarrow> ('c, 'w, 'a) prog" where
  "ret x w = (Ok x, [], w)"

definition throw :: "error \<Rightarrow> ('c, 'w, 'a) prog" where
  "throw e w = (Err e, [], w)"

definition panic :: "string \<Rightarrow> ('c, 'w, 'a) prog" where
  "panic m w = (Panic m, [], w)"

text \<open>
  Sequencing: \<open>andThen m k\<close> runs \<open>m\<close> and, when it returned a value, \<open>k\<close> on it.
  \<open>onError m h\<close> is the code's \<open>if err != nil { ... }\<close> after \<open>m\<close>.
  \<open>wrapErr\<close> is the frequent case that returns \<open>errors.Wrap(err, msg)\<close>, and \<open>must\<close> is
  \<open>assert.NoError(err, msg)\<close>, which panics.
\<close>

definition andThen :: "('c, 'w, 'a) prog \<Rightarrow> ('a \<Rightarrow> ('c, 'w, 'b) prog) \<Rightarrow> ('c, 'w, 'b) prog" where
  "andThen m k w =
     (case m w of
        (Ok x, es, w1) \<Rightarrow> (case k x w1 of (r, es', w2) \<Rightarrow> (r, es @ es', w2))
      | (Err e, es, w1) \<Rightarrow> (Err e, es, w1)
      | (Panic p, es, w1) \<Rightarrow> (Panic p, es, w1))"

definition onError :: "('c, 'w, 'a) prog \<Rightarrow> (error \<Rightarrow> ('c, 'w, 'a) prog) \<Rightarrow> ('c, 'w, 'a) prog" where
  "onError m h w =
     (case m w of
        (Err e, es, w1) \<Rightarrow> (case h e w1 of (r, es', w2) \<Rightarrow> (r, es @ es', w2))
      | r \<Rightarrow> r)"

definition wrapErr :: "string \<Rightarrow> ('c, 'w, 'a) prog \<Rightarrow> ('c, 'w, 'a) prog" where
  "wrapErr msg m = onError m (\<lambda>e. throw (Wrap msg e))"

definition must :: "string \<Rightarrow> ('c, 'w, 'a) prog \<Rightarrow> ('c, 'w, 'a) prog" where
  "must msg m = onError m (\<lambda>e. panic msg)"

text \<open>\<open>assert.True(b, msg)\<close> and its kin.\<close>

definition assertTrue :: "string \<Rightarrow> bool \<Rightarrow> ('c, 'w, unit) prog" where
  "assertTrue msg b = (if b then ret () else panic msg)"

text \<open>
  \<open>attempt m\<close> hands the caller the error as a value: the code's \<open>x, err := m\<close> where the
  error is inspected and not returned.
\<close>

definition attempt :: "('c, 'w, 'a) prog \<Rightarrow> ('c, 'w, error + 'a) prog" where
  "attempt m = onError (andThen m (\<lambda>x. ret (Inr x))) (\<lambda>e. ret (Inl e))"

text \<open>
  \<open>deferred m f\<close>: \<open>f\<close> is deferred before \<open>m\<close> runs, so it runs after \<open>m\<close> however \<open>m\<close> ends;
  the result is that of \<open>m\<close>, unless \<open>f\<close> panics.
\<close>

definition deferred :: "('c, 'w, 'a) prog \<Rightarrow> ('c, 'w, unit) prog \<Rightarrow> ('c, 'w, 'a) prog" where
  "deferred m f w =
     (case m w of (r, es, w1) \<Rightarrow>
       (case f w1 of (r', es', w2) \<Rightarrow>
         ((case r' of Panic p \<Rightarrow> Panic p | _ \<Rightarrow> r), es @ es', w2)))"

text \<open>
  External calls. \<open>ext c f\<close> calls a function that returns \<open>(value, error)\<close> (or panics);
  \<open>extv c f\<close> calls one that has no error result.
\<close>

fun is_ok :: "'a res \<Rightarrow> bool" where
  "is_ok (Ok x) = True"
| "is_ok (Err e) = False"
| "is_ok (Panic p) = False"

definition ext :: "'c \<Rightarrow> ('w \<Rightarrow> 'a res \<times> 'w) \<Rightarrow> ('c, 'w, 'a) prog" where
  "ext c f w = (case f w of (r, w1) \<Rightarrow> (r, [Event c (is_ok r) w1], w1))"

definition extv :: "'c \<Rightarrow> ('w \<Rightarrow> 'a \<times> 'w) \<Rightarrow> ('c, 'w, 'a) prog" where
  "extv c f w = (case f w of (x, w1) \<Rightarrow> (Ok x, [Event c True w1], w1))"

subsection \<open>Laws\<close>

lemma ret_andThen [simp]: "andThen (ret x) k = k x"
  by (rule HOL.ext) (simp add: andThen_def ret_def split: prod.splits)

lemma throw_andThen [simp]: "andThen (throw e) k = throw e"
  by (rule HOL.ext) (simp add: andThen_def throw_def)

lemma panic_andThen [simp]: "andThen (panic p) k = panic p"
  by (rule HOL.ext) (simp add: andThen_def panic_def)

lemma andThen_ret [simp]: "andThen m ret = m"
  by (rule HOL.ext) (simp add: andThen_def ret_def split: prod.splits res.splits)

lemma andThen_assoc: "andThen (andThen m k) l = andThen m (\<lambda>x. andThen (k x) l)"
  by (rule HOL.ext) (simp add: andThen_def split: prod.splits res.splits)

lemma onError_throw [simp]: "onError (throw e) h = h e"
  by (rule HOL.ext) (simp add: onError_def throw_def split: prod.splits)

lemma onError_ret [simp]: "onError (ret x) h = ret x"
  by (rule HOL.ext) (simp add: onError_def ret_def)

subsection \<open>Runs against a protocol\<close>

text \<open>
  A protocol is a partial step function on phases: \<open>None\<close> is an event the protocol forbids.
  \<open>conf D p m Q w\<close> says that the run of \<open>m\<close> in \<open>w\<close>, watched from phase \<open>p\<close>, makes only
  events the protocol allows, and that \<open>Q\<close> holds of its result, of the phase reached and of the
  world left. It is computed by composition, one rule per combinator.
\<close>

fun run_aut :: "('p \<Rightarrow> ('c, 'w) event \<Rightarrow> 'p option) \<Rightarrow> 'p \<Rightarrow> ('c, 'w) event list \<Rightarrow> 'p option" where
  "run_aut D p [] = Some p"
| "run_aut D p (e # es) = (case D p e of None \<Rightarrow> None | Some q \<Rightarrow> run_aut D q es)"

lemma run_aut_append:
  "run_aut D p (es @ fs) = (case run_aut D p es of None \<Rightarrow> None | Some q \<Rightarrow> run_aut D q fs)"
  by (induction es arbitrary: p) (auto split: option.splits)

definition conf ::
  "('p \<Rightarrow> ('c, 'w) event \<Rightarrow> 'p option) \<Rightarrow> 'p \<Rightarrow> ('c, 'w, 'a) prog \<Rightarrow> ('a res \<Rightarrow> 'p \<Rightarrow> 'w \<Rightarrow> bool) \<Rightarrow> 'w \<Rightarrow> bool"
where
  "conf D p m Q w \<longleftrightarrow>
     (case m w of (r, es, w1) \<Rightarrow>
       (case run_aut D p es of None \<Rightarrow> False | Some q \<Rightarrow> Q r q w1))"

lemma confD:
  assumes "conf D p m Q w" and "m w = (r, es, w1)"
  obtains q where "run_aut D p es = Some q" and "Q r q w1"
  using assms by (auto simp: conf_def split: option.splits)

lemma confI:
  "(\<And>r es w1. m w = (r, es, w1) \<Longrightarrow> \<exists>q. run_aut D p es = Some q \<and> Q r q w1) \<Longrightarrow> conf D p m Q w"
  by (cases "m w") (auto simp: conf_def split: option.splits)

lemma conf_ret [prog_simps]: "conf D p (ret x) Q w \<longleftrightarrow> Q (Ok x) p w"
  by (simp add: conf_def ret_def)

lemma conf_throw [prog_simps]: "conf D p (throw e) Q w \<longleftrightarrow> Q (Err e) p w"
  by (simp add: conf_def throw_def)

lemma conf_panic [prog_simps]: "conf D p (panic m) Q w \<longleftrightarrow> Q (Panic m) p w"
  by (simp add: conf_def panic_def)

lemma conf_andThen [prog_simps]:
  "conf D p (andThen m k) Q w \<longleftrightarrow>
   conf D p m (\<lambda>r q w1. case r of Ok x \<Rightarrow> conf D q (k x) Q w1 | Err e \<Rightarrow> Q (Err e) q w1
     | Panic s \<Rightarrow> Q (Panic s) q w1) w"
  by (auto simp: conf_def andThen_def run_aut_append split: prod.splits res.splits option.splits)

lemma conf_onError [prog_simps]:
  "conf D p (onError m h) Q w \<longleftrightarrow>
   conf D p m (\<lambda>r q w1. case r of Err e \<Rightarrow> conf D q (h e) Q w1 | r \<Rightarrow> Q r q w1) w"
  by (auto simp: conf_def onError_def run_aut_append split: prod.splits res.splits option.splits)

lemma conf_wrapErr [prog_simps]:
  "conf D p (wrapErr msg m) Q w \<longleftrightarrow>
   conf D p m (\<lambda>r q w1. case r of Err e \<Rightarrow> Q (Err (Wrap msg e)) q w1 | r \<Rightarrow> Q r q w1) w"
  by (simp add: wrapErr_def conf_onError conf_throw cong: res.case_cong)

lemma conf_must [prog_simps]:
  "conf D p (must msg m) Q w \<longleftrightarrow>
   conf D p m (\<lambda>r q w1. case r of Err e \<Rightarrow> Q (Panic msg) q w1 | r \<Rightarrow> Q r q w1) w"
  by (simp add: must_def conf_onError conf_panic cong: res.case_cong)

lemma conf_assertTrue [prog_simps]:
  "conf D p (assertTrue msg b) Q w \<longleftrightarrow> (if b then Q (Ok ()) p w else Q (Panic msg) p w)"
  by (simp add: assertTrue_def conf_ret conf_panic)

lemma conf_attempt [prog_simps]:
  "conf D p (attempt m) Q w \<longleftrightarrow>
   conf D p m (\<lambda>r q w1. case r of Ok x \<Rightarrow> Q (Ok (Inr x)) q w1 | Err e \<Rightarrow> Q (Ok (Inl e)) q w1
     | Panic s \<Rightarrow> Q (Panic s) q w1) w"
  unfolding attempt_def conf_onError conf_andThen conf_ret
  by (rule arg_cong [where f = "\<lambda>R. conf D p m R w"]) (auto simp: fun_eq_iff conf_ret split: res.split)

lemma conf_deferred [prog_simps]:
  "conf D p (deferred m f) Q w \<longleftrightarrow>
   conf D p m (\<lambda>r q w1. conf D q f
     (\<lambda>r' q' w2. case r' of Panic s \<Rightarrow> Q (Panic s) q' w2 | _ \<Rightarrow> Q r q' w2) w1) w"
  by (auto simp: conf_def deferred_def run_aut_append split: prod.splits res.splits option.splits)

lemma conf_ext [prog_simps]:
  "conf D p (ext c f) Q w \<longleftrightarrow>
   (\<forall>x w1. f w = (Ok x, w1) \<longrightarrow>
      (case D p (Event c True w1) of None \<Rightarrow> False | Some q \<Rightarrow> Q (Ok x) q w1)) \<and>
   (\<forall>e w1. f w = (Err e, w1) \<longrightarrow>
      (case D p (Event c False w1) of None \<Rightarrow> False | Some q \<Rightarrow> Q (Err e) q w1)) \<and>
   (\<forall>m w1. f w = (Panic m, w1) \<longrightarrow>
      (case D p (Event c False w1) of None \<Rightarrow> False | Some q \<Rightarrow> Q (Panic m) q w1))"
proof -
  obtain r w1 where "f w = (r, w1)" by (cases "f w")
  then show ?thesis
    by (cases r) (auto simp: conf_def ext_def split: option.splits)
qed

lemma conf_extv [prog_simps]:
  "conf D p (extv c f) Q w \<longleftrightarrow>
   (\<forall>x w1. f w = (x, w1) \<longrightarrow>
      (case D p (Event c True w1) of None \<Rightarrow> False | Some q \<Rightarrow> Q (Ok x) q w1))"
  by (auto simp: conf_def extv_def split: prod.splits option.splits)

text \<open>
  Evaluation goes from the first call on: this congruence rule keeps the simplifier from
  rewriting the rest of a program before the phase it starts in is known.
\<close>

lemma conf_cong: "p = q \<Longrightarrow> m = n \<Longrightarrow> conf D p m Q w = conf D q n Q w"
  by simp

lemma conf_mono: "conf D p m Q w \<Longrightarrow> (\<And>r q w1. Q r q w1 \<Longrightarrow> R r q w1) \<Longrightarrow> conf D p m R w"
  by (auto simp: conf_def split: prod.splits option.splits)

text \<open>
  A program of a part of the code, as a part of a larger program with more calls: the same run,
  with its calls renamed.
\<close>

definition mapCalls :: "('c \<Rightarrow> 'd) \<Rightarrow> ('c, 'w, 'a) prog \<Rightarrow> ('d, 'w, 'a) prog" where
  "mapCalls f m w =
     (case m w of (r, es, w1) \<Rightarrow> (r, map (\<lambda>e. Event (f (op e)) (succeeded e) (after e)) es, w1))"

lemma run_aut_map:
  "run_aut D p (map g es) = run_aut (\<lambda>q e. D q (g e)) p es"
  by (induction es arbitrary: p) (auto split: option.split)

lemma conf_mapCalls:
  "conf D p (mapCalls f m) Q w \<longleftrightarrow> conf (\<lambda>q e. D q (Event (f (op e)) (succeeded e) (after e))) p m Q w"
  by (simp add: conf_def mapCalls_def run_aut_map split: prod.split)

lemma mapCalls_eq:
  "m w = (r, es, w1) \<Longrightarrow>
   mapCalls f m w = (r, map (\<lambda>e. Event (f (op e)) (succeeded e) (after e)) es, w1)"
  by (simp add: mapCalls_def)

text \<open>
  The protocol that allows everything and remembers it: \<open>conf collect\<close> is the weakest
  precondition of a statement about the result and the whole trace of a run.
\<close>

definition collect :: "('c, 'w) event list \<Rightarrow> ('c, 'w) event \<Rightarrow> ('c, 'w) event list option" where
  "collect es e = Some (es @ [e])"

lemma run_collect: "run_aut collect es fs = Some (es @ fs)"
  by (induction fs arbitrary: es) (auto simp: collect_def)

lemma conf_collect: "conf collect [] m Q w \<longleftrightarrow> (case m w of (r, es, w1) \<Rightarrow> Q r es w1)"
  by (auto simp: conf_def run_collect)

lemma collectD: "conf collect [] m Q w \<Longrightarrow> m w = (r, es, w1) \<Longrightarrow> Q r es w1"
  by (simp add: conf_collect)

lemma collect_step [prog_simps]:
  "(case collect es e of None \<Rightarrow> False | Some q \<Rightarrow> P q) \<longleftrightarrow> P (es @ [e])"
  by (simp add: collect_def)

text \<open>
  The protocol that forbids the events in \<open>P\<close>, and does not watch anything else. With a \<open>P\<close>
  that mentions what the environment answers, it states that a call is made only under a
  condition.
\<close>

definition forbid :: "(('c, 'w) event \<Rightarrow> bool) \<Rightarrow> unit \<Rightarrow> ('c, 'w) event \<Rightarrow> unit option" where
  "forbid P u e = (if P e then None else Some ())"

lemma forbid_simp [prog_simps]: "forbid P u e = (if P e then None else Some ())"
  by (simp add: forbid_def)

lemma run_forbid: "run_aut (forbid P) u es = Some q \<Longrightarrow> \<forall>e \<in> set es. \<not> P e"
  by (induction es arbitrary: u) (auto simp: forbid_def split: if_splits)

lemma forbidD:
  assumes "conf (forbid P) () m Q w" and "m w = (r, es, w1)"
  shows "Q r () w1" and "e \<in> set es \<Longrightarrow> \<not> P e"
  using assms by (auto simp: conf_def split: option.splits dest: run_forbid)

lemma run_forbid_iff: "run_aut (forbid P) u es = (if \<exists>e \<in> set es. P e then None else Some ())"
  by (induction es arbitrary: u) (auto simp: forbid_def)

lemma conf_forbid_mono:
  assumes "conf (forbid P) () m Q w"
    and "\<And>e. R e \<Longrightarrow> P e" and "\<And>r w1. Q r () w1 \<Longrightarrow> S r () w1"
  shows "conf (forbid R) () m S w"
  using assms by (auto simp: conf_def run_forbid_iff split: prod.splits if_splits option.splits)

subsection \<open>Runs taken apart\<close>

lemma andThen_eq_iff:
  "andThen m k w = (r, es, w') \<longleftrightarrow>
     (\<exists>x es1 w1 es2. m w = (Ok x, es1, w1) \<and> k x w1 = (r, es2, w') \<and> es = es1 @ es2) \<or>
     (\<exists>e. m w = (Err e, es, w') \<and> r = Err e) \<or> (\<exists>p. m w = (Panic p, es, w') \<and> r = Panic p)"
  by (auto simp: andThen_def split: prod.split res.split)

lemma onError_eq_iff:
  "onError m h w = (r, es, w') \<longleftrightarrow>
     (\<exists>e es1 w1 es2. m w = (Err e, es1, w1) \<and> h e w1 = (r, es2, w') \<and> es = es1 @ es2) \<or>
     (m w = (r, es, w') \<and> (\<forall>e. r \<noteq> Err e))"
  by (cases r) (auto simp: onError_def split: prod.split res.split)

lemma basic_eq_iff:
  "ret x w = (r, es, w') \<longleftrightarrow> r = Ok x \<and> es = [] \<and> w' = w"
  "throw e w = (r', es, w') \<longleftrightarrow> r' = Err e \<and> es = [] \<and> w' = w"
  "panic p w = (r'', es, w') \<longleftrightarrow> r'' = Panic p \<and> es = [] \<and> w' = w"
  by (auto simp: ret_def throw_def panic_def)

lemma ext_eq_iff: "ext c f w = (r, es, w') \<longleftrightarrow> f w = (r, w') \<and> es = [Event c (is_ok r) w']"
  by (auto simp: ext_def split: prod.split)

lemma extv_eq_iff: "extv c f w = (r, es, w') \<longleftrightarrow> (\<exists>x. f w = (x, w') \<and> r = Ok x \<and> es = [Event c True w'])"
  by (auto simp: extv_def split: prod.split)

lemma wrapErr_eq_iff:
  "wrapErr msg m w = (r, es, w') \<longleftrightarrow>
     (\<exists>e. m w = (Err e, es, w') \<and> r = Err (Wrap msg e)) \<or> (m w = (r, es, w') \<and> (\<forall>e. r \<noteq> Err e))"
  by (auto simp: wrapErr_def onError_eq_iff basic_eq_iff)

lemma mapCalls_eq_iff:
  "mapCalls f m w = (r, es, w') \<longleftrightarrow>
   (\<exists>fs. m w = (r, fs, w') \<and> es = map (\<lambda>e. Event (f (op e)) (succeeded e) (after e)) fs)"
  by (auto simp: mapCalls_def split: prod.split)

lemma attempt_eq_iff:
  "attempt m w = (r, es, w') \<longleftrightarrow>
     (\<exists>x. m w = (Ok x, es, w') \<and> r = Ok (Inr x)) \<or> (\<exists>e. m w = (Err e, es, w') \<and> r = Ok (Inl e)) \<or>
     (\<exists>p. m w = (Panic p, es, w') \<and> r = Panic p)"
  by (auto simp: attempt_def onError_def andThen_def ret_def split: prod.split res.split)

lemmas run_iffs = andThen_eq_iff onError_eq_iff basic_eq_iff ext_eq_iff extv_eq_iff wrapErr_eq_iff
  mapCalls_eq_iff attempt_eq_iff

text \<open>A program that never makes a call of a kind.\<close>

definition avoids :: "('c \<Rightarrow> bool) \<Rightarrow> ('c, 'w, 'a) prog \<Rightarrow> bool" where
  "avoids P m \<longleftrightarrow> (\<forall>w. \<forall>e \<in> set (fst (snd (m w))). \<not> P (op e))"

lemma avoidsI: "(\<And>w r es w' e. m w = (r, es, w') \<Longrightarrow> e \<in> set es \<Longrightarrow> \<not> P (op e)) \<Longrightarrow> avoids P m"
  unfolding avoids_def by (metis prod.collapse)

lemma avoidsD: "avoids P m \<Longrightarrow> m w = (r, es, w') \<Longrightarrow> e \<in> set es \<Longrightarrow> \<not> P (op e)"
  unfolding avoids_def by (metis fst_conv snd_conv)

lemma avoids_basic [intro!]:
  "avoids P (ret x)" "avoids P (throw e)" "\<not> P c \<Longrightarrow> avoids P (ext c f)"
  by (auto simp: avoids_def ret_def throw_def ext_def split: prod.split)

lemma avoids_andThen [intro!]:
  assumes "avoids P m" and "\<And>x. avoids P (k x)"
  shows "avoids P (andThen m k)"
  by (rule avoidsI) (auto simp: andThen_eq_iff dest: avoidsD [OF assms(1)] avoidsD [OF assms(2)])

lemma avoids_attempt [intro!]: "avoids P m \<Longrightarrow> avoids P (attempt m)"
  by (rule avoidsI) (auto simp: attempt_eq_iff dest: avoidsD)

lemma avoids_onError [intro!]:
  assumes "avoids P m" and "\<And>e. avoids P (h e)"
  shows "avoids P (onError m h)"
  by (rule avoidsI)
    (auto simp: onError_def split: prod.splits res.splits dest: avoidsD [OF assms(1)] avoidsD [OF assms(2)])

lemma avoids_extv [intro!]: "\<not> P c \<Longrightarrow> avoids P (extv c f)"
  by (auto simp: avoids_def extv_def split: prod.split)

lemma avoids_mapCalls [intro!]:
  assumes "avoids (\<lambda>c. P (f c)) m"
  shows "avoids P (mapCalls f m)"
  by (rule avoidsI) (use avoidsD [OF assms] in \<open>auto simp: mapCalls_def split: prod.splits\<close>)

subsection \<open>What a run leaves untouched\<close>

text \<open>
  Every program is built from external calls, so the world it leaves is the world its last
  call left. An observation \<open>L\<close> of the world that no call of a run changes is unchanged by the
  run; \<open>undisturbed\<close> states this for the calls that satisfy \<open>P\<close>.
\<close>

definition last_world :: "'w \<Rightarrow> ('c, 'w) event list \<Rightarrow> 'w" where
  "last_world w es = (if es = [] then w else after (last es))"

lemma last_world_simps [simp]:
  "last_world w [] = w" "last_world w [e] = after e"
  "last_world w (es @ fs) = last_world (last_world w es) fs"
  by (simp_all add: last_world_def)

definition linked :: "('c, 'w, 'a) prog \<Rightarrow> bool" where
  "linked m \<longleftrightarrow> (\<forall>w. case m w of (r, es, w1) \<Rightarrow> w1 = last_world w es)"

lemma linkedD: "linked m \<Longrightarrow> m w = (r, es, w1) \<Longrightarrow> w1 = last_world w es"
  unfolding linked_def by (drule spec [of _ w]) simp

lemma linked_simple [simp]: "linked (ret x)" "linked (throw e)" "linked (panic p)"
  by (simp_all add: linked_def ret_def throw_def panic_def)

lemma linked_ext [simp]: "linked (ext c f)"
  by (simp add: linked_def ext_def split: prod.splits)

lemma linked_extv [simp]: "linked (extv c f)"
  by (simp add: linked_def extv_def split: prod.splits)

lemma linked_andThen [intro]:
  assumes "linked m" and "\<And>x. linked (k x)"
  shows "linked (andThen m k)"
  using linkedD [OF assms(1)] linkedD [OF assms(2)]
  by (auto simp: linked_def andThen_def split: prod.split res.split)

lemma linked_onError [intro]:
  assumes "linked m" and "\<And>e. linked (h e)"
  shows "linked (onError m h)"
  using linkedD [OF assms(1)] linkedD [OF assms(2)]
  by (auto simp: linked_def onError_def split: prod.split res.split)

lemma linked_deferred [intro]:
  assumes "linked m" and "linked f"
  shows "linked (deferred m f)"
  using linkedD [OF assms(1)] linkedD [OF assms(2)]
  by (auto simp: linked_def deferred_def split: prod.split res.split)

lemma linked_wrapErr [intro]: "linked m \<Longrightarrow> linked (wrapErr msg m)"
  by (auto simp: wrapErr_def)

lemma linked_must [intro]: "linked m \<Longrightarrow> linked (must msg m)"
  by (auto simp: must_def)

lemma linked_attempt [intro]: "linked m \<Longrightarrow> linked (attempt m)"
  unfolding attempt_def by (intro linked_onError linked_andThen) simp_all

lemma linked_assertTrue [simp]: "linked (assertTrue msg b)"
  by (simp add: assertTrue_def)

fun undisturbed :: "('w \<Rightarrow> 'l) \<Rightarrow> ('c \<Rightarrow> bool) \<Rightarrow> 'w \<Rightarrow> ('c, 'w) event list \<Rightarrow> bool" where
  "undisturbed L P w [] = True"
| "undisturbed L P w (Event c b w1 # es) \<longleftrightarrow> (P c \<longrightarrow> L w1 = L w) \<and> undisturbed L P w1 es"

lemma undisturbed_last:
  "undisturbed L P w es \<Longrightarrow> \<forall>e \<in> set es. P (op e) \<Longrightarrow> L (last_world w es) = L w"
proof (induction L P w es rule: undisturbed.induct)
  case (2 L P w c b w1 es)
  then show ?case by (cases es) (auto simp: last_world_def)
qed simp

lemma linked_frame:
  assumes "linked m" and "m w = (r, es, w1)"
    and "undisturbed L P w es" and "\<forall>e \<in> set es. P (op e)"
  shows "L w1 = L w"
  using linkedD [OF assms(1,2)] undisturbed_last [OF assms(3,4)] by simp

end
