(* ===== verification/Token_Api.thy ===== *)
theory Token_Api imports Prog begin

text \<open>
  The libraries below the token nodes: the token SDK (packages \<open>ttx\<close>, \<open>token\<close>, \<open>tokendb\<close>,
  \<open>htlc\<close>) and the Fabric Smart Client (views, endpoints, identities). Their code is not in the
  repository, so they are parameters: the record \<open>env\<close> holds one function per library
  function the nodes call, over an arbitrary world \<open>'w\<close> and arbitrary references \<open>'h\<close>
  (wallets, transactions, services). Nothing is assumed of them here. The options the code
  passes (\<open>token.WithTMSID\<close> and its kin) are data, so that a trace shows which token management
  service a call was directed to.
\<close>

type_synonym identity = bytes

record tmsid =
  Network :: string
  Channel :: string
  Namespace :: string

datatype service_option =
  WithTMSID tmsid
| WithRecipientWalletID string
| WithSkipAuditorSignatureVerification

datatype tx_option = TxWithTMSID tmsid | WithAuditor identity

datatype transfer_option =
  WithFSCIssuerIdentity identity
| WithIssuerPublicParamsPublicKey identity
| WithTokenIDs "string list"

datatype tx_status = Pending | Confirmed | OtherStatus int

record token_output =
  Owner :: identity
  OutType :: string
  OutQuantityHex :: string

record unspent_token =
  UType :: string
  UQuantity :: string

text \<open>
  The hash of a script is handed on as it is, and a \<open>nil\<close> slice is not encoded as an empty one is: \<open>None\<close> is \<open>nil\<close>.
\<close>

record htlc_script =
  Sender :: identity
  SRecipient :: identity
  ScriptHash :: "bytes option"

text \<open>\<open>service.LockResult\<close>, and what a view may return as \<open>interface{}\<close>.\<close>

record lock_result =
  TxID :: string
  PreImage :: bytes
  Hash :: "bytes option"

datatype any = AString string | ALockResult lock_result | ANil

text \<open>
  A record of the transaction history (\<open>ttx.TransactionRecord\<close>) and the query the owner makes
  of it (\<open>ttxdb.QueryTransactionsParams\<close>, the fields the code sets). The amount is a
  \<open>*big.Int\<close>; the time stamp is passed through, so it is any number.
\<close>

record transaction_record =
  RecTxID :: string
  RecStatus :: tx_status
  SenderEID :: string
  RecipientEID :: string
  RecTokenType :: string
  RecAmount :: int
  Timestamp :: int
  ApplicationMetadata :: "string \<Rightarrow> bytes option"

record query_params =
  SenderWallet :: string
  RecipientWallet :: string
  Statuses :: "tx_status list"
  ExcludeToSelf :: bool

text \<open>The library views a view runs with \<open>context.RunView\<close>.\<close>

datatype 'h subview =
  NewCollectEndorsementsView 'h "service_option list"
| NewOrderingAndFinalityView 'h
| NewAcceptView 'h
| NewFinalityView 'h
| NewEndorseView 'h
| HtlcCollectEndorsementsView 'h
| HtlcOrderingAndFinalityView 'h
| HtlcAcceptView 'h
| HtlcFinalityView 'h

text \<open>The external calls a trace records.\<close>

datatype 'h fsc_call =
  CGetManager
| CBind identity identity
| CGetProvider
| CIdentity string
| CDefaultIdentity
| CRunView "'h subview"

datatype 'h ttx_call =
  CGetWallet string "service_option list"
| CGetIssuerWallet string "service_option list"
| CMyIssuerWallet "service_option list"
| CGetRecipientIdentity 'h
| CRequestRecipientIdentity identity "service_option list"
| CRespondRequestRecipientIdentity string
| CNewTransaction "tx_option list"
| CNewAnonymousTransaction "tx_option list"
| CReceiveTransaction
| CSetApplicationMetadata 'h string bytes
| CTransfer 'h 'h string "u64 list" "identity list"
| CRedeem 'h 'h string u64 "transfer_option list"
| CIssue 'h 'h identity string u64
| COutputs 'h
| CNewOwner 'h
| CGetStatus "'h option" string

datatype 'h token_call =
  CGetManagementService "service_option list"
| CIssuers 'h
| CGetEnrollmentID 'h identity
| COwnerWallet 'h string
| CListUnspentTokens 'h
| CBalance 'h string
| CGetByTMSId 'h
| CIsMe 'h identity
| CGetTokens 'h string
| COffset int int
| CTransactions 'h query_params 'h
| CNext 'h
| CClose 'h

datatype 'h htlc_call =
  CExchangeRecipientIdentities string identity "service_option list"
| CRespondExchangeRecipientIdentities
| CHtlcNewTransaction "tx_option list"
| CHtlcReceiveTransaction
| CHtlcGetWallet string "service_option list"
| CLock 'h 'h identity string u64 identity i64 "bytes option"
| CListByPreImage 'h bytes
| CGetExpiredByHash 'h bytes
| CClaim 'h 'h 'h bytes
| CReclaim 'h 'h 'h
| CHtlcOutputs 'h
| CScriptValidate htlc_script

datatype 'h call =
  Fsc "'h fsc_call" | Ttx "'h ttx_call" | is_Token: Token "'h token_call" | Htlc "'h htlc_call"

subsection \<open>The environment\<close>

record ('w, 'h) fsc_env =
  getManager :: "'w \<Rightarrow> unit res \<times> 'w"
  initiateView :: "('h call, 'w, any) prog \<Rightarrow> ('h call, 'w, any) prog"
  bindEndpoint :: "identity \<Rightarrow> identity \<Rightarrow> 'w \<Rightarrow> unit res \<times> 'w"
  getProvider :: "'w \<Rightarrow> unit res \<times> 'w"
  providerIdentity :: "string \<Rightarrow> 'w \<Rightarrow> identity \<times> 'w"
  providerDefaultIdentity :: "'w \<Rightarrow> identity \<times> 'w"
  runView :: "'h subview \<Rightarrow> 'w \<Rightarrow> unit res \<times> 'w"
  isNone :: "identity \<Rightarrow> bool"
  identityEqual :: "identity \<Rightarrow> identity \<Rightarrow> bool"

record ('w, 'h) ttx_env =
  getWallet :: "string \<Rightarrow> service_option list \<Rightarrow> 'w \<Rightarrow> 'h option \<times> 'w"
  getIssuerWallet :: "string \<Rightarrow> service_option list \<Rightarrow> 'w \<Rightarrow> 'h option \<times> 'w"
  myIssuerWallet :: "service_option list \<Rightarrow> 'w \<Rightarrow> 'h option \<times> 'w"
  getRecipientIdentity :: "'h \<Rightarrow> 'w \<Rightarrow> identity res \<times> 'w"
  requestRecipientIdentity :: "identity \<Rightarrow> service_option list \<Rightarrow> 'w \<Rightarrow> identity res \<times> 'w"
  respondRequestRecipientIdentity :: "string \<Rightarrow> 'w \<Rightarrow> identity res \<times> 'w"
  newTransaction :: "tx_option list \<Rightarrow> 'w \<Rightarrow> 'h res \<times> 'w"
  newAnonymousTransaction :: "tx_option list \<Rightarrow> 'w \<Rightarrow> 'h res \<times> 'w"
  receiveTransaction :: "'w \<Rightarrow> 'h res \<times> 'w"
  setApplicationMetadata :: "'h \<Rightarrow> string \<Rightarrow> bytes \<Rightarrow> 'w \<Rightarrow> unit \<times> 'w"
  txTransfer :: "'h \<Rightarrow> 'h \<Rightarrow> string \<Rightarrow> u64 list \<Rightarrow> identity list \<Rightarrow> 'w \<Rightarrow> unit res \<times> 'w"
  txRedeem :: "'h \<Rightarrow> 'h \<Rightarrow> string \<Rightarrow> u64 \<Rightarrow> transfer_option list \<Rightarrow> 'w \<Rightarrow> unit res \<times> 'w"
  txIssue :: "'h \<Rightarrow> 'h \<Rightarrow> identity \<Rightarrow> string \<Rightarrow> u64 \<Rightarrow> 'w \<Rightarrow> unit res \<times> 'w"
  txOutputs :: "'h \<Rightarrow> 'w \<Rightarrow> token_output list res \<times> 'w"
  newOwner :: "'h \<Rightarrow> 'w \<Rightarrow> 'h option \<times> 'w"
  getStatus :: "'h option \<Rightarrow> string \<Rightarrow> 'w \<Rightarrow> tx_status res \<times> 'w"
  txID :: "'h \<Rightarrow> string"
  tokenService :: "'h \<Rightarrow> 'h"
  byRecipient :: "token_output list \<Rightarrow> identity \<Rightarrow> token_output list"
  outputID :: "token_output \<Rightarrow> string \<Rightarrow> string"

record ('w, 'h) token_env =
  getManagementService :: "service_option list \<Rightarrow> 'w \<Rightarrow> 'h res \<times> 'w"
  publicParamsIssuers :: "'h \<Rightarrow> 'w \<Rightarrow> identity list \<times> 'w"
  getEnrollmentID :: "'h \<Rightarrow> identity \<Rightarrow> 'w \<Rightarrow> string res \<times> 'w"
  ownerWallet :: "'h \<Rightarrow> string \<Rightarrow> 'w \<Rightarrow> 'h res \<times> 'w"
  listUnspentTokens :: "'h \<Rightarrow> 'w \<Rightarrow> unspent_token list res \<times> 'w"
  walletBalance :: "'h \<Rightarrow> string \<Rightarrow> 'w \<Rightarrow> int res \<times> 'w"
  getByTMSId :: "'h \<Rightarrow> 'w \<Rightarrow> 'h res \<times> 'w"
  isMe :: "'h \<Rightarrow> identity \<Rightarrow> 'w \<Rightarrow> bool res \<times> 'w"
  getTokens :: "'h \<Rightarrow> string \<Rightarrow> 'w \<Rightarrow> unspent_token list res \<times> 'w"
  paginationOffset :: "int \<Rightarrow> int \<Rightarrow> 'w \<Rightarrow> 'h res \<times> 'w"
  transactions :: "'h \<Rightarrow> query_params \<Rightarrow> 'h \<Rightarrow> 'w \<Rightarrow> 'h option res \<times> 'w"
  itemsNext :: "'h \<Rightarrow> 'w \<Rightarrow> transaction_record option res \<times> 'w"
  itemsClose :: "'h \<Rightarrow> 'w \<Rightarrow> unit \<times> 'w"
  defaultMaxPageSize :: int
  txStatusMessage :: "tx_status \<Rightarrow> string"
  wrapNil :: "string \<Rightarrow> error option"
  mapRange :: "(string \<times> u64) list \<Rightarrow> (string \<times> u64) list"

record ('w, 'h) htlc_env =
  exchangeRecipientIdentities ::
    "string \<Rightarrow> identity \<Rightarrow> service_option list \<Rightarrow> 'w \<Rightarrow> (identity \<times> identity) res \<times> 'w"
  respondExchangeRecipientIdentities :: "'w \<Rightarrow> (identity \<times> identity) res \<times> 'w"
  htlcNewTransaction :: "tx_option list \<Rightarrow> 'w \<Rightarrow> 'h res \<times> 'w"
  htlcReceiveTransaction :: "'w \<Rightarrow> 'h res \<times> 'w"
  htlcGetWallet :: "string \<Rightarrow> service_option list \<Rightarrow> 'w \<Rightarrow> 'h option \<times> 'w"
  txLock :: "'h \<Rightarrow> 'h \<Rightarrow> identity \<Rightarrow> string \<Rightarrow> u64 \<Rightarrow> identity \<Rightarrow> i64 \<Rightarrow> bytes option \<Rightarrow> 'w \<Rightarrow> bytes res \<times> 'w"
  listByPreImage :: "'h \<Rightarrow> bytes \<Rightarrow> 'w \<Rightarrow> 'h list res \<times> 'w"
  getExpiredByHash :: "'h \<Rightarrow> bytes \<Rightarrow> 'w \<Rightarrow> 'h res \<times> 'w"
  txClaim :: "'h \<Rightarrow> 'h \<Rightarrow> 'h \<Rightarrow> bytes \<Rightarrow> 'w \<Rightarrow> unit res \<times> 'w"
  txReclaim :: "'h \<Rightarrow> 'h \<Rightarrow> 'h \<Rightarrow> 'w \<Rightarrow> unit res \<times> 'w"
  htlcOutputs :: "'h \<Rightarrow> 'w \<Rightarrow> htlc_script option list res \<times> 'w"
  byScript :: "htlc_script option list \<Rightarrow> htlc_script list"
  scriptValidate :: "htlc_script \<Rightarrow> 'w \<Rightarrow> unit res \<times> 'w"
  tokenID :: "'h \<Rightarrow> string"

record ('w, 'h) env =
  fsc :: "('w, 'h) fsc_env"
  ttx :: "('w, 'h) ttx_env"
  token :: "('w, 'h) token_env"
  htlc :: "('w, 'h) htlc_env"

subsection \<open>The calls the code makes\<close>

text \<open>
  One definition per library function, named as in Go, that calls the environment and records
  the call. Functions with an error result use \<open>ext\<close>, the others \<open>extv\<close>.
\<close>

definition GetManager where [api_defs]:
  "GetManager (E :: ('w, 'h) env) = ext (Fsc CGetManager) (getManager (fsc E))"

definition Bind where [api_defs]:
  "Bind (E :: ('w, 'h) env) longTerm ephemeral = ext (Fsc (CBind longTerm ephemeral)) (bindEndpoint (fsc E) longTerm ephemeral)"

definition GetProvider where [api_defs]:
  "GetProvider (E :: ('w, 'h) env) = ext (Fsc CGetProvider) (getProvider (fsc E))"

definition Identity where [api_defs]:
  "Identity (E :: ('w, 'h) env) name = extv (Fsc (CIdentity name)) (providerIdentity (fsc E) name)"

definition DefaultIdentity where [api_defs]:
  "DefaultIdentity (E :: ('w, 'h) env) = extv (Fsc CDefaultIdentity) (providerDefaultIdentity (fsc E))"

definition RunView where [api_defs]:
  "RunView (E :: ('w, 'h) env) v = ext (Fsc (CRunView v)) (runView (fsc E) v)"

definition GetWallet where [api_defs]:
  "GetWallet (E :: ('w, 'h) env) i opts = extv (Ttx (CGetWallet i opts)) (getWallet (ttx E) i opts)"

definition GetIssuerWallet where [api_defs]:
  "GetIssuerWallet (E :: ('w, 'h) env) i opts = extv (Ttx (CGetIssuerWallet i opts)) (getIssuerWallet (ttx E) i opts)"

definition MyIssuerWallet where [api_defs]:
  "MyIssuerWallet (E :: ('w, 'h) env) opts = extv (Ttx (CMyIssuerWallet opts)) (myIssuerWallet (ttx E) opts)"

definition GetRecipientIdentity where [api_defs]:
  "GetRecipientIdentity (E :: ('w, 'h) env) wal = ext (Ttx (CGetRecipientIdentity wal)) (getRecipientIdentity (ttx E) wal)"

definition RequestRecipientIdentity where [api_defs]:
  "RequestRecipientIdentity (E :: ('w, 'h) env) i opts = ext (Ttx (CRequestRecipientIdentity i opts)) (requestRecipientIdentity (ttx E) i opts)"

definition RespondRequestRecipientIdentityUsingWallet where [api_defs]:
  "RespondRequestRecipientIdentityUsingWallet (E :: ('w, 'h) env) wal = ext (Ttx (CRespondRequestRecipientIdentity wal)) (respondRequestRecipientIdentity (ttx E) wal)"

definition NewTransaction where [api_defs]:
  "NewTransaction (E :: ('w, 'h) env) opts = ext (Ttx (CNewTransaction opts)) (newTransaction (ttx E) opts)"

definition NewAnonymousTransaction where [api_defs]:
  "NewAnonymousTransaction (E :: ('w, 'h) env) opts = ext (Ttx (CNewAnonymousTransaction opts)) (newAnonymousTransaction (ttx E) opts)"

definition ReceiveTransaction where [api_defs]:
  "ReceiveTransaction (E :: ('w, 'h) env) = ext (Ttx CReceiveTransaction) (receiveTransaction (ttx E))"

definition SetApplicationMetadata where [api_defs]:
  "SetApplicationMetadata (E :: ('w, 'h) env) tx key value = extv (Ttx (CSetApplicationMetadata tx key value)) (setApplicationMetadata (ttx E) tx key value)"

definition Transfer where [api_defs]:
  "Transfer (E :: ('w, 'h) env) tx wal typ values owners = ext (Ttx (CTransfer tx wal typ values owners)) (txTransfer (ttx E) tx wal typ values owners)"

definition Redeem where [api_defs]:
  "Redeem (E :: ('w, 'h) env) tx wal typ value opts = ext (Ttx (CRedeem tx wal typ value opts)) (txRedeem (ttx E) tx wal typ value opts)"

definition Issue where [api_defs]:
  "Issue (E :: ('w, 'h) env) tx wal receiver typ q = ext (Ttx (CIssue tx wal receiver typ q)) (txIssue (ttx E) tx wal receiver typ q)"

definition Outputs where [api_defs]:
  "Outputs (E :: ('w, 'h) env) tx = ext (Ttx (COutputs tx)) (txOutputs (ttx E) tx)"

definition GetStatus where [api_defs]:
  "GetStatus (E :: ('w, 'h) env) tx i = ext (Ttx (CGetStatus tx i)) (getStatus (ttx E) tx i)"

definition NewOwner where [api_defs]:
  "NewOwner (E :: ('w, 'h) env) tms = extv (Ttx (CNewOwner tms)) (newOwner (ttx E) tms)"

definition Offset where [api_defs]:
  "Offset (E :: ('w, 'h) env) start pageSize = ext (Token (COffset start pageSize)) (paginationOffset (token E) start pageSize)"

definition Transactions where [api_defs]:
  "Transactions (E :: ('w, 'h) env) owner params page = ext (Token (CTransactions owner params page)) (transactions (token E) owner params page)"

definition Next where [api_defs]:
  "Next (E :: ('w, 'h) env) it = ext (Token (CNext it)) (itemsNext (token E) it)"

definition Close where [api_defs]:
  "Close (E :: ('w, 'h) env) it = extv (Token (CClose it)) (itemsClose (token E) it)"

definition GetManagementService where [api_defs]:
  "GetManagementService (E :: ('w, 'h) env) opts = ext (Token (CGetManagementService opts)) (getManagementService (token E) opts)"

definition Issuers where [api_defs]:
  "Issuers (E :: ('w, 'h) env) mgmt = extv (Token (CIssuers mgmt)) (publicParamsIssuers (token E) mgmt)"

definition GetEnrollmentID where [api_defs]:
  "GetEnrollmentID (E :: ('w, 'h) env) mgmt i = ext (Token (CGetEnrollmentID mgmt i)) (getEnrollmentID (token E) mgmt i)"

definition OwnerWallet where [api_defs]:
  "OwnerWallet (E :: ('w, 'h) env) mgmt i = ext (Token (COwnerWallet mgmt i)) (ownerWallet (token E) mgmt i)"

definition ListUnspentTokens where [api_defs]:
  "ListUnspentTokens (E :: ('w, 'h) env) wal = ext (Token (CListUnspentTokens wal)) (listUnspentTokens (token E) wal)"

definition WalletBalance where [api_defs]:
  "WalletBalance (E :: ('w, 'h) env) wal typ = ext (Token (CBalance wal typ)) (walletBalance (token E) wal typ)"

definition GetByTMSId where [api_defs]:
  "GetByTMSId (E :: ('w, 'h) env) tx = ext (Token (CGetByTMSId tx)) (getByTMSId (token E) tx)"

definition IsMe where [api_defs]:
  "IsMe (E :: ('w, 'h) env) tx i = ext (Token (CIsMe tx i)) (isMe (token E) tx i)"

definition GetTokens where [api_defs]:
  "GetTokens (E :: ('w, 'h) env) db i = ext (Token (CGetTokens db i)) (getTokens (token E) db i)"

definition ExchangeRecipientIdentities where [api_defs]:
  "ExchangeRecipientIdentities (E :: ('w, 'h) env) wal recipient opts = ext (Htlc (CExchangeRecipientIdentities wal recipient opts)) (exchangeRecipientIdentities (htlc E) wal recipient opts)"

definition RespondExchangeRecipientIdentities where [api_defs]:
  "RespondExchangeRecipientIdentities (E :: ('w, 'h) env) = ext (Htlc CRespondExchangeRecipientIdentities) (respondExchangeRecipientIdentities (htlc E))"

definition htlc_NewTransaction where [api_defs]:
  "htlc_NewTransaction (E :: ('w, 'h) env) opts = ext (Htlc (CHtlcNewTransaction opts)) (htlcNewTransaction (htlc E) opts)"

definition htlc_ReceiveTransaction where [api_defs]:
  "htlc_ReceiveTransaction (E :: ('w, 'h) env) = ext (Htlc CHtlcReceiveTransaction) (htlcReceiveTransaction (htlc E))"

definition htlc_GetWallet where [api_defs]:
  "htlc_GetWallet (E :: ('w, 'h) env) i opts = extv (Htlc (CHtlcGetWallet i opts)) (htlcGetWallet (htlc E) i opts)"

definition Lock where [api_defs]:
  "Lock (E :: ('w, 'h) env) tx wal sender typ value recipient deadline hash = ext (Htlc (CLock tx wal sender typ value recipient deadline hash)) (txLock (htlc E) tx wal sender typ value recipient deadline hash)"

definition ListByPreImage where [api_defs]:
  "ListByPreImage (E :: ('w, 'h) env) wal preimage = ext (Htlc (CListByPreImage wal preimage)) (listByPreImage (htlc E) wal preimage)"

definition GetExpiredByHash where [api_defs]:
  "GetExpiredByHash (E :: ('w, 'h) env) wal hash = ext (Htlc (CGetExpiredByHash wal hash)) (getExpiredByHash (htlc E) wal hash)"

definition Claim where [api_defs]:
  "Claim (E :: ('w, 'h) env) tx wal tok preimage = ext (Htlc (CClaim tx wal tok preimage)) (txClaim (htlc E) tx wal tok preimage)"

definition Reclaim where [api_defs]:
  "Reclaim (E :: ('w, 'h) env) tx wal tok = ext (Htlc (CReclaim tx wal tok)) (txReclaim (htlc E) tx wal tok)"

definition htlc_Outputs where [api_defs]:
  "htlc_Outputs (E :: ('w, 'h) env) tx = ext (Htlc (CHtlcOutputs tx)) (htlcOutputs (htlc E) tx)"

definition ScriptValidate where [api_defs]:
  "ScriptValidate (E :: ('w, 'h) env) script = ext (Htlc (CScriptValidate script)) (scriptValidate (htlc E) script)"

definition InitiateView :: "('w, 'h) env \<Rightarrow> ('h call, 'w, any) prog \<Rightarrow> ('h call, 'w, any) prog" where
  "InitiateView E v = initiateView (fsc E) v"

end
