(* ===== verification/Settlement.thy ===== *)
theory Settlement imports Token_Api begin

text \<open>
  The abstract protocol every token operation follows: build a transaction, collect the
  endorsements on it once, and only then hand that same transaction to the orderer, once.
  Nothing is added to a transaction after it was endorsed, and nothing happens after a failed
  call. \<open>settle_step\<close> is the protocol as a step function on phases; the views of the
  issuer and of the owner are proved to follow it, and the locale \<open>settlement_view\<close> holds what
  follows for any view that does.
\<close>

datatype 'h kind = Build | Read | Sign 'h | Order 'h

fun subview_kind :: "'h subview \<Rightarrow> 'h kind" where
  "subview_kind (NewCollectEndorsementsView tx opts) = Sign tx"
| "subview_kind (HtlcCollectEndorsementsView tx) = Sign tx"
| "subview_kind (NewOrderingAndFinalityView tx) = Order tx"
| "subview_kind (HtlcOrderingAndFinalityView tx) = Order tx"
| "subview_kind (NewAcceptView tx) = Build"
| "subview_kind (NewFinalityView tx) = Build"
| "subview_kind (NewEndorseView tx) = Build"
| "subview_kind (HtlcAcceptView tx) = Build"
| "subview_kind (HtlcFinalityView tx) = Build"

fun fsc_kind :: "'h fsc_call \<Rightarrow> 'h kind" where
  "fsc_kind (CRunView v) = subview_kind v"
| "fsc_kind c = Build"

fun ttx_kind :: "'h ttx_call \<Rightarrow> 'h kind" where
  "ttx_kind (COutputs tx) = Read"
| "ttx_kind (CNewOwner tms) = Read"
| "ttx_kind (CGetStatus owner i) = Read"
| "ttx_kind c = Build"

fun htlc_kind :: "'h htlc_call \<Rightarrow> 'h kind" where
  "htlc_kind (CHtlcOutputs tx) = Read"
| "htlc_kind c = Build"

fun call_kind :: "'h call \<Rightarrow> 'h kind" where
  "call_kind (Fsc c) = fsc_kind c"
| "call_kind (Ttx c) = ttx_kind c"
| "call_kind (Token c) = Build"
| "call_kind (Htlc c) = htlc_kind c"

abbreviation "ev_kind e \<equiv> call_kind (op e)"

text \<open>
  The phases: the transaction is being prepared; it has been endorsed; its ordering was
  confirmed; its ordering was attempted and reported an error, so that whether it was committed
  is not known to the caller; the run stopped before any ordering.
\<close>

datatype 'h phase = Preparing | Endorsed 'h | Committed 'h | Submitted 'h | Aborted

fun settle_step :: "'h phase \<Rightarrow> ('h call, 'w) event \<Rightarrow> 'h phase option" where
  "settle_step p (Event c ok w) =
     (case call_kind c of
        Read \<Rightarrow> (case p of Aborted \<Rightarrow> None | Submitted tx \<Rightarrow> None | q \<Rightarrow> Some q)
      | Build \<Rightarrow> (case p of Preparing \<Rightarrow> Some (if ok then Preparing else Aborted) | _ \<Rightarrow> None)
      | Sign tx \<Rightarrow> (case p of Preparing \<Rightarrow> Some (if ok then Endorsed tx else Aborted) | _ \<Rightarrow> None)
      | Order tx \<Rightarrow>
          (case p of
             Endorsed u \<Rightarrow>
               if u = tx then Some (if ok then Committed tx else Submitted tx) else None
           | _ \<Rightarrow> None))"

abbreviation "settle_run \<equiv> run_aut settle_step"

subsection \<open>What a trace of the protocol looks like\<close>

definition order_events :: "('h call, 'w) event list \<Rightarrow> ('h call, 'w) event list" where
  "order_events es = filter (\<lambda>e. \<exists>tx. ev_kind e = Order tx) es"

definition sign_events :: "('h call, 'w) event list \<Rightarrow> ('h call, 'w) event list" where
  "sign_events es = filter (\<lambda>e. \<exists>tx. ev_kind e = Sign tx) es"

lemma order_events_simps [simp]:
  "order_events [] = []"
  "order_events (e # es) =
     (case ev_kind e of Order tx \<Rightarrow> e # order_events es | _ \<Rightarrow> order_events es)"
  "order_events (es @ fs) = order_events es @ order_events fs"
  by (auto simp: order_events_def split: kind.split)

lemma sign_events_simps [simp]:
  "sign_events [] = []"
  "sign_events (e # es) =
     (case ev_kind e of Sign tx \<Rightarrow> e # sign_events es | _ \<Rightarrow> sign_events es)"
  "sign_events (es @ fs) = sign_events es @ sign_events fs"
  by (auto simp: sign_events_def split: kind.split)

text \<open>After an ordering attempt only reads follow, after an abort nothing.\<close>

lemma run_Aborted: "settle_run Aborted es = Some p \<Longrightarrow> es = [] \<and> p = Aborted"
  by (cases es) (auto split: kind.splits option.splits elim!: settle_step.elims)

lemma run_Submitted: "settle_run (Submitted tx) es = Some p \<Longrightarrow> es = [] \<and> p = Submitted tx"
  by (cases es) (auto split: kind.splits option.splits elim!: settle_step.elims)

lemma run_Committed:
  "settle_run (Committed tx) es = Some p \<Longrightarrow>
   p = Committed tx \<and> order_events es = [] \<and> sign_events es = []"
  by (induction es) (auto split: kind.splits option.splits elim!: settle_step.elims)

text \<open>Once endorsed, the transaction is ordered at most once, and no other one is.\<close>

lemma run_Endorsed:
  "settle_run (Endorsed tx) es = Some p \<Longrightarrow>
   sign_events es = [] \<and>
   (p = Endorsed tx \<and> order_events es = []
    \<or> (\<exists>o1. order_events es = [o1] \<and> ev_kind o1 = Order tx \<and>
         p = (if succeeded o1 then Committed tx else Submitted tx)))"
proof (induction es)
  case (Cons e es)
  obtain c ok w where e: "e = Event c ok w" by (cases e)
  show ?case
  proof (cases "call_kind c")
    case (Order u)
    with Cons.prems e show ?thesis
      by (auto split: if_splits dest!: run_Committed run_Submitted)
  qed (use Cons e in \<open>auto split: if_splits\<close>)
qed simp

text \<open>
  From the start: an aborted or unfinished run orders nothing; any other run has signed one
  transaction, successfully, before it ordered that one.
\<close>

lemma run_Preparing:
  assumes "settle_run Preparing es = Some p"
  shows "(order_events es = [] \<and> p \<in> {Preparing, Aborted} \<union> range Endorsed)
    \<or> (\<exists>tx s o1 es1 es2. es = es1 @ s # es2 \<and> ev_kind s = Sign tx \<and> succeeded s \<and>
         order_events es1 = [] \<and> sign_events es = [s] \<and>
         order_events es2 = [o1] \<and> ev_kind o1 = Order tx \<and>
         p = (if succeeded o1 then Committed tx else Submitted tx))"
  using assms
proof (induction es)
  case (Cons e es)
  obtain c ok w where e: "e = Event c ok w" by (cases e)
  consider (prep) "settle_run Preparing es = Some p" "\<forall>tx. call_kind c \<noteq> Order tx" "\<forall>tx. call_kind c \<noteq> Sign tx"
    | (stop) "es = []" "p = Aborted" "order_events (e # es) = []"
    | (sign) tx where "call_kind c = Sign tx" "ok" "settle_run (Endorsed tx) es = Some p"
    using Cons.prems e by (auto split: kind.splits if_splits dest!: run_Aborted)
  then show ?case
  proof cases
    case prep
    have skip: "order_events (e # es) = order_events es" "sign_events (e # es) = sign_events es"
      using prep(2,3) e by (auto split: kind.splits)
    from Cons.IH [OF prep(1)] show ?thesis
    proof
      assume "\<exists>tx s o1 es1 es2. es = es1 @ s # es2 \<and> ev_kind s = Sign tx \<and> succeeded s \<and>
         order_events es1 = [] \<and> sign_events es = [s] \<and>
         order_events es2 = [o1] \<and> ev_kind o1 = Order tx \<and>
         p = (if succeeded o1 then Committed tx else Submitted tx)"
      then obtain tx s o1 es1 es2 where *: "es = es1 @ s # es2" "ev_kind s = Sign tx" "succeeded s"
         "order_events es1 = []" "sign_events es = [s]" "order_events es2 = [o1]"
         "ev_kind o1 = Order tx" "p = (if succeeded o1 then Committed tx else Submitted tx)"
        by blast
      then have "e # es = (e # es1) @ s # es2" "order_events (e # es1) = []"
        using prep(2) e by (auto split: kind.splits)
      with * skip(2) show ?thesis by metis
    qed (use skip in simp)
  next
    case stop
    then show ?thesis by simp
  next
    case sign
    from run_Endorsed [OF sign(3)] show ?thesis
    proof (elim conjE disjE exE)
      assume "sign_events es = []" "p = Endorsed tx" "order_events es = []"
      then show ?thesis using sign(1) e by simp
    next
      fix o1 assume *: "sign_events es = []" "order_events es = [o1]" "ev_kind o1 = Order tx"
        "p = (if succeeded o1 then Committed tx else Submitted tx)"
      then have "e # es = [] @ e # es" "order_events [] = []" "sign_events (e # es) = [e]"
        using sign(1) e by simp_all
      with * sign(1,2) e show ?thesis by (metis event.sel(1,2))
    qed
  qed
qed simp

subsection \<open>Views that follow the protocol\<close>

text \<open>
  The contract of a view: whatever the environment answers, its calls follow the protocol, and
  it returns a value only when the transaction whose id it returns was committed.
\<close>

definition settled ::
  "('h \<Rightarrow> string) \<Rightarrow> (any \<Rightarrow> string option) \<Rightarrow> any res \<Rightarrow> 'h phase \<Rightarrow> bool" where
  "settled ident rid r p \<longleftrightarrow>
     (case r of
        Ok a \<Rightarrow> (\<exists>tx. p = Committed tx \<and> rid a = Some (ident tx))
      | _ \<Rightarrow> (\<forall>tx. p \<noteq> Committed tx))"

lemma settled_simps [simp]:
  "settled ident rid (Ok a) p \<longleftrightarrow> (\<exists>tx. p = Committed tx \<and> rid a = Some (ident tx))"
  "settled ident rid (Err e) p \<longleftrightarrow> (\<forall>tx. p \<noteq> Committed tx)"
  "settled ident rid (Panic m) p \<longleftrightarrow> (\<forall>tx. p \<noteq> Committed tx)"
  by (simp_all add: settled_def)

lemma settled_Ok: "settled ident rid r p \<Longrightarrow> r = Ok a \<Longrightarrow> \<exists>tx. p = Committed tx \<and> rid a = Some (ident tx)"
  by simp

lemma settled_not_Ok: "settled ident rid r p \<Longrightarrow> \<forall>a. r \<noteq> Ok a \<Longrightarrow> \<forall>tx. p \<noteq> Committed tx"
  by (cases r) auto

text \<open>The transaction id in what a view returned: a string, or the result of a lock.\<close>

fun string_id :: "any \<Rightarrow> string option" where
  "string_id (AString i) = Some i"
| "string_id (ALockResult l) = None"
| "string_id ANil = None"

fun lock_id :: "any \<Rightarrow> string option" where
  "lock_id (ALockResult l) = Some (TxID l)"
| "lock_id (AString i) = None"
| "lock_id ANil = None"

lemma string_id_Some: "string_id a = Some i \<longleftrightarrow> a = AString i"
  by (cases a) auto

lemma lock_id_Some: "lock_id a = Some i \<longleftrightarrow> (\<exists>l. a = ALockResult l \<and> TxID l = i)"
  by (cases a) auto

locale settlement_view =
  fixes ident :: "'h \<Rightarrow> string"
    and view :: "'o \<Rightarrow> ('h call, 'w, any) prog"
    and result_id :: "any \<Rightarrow> string option"
  assumes follows: "conf settle_step Preparing (view v)
    (\<lambda>r p w1. \<forall>a. r = Ok a \<longrightarrow> (\<exists>tx. p = Committed tx \<and> result_id a = Some (ident tx))) w"
begin

lemma run_phase:
  assumes "view v w = (r, es, w1)"
  obtains p where "settle_run Preparing es = Some p"
    and "\<And>a. r = Ok a \<Longrightarrow> \<exists>tx. p = Committed tx \<and> result_id a = Some (ident tx)"
  using confD [OF follows assms] by blast

lemma at_most_one_order:
  assumes "view v w = (r, es, w1)"
  shows "length (order_events es) \<le> 1"
  using assms
  by (elim run_phase) (auto dest!: run_Preparing split: kind.splits)

lemma order_is_endorsed:
  assumes "view v w = (r, es, w1)" and "o1 \<in> set (order_events es)"
  shows "\<exists>tx s es1 es2. es = es1 @ s # es2 \<and> ev_kind s = Sign tx \<and> succeeded s \<and>
    o1 \<in> set es2 \<and> ev_kind o1 = Order tx \<and> sign_events es = [s]"
proof -
  obtain p where "settle_run Preparing es = Some p" using assms(1) by (elim run_phase)
  from run_Preparing [OF this] assms(2) obtain tx s es1 es2 where
    *: "es = es1 @ s # es2" "ev_kind s = Sign tx" "succeeded s" "order_events es1 = []"
      "sign_events es = [s]" "order_events es2 = [o1]" "ev_kind o1 = Order tx"
    by auto
  then have "o1 \<in> set es2" by (auto simp: order_events_def filter_eq_Cons_iff)
  with * show ?thesis by blast
qed

lemma ok_is_committed:
  assumes "view v w = (Ok a, es, w1)"
  shows "\<exists>tx o1. order_events es = [o1] \<and> succeeded o1 \<and> ev_kind o1 = Order tx \<and>
    result_id a = Some (ident tx)"
proof -
  obtain p tx where p: "settle_run Preparing es = Some p"
    and "p = Committed tx" "result_id a = Some (ident tx)"
    using run_phase [OF assms] by metis
  with run_Preparing [OF p] show ?thesis by (auto split: if_splits kind.splits)
qed

end

text \<open>
  The stronger contract of a view whose failure means that nothing was confirmed: the only
  failed runs that called the orderer are those whose ordering itself reported the failure.
\<close>

locale atomic_view = settlement_view +
  assumes fails: "conf settle_step Preparing (view v)
    (\<lambda>r p w1. (\<forall>a. r \<noteq> Ok a) \<longrightarrow> (\<forall>tx. p \<noteq> Committed tx)) w"
  and built_from_calls: "linked (view v)"
begin

lemma failed_not_confirmed:
  assumes "view v w = (r, es, w1)" and "\<And>a. r \<noteq> Ok a" and "o1 \<in> set (order_events es)"
  shows "\<not> succeeded o1"
proof -
  obtain p where p: "settle_run Preparing es = Some p" and "\<And>tx. p \<noteq> Committed tx"
    using confD [OF fails assms(1)] assms(2) by blast
  with run_Preparing [OF p] assms(3) show ?thesis by (auto split: if_splits)
qed

text \<open>
  All or nothing: for an observation \<open>L\<close> of the ledger that only ordering changes, a run
  either returns the id of a transaction it got confirmed, or tried to order one and was told
  of a failure, or leaves the ledger as it was.
\<close>

lemma all_or_nothing:
  assumes run: "view v w = (r, es, w1)"
    and ledger: "undisturbed L (\<lambda>c. \<forall>tx. call_kind c \<noteq> Order tx) w es"
  shows "(\<exists>a tx o1. r = Ok a \<and> order_events es = [o1] \<and> succeeded o1 \<and> ev_kind o1 = Order tx \<and>
      result_id a = Some (ident tx))
    \<or> (\<exists>o1. order_events es = [o1] \<and> \<not> succeeded o1 \<and> (\<forall>a. r \<noteq> Ok a))
    \<or> L w1 = L w \<and> (\<forall>a. r \<noteq> Ok a)"
proof (cases "\<exists>a. r = Ok a")
  case True
  then obtain a where "r = Ok a" ..
  with ok_is_committed [of v w a es w1] run show ?thesis by auto
next
  case False
  then have nok: "\<And>a. r \<noteq> Ok a" by blast
  show ?thesis
  proof (cases "order_events es")
    case Nil
    then have "\<forall>e \<in> set es. \<forall>tx. ev_kind e \<noteq> Order tx"
      by (auto simp: order_events_def filter_empty_conv)
    with linked_frame [OF built_from_calls run ledger] nok show ?thesis by simp
  next
    case (Cons o1 os)
    with at_most_one_order [OF run] have "order_events es = [o1]" by simp
    moreover from this failed_not_confirmed [OF run nok, of o1] have "\<not> succeeded o1" by simp
    ultimately show ?thesis using nok by blast
  qed
qed

end

text \<open>A view shown \<open>settled\<close> after every run, and built from calls, meets both contracts.\<close>

lemma atomic_viewI:
  assumes "\<And>v w. conf settle_step Preparing (view v) (\<lambda>r p w1. settled ident rid r p) w"
    and "\<And>v. linked (view v)"
  shows "atomic_view ident view rid"
proof
  fix v w
  show "conf settle_step Preparing (view v)
    (\<lambda>r p w1. \<forall>a. r = Ok a \<longrightarrow> (\<exists>tx. p = Committed tx \<and> rid a = Some (ident tx))) w"
    by (rule conf_mono [OF assms(1)]) (blast dest: settled_Ok)
  show "conf settle_step Preparing (view v)
    (\<lambda>r p w1. (\<forall>a. r \<noteq> Ok a) \<longrightarrow> (\<forall>tx. p \<noteq> Committed tx)) w"
    by (rule conf_mono [OF assms(1)]) (blast dest: settled_not_Ok)
  show "linked (view v)" by (rule assms(2))
qed

subsection \<open>Initiating a view\<close>

text \<open>
  What the node relies on of the view manager (\<open>mgr.InitiateView\<close> of the Fabric Smart Client):
  it either fails before the view starts, or runs the view and hands back what it returned; a
  panic of the view is reported as an error.
\<close>

definition initiates :: "('w, 'h) env \<Rightarrow> bool" where
  "initiates E \<longleftrightarrow>
     (\<forall>view w. (\<exists>e. InitiateView E view w = (Err e, [], w)) \<or>
       (case view w of
          (Panic m, es, w1) \<Rightarrow> \<exists>e. InitiateView E view w = (Err e, es, w1)
        | r \<Rightarrow> InitiateView E view w = r))"

lemma conf_InitiateView:
  assumes "initiates E"
    and "conf D p view (\<lambda>r q w1. case r of Panic m \<Rightarrow> (\<forall>e. Q (Err e) q w1) | _ \<Rightarrow> Q r q w1) w"
    and "\<And>e. Q (Err e) p w"
  shows "conf D p (InitiateView E view) Q w"
proof -
  obtain r es w1 where run: "view w = (r, es, w1)" by (cases "view w")
  from assms(1) [unfolded initiates_def, rule_format, of view w]
  show ?thesis
  proof
    assume "\<exists>e. InitiateView E view w = (Err e, [], w)"
    then show ?thesis using assms(3) by (auto simp: conf_def)
  next
    assume "case view w of (Panic m, es, w1) \<Rightarrow> \<exists>e. InitiateView E view w = (Err e, es, w1)
        | r \<Rightarrow> InitiateView E view w = r"
    then show ?thesis using assms(2) run
      by (cases r) (auto simp: conf_def split: option.splits)
  qed
qed

text \<open>
  \<open>Transfer\<close>, \<open>Redeem\<close>, \<open>Issue\<close>, \<open>Claim\<close> and \<open>Reclaim\<close> of \<open>FabricSmartClient\<close> have one body:
  get the view manager, initiate the view, and take the transaction id out of what the view
  returned.
\<close>

definition initiate_txid ::
  "('w, 'h) env \<Rightarrow> ('h call, 'w, any) prog \<Rightarrow> string \<Rightarrow> ('h call, 'w, string) prog" where
  "initiate_txid E view parseMsg =
     andThen (GetManager E) (\<lambda>_.
     andThen (InitiateView E view) (\<lambda>res.
       case res of AString i \<Rightarrow> ret i | _ \<Rightarrow> throw (New parseMsg)))"

fun txid_settled :: "('h \<Rightarrow> string) \<Rightarrow> string res \<Rightarrow> 'h phase \<Rightarrow> bool" where
  "txid_settled ident (Ok i) p \<longleftrightarrow> (\<exists>tx. p = Committed tx \<and> i = ident tx)"
| "txid_settled ident (Err e) p \<longleftrightarrow> (\<forall>tx. p \<noteq> Committed tx)"
| "txid_settled ident (Panic m) p \<longleftrightarrow> (\<forall>tx. p \<noteq> Committed tx)"

lemma initiate_txid_settled:
  assumes env: "initiates E"
    and view: "\<And>w. conf settle_step Preparing view (\<lambda>r p w1. settled (txID (ttx E)) string_id r p) w"
  shows "conf settle_step Preparing (initiate_txid E view msg)
    (\<lambda>r p w1. txid_settled (txID (ttx E)) r p) w"
proof -
  let ?Q = "\<lambda>r p w1. case r of
      Ok x \<Rightarrow> conf settle_step p (case x of AString i \<Rightarrow> ret i | _ \<Rightarrow> throw (New msg))
        (\<lambda>r p w1. txid_settled (txID (ttx E)) r p) w1
    | Err e \<Rightarrow> txid_settled (txID (ttx E)) (Err e) p
    | Panic s \<Rightarrow> txid_settled (txID (ttx E)) (Panic s) p"
  have "conf settle_step Preparing (InitiateView E view) ?Q w1" for w1
  proof (rule conf_InitiateView [OF env])
    show "conf settle_step Preparing view
      (\<lambda>r q w1. case r of Panic m \<Rightarrow> (\<forall>e. ?Q (Err e) q w1) | _ \<Rightarrow> ?Q r q w1) w1"
      by (rule conf_mono [OF view])
        (auto simp: settled_def string_id_Some prog_simps split: res.splits)
  qed simp
  then show ?thesis
    by (simp add: initiate_txid_def api_defs prog_simps cong: conf_cong)
qed

end
