(* ===== verification/View_Utils.thy ===== *)
theory View_Utils imports Settlement begin

text \<open>
  \<open>tokens/common/views/utils.go\<close>: the options that direct a call to a token management
  service (TMS), and the check of received tokens against the token database. Also the tail
  that the views of the issuer and of the owner share: collect the endorsements, then order.
\<close>

definition ServiceOpts :: "tmsid option \<Rightarrow> service_option list \<Rightarrow> service_option list" where
  "ServiceOpts tmsId opts =
     (let serviceOpts = (case tmsId of None \<Rightarrow> [] | Some t \<Rightarrow> [WithTMSID t])
      in serviceOpts @ opts)"

definition TxOpts :: "tmsid option \<Rightarrow> tx_option list \<Rightarrow> tx_option list" where
  "TxOpts tmsId opts =
     (let txOpts = (case tmsId of None \<Rightarrow> [] | Some t \<Rightarrow> [TxWithTMSID t])
      in txOpts @ opts)"

text \<open>
  The end of a view: \<open>RunView(ttx.NewCollectEndorsementsView(tx))\<close>, then
  \<open>RunView(ttx.NewOrderingAndFinalityView(tx))\<close>, each error wrapped with the view's message.
\<close>

definition sign_and_order ::
  "('w, 'h) env \<Rightarrow> 'h subview \<Rightarrow> string \<Rightarrow> 'h subview \<Rightarrow> string \<Rightarrow> ('h call, 'w, unit) prog" where
  "sign_and_order E endorse signMsg order orderMsg =
     andThen (wrapErr signMsg (RunView E endorse)) (\<lambda>_.
     wrapErr orderMsg (RunView E order))"

lemma linked_calls [simp]:
  "linked (GetManager E)" "linked (Bind E a b)" "linked (GetProvider E)" "linked (Identity E n)"
  "linked (DefaultIdentity E)" "linked (RunView E v)" "linked (GetWallet E n opts)"
  "linked (GetIssuerWallet E n opts)" "linked (MyIssuerWallet E opts)"
  "linked (GetRecipientIdentity E h)" "linked (RequestRecipientIdentity E a opts)"
  "linked (RespondRequestRecipientIdentityUsingWallet E n)" "linked (NewTransaction E xopts)"
  "linked (NewAnonymousTransaction E xopts)" "linked (ReceiveTransaction E)"
  "linked (SetApplicationMetadata E h n n')" "linked (Transfer E h h' n qs ids)"
  "linked (Redeem E h h' n q topts)" "linked (Issue E h h' a n q)" "linked (Outputs E h)"
  "linked (NewOwner E h)" "linked (GetStatus E ho n)" "linked (Offset E i1 i2)"
  "linked (Transactions E h ps h')" "linked (Next E h)" "linked (Close E h)" "linked (GetManagementService E opts)" "linked (Issuers E h)"
  "linked (GetEnrollmentID E h a)" "linked (OwnerWallet E h n)" "linked (ListUnspentTokens E h)"
  "linked (WalletBalance E h n)" "linked (GetByTMSId E h)" "linked (IsMe E h a)"
  "linked (GetTokens E h n)" "linked (ExchangeRecipientIdentities E n a opts)"
  "linked (RespondExchangeRecipientIdentities E)" "linked (htlc_NewTransaction E xopts)"
  "linked (htlc_ReceiveTransaction E)" "linked (htlc_GetWallet E n opts)"
  "linked (Lock E h h' a n q b d hash)" "linked (ListByPreImage E h n)"
  "linked (GetExpiredByHash E h n)" "linked (Claim E h h' h'' n)" "linked (Reclaim E h h' h'')"
  "linked (htlc_Outputs E h)" "linked (ScriptValidate E s)"
  by (simp_all add: api_defs)

lemma linked_sign_and_order [simp]: "linked (sign_and_order E c m o1 m')"
  unfolding sign_and_order_def by (intro linked_andThen linked_wrapErr) simp_all

subsection \<open>AssertTokens\<close>

text \<open>
  Every output the node owns must be in its token database with the same quantity and type,
  and every other output must be absent. A check that fails is a panic of the view.
\<close>

definition assert_output ::
  "('w, 'h) env \<Rightarrow> 'h \<Rightarrow> 'h \<Rightarrow> identity \<Rightarrow> token_output \<Rightarrow> ('h call, 'w, unit) prog" where
  "assert_output E db tx idn output =
     (let tokenID = outputID (ttx E) output (txID (ttx E) tx) in
      andThen (must (''failed checking if ['' @ Owner output @ ''] is me'') (IsMe E tx (Owner output)))
      (\<lambda>isMe.
        if identityEqual (fsc E) (Owner output) idn \<or> isMe then
          andThen (must (''failed to retrieve token ['' @ tokenID @ '']'') (GetTokens E db tokenID)) (\<lambda>toks.
          andThen (assertTrue ''expected one token'' (length toks = 1)) (\<lambda>_.
          andThen (assertTrue ''token quantity mismatch'' (OutQuantityHex output = UQuantity (toks ! 0))) (\<lambda>_.
          assertTrue ''token type mismatch'' (OutType output = UType (toks ! 0)))))
        else
          andThen (attempt (GetTokens E db tokenID)) (\<lambda>r.
            case r of
              Inr toks \<Rightarrow> panic (''token ['' @ tokenID @ ''] should not exist'')
            | Inl err \<Rightarrow> assertTrue '''' (Contains (Error err) ''token not found''))))"

fun assert_outputs ::
  "('w, 'h) env \<Rightarrow> 'h \<Rightarrow> 'h \<Rightarrow> identity \<Rightarrow> token_output list \<Rightarrow> ('h call, 'w, unit) prog" where
  "assert_outputs E db tx idn [] = ret ()"
| "assert_outputs E db tx idn (o1 # os) =
     andThen (assert_output E db tx idn o1) (\<lambda>_. assert_outputs E db tx idn os)"

definition AssertTokens ::
  "('w, 'h) env \<Rightarrow> 'h \<Rightarrow> token_output list \<Rightarrow> identity \<Rightarrow> ('h call, 'w, unit) prog" where
  "AssertTokens E tx outputs idn =
     andThen (must ''failed to get token db'' (GetByTMSId E tx)) (\<lambda>db.
     assert_outputs E db tx idn outputs)"

text \<open>
  What the check establishes of an output: the database of the node returned one token for it,
  of its quantity and type, or answered that it has none. The second world is the one the reads leave.
\<close>

definition recorded :: "('w, 'h) env \<Rightarrow> 'h \<Rightarrow> 'h \<Rightarrow> token_output \<Rightarrow> 'w \<Rightarrow> 'w \<Rightarrow> bool" where
  "recorded E db tx output w w1 \<longleftrightarrow>
     (\<exists>t. getTokens (token E) db (outputID (ttx E) output (txID (ttx E) tx)) w = (Ok [t], w1) \<and>
        UQuantity t = OutQuantityHex output \<and> UType t = OutType output)"

definition unrecorded :: "('w, 'h) env \<Rightarrow> 'h \<Rightarrow> 'h \<Rightarrow> token_output \<Rightarrow> 'w \<Rightarrow> 'w \<Rightarrow> bool" where
  "unrecorded E db tx output w w1 \<longleftrightarrow>
     (\<exists>err. getTokens (token E) db (outputID (ttx E) output (txID (ttx E) tx)) w = (Err err, w1) \<and>
        sublist ''token not found'' (Error err))"

definition checked_output :: "('w, 'h) env \<Rightarrow> 'h \<Rightarrow> 'h \<Rightarrow> identity \<Rightarrow> token_output \<Rightarrow> 'w \<Rightarrow> 'w \<Rightarrow> bool" where
  "checked_output E db tx idn output w w2 \<longleftrightarrow>
     (\<exists>mine w1. isMe (token E) tx (Owner output) w = (Ok mine, w1) \<and>
        (if identityEqual (fsc E) (Owner output) idn \<or> mine
         then recorded E db tx output w1 w2 else unrecorded E db tx output w1 w2))"

text \<open>All the outputs, one after the other.\<close>

fun checked_outputs :: "('w, 'h) env \<Rightarrow> 'h \<Rightarrow> 'h \<Rightarrow> identity \<Rightarrow> token_output list \<Rightarrow> 'w \<Rightarrow> 'w \<Rightarrow> bool" where
  "checked_outputs E db tx idn [] w w' \<longleftrightarrow> w' = w"
| "checked_outputs E db tx idn (o1 # os) w w' \<longleftrightarrow>
     (\<exists>w1. checked_output E db tx idn o1 w w1 \<and> checked_outputs E db tx idn os w1 w')"

lemma conf_assert_output:
  "conf (forbid (\<lambda>e. \<not> is_Token (op e))) () (assert_output E db tx idn output)
     (\<lambda>r p w1. r = Ok () \<longrightarrow> checked_output E db tx idn output w w1) w"
  by (auto simp: assert_output_def checked_output_def recorded_def unrecorded_def Let_def api_defs
      prog_simps Contains_iff length_Suc_conv split: option.split)

lemma conf_assert_outputs:
  "conf (forbid (\<lambda>e. \<not> is_Token (op e))) () (assert_outputs E db tx idn outputs)
     (\<lambda>r p w1. r = Ok () \<longrightarrow> checked_outputs E db tx idn outputs w w1) w"
proof (induction outputs arbitrary: w)
  case (Cons o1 os)
  show ?case
    unfolding assert_outputs.simps conf_andThen
    by (rule conf_mono [OF conf_assert_output])
      (auto split: res.split intro!: conf_mono [OF Cons.IH])
qed (simp add: prog_simps)

lemma conf_AssertTokens:
  "conf (forbid (\<lambda>e. \<not> is_Token (op e))) () (AssertTokens E tx outputs idn)
     (\<lambda>r p w2. r = Ok () \<longrightarrow>
        (\<exists>db w1. getByTMSId (token E) tx w = (Ok db, w1) \<and> checked_outputs E db tx idn outputs w1 w2)) w"
  by (auto simp: AssertTokens_def api_defs prog_simps intro!: conf_mono [OF conf_assert_outputs])

lemma linked_AssertTokens [simp]: "linked (AssertTokens E tx outputs idn)"
proof -
  have "linked (assert_output E db tx idn o1)" for db o1
    unfolding assert_output_def Let_def
    by (intro linked_andThen linked_must linked_attempt | simp split: sum.split | safe)+
  then have "linked (assert_outputs E db tx idn outputs)" for db
    by (induction outputs) auto
  then show ?thesis unfolding AssertTokens_def by (intro linked_andThen linked_must) simp_all
qed

end
