(* ===== verification/Issuer_Service.thy ===== *)
theory Issuer_Service imports View_Utils begin

text \<open>
  \<open>tokens/issuer/service/fsc.go\<close>: the view that issues tokens to a recipient on another node,
  and the operation of \<open>FabricSmartClient\<close> that initiates it. Every call that can be directed
  to a token management service carries the request's \<open>TMSID\<close>.
\<close>

record issue_cash =
  ITokenType :: string
  IQuantity :: u64
  IRecipient :: string
  IRecipientNode :: string
  IMessage :: string
  IAuditor :: string
  ITMSID :: "tmsid option"

definition issuer_IssueCashView_Call :: "('w, 'h) env \<Rightarrow> issue_cash \<Rightarrow> ('h call, 'w, any) prog" where
  "issuer_IssueCashView_Call E v =
     andThen (MyIssuerWallet E (ServiceOpts (ITMSID v) [])) (\<lambda>w.
       case w of
         None \<Rightarrow> throw (New ''issuer wallet not found'')
       | Some wallet \<Rightarrow>
     andThen
       (onError (Bind E (IRecipientNode v) (IRecipient v))
          (\<lambda>_. throw (New (''error binding '' @ IRecipient v @ '' to '' @ IRecipientNode v)))) (\<lambda>_.
     andThen
       (wrapErr (''failed getting recipient identity from '' @ IRecipientNode v)
          (RequestRecipientIdentity E (IRecipient v) (ServiceOpts (ITMSID v) []))) (\<lambda>recipient.
     andThen
       (wrapErr ''failed creating transaction''
          (NewTransaction E (TxOpts (ITMSID v) [WithAuditor (IAuditor v)]))) (\<lambda>tx.
     andThen
       (if IMessage v \<noteq> '''' then SetApplicationMetadata E tx ''message'' (IMessage v) else ret ()) (\<lambda>_.
     andThen
       (wrapErr ''failed adding new issued token''
          (Issue E tx wallet recipient (ITokenType v) (IQuantity v))) (\<lambda>_.
     andThen
       (sign_and_order E (NewCollectEndorsementsView tx []) ''failed to sign transaction''
          (NewOrderingAndFinalityView tx) ''failed asking ordering'') (\<lambda>_.
     ret (AString (txID (ttx E) tx)))))))))"

definition FSC_Issue ::
  "('w, 'h) env \<Rightarrow> string \<Rightarrow> u64 \<Rightarrow> string \<Rightarrow> string \<Rightarrow> string \<Rightarrow> tmsid option \<Rightarrow> ('h call, 'w, string) prog"
where
  "FSC_Issue E tokenType quantity recipient recipientNode message tmsID =
     initiate_txid E
       (issuer_IssueCashView_Call E
          \<lparr>ITokenType = tokenType, IQuantity = quantity, IRecipient = recipient,
           IRecipientNode = recipientNode, IMessage = message, IAuditor = '''', ITMSID = tmsID\<rparr>)
       ''cannot parse issue response''"

lemma issue_settled:
  "conf settle_step Preparing (issuer_IssueCashView_Call E v)
     (\<lambda>r p w1. settled (txID (ttx E)) string_id r p) w"
  by (simp add: issuer_IssueCashView_Call_def sign_and_order_def api_defs prog_simps
      cong: conf_cong split: option.split)

lemma issue_linked: "linked (issuer_IssueCashView_Call E v)"
  unfolding issuer_IssueCashView_Call_def
  by (intro linked_andThen linked_onError linked_wrapErr | simp split: option.split | safe)+

interpretation issue: atomic_view "txID (ttx E)" "issuer_IssueCashView_Call E" string_id for E
  by (rule atomic_viewI [OF issue_settled issue_linked])

end
