(* ===== verification/Go_Numbers.thy ===== *)
theory Go_Numbers imports Go_Errors begin

text \<open>
  The integer parts of Go's standard library the code uses: printing a number in a base
  (\<open>strconv.Itoa\<close>, \<open>%d\<close>, hexadecimal quantities), \<open>strconv.ParseUint (s, 0, 64)\<close> with its
  overflow checks on 64-bit words, and \<open>time.Duration\<close>.
  \<open>ParseUint\<close> is proved equal to a reference on unbounded numbers.
\<close>

subsection \<open>Digits\<close>

definition lower :: "char \<Rightarrow> nat" where
  "lower c = (let n = of_char c in if 65 \<le> n \<and> n \<le> 90 then n + 32 else n)"

text \<open>The value of a digit: \<open>0-9\<close>, then \<open>a-z\<close> in either case; \<open>None\<close> for other characters.\<close>

definition digit_value :: "char \<Rightarrow> nat option" where
  "digit_value c =
     (let n = of_char c :: nat; l = lower c in
      if 48 \<le> n \<and> n \<le> 57 then Some (n - 48)
      else if 97 \<le> l \<and> l \<le> 122 then Some (l - 97 + 10)
      else None)"

definition digit_char :: "nat \<Rightarrow> char" where
  "digit_char d = char_of (if d < 10 then 48 + d else 87 + d)"

lemma of_char_digit_char: "d < 36 \<Longrightarrow> of_char (digit_char d) = (if d < 10 then 48 + d else 87 + d)"
  by (simp add: digit_char_def of_char_of)

lemma digit_value_char: "d < 36 \<Longrightarrow> digit_value (digit_char d) = Some d"
  by (simp add: digit_value_def Let_def lower_def of_char_digit_char)

lemma digit_value_bound: "digit_value c = Some d \<Longrightarrow> d < 36"
  by (auto simp: digit_value_def Let_def split: if_splits)

lemma underscore_no_digit: "digit_value (CHR ''_'') = None"
  by (simp add: digit_value_def lower_def)

lemma digit_char_not_underscore: "d < 36 \<Longrightarrow> digit_char d \<noteq> CHR ''_''"
  using digit_value_char underscore_no_digit by fastforce

subsection \<open>Printing in a base\<close>

fun digits_of :: "nat \<Rightarrow> nat \<Rightarrow> nat list" where
  "digits_of b n = (if n < b \<or> b < 2 then [n] else digits_of b (n div b) @ [n mod b])"

declare digits_of.simps [simp del]

definition format_base :: "nat \<Rightarrow> nat \<Rightarrow> string" where
  "format_base b n = map digit_char (digits_of b n)"

definition Itoa :: "int \<Rightarrow> string" where
  "Itoa i = (if i < 0 then ''-'' @ format_base 10 (nat (- i)) else format_base 10 (nat i))"

text \<open>The hexadecimal form of a quantity, \<open>0x\<close> and lower-case digits.\<close>

definition Hex :: "nat \<Rightarrow> string" where
  "Hex n = ''0x'' @ format_base 16 n"

lemma digits_of_bound: "2 \<le> b \<Longrightarrow> d \<in> set (digits_of b n) \<Longrightarrow> d < b"
proof (induction b n rule: digits_of.induct)
  case (1 b n)
  show ?case
  proof (cases "n < b")
    case True
    with 1 show ?thesis by (simp add: digits_of.simps [of b n])
  next
    case False
    with 1 show ?thesis by (auto simp: digits_of.simps [of b n])
  qed
qed

lemma digits_of_nonempty: "digits_of b n \<noteq> []"
  by (subst digits_of.simps) simp

fun value_of :: "nat \<Rightarrow> nat \<Rightarrow> nat list \<Rightarrow> nat" where
  "value_of b a [] = a"
| "value_of b a (d # ds) = value_of b (a * b + d) ds"

lemma value_of_append: "value_of b a (xs @ ys) = value_of b (value_of b a xs) ys"
  by (induction xs arbitrary: a) auto

lemma value_of_digits_of: "2 \<le> b \<Longrightarrow> value_of b 0 (digits_of b n) = n"
proof (induction b n rule: digits_of.induct)
  case (1 b n)
  show ?case
  proof (cases "n < b")
    case True
    then show ?thesis by (simp add: digits_of.simps [of b n])
  next
    case False
    with 1 have "value_of b 0 (digits_of b (n div b)) = n div b" by simp
    with False "1.prems" show ?thesis
      by (simp add: digits_of.simps [of b n] value_of_append)
  qed
qed

lemma value_of_mono: "1 \<le> b \<Longrightarrow> a \<le> value_of b a ds"
proof (induction ds arbitrary: a)
  case (Cons d ds)
  have "a \<le> a * b + d" using Cons.prems by (simp add: trans_le_add1)
  also have "\<dots> \<le> value_of b (a * b + d) ds" using Cons by simp
  finally show ?case by simp
qed simp

subsection \<open>strconv.ParseUint\<close>

datatype num_error = ErrSyntax | ErrRange

text \<open>The base prefix of base 0: \<open>0b\<close>, \<open>0o\<close>, \<open>0x\<close> (only before at least one more character),
  a leading \<open>0\<close> for octal, else decimal.\<close>

definition base_prefix :: "string \<Rightarrow> nat \<times> string" where
  "base_prefix s =
     (case s of
        c # s' \<Rightarrow>
          if c = CHR ''0'' then
            (case s' of
               p # q # r \<Rightarrow>
                 if lower p = of_char (CHR ''b'') then (2, q # r)
                 else if lower p = of_char (CHR ''o'') then (8, q # r)
                 else if lower p = of_char (CHR ''x'') then (16, q # r)
                 else (8, s')
             | _ \<Rightarrow> (8, s'))
          else (10, s)
      | [] \<Rightarrow> (10, s))"

definition max_u64 :: u64 where
  "max_u64 = 0xFFFFFFFFFFFFFFFF"

definition cutoff :: "nat \<Rightarrow> u64" where
  "cutoff b = max_u64 div of_nat b + 1"

fun parse_loop :: "nat \<Rightarrow> u64 \<Rightarrow> bool \<Rightarrow> string \<Rightarrow> num_error + u64 \<times> bool" where
  "parse_loop b n us [] = Inr (n, us)"
| "parse_loop b n us (c # cs) =
     (if c = CHR ''_'' then parse_loop b n True cs
      else case digit_value c of
        None \<Rightarrow> Inl ErrSyntax
      | Some d \<Rightarrow>
          if b \<le> d then Inl ErrSyntax
          else if cutoff b \<le> n then Inl ErrRange
          else
            let m = n * of_nat b; n1 = m + of_nat d in
            if n1 < m \<or> max_u64 < n1 then Inl ErrRange else parse_loop b n1 us cs)"

text \<open>\<open>underscoreOK\<close>: underscores only between digits, or after the base prefix.\<close>

fun underscore_loop :: "bool \<Rightarrow> char \<Rightarrow> string \<Rightarrow> bool" where
  "underscore_loop hex i [] \<longleftrightarrow> i \<noteq> CHR ''_''"
| "underscore_loop hex i (c # cs) =
     (if (48 \<le> (of_char c :: nat) \<and> (of_char c :: nat) \<le> 57) \<or> hex \<and> 97 \<le> lower c \<and> lower c \<le> 102
      then underscore_loop hex (CHR ''0'') cs
      else if c = CHR ''_''
      then (if i \<noteq> CHR ''0'' then False else underscore_loop hex (CHR ''_'') cs)
      else if i = CHR ''_'' then False
      else underscore_loop hex (CHR ''!'') cs)"

definition underscoreOK :: "string \<Rightarrow> bool" where
  "underscoreOK s =
     (let s1 = (case s of c # r \<Rightarrow> if c = CHR ''-'' \<or> c = CHR ''+'' then r else s | [] \<Rightarrow> s) in
      case s1 of
        c # p # r \<Rightarrow>
          if c = CHR ''0'' \<and> lower p \<in> {of_char (CHR ''b''), of_char (CHR ''o''), of_char (CHR ''x'')}
          then underscore_loop (lower p = of_char (CHR ''x'')) (CHR ''0'') r
          else underscore_loop False (CHR ''^'') s1
      | _ \<Rightarrow> underscore_loop False (CHR ''^'') s1)"

definition ParseUint :: "string \<Rightarrow> num_error + u64" where
  "ParseUint s =
     (if s = [] then Inl ErrSyntax
      else
        let (b, ds) = base_prefix s in
        case parse_loop b 0 False ds of
          Inl e \<Rightarrow> Inl e
        | Inr (n, us) \<Rightarrow> if us \<and> \<not> underscoreOK s then Inl ErrSyntax else Inr n)"

text \<open>
  The reference: the digits of a text, with underscores ignored, all below the base; the
  number they denote is unbounded.
\<close>

fun digits_in :: "nat \<Rightarrow> string \<Rightarrow> nat list option" where
  "digits_in b [] = Some []"
| "digits_in b (c # cs) =
     (if c = CHR ''_'' then digits_in b cs
      else case digit_value c of
        None \<Rightarrow> None
      | Some d \<Rightarrow> if b \<le> d then None else map_option ((#) d) (digits_in b cs))"

lemma unat_max_u64: "unat max_u64 = 2 ^ 64 - 1"
  by (simp add: max_u64_def)

lemma unat_u64_less: "unat (n :: u64) < 2 ^ 64"
  using unsigned_less [of n] by simp

lemma not_max_u64_less: "\<not> max_u64 < n"
  using unat_u64_less [of n] by (simp add: max_u64_def word_less_nat_alt)

lemma unat_cutoff:
  assumes "2 \<le> b" and "b \<le> 16"
  shows "unat (cutoff b) = (2 ^ 64 - 1) div b + 1"
proof -
  have ub: "unat (of_nat b :: u64) = b"
    using assms by (simp add: unat_of_nat)
  have "(2 ^ 64 - 1 :: nat) div b \<le> (2 ^ 64 - 1) div 2"
    using assms by (intro div_le_mono2) auto
  then have lt: "(2 ^ 64 - 1) div b + 1 < (2 ^ 64 :: nat)" by simp
  have "unat (max_u64 div of_nat b) = (2 ^ 64 - 1) div b"
    by (simp add: unat_div ub unat_max_u64 del: unat_of_nat)
  with lt show ?thesis
    by (simp add: cutoff_def unat_word_ariths)
qed

lemma not_cutoff_iff:
  assumes "2 \<le> b" and "b \<le> 16"
  shows "cutoff b \<le> n \<longleftrightarrow> 2 ^ 64 \<le> unat n * b"
proof -
  have "(2 ^ 64 - 1) div b + 1 \<le> unat n \<longleftrightarrow> (2 ^ 64 - 1) div b < unat n" by linarith
  also have "\<dots> \<longleftrightarrow> 2 ^ 64 - 1 < unat n * b"
    using assms by (simp add: div_less_iff_less_mult)
  finally show ?thesis by (auto simp: word_le_nat_alt unat_cutoff assms)
qed

text \<open>
  The loop reads a text exactly when its digits are legal and their value fits: the cutoff
  test and the wrap-around test together are the test for 64 bits on unbounded numbers.
\<close>

lemma step_overflow:
  fixes n :: u64
  assumes "2 \<le> b" and "b \<le> 16" and "d < b" and "unat n * b < 2 ^ 64"
  shows "n * of_nat b + of_nat d < n * of_nat b \<longleftrightarrow> 2 ^ 64 \<le> unat n * b + d"
    and "unat n * b + d < 2 ^ 64 \<Longrightarrow> unat (n * of_nat b + of_nat d) = unat n * b + d"
proof -
  have ub: "unat (of_nat b :: u64) = b" and ud: "unat (of_nat d :: u64) = d"
    using assms by (simp_all add: unat_of_nat)
  have m: "unat (n * of_nat b) = unat n * b"
    using assms(4) by (simp add: unat_word_ariths ub del: unat_of_nat)
  then have s: "unat (n * of_nat b + of_nat d) = (unat n * b + d) mod 2 ^ 64"
    by (simp add: unat_word_ariths ud del: unat_of_nat)
  then show "unat n * b + d < 2 ^ 64 \<Longrightarrow> unat (n * of_nat b + of_nat d) = unat n * b + d"
    by simp
  show "n * of_nat b + of_nat d < n * of_nat b \<longleftrightarrow> 2 ^ 64 \<le> unat n * b + d"
  proof (cases "unat n * b + d < 2 ^ 64")
    case True
    then show ?thesis by (simp add: word_less_nat_alt s m)
  next
    case False
    then have "(unat n * b + d) mod 2 ^ 64 = unat n * b + d - 2 ^ 64"
      using assms by (simp add: le_mod_geq)
    with False assms show ?thesis by (simp add: word_less_nat_alt s m)
  qed
qed

lemma parse_loop_correct:
  assumes "2 \<le> b" and "b \<le> 16"
  shows "parse_loop b n us cs = Inr (m, us') \<longleftrightarrow>
    (\<exists>ds. digits_in b cs = Some ds \<and> value_of b (unat n) ds < 2 ^ 64 \<and>
       unat m = value_of b (unat n) ds \<and> us' = (us \<or> CHR ''_'' \<in> set cs))"
proof (induction cs arbitrary: n us)
  case Nil
  show ?case using unat_u64_less [of n] by (auto simp: word_unat_eq_iff)
next
  case (Cons c cs)
  show ?case
  proof (cases "c = CHR ''_''")
    case True
    then show ?thesis by (simp add: Cons.IH)
  next
    case False
    show ?thesis
    proof (cases "\<exists>d. digit_value c = Some d \<and> d < b")
      case False
      with \<open>c \<noteq> CHR ''_''\<close> show ?thesis by (auto split: option.splits)
    next
      case True
      then obtain d where d: "digit_value c = Some d" "d < b" by blast
      let ?n = "n * of_nat b + of_nat d"
      show ?thesis
      proof (cases "unat n * b + d < 2 ^ 64")
        case ok: True
        then have nb: "unat n * b < 2 ^ 64" by simp
        have "\<not> cutoff b \<le> n" using nb by (simp add: not_cutoff_iff assms)
        moreover have "\<not> ?n < n * of_nat b" using ok step_overflow(1) [OF assms d(2) nb] by simp
        ultimately have "parse_loop b n us (c # cs) = parse_loop b ?n us cs"
          using False d not_max_u64_less by simp
        moreover have "unat ?n = unat n * b + d"
          using step_overflow(2) [OF assms d(2) nb] ok by simp
        ultimately show ?thesis
          using False d by (auto simp: Cons.IH)
      next
        case over: False
        then have "\<nexists>r. parse_loop b n us (c # cs) = Inr r"
          using False d step_overflow(1) [OF assms d(2)]
          by (auto simp: not_cutoff_iff assms Let_def linorder_not_le)
        moreover have "\<not> value_of b (unat n * b + d) ds < 2 ^ 64" for ds
          using over value_of_mono [of b "unat n * b + d" ds] assms by linarith
        ultimately show ?thesis using False d by auto
      qed
    qed
  qed
qed

lemma base_prefix_range: "base_prefix s = (b, r) \<Longrightarrow> 2 \<le> b \<and> b \<le> 16"
  by (auto simp: base_prefix_def split: list.splits if_splits)

text \<open>
  \<open>ParseUint\<close> succeeds exactly on the texts whose digits are legal in their base, whose value
  is below \<open>2 ^ 64\<close> and whose underscores are placed as \<open>underscoreOK\<close> asks; it then returns
  that value.
\<close>

lemma ParseUint_Inr_iff:
  assumes "base_prefix s = (b, r)"
  shows "ParseUint s = Inr n \<longleftrightarrow>
    s \<noteq> [] \<and> (CHR ''_'' \<in> set r \<longrightarrow> underscoreOK s) \<and>
    (\<exists>ds. digits_in b r = Some ds \<and> value_of b 0 ds < 2 ^ 64 \<and> unat n = value_of b 0 ds)"
proof -
  note range = base_prefix_range [OF assms]
  have "ParseUint s = Inr n \<longleftrightarrow>
    s \<noteq> [] \<and> (\<exists>us. parse_loop b 0 False r = Inr (n, us) \<and> (us \<longrightarrow> underscoreOK s))"
    using assms by (auto simp: ParseUint_def split: sum.splits)
  then show ?thesis
    using parse_loop_correct [of b 0 False r n] range by auto
qed

lemma digits_in_map:
  assumes "b \<le> 36" and "\<forall>d \<in> set ds. d < b"
  shows "digits_in b (map digit_char ds) = Some ds"
  using assms(2)
proof (induction ds)
  case (Cons d ds)
  with assms(1) show ?case
    using digit_char_not_underscore [of d] digit_value_char [of d] by auto
qed simp

lemma underscore_not_in_digits: "b \<le> 36 \<Longrightarrow> 2 \<le> b \<Longrightarrow> CHR ''_'' \<notin> set (format_base b n)"
  by (auto simp: format_base_def dest: digits_of_bound digit_char_not_underscore [OF order_less_le_trans, symmetric])

lemma base_prefix_Hex: "base_prefix (Hex n) = (16, format_base 16 n)"
  using digits_of_nonempty [of 16 n]
  by (cases "digits_of 16 n") (auto simp: Hex_def base_prefix_def format_base_def lower_def)

text \<open>Parsing a printed hexadecimal quantity gives the quantity back, when it fits in 64 bits.\<close>

lemma ParseUint_Hex: "ParseUint (Hex n) = Inr m \<longleftrightarrow> n < 2 ^ 64 \<and> unat m = n"
proof -
  have "digits_in 16 (format_base 16 n) = Some (digits_of 16 n)"
    unfolding format_base_def by (rule digits_in_map) (use digits_of_bound [of 16 _ n] in auto)
  moreover have "CHR ''_'' \<notin> set (format_base 16 n)"
    by (rule underscore_not_in_digits) simp_all
  ultimately show ?thesis
    unfolding ParseUint_Inr_iff [OF base_prefix_Hex]
    using value_of_digits_of [of 16 n] by (auto simp: Hex_def)
qed

corollary ParseUint_Hex_unat: "ParseUint (Hex (unat v)) = Inr v"
  by (simp only: ParseUint_Hex unat_u64_less simp_thms)

lemma ParseUint_Hex_big: "2 ^ 64 \<le> n \<Longrightarrow> \<exists>e. ParseUint (Hex n) = Inl e"
  using ParseUint_Hex [of n] by (cases "ParseUint (Hex n)") auto

subsection \<open>Decimal numbers\<close>

text \<open>\<open>strconv.ParseUint(s, 10, 64)\<close> and \<open>strconv.ParseInt(s, 10, 64)\<close>; with an explicit base an
  underscore is a syntax error.\<close>

definition ParseUint10 :: "string \<Rightarrow> num_error + u64" where
  "ParseUint10 s =
     (if s = [] then Inl ErrSyntax
      else case parse_loop 10 0 False s of
        Inl e \<Rightarrow> Inl e
      | Inr (n, us) \<Rightarrow> if us then Inl ErrSyntax else Inr n)"

definition ParseInt10 :: "string \<Rightarrow> num_error + i64" where
  "ParseInt10 s =
     (let neg = (s \<noteq> [] \<and> hd s = CHR ''-'');
          s1 = (if s \<noteq> [] \<and> (hd s = CHR ''-'' \<or> hd s = CHR ''+'') then tl s else s) in
      case ParseUint10 s1 of
        Inl e \<Rightarrow> Inl e
      | Inr un \<Rightarrow>
          let cut = 0x8000000000000000 in
          if \<not> neg \<and> cut \<le> un then Inl ErrRange
          else if neg \<and> cut < un then Inl ErrRange
          else Inr (if neg then - un else un))"

lemma ParseUint10_Inr_iff:
  "ParseUint10 s = Inr n \<longleftrightarrow>
    s \<noteq> [] \<and> CHR ''_'' \<notin> set s \<and>
    (\<exists>ds. digits_in 10 s = Some ds \<and> value_of 10 0 ds < 2 ^ 64 \<and> unat n = value_of 10 0 ds)"
proof -
  have "ParseUint10 s = Inr n \<longleftrightarrow> s \<noteq> [] \<and> parse_loop 10 0 False s = Inr (n, False)"
    by (auto simp: ParseUint10_def split: sum.splits)
  then show ?thesis using parse_loop_correct [of 10 0 False s n False] by auto
qed

text \<open>Reading back a number that was printed in decimal.\<close>

lemma ParseUint10_format: "ParseUint10 (format_base 10 n) = Inr m \<longleftrightarrow> n < 2 ^ 64 \<and> unat m = n"
proof -
  have "digits_in 10 (format_base 10 n) = Some (digits_of 10 n)"
    unfolding format_base_def by (rule digits_in_map) (auto dest: digits_of_bound [rotated])
  moreover have "format_base 10 n \<noteq> []" by (simp add: format_base_def digits_of_nonempty)
  moreover have "CHR ''_'' \<notin> set (format_base 10 n)" by (rule underscore_not_in_digits) simp_all
  ultimately show ?thesis
    using value_of_digits_of [of 10 n] by (auto simp: ParseUint10_Inr_iff)
qed

lemma ParseInt10_range: "ParseInt10 s = Inr n \<Longrightarrow> ParseInt10 s = Inr n \<and> (s \<noteq> [] \<and> hd s \<noteq> CHR ''-'' \<longrightarrow> 0 \<le> sint n)"
proof -
  assume a: "ParseInt10 s = Inr n"
  have "0 \<le> sint n" if "s \<noteq> []" "hd s \<noteq> CHR ''-''"
  proof -
    from a that have "n < 0x8000000000000000"
      by (auto simp: ParseInt10_def Let_def not_le split: sum.splits if_splits)
    then show ?thesis by (simp add: sint_uint signed_take_bit_eq_if_positive word_less_def bit_iff_odd)
  qed
  with a show ?thesis by simp
qed

subsection \<open>strconv.Quote\<close>

text \<open>
  Quoting escapes the quote, the backslash and the bytes that are not printable ASCII. (Go keeps
  printable characters outside ASCII as they are; here they are escaped byte by byte.)
\<close>

definition hex2 :: "nat \<Rightarrow> string" where
  "hex2 n = [digit_char (n div 16), digit_char (n mod 16)]"

definition quote_char :: "char \<Rightarrow> string" where
  "quote_char c =
     (let n = of_char c :: nat in
      if n = 34 \<or> n = 92 then [char_of (92 :: nat), c]
      else if 32 \<le> n \<and> n < 127 then [c]
      else if n = 7 then [char_of (92 :: nat), CHR ''a'']
      else if n = 8 then [char_of (92 :: nat), CHR ''b'']
      else if n = 9 then [char_of (92 :: nat), CHR ''t'']
      else if n = 10 then [char_of (92 :: nat), CHR ''n'']
      else if n = 11 then [char_of (92 :: nat), CHR ''v'']
      else if n = 12 then [char_of (92 :: nat), CHR ''f'']
      else if n = 13 then [char_of (92 :: nat), CHR ''r'']
      else char_of (92 :: nat) # CHR ''x'' # hex2 n)"

definition Quote :: "string \<Rightarrow> string" where
  "Quote s = [CHR 0x22] @ concat (map quote_char s) @ [CHR 0x22]"

end
