(* ===== verification/Go_Json.thy ===== *)
theory Go_Json imports Go_Numbers begin

text \<open>
  \<open>encoding/json\<close> and \<open>encoding/base64\<close>, as far as the request and response types of the HTTP
  API use them: decoding a JSON value into a Go value by the rules of the library, and base64.
  A decoder takes the JSON value and the Go value decoded so far, because a repeated key is
  decoded into the value the first one left. The texts of the library's errors are not
  modelled: the reason is a short word.
\<close>

datatype json =
  JNull
| JBool bool
| JNum string
| JStr string
| JArr "json list"
| JObj "(string \<times> json) list"

type_synonym 'a decoder = "json \<Rightarrow> 'a \<Rightarrow> error + 'a"

definition type_error :: "error + 'a" where
  "type_error = Inl (New ''json: cannot unmarshal value into Go value'')"

subsection \<open>Base64, standard alphabet with padding\<close>

definition b64_char :: "nat \<Rightarrow> char" where
  "b64_char v = char_of
     (if v < 26 then 65 + v else if v < 52 then 71 + v else if v < 62 then v - 4
      else if v = 62 then 43 else 47)"

definition b64_value :: "char \<Rightarrow> nat option" where
  "b64_value c =
     (let n = of_char c :: nat in
      if 65 \<le> n \<and> n \<le> 90 then Some (n - 65)
      else if 97 \<le> n \<and> n \<le> 122 then Some (n - 71)
      else if 48 \<le> n \<and> n \<le> 57 then Some (n + 4)
      else if n = 43 then Some 62
      else if n = 47 then Some 63
      else None)"

lemma b64_value_char: "v < 64 \<Longrightarrow> b64_value (b64_char v) = Some v"
  by (auto simp: b64_value_def b64_char_def Let_def of_char_of)

lemma b64_char_plain: "v < 64 \<Longrightarrow> b64_char v \<noteq> CHR ''='' \<and> b64_char v \<noteq> CHR 0x0A \<and> b64_char v \<noteq> CHR 0x0D"
  using b64_value_char [of v] by (auto simp: b64_value_def)

fun EncodeToString :: "bytes \<Rightarrow> string" where
  "EncodeToString (a # b # c # r) =
     (let n = of_char a * 65536 + of_char b * 256 + of_char c :: nat in
      b64_char (n div 262144) # b64_char (n div 4096 mod 64) # b64_char (n div 64 mod 64) # b64_char (n mod 64)
        # EncodeToString r)"
| "EncodeToString [a, b] =
     (let n = of_char a * 65536 + of_char b * 256 :: nat in
      [b64_char (n div 262144), b64_char (n div 4096 mod 64), b64_char (n div 64 mod 64), CHR ''=''])"
| "EncodeToString [a] =
     (let n = of_char a * 65536 :: nat in
      [b64_char (n div 262144), b64_char (n div 4096 mod 64), CHR ''='', CHR ''=''])"
| "EncodeToString [] = []"

text \<open>
  Decoding skips line breaks, reads groups of four, accepts padding only at the end, and does
  not check the bits the padding leaves over.
\<close>

fun b64_groups :: "string \<Rightarrow> bytes option" where
  "b64_groups [] = Some []"
| "b64_groups [a, b, c, d] =
     (if d = CHR ''='' then
        (if c = CHR ''='' then
           (case (b64_value a, b64_value b) of
              (Some x, Some y) \<Rightarrow> Some [char_of ((x * 64 + y) div 16)]
            | _ \<Rightarrow> None)
         else
           (case (b64_value a, b64_value b, b64_value c) of
              (Some x, Some y, Some z) \<Rightarrow>
                let n = x * 4096 + y * 64 + z in Some [char_of (n div 1024), char_of (n div 4 mod 256)]
            | _ \<Rightarrow> None))
      else
        (case (b64_value a, b64_value b, b64_value c, b64_value d) of
           (Some x, Some y, Some z, Some u) \<Rightarrow>
             let n = x * 262144 + y * 4096 + z * 64 + u in
             Some [char_of (n div 65536), char_of (n div 256 mod 256), char_of (n mod 256)]
         | _ \<Rightarrow> None))"
| "b64_groups (a # b # c # d # e # r) =
     (case (b64_value a, b64_value b, b64_value c, b64_value d) of
        (Some x, Some y, Some z, Some u) \<Rightarrow>
          let n = x * 262144 + y * 4096 + z * 64 + u in
          map_option (\<lambda>l. char_of (n div 65536) # char_of (n div 256 mod 256) # char_of (n mod 256) # l)
            (b64_groups (e # r))
      | _ \<Rightarrow> None)"
| "b64_groups s = None"

definition DecodeString :: "string \<Rightarrow> bytes option" where
  "DecodeString s = b64_groups (filter (\<lambda>c. c \<noteq> CHR 0x0A \<and> c \<noteq> CHR 0x0D) s)"

lemma sextets: "n div 262144 * 262144 + n div 4096 mod 64 * 4096 + n div 64 mod 64 * 64 + n mod 64 = (n :: nat)"
proof -
  have sum: "q3 * 262144 + r2 * 4096 + r1 * 64 + r0 = n"
    if "q * 64 + r0 = n" "q2 * 64 + r1 = q" "q3 * 64 + r2 = q2" for n q q2 q3 r0 r1 r2 :: nat
    using that by simp
  have div: "n div 4096 = n div 64 div 64" "n div 262144 = n div 64 div 64 div 64"
    by (simp_all add: div_mult2_eq [symmetric])
  show ?thesis
    unfolding div
    by (rule sum [OF div_mult_mod_eq [of n 64] div_mult_mod_eq [of "n div 64" 64]
          div_mult_mod_eq [of "n div 64 div 64" 64]])
qed

lemma sextets_prefix:
  "n div 262144 * 64 + n div 4096 mod 64 = n div 4096"
  "n div 262144 * 4096 + n div 4096 mod 64 * 64 + n div 64 mod 64 = (n div 64 :: nat)"
proof -
  have div: "n div 4096 = n div 64 div 64" "n div 262144 = n div 64 div 64 div 64"
    by (simp_all add: div_mult2_eq [symmetric])
  show "n div 262144 * 64 + n div 4096 mod 64 = n div 4096"
    unfolding div by (rule div_mult_mod_eq)
  have sum: "q3 * 4096 + r2 * 64 + r1 = q"
    if "q2 * 64 + r1 = q" "q3 * 64 + r2 = q2" for q q2 q3 r1 r2 :: nat
    using that by simp
  show "n div 262144 * 4096 + n div 4096 mod 64 * 64 + n div 64 mod 64 = n div 64"
    unfolding div
    by (rule sum [OF div_mult_mod_eq [of "n div 64" 64] div_mult_mod_eq [of "n div 64 div 64" 64]])
qed

lemma octets:
  fixes a b c :: nat
  assumes "a < 256" and "b < 256" and "c < 256"
  shows "(a * 65536 + b * 256 + c) div 65536 = a" "(a * 65536 + b * 256 + c) div 256 mod 256 = b"
    "(a * 65536 + b * 256 + c) mod 256 = c" "(a * 65536 + b * 256 + c) div 262144 < 64"
proof -
  have n1: "a * 65536 + b * 256 + c = (b * 256 + c) + 65536 * a"
    and n2: "a * 65536 + b * 256 + c = c + 256 * (a * 256 + b)" by simp_all
  have "b * 256 + c < 65536" using assms by simp
  then show "(a * 65536 + b * 256 + c) div 65536 = a" unfolding n1 by (subst div_mult_self2) simp_all
  have "(a * 65536 + b * 256 + c) div 256 = a * 256 + b"
    using assms(3) unfolding n2 by (subst div_mult_self2) simp_all
  then show "(a * 65536 + b * 256 + c) div 256 mod 256 = b" using assms(2) by simp
  show "(a * 65536 + b * 256 + c) mod 256 = c" unfolding n2 mod_mult_self2 using assms(3) by simp
  show "(a * 65536 + b * 256 + c) div 262144 < 64" using assms by simp
qed

lemma b64_groups_Cons4:
  assumes "b64_value a = Some x" "b64_value b = Some y" "b64_value c = Some z" "b64_value d = Some u"
    and "d \<noteq> CHR ''=''" and "n = x * 262144 + y * 4096 + z * 64 + u"
  shows "b64_groups (a # b # c # d # r) =
    map_option (\<lambda>l. char_of (n div 65536) # char_of (n div 256 mod 256) # char_of (n mod 256) # l) (b64_groups r)"
  using assms by (cases r) (simp_all add: Let_def)

lemma b64_groups_encode: "b64_groups (EncodeToString bs) = Some bs"
proof (induction bs rule: EncodeToString.induct)
  case (1 a b c r)
  let ?n = "of_char a * 65536 + of_char b * 256 + of_char c :: nat"
  have n: "?n div 65536 = of_char a" "?n div 256 mod 256 = of_char b" "?n mod 256 = of_char c"
    "?n div 262144 < 64"
    by (rule octets; simp)+
  have "b64_groups (EncodeToString (a # b # c # r)) =
    map_option (\<lambda>l. char_of (?n div 65536) # char_of (?n div 256 mod 256) # char_of (?n mod 256) # l)
      (b64_groups (EncodeToString r))"
    unfolding EncodeToString.simps Let_def
    by (rule b64_groups_Cons4 [OF b64_value_char b64_value_char b64_value_char b64_value_char])
      (use n(4) b64_char_plain [of "?n mod 64"] sextets [of ?n] in simp_all)
  then show ?case using "1" n by (simp only: n) simp
next
  case (2 a b)
  let ?n = "of_char a * 65536 + of_char b * 256 + 0 :: nat"
  have n: "?n div 65536 = of_char a" "?n div 256 mod 256 = of_char b" "?n mod 256 = 0" "?n div 262144 < 64"
    by (rule octets; simp)+
  let ?m = "?n div 64"
  have m: "?n div 262144 * 4096 + ?n div 4096 mod 64 * 64 + ?n div 64 mod 64 = ?m"
    by (rule sextets_prefix)
  have "?m div 1024 = ?n div 65536" "?m div 4 mod 256 = ?n div 256 mod 256"
    by (simp_all only: div_mult2_eq [symmetric]) simp_all
  moreover have "char_of (256 * of_char a + of_char b :: nat) = b"
    by (rule of_char_eqI [where 'a = nat]) (simp only: of_char_of mod_mult_self4 of_char_mod_256)
  ultimately show ?case
    using n m b64_char_plain [of "?n div 64 mod 64"] by (simp add: Let_def b64_value_char)
next
  case (3 a)
  let ?n = "of_char a * 65536 + 0 * 256 + 0 :: nat"
  have n: "?n div 65536 = of_char a" "?n div 262144 < 64" by (rule octets; simp)+
  have "?n div 262144 * 64 + ?n div 4096 mod 64 = ?n div 4096" by (rule sextets_prefix)
  moreover have "?n div 4096 div 16 = ?n div 65536" by (simp only: div_mult2_eq [symmetric]) simp
  ultimately show ?case using n by (simp add: Let_def b64_value_char)
qed simp

lemma EncodeToString_plain: "CHR 0x0A \<notin> set (EncodeToString bs) \<and> CHR 0x0D \<notin> set (EncodeToString bs)"
proof (induction bs rule: EncodeToString.induct)
  case (1 a b c r)
  have "of_char a * 65536 + of_char b * 256 + of_char c < (16777216 :: nat)"
    using nat_of_char_less_256 [of a] nat_of_char_less_256 [of b] nat_of_char_less_256 [of c] by linarith
  with "1" show ?case
    by (simp add: Let_def b64_char_plain [THEN conjunct2, THEN conjunct1, THEN not_sym]
        b64_char_plain [THEN conjunct2, THEN conjunct2, THEN not_sym])
next
  case (2 a b)
  have "of_char a * 65536 + of_char b * 256 < (16777216 :: nat)"
    using nat_of_char_less_256 [of a] nat_of_char_less_256 [of b] by linarith
  then show ?case
    by (simp add: Let_def b64_char_plain [THEN conjunct2, THEN conjunct1, THEN not_sym]
        b64_char_plain [THEN conjunct2, THEN conjunct2, THEN not_sym])
next
  case (3 a)
  have "of_char a div 4 < (64 :: nat)"
    using nat_of_char_less_256 [of a] by (simp add: less_mult_imp_div_less)
  then show ?case
    by (simp add: Let_def b64_char_plain [THEN conjunct2, THEN conjunct1, THEN not_sym]
        b64_char_plain [THEN conjunct2, THEN conjunct2, THEN not_sym])
qed simp

text \<open>Base64 loses nothing: every byte string is read back from its encoding.\<close>

lemma base64_roundtrip: "DecodeString (EncodeToString bs) = Some bs"
proof -
  have "filter (\<lambda>c. c \<noteq> CHR 0x0A \<and> c \<noteq> CHR 0x0D) (EncodeToString bs) = EncodeToString bs"
    using EncodeToString_plain [of bs] by (auto intro!: filter_True)
  then show ?thesis by (simp add: DecodeString_def b64_groups_encode)
qed

subsection \<open>Decoding into Go values\<close>

definition decode_string :: "string decoder" where
  "decode_string j s = (case j of JNull \<Rightarrow> Inr s | JStr t \<Rightarrow> Inr t | _ \<Rightarrow> type_error)"

definition decode_uint64 :: "u64 decoder" where
  "decode_uint64 j n =
     (case j of
        JNull \<Rightarrow> Inr n
      | JNum lit \<Rightarrow> (case ParseUint10 lit of Inr m \<Rightarrow> Inr m | Inl e \<Rightarrow> type_error)
      | _ \<Rightarrow> type_error)"

definition decode_int64 :: "i64 decoder" where
  "decode_int64 j n =
     (case j of
        JNull \<Rightarrow> Inr n
      | JNum lit \<Rightarrow> (case ParseInt10 lit of Inr m \<Rightarrow> Inr m | Inl e \<Rightarrow> type_error)
      | _ \<Rightarrow> type_error)"

text \<open>
  \<open>[]byte\<close>: a base64 string, or an array of numbers below 256; \<open>null\<close> is the \<open>nil\<close> slice,
  which the code does not tell from the empty one.
\<close>

definition decode_byte :: "char decoder" where
  "decode_byte j c =
     (case j of
        JNull \<Rightarrow> Inr c
      | JNum lit \<Rightarrow>
          (case ParseUint10 lit of
             Inr m \<Rightarrow> if m < 256 then Inr (char_of (unat m)) else type_error
           | Inl e \<Rightarrow> type_error)
      | _ \<Rightarrow> type_error)"

fun decode_byte_list :: "json list \<Rightarrow> bytes \<Rightarrow> error + bytes" where
  "decode_byte_list [] bs = Inr []"
| "decode_byte_list (j # js) bs =
     (case decode_byte j (if bs = [] then CHR 0x00 else hd bs) of
        Inl e \<Rightarrow> Inl e
      | Inr c \<Rightarrow> (case decode_byte_list js (tl bs) of Inl e \<Rightarrow> Inl e | Inr cs \<Rightarrow> Inr (c # cs)))"

definition decode_bytes :: "bytes decoder" where
  "decode_bytes j bs =
     (case j of
        JNull \<Rightarrow> Inr []
      | JStr s \<Rightarrow> (case DecodeString s of None \<Rightarrow> Inl (New ''illegal base64 data'') | Some b \<Rightarrow> Inr b)
      | JArr js \<Rightarrow> decode_byte_list js bs
      | _ \<Rightarrow> type_error)"

text \<open>A pointer: \<open>null\<close> is \<open>nil\<close>; anything else is decoded into the value pointed to, which is
  allocated first if there is none.\<close>

definition decode_ptr :: "'a \<Rightarrow> 'a decoder \<Rightarrow> 'a option decoder" where
  "decode_ptr zero dec j p =
     (case j of
        JNull \<Rightarrow> Inr None
      | _ \<Rightarrow> (case dec j (case p of None \<Rightarrow> zero | Some x \<Rightarrow> x) of Inl e \<Rightarrow> Inl e | Inr x \<Rightarrow> Inr (Some x)))"

text \<open>
  Keys name fields up to letter case; the two letters outside ASCII that fold to an ASCII one
  (the long s and the Kelvin sign) count as that letter. Unknown keys are ignored.
\<close>

fun fold_name :: "string \<Rightarrow> string" where
  "fold_name [] = []"
| "fold_name (c # r) =
     (if c = CHR 0xC5 \<and> take 1 r = [CHR 0xBF] then CHR ''s'' # fold_name (drop 1 r)
      else if c = CHR 0xE2 \<and> take 2 r = [CHR 0x84, CHR 0xAA] then CHR ''k'' # fold_name (drop 2 r)
      else char_of (lower c) # fold_name r)"

type_synonym 'a fields = "(string \<times> 'a decoder) list"

definition find_field :: "'a fields \<Rightarrow> string \<Rightarrow> 'a decoder option" where
  "find_field fs key = map_of (map (\<lambda>(name, dec). (fold_name name, dec)) fs) (fold_name key)"

fun decode_fields :: "'a fields \<Rightarrow> (string \<times> json) list \<Rightarrow> 'a \<Rightarrow> error + 'a" where
  "decode_fields fs [] s = Inr s"
| "decode_fields fs ((key, j) # kvs) s =
     (case find_field fs key of
        None \<Rightarrow> decode_fields fs kvs s
      | Some dec \<Rightarrow> (case dec j s of Inl e \<Rightarrow> Inl e | Inr s1 \<Rightarrow> decode_fields fs kvs s1))"

definition decode_struct :: "'a fields \<Rightarrow> 'a decoder" where
  "decode_struct fs j s =
     (case j of JNull \<Rightarrow> Inr s | JObj kvs \<Rightarrow> decode_fields fs kvs s | _ \<Rightarrow> type_error)"

definition field :: "string \<Rightarrow> 'b decoder \<Rightarrow> ('a \<Rightarrow> 'b) \<Rightarrow> ('b \<Rightarrow> 'a \<Rightarrow> 'a) \<Rightarrow> string \<times> 'a decoder" where
  "field name dec get put =
     (name, \<lambda>j s. case dec j (get s) of Inl e \<Rightarrow> Inl e | Inr x \<Rightarrow> Inr (put x s))"

definition encode_uint64 :: "u64 \<Rightarrow> json" where
  "encode_uint64 n = JNum (format_base 10 (unat n))"

definition encode_bytes :: "bytes \<Rightarrow> json" where
  "encode_bytes bs = JStr (EncodeToString bs)"

lemma decode_encode_bytes: "decode_bytes (encode_bytes bs) b = Inr bs"
  by (simp add: decode_bytes_def encode_bytes_def base64_roundtrip)

lemma decode_encode_uint64: "decode_uint64 (encode_uint64 n) m = Inr n"
proof -
  have "ParseUint10 (format_base 10 (unat n)) = Inr n"
    using unat_u64_less [of n] by (simp add: ParseUint10_format)
  then show ?thesis by (simp add: decode_uint64_def encode_uint64_def)
qed

end
