(* ===== verification/Http.thy ===== *)
theory Http imports Go_Json Prog begin

text \<open>
  What the three token nodes share of HTTP: \<open>net/http\<close> requests, responses and routing as far
  as the code uses them, \<open>common.WithAnyCORS\<close>, and the two halves of every operation of the
  generated strict handlers (\<open>routes.gen.go\<close>): decode the body and answer 400 if that fails;
  call the server and answer 500 with its error as text, or what it returned as JSON.

  A path is the list of its segments, as the router's path cleaning leaves them. The body is
  the first JSON value in it, or the error of reading one. A handler of this level returns its
  response as a value; the second error path of the generated code, an error of the encoder, and
  its middlewares are modelled in \<open>Http_Writer\<close> and \<open>Generated_Http\<close>.
\<close>

record request =
  Method :: string
  Path :: "string list"
  Query :: "(string \<times> string list) list"
  RequestBody :: "error + json"

datatype 'b content = Json 'b | PlainText string | NoContent

record 'b response =
  Status :: nat
  Header :: "(string \<times> string) list"
  Content :: "'b content"

type_synonym ('c, 'w, 'b) handler = "request \<Rightarrow> ('c, 'w, 'b response) prog"

definition StatusOK :: nat where "StatusOK = 200"
definition StatusNoContent :: nat where "StatusNoContent = 204"
definition StatusBadRequest :: nat where "StatusBadRequest = 400"
definition StatusNotFound :: nat where "StatusNotFound = 404"
definition StatusMethodNotAllowed :: nat where "StatusMethodNotAllowed = 405"
definition StatusInternalServerError :: nat where "StatusInternalServerError = 500"

lemmas status_defs = StatusOK_def StatusNoContent_def StatusBadRequest_def StatusNotFound_def
  StatusMethodNotAllowed_def StatusInternalServerError_def

definition http_Error :: "string \<Rightarrow> nat \<Rightarrow> 'b response" where
  "http_Error msg code =
     \<lparr>Status = code,
      Header = [(''Content-Type'', ''text/plain; charset=utf-8''), (''X-Content-Type-Options'', ''nosniff'')],
      Content = PlainText msg\<rparr>"

definition json_response :: "nat \<Rightarrow> 'b \<Rightarrow> 'b response" where
  "json_response code b =
     \<lparr>Status = code, Header = [(''Content-Type'', ''application/json'')], Content = Json b\<rparr>"

subsection \<open>WithAnyCORS\<close>

definition cors_headers :: "(string \<times> string) list" where
  "cors_headers =
     [(''Access-Control-Allow-Origin'', ''*''),
      (''Access-Control-Allow-Methods'', ''GET, POST, PUT, DELETE, OPTIONS''),
      (''Access-Control-Allow-Headers'', ''Content-Type, Authorization'')]"

definition WithAnyCORS :: "('c, 'w, 'b) handler \<Rightarrow> ('c, 'w, 'b) handler" where
  "WithAnyCORS next r =
     (if Method r = ''OPTIONS'' then
        ret \<lparr>Status = StatusNoContent, Header = cors_headers, Content = NoContent\<rparr>
      else andThen (next r) (\<lambda>resp. ret (resp\<lparr>Header := cors_headers @ Header resp\<rparr>)))"

subsection \<open>Routing\<close>

text \<open>
  A pattern of the router: a method and segments, literal or the wildcard \<open>{id}\<close>, which matches
  one segment that is not empty. A \<open>GET\<close> pattern also matches \<open>HEAD\<close>. When only the method
  does not match, the answer is 405, otherwise 404.
\<close>

datatype segment = Lit string | Wild

fun match_path :: "segment list \<Rightarrow> string list \<Rightarrow> string list option" where
  "match_path [] [] = Some []"
| "match_path (Lit l # ps) (s # ss) = (if l = s then match_path ps ss else None)"
| "match_path (Wild # ps) (s # ss) = (if s = '''' then None else map_option ((#) s) (match_path ps ss))"
| "match_path ps ss = None"

definition match_method :: "string \<Rightarrow> string \<Rightarrow> bool" where
  "match_method pattern m \<longleftrightarrow> m = pattern \<or> pattern = ''GET'' \<and> m = ''HEAD''"

type_synonym ('c, 'w, 'b) route = "string \<times> segment list \<times> (string list \<Rightarrow> ('c, 'w, 'b) handler)"

fun find_route :: "(string \<times> segment list \<times> (string list \<Rightarrow> request \<Rightarrow> 'm)) list \<Rightarrow> request \<Rightarrow> 'm option" where
  "find_route [] r = None"
| "find_route ((m, ps, h) # rs) r =
     (case match_path ps (Path r) of
        Some args \<Rightarrow> if match_method m (Method r) then Some (h args r) else find_route rs r
      | None \<Rightarrow> find_route rs r)"

definition serve_mux :: "('c, 'w, 'b) route list \<Rightarrow> ('c, 'w, 'b) handler" where
  "serve_mux rs r =
     (case find_route rs r of
        Some m \<Rightarrow> m
      | None \<Rightarrow>
          if \<exists>(m, ps, h) \<in> set rs. match_path ps (Path r) \<noteq> None
          then ret (http_Error ''Method Not Allowed'' StatusMethodNotAllowed)
          else ret (http_Error ''404 page not found'' StatusNotFound))"

subsection \<open>The strict handlers\<close>

text \<open>The server's answer: a response object (its status code and JSON body), or an error.\<close>

definition strict_respond :: "('c, 'w, nat \<times> 'b) prog \<Rightarrow> ('c, 'w, 'b response) prog" where
  "strict_respond m =
     andThen (attempt m) (\<lambda>r.
       case r of
         Inl err \<Rightarrow> ret (http_Error (Error err) StatusInternalServerError)
       | Inr (code, body) \<Rightarrow> ret (json_response code body))"

definition strict_body ::
  "'q decoder \<Rightarrow> 'q \<Rightarrow> ('q \<Rightarrow> ('c, 'w, nat \<times> 'b) prog) \<Rightarrow> ('c, 'w, 'b) handler" where
  "strict_body dec zero m r =
     (case RequestBody r of
        Inl err \<Rightarrow> ret (http_Error (Error (Wrap ''can't decode JSON body'' err)) StatusBadRequest)
      | Inr j \<Rightarrow>
          (case dec j zero of
             Inl err \<Rightarrow> ret (http_Error (Error (Wrap ''can't decode JSON body'' err)) StatusBadRequest)
           | Inr body \<Rightarrow> strict_respond (m body)))"

lemma conf_strict_respond [prog_simps]:
  "conf D p (strict_respond m) Q w \<longleftrightarrow>
   conf D p m (\<lambda>r q w1. case r of
       Ok (code, body) \<Rightarrow> Q (Ok (json_response code body)) q w1
     | Err err \<Rightarrow> Q (Ok (http_Error (Error err) StatusInternalServerError)) q w1
     | Panic s \<Rightarrow> Q (Panic s) q w1) w"
  unfolding strict_respond_def conf_andThen conf_attempt
  by (rule arg_cong [where f = "\<lambda>R. conf D p m R w"])
    (auto simp: fun_eq_iff conf_ret split: res.split prod.split)

text \<open>
  Every answer of a server behind \<open>WithAnyCORS\<close>, errors included, carries the three headers
  that allow any origin; and a preflight request is answered 204 without reaching the handler:
  it makes no call and changes nothing.
\<close>

lemma cors_everywhere:
  assumes "WithAnyCORS next r w = (Ok resp, es, w')"
  shows "set cors_headers \<subseteq> set (Header resp) \<and>
    (Method r = ''OPTIONS'' \<longrightarrow> Status resp = StatusNoContent \<and> Content resp = NoContent \<and> es = [] \<and> w' = w)"
  using assms by (auto simp: WithAnyCORS_def ret_def andThen_def split: if_splits prod.splits res.splits)

end
