(* ===== verification/Owner_Service.thy ===== *)
theory Owner_Service imports View_Utils Go_Numbers begin

text \<open>
  \<open>tokens/owner/service/fsc.go\<close>: the owner's transfer and redeem views, and the operations of
  \<open>FabricSmartClient\<close> that initiate them.
\<close>

definition ErrCounterpartyAccountNotFound :: error where
  "ErrCounterpartyAccountNotFound = New ''counterparty account not found''"

definition ErrInsufficientFunds :: error where
  "ErrInsufficientFunds = New ''insufficient funds''"

definition ErrConnectionError :: error where
  "ErrConnectionError = New ''could not connect to counterparty''"

definition ErrWalletNotFound :: error where
  "ErrWalletNotFound = New ''wallet not found''"

definition ErrBalance :: error where
  "ErrBalance = New ''error getting balance''"

record redeem_options =
  RWallet :: string
  RTokenType :: string
  RQuantity :: u64
  RMessage :: string

record transfer_options =
  TWallet :: string
  TTokenType :: string
  TQuantity :: u64
  TRecipientNode :: string
  TRecipient :: string
  TMessage :: string

text \<open>\<open>getRemoteIdentity\<close>: bind the recipient's name to its node, then ask that node.\<close>

definition getRemoteIdentity :: "('w, 'h) env \<Rightarrow> string \<Rightarrow> string \<Rightarrow> ('h call, 'w, identity) prog" where
  "getRemoteIdentity E recipientID recipientNode =
     andThen (Bind E recipientNode recipientID) (\<lambda>_.
     andThen
       (onError (RequestRecipientIdentity E recipientID []) (\<lambda>err.
          if Contains (Error err) ''] not found'' then throw ErrCounterpartyAccountNotFound
          else if Contains (Error err) ''failed to dial'' then throw ErrConnectionError
          else throw (Wrap (''failed getting recipient identity from '' @ recipientNode) err)))
     (\<lambda>recipient.
       if isNone (fsc E) recipient then throw ErrCounterpartyAccountNotFound else ret recipient))"

text \<open>The recipient of a transfer: a wallet of this node when no node is named, else a remote one.\<close>

definition transfer_recipient :: "('w, 'h) env \<Rightarrow> transfer_options \<Rightarrow> ('h call, 'w, identity) prog" where
  "transfer_recipient E v =
     (if length (TRecipientNode v) = 0 then
        andThen (GetWallet E (TRecipient v) []) (\<lambda>w.
          case w of
            None \<Rightarrow> throw ErrCounterpartyAccountNotFound
          | Some w \<Rightarrow> onError (GetRecipientIdentity E w) (\<lambda>_. throw ErrCounterpartyAccountNotFound))
      else getRemoteIdentity E (TRecipient v) (TRecipientNode v))"

definition TransferView_Call :: "('w, 'h) env \<Rightarrow> transfer_options \<Rightarrow> ('h call, 'w, any) prog" where
  "TransferView_Call E v =
     andThen (GetWallet E (TWallet v) []) (\<lambda>w.
       case w of
         None \<Rightarrow> throw (New (''sender wallet ['' @ TWallet v @ ''] not found''))
       | Some senderWallet \<Rightarrow>
     andThen (transfer_recipient E v) (\<lambda>recipient.
     andThen (wrapErr ''failed to create transaction'' (NewTransaction E [])) (\<lambda>tx.
     andThen
       (if TMessage v \<noteq> '''' then SetApplicationMetadata E tx ''message'' (TMessage v) else ret ()) (\<lambda>_.
     andThen
       (onError (Transfer E tx senderWallet (TTokenType v) [TQuantity v] [recipient]) (\<lambda>err.
          if Contains (Error err) ''insufficient funds'' then throw ErrInsufficientFunds
          else throw (Wrap ''failed preparing transfer'' err))) (\<lambda>_.
     andThen
       (sign_and_order E (NewCollectEndorsementsView tx []) ''failed to sign transaction''
          (NewOrderingAndFinalityView tx) ''failed asking ordering'') (\<lambda>_.
     ret (AString (txID (ttx E) tx))))))))"

definition owner_RedeemView_Call :: "('w, 'h) env \<Rightarrow> redeem_options \<Rightarrow> ('h call, 'w, any) prog" where
  "owner_RedeemView_Call E v =
     andThen (GetWallet E (RWallet v) []) (\<lambda>w.
       case w of
         None \<Rightarrow> throw (New (''sender wallet ['' @ RWallet v @ ''] not found''))
       | Some senderWallet \<Rightarrow>
     andThen (wrapErr ''failed getting identity provider'' (GetProvider E)) (\<lambda>_.
     andThen (wrapErr ''failed to create transaction'' (NewTransaction E [])) (\<lambda>tx.
     andThen
       (if RMessage v \<noteq> '''' then SetApplicationMetadata E tx ''message'' (RMessage v) else ret ()) (\<lambda>_.
     andThen (wrapErr ''failed to get token management service'' (GetManagementService E [])) (\<lambda>mgmt.
     andThen (Issuers E mgmt) (\<lambda>issuers.
       case issuers of
         [] \<Rightarrow> throw (New ''no issuer found in public parameters'')
       | issuer # _ \<Rightarrow>
     andThen (Identity E ''issuer'') (\<lambda>issuerNode.
     andThen
       (onError
          (Redeem E tx senderWallet (RTokenType v) (RQuantity v)
             [WithFSCIssuerIdentity issuerNode, WithIssuerPublicParamsPublicKey issuer]) (\<lambda>err.
          if Contains (Error err) ''insufficient funds'' then throw ErrInsufficientFunds
          else throw (Wrap ''failed preparing redeem'' err))) (\<lambda>_.
     andThen
       (sign_and_order E (NewCollectEndorsementsView tx []) ''failed to sign transaction''
          (NewOrderingAndFinalityView tx) ''failed asking ordering'') (\<lambda>_.
     ret (AString (txID (ttx E) tx)))))))))))"

subsection \<open>The operations of FabricSmartClient\<close>

definition FSC_Transfer ::
  "('w, 'h) env \<Rightarrow> string \<Rightarrow> u64 \<Rightarrow> string \<Rightarrow> string \<Rightarrow> string \<Rightarrow> string \<Rightarrow> ('h call, 'w, string) prog" where
  "FSC_Transfer E tokenType quantity sender recipient recipientNode message =
     initiate_txid E
       (TransferView_Call E
          \<lparr>TWallet = sender, TTokenType = tokenType, TQuantity = quantity,
           TRecipientNode = recipientNode, TRecipient = recipient, TMessage = message\<rparr>)
       ''cannot parse issue response''"

definition owner_FSC_Redeem ::
  "('w, 'h) env \<Rightarrow> string \<Rightarrow> u64 \<Rightarrow> string \<Rightarrow> string \<Rightarrow> ('h call, 'w, string) prog" where
  "owner_FSC_Redeem E tokenType quantity sender message =
     initiate_txid E
       (owner_RedeemView_Call E
          \<lparr>RWallet = sender, RTokenType = tokenType, RQuantity = quantity, RMessage = message\<rparr>)
       ''cannot parse redeem response''"

subsection \<open>The views follow the settlement protocol\<close>

lemma transfer_settled:
  "conf settle_step Preparing (TransferView_Call E v) (\<lambda>r p w1. settled (txID (ttx E)) string_id r p) w"
  by (simp add: TransferView_Call_def transfer_recipient_def getRemoteIdentity_def
      sign_and_order_def api_defs prog_simps cong: conf_cong split: option.split)

lemma redeem_settled:
  "conf settle_step Preparing (owner_RedeemView_Call E v)
     (\<lambda>r p w1. settled (txID (ttx E)) string_id r p) w"
  by (simp add: owner_RedeemView_Call_def sign_and_order_def api_defs prog_simps
      cong: conf_cong split: option.split list.split)

lemma transfer_linked: "linked (TransferView_Call E v)"
  unfolding TransferView_Call_def transfer_recipient_def getRemoteIdentity_def
  by (intro linked_andThen linked_onError linked_wrapErr | simp split: option.split | safe)+

lemma redeem_linked: "linked (owner_RedeemView_Call E v)"
  unfolding owner_RedeemView_Call_def
  by (intro linked_andThen linked_onError linked_wrapErr | simp split: option.split list.split | safe)+

interpretation transfer: atomic_view "txID (ttx E)" "TransferView_Call E" string_id for E
  by (rule atomic_viewI [OF transfer_settled transfer_linked])

interpretation redeem: atomic_view "txID (ttx E)" "owner_RedeemView_Call E" string_id for E
  by (rule atomic_viewI [OF redeem_settled redeem_linked])

text \<open>
  C6: A transfer is all or nothing. Let \<open>L\<close> observe anything that only the ordering of a
  transaction changes (the ledger). Then a run of the transfer view returns the id of the one
  transaction it got ordered and confirmed; or it ordered one, was told of a failure and returns
  no id; or it fails and the ledger is exactly as before.
\<close>

theorem transfer_all_or_nothing:
  assumes "TransferView_Call E v w = (r, es, w1)"
    and "undisturbed L (\<lambda>c. \<forall>tx. call_kind c \<noteq> Order tx) w es"
  shows "(\<exists>a tx o1. r = Ok a \<and> order_events es = [o1] \<and> succeeded o1 \<and> ev_kind o1 = Order tx \<and>
      string_id a = Some (txID (ttx E) tx))
    \<or> (\<exists>o1. order_events es = [o1] \<and> \<not> succeeded o1 \<and> (\<forall>a. r \<noteq> Ok a))
    \<or> L w1 = L w \<and> (\<forall>a. r \<noteq> Ok a)"
  using assms by (rule transfer.all_or_nothing)

text \<open>
  C7: A transfer moves what was asked for to whom was asked for: whenever the view adds a
  transfer to a transaction, it is of the requested type and quantity, from the wallet of the
  requested name, to one recipient: the identity a wallet of this node gave for the requested
  name when no node was named, or else the identity the named node answered with, after the name
  was bound to that node.
\<close>

theorem transfer_as_requested:
  assumes run: "TransferView_Call E v w = (r, es, w')"
    and ev: "Event (Ttx (CTransfer tx wal typ qs ids)) b u \<in> set es"
  shows "typ = TTokenType v \<and> qs = [TQuantity v] \<and>
    (\<exists>w1 idn w2 w3. getWallet (ttx E) (TWallet v) [] w = (Some wal, w1) \<and> ids = [idn] \<and>
       (if TRecipientNode v = '''' then
          \<exists>h. getWallet (ttx E) (TRecipient v) [] w1 = (Some h, w2) \<and>
            getRecipientIdentity (ttx E) h w2 = (Ok idn, w3)
        else bindEndpoint (fsc E) (TRecipientNode v) (TRecipient v) w1 = (Ok (), w2) \<and>
          requestRecipientIdentity (ttx E) (TRecipient v) [] w2 = (Ok idn, w3) \<and> \<not> isNone (fsc E) idn))"
    (is ?G)
proof (rule ccontr)
  let ?P = "\<lambda>e. op e = Ttx (CTransfer tx wal typ qs ids)"
  assume "\<not> ?G"
  then have "conf (forbid ?P) () (TransferView_Call E v) (\<lambda>r p w1. True) w"
    by (auto simp: TransferView_Call_def transfer_recipient_def getRemoteIdentity_def
        sign_and_order_def api_defs prog_simps cong: conf_cong split: option.split)
  with forbidD(2) [OF this run ev] show False by simp
qed

end
