(* ===== verification/Owner_Accounts.thy ===== *)
theory Owner_Accounts imports Owner_Service "HOL-Library.AList" "HOL-Library.Multiset" begin

text \<open>
  \<open>tokens/owner/service/fsc.go\<close>: what an owner can read, its balances and its transaction
  history.
\<close>

record amount =
  Code :: string
  Value :: u64

text \<open>The error of \<open>strconv.ParseUint\<close>, with the input in quotes.\<close>

definition num_error_text :: "string \<Rightarrow> num_error \<Rightarrow> error" where
  "num_error_text s e =
     Wrap (''strconv.ParseUint: parsing '' @ Quote s)
       (New (case e of ErrSyntax \<Rightarrow> ''invalid syntax'' | ErrRange \<Rightarrow> ''value out of range''))"

text \<open>
  The loop of \<open>Balances\<close>: \<open>amMap[t.Type] += val\<close> over a \<open>map[string]uint64\<close>, where a missing
  key reads as zero and the addition wraps around.
\<close>

fun sum_tokens :: "unspent_token list \<Rightarrow> (string \<times> u64) list \<Rightarrow> error + (string \<times> u64) list" where
  "sum_tokens [] amMap = Inr amMap"
| "sum_tokens (t # ts) amMap =
     (case ParseUint (UQuantity t) of
        Inl err \<Rightarrow> Inl (Both ErrBalance (num_error_text (UQuantity t) err))
      | Inr val \<Rightarrow>
          sum_tokens ts
            (AList.update (UType t)
               ((case map_of amMap (UType t) of None \<Rightarrow> 0 | Some a \<Rightarrow> a) + val) amMap))"

definition FSC_Balances ::
  "('w, 'h) env \<Rightarrow> string \<Rightarrow> tmsid option \<Rightarrow> ('h call, 'w, amount list) prog" where
  "FSC_Balances E wallet tmsID =
     andThen
       (wrapErr ''failed to get token management service'' (GetManagementService E (ServiceOpts tmsID [])))
       (\<lambda>mgmt.
     andThen (onError (OwnerWallet E mgmt wallet) (\<lambda>err. throw (Both ErrWalletNotFound err))) (\<lambda>wal.
     andThen (onError (ListUnspentTokens E wal) (\<lambda>err. throw (Both ErrBalance err))) (\<lambda>tokens.
       case sum_tokens tokens [] of
         Inl err \<Rightarrow> throw err
       | Inr amMap \<Rightarrow>
           ret (map (\<lambda>(code, val). \<lparr>Code = code, Value = val\<rparr>) (mapRange (token E) amMap)))))"

text \<open>\<open>big.Int.Uint64\<close>: the low 64 bits of the absolute value.\<close>

definition big_Uint64 :: "int \<Rightarrow> u64" where
  "big_Uint64 x = word_of_int \<bar>x\<bar>"

definition FSC_Balance ::
  "('w, 'h) env \<Rightarrow> string \<Rightarrow> string \<Rightarrow> tmsid option \<Rightarrow> ('h call, 'w, amount) prog" where
  "FSC_Balance E wallet code tmsID =
     andThen
       (wrapErr ''failed to get token management service'' (GetManagementService E (ServiceOpts tmsID [])))
       (\<lambda>mgmt.
     andThen (onError (OwnerWallet E mgmt wallet) (\<lambda>err. throw (Both ErrWalletNotFound err))) (\<lambda>wal.
     andThen (onError (WalletBalance E wal code) (\<lambda>err. throw (Both ErrBalance err))) (\<lambda>val.
     ret \<lparr>Code = code, Value = big_Uint64 val\<rparr>)))"

text \<open>
  The loop of \<open>GetTransactions\<close> over the iterator the database returned. \<open>fuel\<close> bounds the
  number of calls of \<open>Next\<close>; a run that uses it up returns \<open>None\<close>.
\<close>

fun drain ::
  "('w, 'h) env \<Rightarrow> 'h \<Rightarrow> nat \<Rightarrow> transaction_record list \<Rightarrow> ('h call, 'w, transaction_record list option) prog"
where
  "drain E it 0 txs = ret None"
| "drain E it (Suc fuel) txs =
     andThen (Next E it) (\<lambda>tx.
       case tx of
         None \<Rightarrow> ret (Some txs)
       | Some tx \<Rightarrow> drain E it fuel (txs @ [tx]))"

definition FSC_GetTransactions ::
  "('w, 'h) env \<Rightarrow> nat \<Rightarrow> string \<Rightarrow> ('h call, 'w, transaction_record list option) prog" where
  "FSC_GetTransactions E fuel wallet =
     (let params = \<lparr>SenderWallet = wallet, RecipientWallet = wallet,
                    Statuses = [Confirmed, Pending], ExcludeToSelf = True\<rparr> in
     andThen (wrapErr ''failed to get token management service'' (GetManagementService E [])) (\<lambda>mgmt.
     andThen (NewOwner E mgmt) (\<lambda>owner.
       case owner of
         None \<Rightarrow> throw (New ''failed to initialize transaction owner'')
       | Some owner \<Rightarrow>
     andThen (wrapErr ''failed creating pagination'' (Offset E 0 (defaultMaxPageSize (token E)))) (\<lambda>page.
     andThen (wrapErr ''failed querying transactions from db'' (Transactions E owner params page)) (\<lambda>it.
       case it of
         None \<Rightarrow>
           (case wrapNil (token E) ''failed querying transactions from db'' of
              None \<Rightarrow> ret (Some [])
            | Some err \<Rightarrow> throw err)
       | Some it \<Rightarrow> deferred (drain E it fuel []) (Close E it))))))"

subsection \<open>Balances add up\<close>

text \<open>The quantity of a token, as the number its text stands for.\<close>

definition quantity :: "unspent_token \<Rightarrow> nat" where
  "quantity t = (case ParseUint (UQuantity t) of Inr v \<Rightarrow> unat v | Inl e \<Rightarrow> 0)"

definition total :: "string \<Rightarrow> unspent_token list \<Rightarrow> nat" where
  "total code ts = sum_list (map quantity (filter (\<lambda>t. UType t = code) ts))"

lemma total_simps [simp]:
  "total c [] = 0"
  "total c (t # ts) = (if UType t = c then quantity t else 0) + total c ts"
  by (simp_all add: total_def)

lemma sum_tokens_ok:
  assumes "sum_tokens ts amMap = Inr m" and "distinct (map fst amMap)"
  shows "distinct (map fst m) \<and> (\<forall>t \<in> set ts. \<exists>v. ParseUint (UQuantity t) = Inr v) \<and>
    (\<forall>c. map_of m c =
      (if c \<in> fst ` set amMap \<or> c \<in> UType ` set ts
       then Some ((case map_of amMap c of None \<Rightarrow> 0 | Some a \<Rightarrow> a) + of_nat (total c ts)) else None))"
  using assms
proof (induction ts arbitrary: amMap)
  case Nil
  then show ?case by (auto simp: map_of_eq_None_iff split: option.split)
next
  case (Cons t ts)
  obtain val where val: "ParseUint (UQuantity t) = Inr val"
    using Cons.prems(1) by (cases "ParseUint (UQuantity t)") auto
  let ?am = "AList.update (UType t) ((case map_of amMap (UType t) of None \<Rightarrow> 0 | Some a \<Rightarrow> a) + val) amMap"
  have "sum_tokens ts ?am = Inr m" using Cons.prems(1) val by simp
  moreover have "distinct (map fst ?am)" using Cons.prems(2) by (simp add: distinct_update)
  ultimately have IH: "distinct (map fst m) \<and> (\<forall>t \<in> set ts. \<exists>v. ParseUint (UQuantity t) = Inr v) \<and>
    (\<forall>c. map_of m c =
      (if c \<in> fst ` set ?am \<or> c \<in> UType ` set ts
       then Some ((case map_of ?am c of None \<Rightarrow> 0 | Some a \<Rightarrow> a) + of_nat (total c ts)) else None))"
    by (rule Cons.IH)
  have q: "of_nat (quantity t) = val" by (simp add: quantity_def val)
  from IH val show ?case
    by (auto simp: update_conv' dom_update q)
qed

lemma sum_tokens_fails:
  "t \<in> set ts \<Longrightarrow> ParseUint (UQuantity t) = Inl e \<Longrightarrow> \<exists>err. sum_tokens ts amMap = Inl (Both ErrBalance err)"
  by (induction ts arbitrary: amMap) (auto split: sum.split)

definition ranges_over :: "('w, 'h) env \<Rightarrow> bool" where
  "ranges_over E \<longleftrightarrow> (\<forall>m. mset (mapRange (token E) m) = mset m)"

lemma balances_run:
  assumes run: "FSC_Balances E wallet tmsID w = (Ok am, es, w')"
  obtains mgmt w1 wal w2 tokens amMap where
    "getManagementService (token E) (ServiceOpts tmsID []) w = (Ok mgmt, w1)"
    and "ownerWallet (token E) mgmt wallet w1 = (Ok wal, w2)"
    and "listUnspentTokens (token E) wal w2 = (Ok tokens, w')"
    and "sum_tokens tokens [] = Inr amMap"
    and "am = map (\<lambda>(code, val). \<lparr>Code = code, Value = val\<rparr>) (mapRange (token E) amMap)"
  using run
  by (auto simp: FSC_Balances_def andThen_def onError_def wrapErr_def throw_def ret_def ext_def api_defs
      split: prod.splits res.splits sum.splits intro: that)

text \<open>
  C19: \<open>Balances\<close> reports every token type the wallet has unspent tokens of, exactly once, and no
  other type; the amount is the sum of the quantities of the tokens of that type, modulo
  \<open>2 ^ 64\<close>, and every quantity was read. The order in which Go ranges over the map does not
  matter.
\<close>

theorem balances_sum:
  assumes "ranges_over E" and "FSC_Balances E wallet tmsID w = (Ok am, es, w')"
  shows "\<exists>mgmt w1 wal w2 tokens.
    ownerWallet (token E) mgmt wallet w1 = (Ok wal, w2) \<and>
    listUnspentTokens (token E) wal w2 = (Ok tokens, w') \<and>
    (\<forall>t \<in> set tokens. \<exists>v. ParseUint (UQuantity t) = Inr v) \<and>
    distinct (map Code am) \<and> Code ` set am = UType ` set tokens \<and>
    (\<forall>a \<in> set am. unat (Value a) = total (Code a) tokens mod 2 ^ 64)"
proof -
  obtain mgmt w1 wal w2 tokens m where
    reads: "ownerWallet (token E) mgmt wallet w1 = (Ok wal, w2)"
      "listUnspentTokens (token E) wal w2 = (Ok tokens, w')"
    and sum: "sum_tokens tokens [] = Inr m"
    and am: "am = map (\<lambda>(code, val). \<lparr>Code = code, Value = val\<rparr>) (mapRange (token E) m)"
    using balances_run [OF assms(2)] by metis
  have m: "distinct (map fst m)" "\<forall>t \<in> set tokens. \<exists>v. ParseUint (UQuantity t) = Inr v"
    "\<And>c. map_of m c = (if c \<in> UType ` set tokens then Some (of_nat (total c tokens)) else None)"
    using sum_tokens_ok [OF sum] by auto
  have perm: "mset (mapRange (token E) m) = mset m" using assms(1) by (simp add: ranges_over_def)
  then have set_eq: "set (mapRange (token E) m) = set m" by (rule mset_eq_setD)
  have codes: "map Code am = map fst (mapRange (token E) m)" by (auto simp: am)
  have "mset (map Code am) = mset (map fst m)" using perm by (simp add: codes)
  then have "distinct (map Code am)" using m(1) mset_eq_imp_distinct_iff by metis
  moreover have "Code ` set am = fst ` set m" using set_eq by (force simp: am)
  moreover have "fst ` set m = UType ` set tokens"
    using m(3) by (auto simp: dom_map_of_conv_image_fst [symmetric] split: if_splits)
  moreover have "unat (Value a) = total (Code a) tokens mod 2 ^ 64" if "a \<in> set am" for a
  proof -
    obtain c v where "(c, v) \<in> set m" and a: "a = \<lparr>Code = c, Value = v\<rparr>"
      using \<open>a \<in> set am\<close> set_eq by (auto simp: am)
    then have "map_of m c = Some v" using m(1) by simp
    then have "v = of_nat (total c tokens)" using m(3) [of c] by (auto split: if_splits)
    then show ?thesis by (simp add: a unsigned_of_nat take_bit_eq_mod)
  qed
  ultimately show ?thesis using reads m(2) by metis
qed

text \<open>
  C20: \<open>Balance\<close>, which asks the wallet for one type, agrees with \<open>Balances\<close>, which adds up the
  wallet's unspent tokens, whenever the wallet's answer is the sum of the same tokens: also when
  that sum does not fit in 64 bits, where both report it modulo \<open>2 ^ 64\<close>.
\<close>

theorem balance_agrees:
  assumes "ranges_over E"
    and all: "FSC_Balances E wallet tmsID w = (Ok am, es, w')"
    and one: "FSC_Balance E wallet code tmsID w = (Ok a, fs, w'')"
    and wallet: "\<And>wal w tokens w1. listUnspentTokens (token E) wal w = (Ok tokens, w1) \<Longrightarrow>
      fst (walletBalance (token E) wal code w) = Ok (int (total code tokens))"
    and held: "b \<in> set am" "Code b = code"
  shows "a = b"
proof -
  obtain mgmt w1 wal w2 tokens m where
    mgmt: "getManagementService (token E) (ServiceOpts tmsID []) w = (Ok mgmt, w1)"
    and wal: "ownerWallet (token E) mgmt wallet w1 = (Ok wal, w2)"
    and tokens: "listUnspentTokens (token E) wal w2 = (Ok tokens, w')"
    and sum: "sum_tokens tokens [] = Inr m"
    and am: "am = map (\<lambda>(code, val). \<lparr>Code = code, Value = val\<rparr>) (mapRange (token E) m)"
    using all by (rule balances_run)
  have "mset (mapRange (token E) m) = mset m" using assms(1) by (simp add: ranges_over_def)
  then have "(code, Value b) \<in> set m" using held mset_eq_setD by (fastforce simp: am)
  then have "Value b = of_nat (total code tokens)"
    using sum_tokens_ok [OF sum] by (auto simp: map_of_eq_Some_iff split: if_splits
        dest!: spec [of _ code] Some_eq_map_of_iff [THEN iffD2, rotated])
  moreover obtain w3 where "walletBalance (token E) wal code w2 = (Ok (int (total code tokens)), w3)"
    using wallet [OF tokens] by (metis prod.collapse)
  ultimately have "Value b = of_nat (total code tokens)" "a = \<lparr>Code = code, Value = of_nat (total code tokens)\<rparr>"
    using one mgmt wal
    by (auto simp: FSC_Balance_def andThen_def ext_def onError_def wrapErr_def ret_def api_defs big_Uint64_def)
  then show ?thesis using held(2) by (cases a; cases b) simp
qed

subsection \<open>The transaction history\<close>

text \<open>What an iterator yields from a world on, until it says that it has no more.\<close>

inductive yields :: "('w, 'h) env \<Rightarrow> 'h \<Rightarrow> 'w \<Rightarrow> transaction_record list \<Rightarrow> 'w \<Rightarrow> bool" for E it where
  finish: "itemsNext (token E) it w = (Ok None, w1) \<Longrightarrow> yields E it w [] w1"
| more: "itemsNext (token E) it w = (Ok (Some tx), w1) \<Longrightarrow> yields E it w1 txs w2 \<Longrightarrow>
    yields E it w (tx # txs) w2"

lemma drain_yields:
  assumes "yields E it w txs w'" and "length txs < fuel"
  shows "\<exists>es. drain E it fuel acc w = (Ok (Some (acc @ txs)), es, w')"
  using assms
proof (induction arbitrary: fuel acc rule: yields.induct)
  case (finish w w1)
  then obtain n where "fuel = Suc n" by (cases fuel) auto
  with finish show ?case by (simp add: andThen_def ext_def ret_def api_defs)
next
  case (more w tx w1 txs w2)
  then obtain n where n: "fuel = Suc n" "length txs < n" by (cases fuel) auto
  from more.IH [OF n(2), of "acc @ [tx]"] obtain es where
    "drain E it n (acc @ [tx]) w1 = (Ok (Some (acc @ tx # txs)), es, w2)" by auto
  with more.hyps(1) n(1) show ?case by (simp add: andThen_def ext_def api_defs)
qed

lemma drain_sound:
  "drain E it fuel acc w = (Ok (Some txs), es, w') \<Longrightarrow> \<exists>xs. txs = acc @ xs \<and> yields E it w xs w'"
proof (induction fuel arbitrary: acc w es)
  case (Suc fuel)
  then obtain tx w1 where n: "itemsNext (token E) it w = (Ok tx, w1)"
    by (auto simp: andThen_def ext_def api_defs split: prod.splits res.splits)
  show ?case
  proof (cases tx)
    case None
    with Suc.prems n show ?thesis
      by (auto simp: andThen_def ext_def ret_def api_defs intro: yields.finish)
  next
    case (Some t)
    with Suc.prems n obtain fs where "drain E it fuel (acc @ [t]) w1 = (Ok (Some txs), fs, w')"
      by (auto simp: andThen_def ext_def ret_def api_defs split: prod.splits)
    from Suc.IH [OF this] Some n show ?thesis by (auto intro: yields.more)
  qed
qed (simp add: ret_def)

text \<open>
  C26: \<open>GetTransactions\<close> terminates and returns the history whenever the iterator ends: if the
  page the database returned yields the records \<open>txs\<close>, then every bound on the number of steps
  above their number gives exactly \<open>txs\<close>, in the order of the iterator.
\<close>

theorem get_transactions_returns:
  assumes "getManagementService (token E) [] w = (Ok mgmt, w1)"
    and "newOwner (ttx E) mgmt w1 = (Some owner, w2)"
    and "paginationOffset (token E) 0 (defaultMaxPageSize (token E)) w2 = (Ok page, w3)"
    and "transactions (token E) owner
      \<lparr>SenderWallet = wallet, RecipientWallet = wallet, Statuses = [Confirmed, Pending],
       ExcludeToSelf = True\<rparr> page w3 = (Ok (Some it), w4)"
    and yields: "yields E it w4 txs w5" and fuel: "length txs < fuel"
  shows "\<exists>es w6. FSC_GetTransactions E fuel wallet w = (Ok (Some txs), es, w6)"
proof -
  obtain es where "drain E it fuel [] w4 = (Ok (Some txs), es, w5)"
    using drain_yields [OF yields fuel, of "[]"] by auto
  with assms(1-4) show ?thesis
    by (auto simp: FSC_GetTransactions_def Let_def andThen_def wrapErr_def onError_def ext_def extv_def
        ret_def deferred_def api_defs split: prod.split)
qed

text \<open>
  C27: The iterator over the history is closed on every path: in a run that read from it, also
  one that failed while reading, the last call is the one that closes the iterator it read from,
  and it was not closed before.
\<close>

theorem history_iterator_closed:
  assumes run: "FSC_GetTransactions E fuel wallet w = (r, es, w')"
    and read: "Event (Token (CNext it)) b v \<in> set es"
  shows "op (last es) = Token (CClose it) \<and> (\<forall>e \<in> set (butlast es). op e \<noteq> Token (CClose it))"
proof -
  let ?D = "\<lambda>es r. (\<forall>it b v. Event (Token (CNext it)) b v \<in> set es \<longrightarrow>
    op (last es) = Token (CClose it) \<and> (\<forall>e \<in> set (butlast es). op e \<noteq> Token (CClose it)))"
  have drain: "conf collect ds (drain E it fuel acc)
      (\<lambda>r fs w1. \<exists>gs. fs = ds @ gs \<and> (\<forall>e \<in> set gs. op e = Token (CNext it))) w1"
    for ds it acc w1
  proof (induction fuel arbitrary: ds acc w1)
    case (Suc fuel)
    show ?case
      by (auto simp: api_defs prog_simps split: option.split intro!: conf_mono [OF Suc.IH])
  qed (simp add: prog_simps)
  have "conf collect [] (FSC_GetTransactions E fuel wallet) (\<lambda>r fs w1. ?D fs r) w"
    by (auto simp: FSC_GetTransactions_def Let_def api_defs prog_simps cong: conf_cong
        split: option.split intro!: conf_mono [OF drain])
      (auto split: res.split)
  from collectD [OF this run] read show ?thesis by blast
qed

end
