(* ===== verification/Owner_Types.thy ===== *)
theory Owner_Types imports Go_Json Owner_Accounts begin

text \<open>
  The request and response types of the owner's and the issuer's HTTP API
  (\<open>tokens/owner/routes/routes.gen.go\<close>, \<open>tokens/issuer/routes/routes.gen.go\<close>), with the decoders
  \<open>encoding/json\<close> derives from their field tags. A field that is a pointer is an \<open>option\<close>.
\<close>

record counterparty =
  Account :: string
  Node :: string

record redeem_request =
  RqAmount :: amount
  RqMessage :: "string option"

record transfer_request =
  TqAmount :: amount
  TqCounterparty :: counterparty
  TqMessage :: "string option"

record lock_request =
  LqAmount :: amount
  LqCounterparty :: counterparty
  LqDeadline :: i64
  LqHash :: "bytes option"
  LqTmsId :: "tmsid option"

record claim_request =
  CqPreimage :: bytes
  CqTmsId :: "tmsid option"

record reclaim_request =
  KqHash :: bytes
  KqTmsId :: "tmsid option"

record issue_request =
  IqAmount :: amount
  IqCounterparty :: counterparty
  IqMessage :: "string option"
  IqTmsId :: "tmsid option"

subsection \<open>Zero values and decoders\<close>

definition zero_amount :: amount where
  "zero_amount = \<lparr>Code = '''', Value = 0\<rparr>"

definition decode_Amount :: "amount decoder" where
  "decode_Amount = decode_struct
     [field ''code'' decode_string Code (\<lambda>x s. s\<lparr>Code := x\<rparr>),
      field ''value'' decode_uint64 Value (\<lambda>x s. s\<lparr>Value := x\<rparr>)]"

definition zero_counterparty :: counterparty where
  "zero_counterparty = \<lparr>Account = '''', Node = ''''\<rparr>"

definition decode_Counterparty :: "counterparty decoder" where
  "decode_Counterparty = decode_struct
     [field ''account'' decode_string Account (\<lambda>x s. s\<lparr>Account := x\<rparr>),
      field ''node'' decode_string Node (\<lambda>x s. s\<lparr>Node := x\<rparr>)]"

definition zero_tmsid :: tmsid where
  "zero_tmsid = \<lparr>Network = '''', Channel = '''', Namespace = ''''\<rparr>"

definition decode_TMSID :: "tmsid decoder" where
  "decode_TMSID = decode_struct
     [field ''channel'' decode_string Channel (\<lambda>x s. s\<lparr>Channel := x\<rparr>),
      field ''namespace'' decode_string Namespace (\<lambda>x s. s\<lparr>Namespace := x\<rparr>),
      field ''network'' decode_string Network (\<lambda>x s. s\<lparr>Network := x\<rparr>)]"

definition decode_RedeemRequest :: "redeem_request decoder" where
  "decode_RedeemRequest = decode_struct
     [field ''amount'' decode_Amount RqAmount (\<lambda>x s. s\<lparr>RqAmount := x\<rparr>),
      field ''message'' (decode_ptr '''' decode_string) RqMessage (\<lambda>x s. s\<lparr>RqMessage := x\<rparr>)]"

definition zero_redeem_request :: redeem_request where
  "zero_redeem_request = \<lparr>RqAmount = zero_amount, RqMessage = None\<rparr>"

definition decode_TransferRequest :: "transfer_request decoder" where
  "decode_TransferRequest = decode_struct
     [field ''amount'' decode_Amount TqAmount (\<lambda>x s. s\<lparr>TqAmount := x\<rparr>),
      field ''counterparty'' decode_Counterparty TqCounterparty (\<lambda>x s. s\<lparr>TqCounterparty := x\<rparr>),
      field ''message'' (decode_ptr '''' decode_string) TqMessage (\<lambda>x s. s\<lparr>TqMessage := x\<rparr>)]"

definition zero_transfer_request :: transfer_request where
  "zero_transfer_request =
     \<lparr>TqAmount = zero_amount, TqCounterparty = zero_counterparty, TqMessage = None\<rparr>"

definition decode_LockRequest :: "lock_request decoder" where
  "decode_LockRequest = decode_struct
     [field ''amount'' decode_Amount LqAmount (\<lambda>x s. s\<lparr>LqAmount := x\<rparr>),
      field ''counterparty'' decode_Counterparty LqCounterparty (\<lambda>x s. s\<lparr>LqCounterparty := x\<rparr>),
      field ''deadline'' decode_int64 LqDeadline (\<lambda>x s. s\<lparr>LqDeadline := x\<rparr>),
      field ''hash'' (decode_ptr [] decode_bytes) LqHash (\<lambda>x s. s\<lparr>LqHash := x\<rparr>),
      field ''tmsId'' (decode_ptr zero_tmsid decode_TMSID) LqTmsId (\<lambda>x s. s\<lparr>LqTmsId := x\<rparr>)]"

definition zero_lock_request :: lock_request where
  "zero_lock_request =
     \<lparr>LqAmount = zero_amount, LqCounterparty = zero_counterparty, LqDeadline = 0, LqHash = None,
      LqTmsId = None\<rparr>"

definition decode_ClaimRequest :: "claim_request decoder" where
  "decode_ClaimRequest = decode_struct
     [field ''preimage'' decode_bytes CqPreimage (\<lambda>x s. s\<lparr>CqPreimage := x\<rparr>),
      field ''tmsId'' (decode_ptr zero_tmsid decode_TMSID) CqTmsId (\<lambda>x s. s\<lparr>CqTmsId := x\<rparr>)]"

definition zero_claim_request :: claim_request where
  "zero_claim_request = \<lparr>CqPreimage = [], CqTmsId = None\<rparr>"

definition decode_ReclaimRequest :: "reclaim_request decoder" where
  "decode_ReclaimRequest = decode_struct
     [field ''hash'' decode_bytes KqHash (\<lambda>x s. s\<lparr>KqHash := x\<rparr>),
      field ''tmsId'' (decode_ptr zero_tmsid decode_TMSID) KqTmsId (\<lambda>x s. s\<lparr>KqTmsId := x\<rparr>)]"

definition zero_reclaim_request :: reclaim_request where
  "zero_reclaim_request = \<lparr>KqHash = [], KqTmsId = None\<rparr>"

definition decode_IssueRequest :: "issue_request decoder" where
  "decode_IssueRequest = decode_struct
     [field ''amount'' decode_Amount IqAmount (\<lambda>x s. s\<lparr>IqAmount := x\<rparr>),
      field ''counterparty'' decode_Counterparty IqCounterparty (\<lambda>x s. s\<lparr>IqCounterparty := x\<rparr>),
      field ''message'' (decode_ptr '''' decode_string) IqMessage (\<lambda>x s. s\<lparr>IqMessage := x\<rparr>),
      field ''tmsId'' (decode_ptr zero_tmsid decode_TMSID) IqTmsId (\<lambda>x s. s\<lparr>IqTmsId := x\<rparr>)]"

definition zero_issue_request :: issue_request where
  "zero_issue_request =
     \<lparr>IqAmount = zero_amount, IqCounterparty = zero_counterparty, IqMessage = None, IqTmsId = None\<rparr>"

subsection \<open>Responses\<close>

record account =
  AccBalance :: "amount list"
  AccId :: string

record transaction_json =
  TxAmount :: amount
  TxId :: string
  TxMessage :: string
  TxRecipient :: string
  TxSender :: string
  TxStatus :: string
  TxTimestamp :: int

record lock_payload =
  PHash :: "bytes option"
  PPreimage :: "bytes option"
  PTxId :: string

text \<open>The bodies of the JSON responses; \<open>ErrorBody\<close> is \<open>Error\<close> with its message and payload.\<close>

datatype api_json =
  AccountSuccess string account
| AccountsSuccess string "account list"
| TransactionsSuccess string "transaction_json list"
| RedeemSuccess string string
| TransferSuccess string string
| ClaimSuccess string string
| ReclaimSuccess string string
| IssueSuccess string string
| LockSuccess string lock_payload
| HealthSuccess string
| ErrorBody string string

fun payload_id :: "api_json \<Rightarrow> string option" where
  "payload_id (RedeemSuccess m i) = Some i"
| "payload_id (TransferSuccess m i) = Some i"
| "payload_id (ClaimSuccess m i) = Some i"
| "payload_id (ReclaimSuccess m i) = Some i"
| "payload_id (IssueSuccess m i) = Some i"
| "payload_id (LockSuccess m l) = Some (PTxId l)"
| "payload_id (AccountSuccess m a) = None"
| "payload_id (AccountsSuccess m as) = None"
| "payload_id (TransactionsSuccess m ts) = None"
| "payload_id (HealthSuccess m) = None"
| "payload_id (ErrorBody m p) = None"

text \<open>A slice of bytes: \<open>nil\<close> is \<open>null\<close>, any other its base64 text.\<close>

definition encode_slice :: "bytes option \<Rightarrow> json" where
  "encode_slice s = (case s of None \<Rightarrow> JNull | Some bs \<Rightarrow> encode_bytes bs)"

definition encode_LockResult :: "lock_payload \<Rightarrow> json" where
  "encode_LockResult l =
     JObj ([(''hash'', encode_slice (PHash l))] @
       (case PPreimage l of None \<Rightarrow> [] | Some p \<Rightarrow> [(''preimage'', encode_bytes p)]) @
       [(''txId'', JStr (PTxId l))])"

end
