(* ===== verification/Htlc.thy ===== *)
theory Htlc imports View_Utils Go_Numbers begin

text \<open>
  \<open>tokens/owner/service/htlc_lock.go\<close>, \<open>htlc_claim.go\<close>, \<open>htlc_reclaim.go\<close>: locking tokens in a
  hash time-locked contract, accepting a lock as its recipient, claiming with the pre-image and
  reclaiming after the deadline.
\<close>

record lock_options =
  LTMSID :: "tmsid option"
  LWallet :: string
  LTokenType :: string
  LQuantity :: u64
  LRecipient :: string
  LRecipientNode :: string
  LHash :: "bytes option"
  LReclamationDeadline :: i64

record claim_options =
  CTMSID :: "tmsid option"
  CWallet :: string
  CPreImage :: bytes

record reclaim_options =
  KTMSID :: "tmsid option"
  KWallet :: string
  KHash :: bytes

text \<open>
  \<open>outputs.ScriptAt(0).HashInfo.Hash\<close>: the first output's script; a \<open>nil\<close> script, or no
  output at all, is a panic.
\<close>

definition script_hash_at0 :: "htlc_script option list \<Rightarrow> ('c, 'w, bytes option) prog" where
  "script_hash_at0 outputs =
     (case outputs of
        Some script # _ \<Rightarrow> ret (ScriptHash script)
      | _ \<Rightarrow> panic ''invalid memory address or nil pointer dereference'')"

definition LockView_Call :: "('w, 'h) env \<Rightarrow> lock_options \<Rightarrow> ('h call, 'w, any) prog" where
  "LockView_Call E v =
     andThen
       (if LRecipientNode v \<noteq> ''''
        then wrapErr ''failed binding recipient to node'' (Bind E (LRecipientNode v) (LRecipient v))
        else ret ()) (\<lambda>_.
     andThen
       (wrapErr ''failed exchanging recipient identity''
          (ExchangeRecipientIdentities E (LWallet v) (LRecipient v) (ServiceOpts (LTMSID v) [])))
       (\<lambda>(me, recipient).
     andThen
       (wrapErr ''failed creating htlc transaction'' (htlc_NewTransaction E (TxOpts (LTMSID v) []))) (\<lambda>tx.
     andThen (htlc_GetWallet E (LWallet v) (ServiceOpts (LTMSID v) [])) (\<lambda>w.
       case w of
         None \<Rightarrow> throw (New (''sender wallet ['' @ LWallet v @ ''] not found''))
       | Some senderWallet \<Rightarrow>
     andThen
       (wrapErr ''failed adding lock operation''
          (Lock E tx senderWallet me (LTokenType v) (LQuantity v) recipient
             (LReclamationDeadline v) (LHash v))) (\<lambda>preImage.
     andThen
       (sign_and_order E (HtlcCollectEndorsementsView tx) ''failed to collect endorsements for htlc transaction''
          (HtlcOrderingAndFinalityView tx) ''failed to commit htlc transaction'') (\<lambda>_.
     andThen (wrapErr ''failed getting outputs'' (htlc_Outputs E tx)) (\<lambda>outputs.
     andThen (script_hash_at0 outputs) (\<lambda>h.
     ret (ALockResult \<lparr>TxID = txID (ttx E) tx, PreImage = preImage, Hash = h\<rparr>)))))))))"

definition ClaimView_Call :: "('w, 'h) env \<Rightarrow> claim_options \<Rightarrow> ('h call, 'w, any) prog" where
  "ClaimView_Call E v =
     andThen (htlc_GetWallet E (CWallet v) (ServiceOpts (CTMSID v) [])) (\<lambda>w.
       case w of
         None \<Rightarrow> throw (New (''wallet ['' @ CWallet v @ ''] not found''))
       | Some claimWallet \<Rightarrow>
     andThen
       (wrapErr ''htlc script has expired or does not exist''
          (ListByPreImage E claimWallet (CPreImage v))) (\<lambda>matched.
       case matched of
         [tok] \<Rightarrow>
     andThen
       (wrapErr ''failed creating htlc transaction'' (htlc_NewTransaction E (TxOpts (CTMSID v) []))) (\<lambda>tx.
     andThen
       (wrapErr (''failed adding claim for ['' @ tokenID (htlc E) tok @ '']'')
          (Claim E tx claimWallet tok (CPreImage v))) (\<lambda>_.
     andThen
       (sign_and_order E (HtlcCollectEndorsementsView tx) ''failed to collect endorsements on htlc transaction''
          (HtlcOrderingAndFinalityView tx) ''failed to commit htlc transaction'') (\<lambda>_.
     ret (AString (txID (ttx E) tx)))))
       | _ \<Rightarrow> throw (New (''expected exactly one htlc script to match, got ['' @
                  Itoa (int (length matched)) @ '']''))))"

definition ReclaimView_Call :: "('w, 'h) env \<Rightarrow> reclaim_options \<Rightarrow> ('h call, 'w, any) prog" where
  "ReclaimView_Call E v =
     andThen (htlc_GetWallet E (KWallet v) (ServiceOpts (KTMSID v) [])) (\<lambda>w.
       case w of
         None \<Rightarrow> throw (New (''sender wallet ['' @ KWallet v @ ''] not found''))
       | Some senderWallet \<Rightarrow>
     andThen
       (wrapErr ''cannot retrieve expired htlc token'' (GetExpiredByHash E senderWallet (KHash v))) (\<lambda>expired.
     andThen
       (wrapErr ''failed creating htlc transaction'' (htlc_NewTransaction E (TxOpts (KTMSID v) []))) (\<lambda>tx.
     andThen
       (wrapErr (''failed adding reclaim for ['' @ tokenID (htlc E) expired @ '']'')
          (Reclaim E tx senderWallet expired)) (\<lambda>_.
     andThen
       (sign_and_order E (HtlcCollectEndorsementsView tx) ''failed to collect endorsements on htlc transaction''
          (HtlcOrderingAndFinalityView tx) ''failed to commit htlc transaction'') (\<lambda>_.
     ret (AString (txID (ttx E) tx)))))))"

text \<open>
  The recipient's side of a lock. \<open>byScript\<close> is the library's \<open>outputs.ByScript()\<close>: the scripts
  of the outputs that carry one.
\<close>

definition LockAcceptView_Call :: "('w, 'h) env \<Rightarrow> ('h call, 'w, any) prog" where
  "LockAcceptView_Call E =
     andThen
       (wrapErr ''failed to respond to identity exchange'' (RespondExchangeRecipientIdentities E))
       (\<lambda>(me, sender).
     andThen (wrapErr ''failed to receive htlc transaction'' (htlc_ReceiveTransaction E)) (\<lambda>tx.
     andThen (wrapErr ''failed getting outputs'' (htlc_Outputs E tx)) (\<lambda>outputs.
       let scripted = byScript (htlc E) outputs in
       case scripted of
         [script] \<Rightarrow>
     andThen (wrapErr ''script is not valid'' (ScriptValidate E script)) (\<lambda>_.
       if \<not> identityEqual (fsc E) me (SRecipient script)
       then throw (New ''expected me as recipient of the script'')
       else if \<not> identityEqual (fsc E) sender (Sender script)
       then throw (New ''expected sender as sender of the script'')
       else
     andThen (wrapErr ''failed to accept locked tokens'' (RunView E (HtlcAcceptView tx))) (\<lambda>_.
     andThen (wrapErr ''locked tokens were not committed'' (RunView E (HtlcFinalityView tx))) (\<lambda>_.
     ret (AString (txID (ttx E) tx)))))
       | _ \<Rightarrow> throw (New (''expected exactly one htlc output, got ['' @
                  Itoa (int (length scripted)) @ '']'')))))"

definition FSC_Lock ::
  "('w, 'h) env \<Rightarrow> string \<Rightarrow> u64 \<Rightarrow> string \<Rightarrow> string \<Rightarrow> string \<Rightarrow> i64 \<Rightarrow> bytes option \<Rightarrow> tmsid option \<Rightarrow>
   ('h call, 'w, lock_result) prog" where
  "FSC_Lock E tokenType quantity sender recipient recipientNode deadline hash tmsID =
     andThen (GetManager E) (\<lambda>_.
     andThen
       (InitiateView E
          (LockView_Call E
             \<lparr>LTMSID = tmsID, LWallet = sender, LTokenType = tokenType, LQuantity = quantity,
              LRecipient = recipient, LRecipientNode = recipientNode, LHash = hash,
              LReclamationDeadline = deadline\<rparr>)) (\<lambda>res.
       case res of
         ALockResult result \<Rightarrow> ret result
       | _ \<Rightarrow> throw (New ''cannot parse lock response'')))"

definition FSC_Claim ::
  "('w, 'h) env \<Rightarrow> string \<Rightarrow> bytes \<Rightarrow> tmsid option \<Rightarrow> ('h call, 'w, string) prog" where
  "FSC_Claim E wallet preImage tmsID =
     initiate_txid E
       (ClaimView_Call E \<lparr>CTMSID = tmsID, CWallet = wallet, CPreImage = preImage\<rparr>)
       ''cannot parse claim response''"

definition FSC_Reclaim ::
  "('w, 'h) env \<Rightarrow> string \<Rightarrow> bytes \<Rightarrow> tmsid option \<Rightarrow> ('h call, 'w, string) prog" where
  "FSC_Reclaim E wallet hash tmsID =
     initiate_txid E
       (ReclaimView_Call E \<lparr>KTMSID = tmsID, KWallet = wallet, KHash = hash\<rparr>)
       ''cannot parse reclaim response''"

subsection \<open>The views follow the settlement protocol\<close>

lemma claim_settled:
  "conf settle_step Preparing (ClaimView_Call E v) (\<lambda>r p w1. settled (txID (ttx E)) string_id r p) w"
  by (simp add: ClaimView_Call_def sign_and_order_def api_defs prog_simps
      cong: conf_cong split: option.split list.split)

lemma reclaim_settled:
  "conf settle_step Preparing (ReclaimView_Call E v) (\<lambda>r p w1. settled (txID (ttx E)) string_id r p) w"
  by (simp add: ReclaimView_Call_def sign_and_order_def api_defs prog_simps
      cong: conf_cong split: option.split)

lemma lock_follows:
  "conf settle_step Preparing (LockView_Call E v)
    (\<lambda>r p w1. \<forall>a. r = Ok a \<longrightarrow> (\<exists>tx. p = Committed tx \<and> lock_id a = Some (txID (ttx E) tx))) w"
  by (simp add: LockView_Call_def script_hash_at0_def sign_and_order_def api_defs prog_simps
      split_def cong: conf_cong split: option.split list.split)

lemma claim_linked: "linked (ClaimView_Call E v)"
  unfolding ClaimView_Call_def
  by (intro linked_andThen linked_onError linked_wrapErr
      | simp split: option.split list.split | safe)+

lemma reclaim_linked: "linked (ReclaimView_Call E v)"
  unfolding ReclaimView_Call_def
  by (intro linked_andThen linked_onError linked_wrapErr | simp split: option.split | safe)+

interpretation claim: atomic_view "txID (ttx E)" "ClaimView_Call E" string_id for E
  by (rule atomic_viewI [OF claim_settled claim_linked])

interpretation reclaim: atomic_view "txID (ttx E)" "ReclaimView_Call E" string_id for E
  by (rule atomic_viewI [OF reclaim_settled reclaim_linked])

interpretation lock: settlement_view "txID (ttx E)" "LockView_Call E" lock_id for E
  by unfold_locales (rule lock_follows)

subsection \<open>The recipient's side\<close>

text \<open>
  C16: The recipient of a lock accepts it (hands it to the accept view, which signs it) only if
  the transaction it received carries exactly one script, that script is valid, it names the
  identity this node answered the exchange with as its recipient, and it names the identity the
  sender gave in the exchange as its sender.
\<close>

theorem lock_accept_only_valid:
  assumes run: "LockAcceptView_Call E w = (r, es, w')"
    and accept: "Event (Fsc (CRunView (HtlcAcceptView tx))) b v \<in> set es"
  shows "\<exists>me sender w1 w2 outs w3 script w4.
    respondExchangeRecipientIdentities (htlc E) w = (Ok (me, sender), w1) \<and>
    htlcReceiveTransaction (htlc E) w1 = (Ok tx, w2) \<and>
    htlcOutputs (htlc E) tx w2 = (Ok outs, w3) \<and> byScript (htlc E) outs = [script] \<and>
    scriptValidate (htlc E) script w3 = (Ok (), w4) \<and>
    identityEqual (fsc E) me (SRecipient script) \<and> identityEqual (fsc E) sender (Sender script)"
    (is ?G)
proof (rule ccontr)
  let ?P = "\<lambda>e. op e = Fsc (CRunView (HtlcAcceptView tx))"
  assume "\<not> ?G"
  then have "conf (forbid ?P) () (LockAcceptView_Call E) (\<lambda>r p w1. True) w"
    by (auto simp: LockAcceptView_Call_def Let_def api_defs prog_simps cong: conf_cong
        split: list.split)
  with forbidD(2) [OF this run accept] show False by simp
qed

text \<open>
  C22: What a lock reports is what was locked: the id of the transaction it had endorsed and
  ordered, the hash in the script of the first output of that transaction, and the pre-image the
  lock operation returned for the requested type, quantity, deadline and hash, with the identities
  both sides exchanged as sender and recipient.
\<close>

theorem lock_reports_script:
  assumes run: "LockView_Call E v w = (Ok a, es, w')"
  shows "\<exists>l me recipient wal tx w1 w2 w3 w4 script rest.
    a = ALockResult l \<and> TxID l = txID (ttx E) tx \<and>
    exchangeRecipientIdentities (htlc E) (LWallet v) (LRecipient v) (ServiceOpts (LTMSID v) []) w1 =
      (Ok (me, recipient), w2) \<and>
    txLock (htlc E) tx wal me (LTokenType v) (LQuantity v) recipient (LReclamationDeadline v) (LHash v) w3 =
      (Ok (PreImage l), w4) \<and>
    Event (Htlc (CLock tx wal me (LTokenType v) (LQuantity v) recipient (LReclamationDeadline v) (LHash v)))
      True w4 \<in> set es \<and>
    (\<exists>w5. Event (Fsc (CRunView (HtlcCollectEndorsementsView tx))) True w5 \<in> set es) \<and>
    (\<exists>w6. Event (Fsc (CRunView (HtlcOrderingAndFinalityView tx))) True w6 \<in> set es) \<and>
    htlcOutputs (htlc E) tx (last_world w (butlast es)) = (Ok (Some script # rest), w') \<and>
    Hash l = ScriptHash script"
    (is "?G a es w'")
proof -
  have "conf collect [] (LockView_Call E v) (\<lambda>r es w'. \<forall>a. r = Ok a \<longrightarrow> ?G a es w') w"
    by (auto simp: LockView_Call_def script_hash_at0_def sign_and_order_def api_defs prog_simps
        last_world_def cong: conf_cong split: option.split list.split)
  from collectD [OF this run] show ?thesis by simp
qed

text \<open>
  C23: A lock can fail after its transaction was confirmed, and then the pre-image it generated is
  lost to the caller; but only in one way: the last call read the outputs of the transaction just
  ordered, and either that call failed or the first output has no script.
\<close>

theorem lock_failure_after_commit:
  assumes run: "LockView_Call E v w = (r, es, w')" and failed: "\<forall>a. r \<noteq> Ok a"
    and committed: "o1 \<in> set (order_events es)" "succeeded o1"
  shows "\<exists>tx w1 x. ev_kind o1 = Order tx \<and> op (last es) = Htlc (CHtlcOutputs tx) \<and>
    htlcOutputs (htlc E) tx w1 = (x, w') \<and> (\<forall>script rest. x \<noteq> Ok (Some script # rest))"
    (is "?G es w'")
proof -
  have "conf collect [] (LockView_Call E v)
    (\<lambda>r es w'. (\<forall>a. r \<noteq> Ok a) \<longrightarrow> (\<forall>o1 \<in> set (order_events es). succeeded o1 \<longrightarrow>
      (\<exists>tx w1 x. ev_kind o1 = Order tx \<and> op (last es) = Htlc (CHtlcOutputs tx) \<and>
        htlcOutputs (htlc E) tx w1 = (x, w') \<and> (\<forall>script rest. x \<noteq> Ok (Some script # rest))))) w"
    by (auto simp: LockView_Call_def script_hash_at0_def sign_and_order_def api_defs prog_simps
        cong: conf_cong split: option.split list.split)
  from collectD [OF this run] failed committed show ?thesis by blast
qed

end
