(* ===== verification/Owner_Routes.thy ===== *)
theory Owner_Routes imports Http Owner_Types Htlc begin

text \<open>
  The owner's HTTP API: the operations of \<open>Server\<close> (\<open>tokens/owner/routes/routes.go\<close>), the
  generated handlers that call them and the route table (\<open>routes.gen.go\<close>). \<open>owner_api\<close> is the
  handler \<open>main\<close> serves.

  Binding of path and query parameters is done by a library (\<open>oapi-codegen/runtime\<close>), the record
  \<open>oapi\<close>. The fuel is that of the history loop; a request for the history whose fuel runs out
  ends as the panic \<open>out_of_fuel\<close>.
\<close>

record oapi =
  bindPath :: "string \<Rightarrow> string \<Rightarrow> error + string"
  bindQuery :: "string \<Rightarrow> (string \<times> string list) list \<Rightarrow> error + string option"

definition out_of_fuel :: string where "out_of_fuel = ''out of fuel''"

definition nil_dereference :: string where
  "nil_dereference = ''invalid memory address or nil pointer dereference''"

subsection \<open>Conversions\<close>

definition toTMSID :: "tmsid option \<Rightarrow> tmsid option" where
  "toTMSID i =
     (case i of
        None \<Rightarrow> None
      | Some i \<Rightarrow> Some \<lparr>Network = Network i, Channel = Channel i, Namespace = Namespace i\<rparr>)"

definition toTMSIDFromParams :: "string option \<Rightarrow> string option \<Rightarrow> string option \<Rightarrow> tmsid option" where
  "toTMSIDFromParams network channel namespace =
     (case network of
        None \<Rightarrow> None
      | Some n \<Rightarrow>
          (let i = \<lparr>Network = n, Channel = '''', Namespace = ''''\<rparr>;
               i = (case channel of None \<Rightarrow> i | Some c \<Rightarrow> i\<lparr>Channel := c\<rparr>);
               i = (case namespace of None \<Rightarrow> i | Some s \<Rightarrow> i\<lparr>Namespace := s\<rparr>)
           in Some i))"

lemma toTMSID_same [simp]: "toTMSID i = i"
  by (cases i) (simp_all add: toTMSID_def)

text \<open>Durations are in nanoseconds, so a second is \<open>10 ^ 9\<close>; the product is a 64-bit one.\<close>

definition Second :: i64 where "Second = 1000000000"

definition toDeadline :: "i64 \<Rightarrow> i64 \<times> bool" where
  "toDeadline seconds =
     (if sint seconds < 1 \<or> (2 ^ 63 - 1) div sint Second < sint seconds then (0, False)
      else (seconds * Second, True))"

definition badRequest :: "string \<Rightarrow> api_json" where
  "badRequest message = ErrorBody ''bad request'' message"

subsection \<open>The operations of Server\<close>

record account_params =
  PCode :: "string option"
  PNetwork :: "string option"
  PChannel :: "string option"
  PNamespace :: "string option"

definition Server_OwnerAccounts :: "('h call, 'w, nat \<times> api_json) prog" where
  "Server_OwnerAccounts = throw (New ''not implemented: /owner/accounts'')"

definition Server_OwnerAccount ::
  "('w, 'h) env \<Rightarrow> string \<Rightarrow> account_params \<Rightarrow> ('h call, 'w, nat \<times> api_json) prog" where
  "Server_OwnerAccount E acc params =
     (let tmsID = toTMSIDFromParams (PNetwork params) (PChannel params) (PNamespace params) in
      case PCode params of
        Some code \<Rightarrow>
          andThen (FSC_Balance E acc code tmsID) (\<lambda>bal.
          ret (StatusOK, AccountSuccess ''ok''
                 \<lparr>AccBalance = [\<lparr>Code = Code bal, Value = Value bal\<rparr>], AccId = acc\<rparr>))
      | None \<Rightarrow>
          andThen (FSC_Balances E acc tmsID) (\<lambda>bals.
          ret (StatusOK, AccountSuccess ''ok''
                 \<lparr>AccBalance = map (\<lambda>b. \<lparr>Code = Code b, Value = Value b\<rparr>) bals, AccId = acc\<rparr>)))"

definition Server_Redeem ::
  "('w, 'h) env \<Rightarrow> string \<Rightarrow> redeem_request option \<Rightarrow> ('h call, 'w, nat \<times> api_json) prog" where
  "Server_Redeem E acc reqBody =
     (case reqBody of
        None \<Rightarrow> panic nil_dereference
      | Some b \<Rightarrow>
          let msg = (case RqMessage b of None \<Rightarrow> '''' | Some m \<Rightarrow> m) in
          andThen (owner_FSC_Redeem E (Code (RqAmount b)) (Value (RqAmount b)) acc msg) (\<lambda>res.
          ret (StatusOK, RedeemSuccess ''ok'' res)))"

definition transaction_json_of :: "('w, 'h) env \<Rightarrow> transaction_record \<Rightarrow> transaction_json" where
  "transaction_json_of E tx =
     \<lparr>TxAmount = \<lparr>Code = RecTokenType tx, Value = big_Uint64 (RecAmount tx)\<rparr>,
      TxId = RecTxID tx,
      TxMessage = (case ApplicationMetadata tx ''message'' of None \<Rightarrow> '''' | Some m \<Rightarrow> m),
      TxRecipient = RecipientEID tx,
      TxSender = SenderEID tx,
      TxStatus = txStatusMessage (token E) (RecStatus tx),
      TxTimestamp = Timestamp tx\<rparr>"

definition Server_OwnerTransactions ::
  "('w, 'h) env \<Rightarrow> nat \<Rightarrow> string \<Rightarrow> ('h call, 'w, nat \<times> api_json) prog" where
  "Server_OwnerTransactions E fuel acc =
     andThen (FSC_GetTransactions E fuel acc) (\<lambda>txs.
       case txs of
         None \<Rightarrow> panic out_of_fuel
       | Some txs \<Rightarrow> ret (StatusOK, TransactionsSuccess ''ok'' (map (transaction_json_of E) txs)))"

definition Server_Transfer ::
  "('w, 'h) env \<Rightarrow> string \<Rightarrow> transfer_request option \<Rightarrow> ('h call, 'w, nat \<times> api_json) prog" where
  "Server_Transfer E acc reqBody =
     (case reqBody of
        None \<Rightarrow> panic nil_dereference
      | Some b \<Rightarrow>
          let msg = (case TqMessage b of None \<Rightarrow> '''' | Some m \<Rightarrow> m) in
          andThen
            (FSC_Transfer E (Code (TqAmount b)) (Value (TqAmount b)) acc
               (Account (TqCounterparty b)) (Node (TqCounterparty b)) msg) (\<lambda>res.
          ret (StatusOK, TransferSuccess ''ok'' res)))"

definition sha256_Size :: nat where "sha256_Size = 32"

definition Server_Lock ::
  "('w, 'h) env \<Rightarrow> string \<Rightarrow> lock_request option \<Rightarrow> ('h call, 'w, nat \<times> api_json) prog" where
  "Server_Lock E acc reqBody =
     (case reqBody of
        None \<Rightarrow> panic nil_dereference
      | Some body \<Rightarrow>
          (case toDeadline (LqDeadline body) of (deadline, ok) \<Rightarrow>
            if \<not> ok then
              ret (StatusBadRequest, badRequest ''deadline must be a positive number of seconds'')
            else if (case LqHash body of None \<Rightarrow> False | Some h \<Rightarrow> length h \<noteq> sha256_Size) then
              ret (StatusBadRequest, badRequest ''hash must be a 32 byte SHA-256 digest'')
            else
              andThen
                (FSC_Lock E (Code (LqAmount body)) (Value (LqAmount body)) acc
                   (Account (LqCounterparty body)) (Node (LqCounterparty body))
                   deadline (LqHash body) (toTMSID (LqTmsId body))) (\<lambda>res.
              let payload = \<lparr>PHash = Hash res,
                             PPreimage = (if 0 < length (PreImage res) then Some (PreImage res) else None),
                             PTxId = TxID res\<rparr> in
              ret (StatusOK, LockSuccess ''ok'' payload))))"

definition Server_Claim ::
  "('w, 'h) env \<Rightarrow> string \<Rightarrow> claim_request option \<Rightarrow> ('h call, 'w, nat \<times> api_json) prog" where
  "Server_Claim E acc reqBody =
     (case reqBody of
        None \<Rightarrow> panic nil_dereference
      | Some b \<Rightarrow>
          if length (CqPreimage b) = 0 then
            ret (StatusBadRequest, badRequest ''preimage is required'')
          else
            andThen (FSC_Claim E acc (CqPreimage b) (toTMSID (CqTmsId b))) (\<lambda>txID.
            ret (StatusOK, ClaimSuccess ''ok'' txID)))"

definition Server_Reclaim ::
  "('w, 'h) env \<Rightarrow> string \<Rightarrow> reclaim_request option \<Rightarrow> ('h call, 'w, nat \<times> api_json) prog" where
  "Server_Reclaim E acc reqBody =
     (case reqBody of
        None \<Rightarrow> panic nil_dereference
      | Some b \<Rightarrow>
          if length (KqHash b) = 0 then
            ret (StatusBadRequest, badRequest ''hash is required'')
          else
            andThen (FSC_Reclaim E acc (KqHash b) (toTMSID (KqTmsId b))) (\<lambda>txID.
            ret (StatusOK, ReclaimSuccess ''ok'' txID)))"

definition Server_Healthz :: "('c, 'w, nat \<times> api_json) prog" where
  "Server_Healthz = ret (StatusOK, HealthSuccess ''ok'')"

definition Server_Readyz :: "('c, 'w, nat \<times> api_json) prog" where
  "Server_Readyz = ret (StatusOK, HealthSuccess ''ok'')"

subsection \<open>The generated handlers\<close>

definition strict_Healthz :: "('c, 'w, api_json) handler" where
  "strict_Healthz r = strict_respond Server_Healthz"

definition strict_Readyz :: "('c, 'w, api_json) handler" where
  "strict_Readyz r = strict_respond Server_Readyz"

definition strict_OwnerAccounts :: "('h call, 'w, api_json) handler" where
  "strict_OwnerAccounts r = strict_respond Server_OwnerAccounts"

definition strict_OwnerAccount ::
  "('w, 'h) env \<Rightarrow> string \<Rightarrow> account_params \<Rightarrow> ('h call, 'w, api_json) handler" where
  "strict_OwnerAccount E acc params r = strict_respond (Server_OwnerAccount E acc params)"

definition strict_OwnerTransactions ::
  "('w, 'h) env \<Rightarrow> nat \<Rightarrow> string \<Rightarrow> ('h call, 'w, api_json) handler" where
  "strict_OwnerTransactions E fuel acc r = strict_respond (Server_OwnerTransactions E fuel acc)"

definition strict_Claim :: "('w, 'h) env \<Rightarrow> string \<Rightarrow> ('h call, 'w, api_json) handler" where
  "strict_Claim E acc = strict_body decode_ClaimRequest zero_claim_request (\<lambda>body. Server_Claim E acc (Some body))"

definition strict_Lock :: "('w, 'h) env \<Rightarrow> string \<Rightarrow> ('h call, 'w, api_json) handler" where
  "strict_Lock E acc = strict_body decode_LockRequest zero_lock_request (\<lambda>body. Server_Lock E acc (Some body))"

definition strict_Reclaim :: "('w, 'h) env \<Rightarrow> string \<Rightarrow> ('h call, 'w, api_json) handler" where
  "strict_Reclaim E acc = strict_body decode_ReclaimRequest zero_reclaim_request (\<lambda>body. Server_Reclaim E acc (Some body))"

definition strict_Redeem :: "('w, 'h) env \<Rightarrow> string \<Rightarrow> ('h call, 'w, api_json) handler" where
  "strict_Redeem E acc = strict_body decode_RedeemRequest zero_redeem_request (\<lambda>body. Server_Redeem E acc (Some body))"

definition strict_Transfer :: "('w, 'h) env \<Rightarrow> string \<Rightarrow> ('h call, 'w, api_json) handler" where
  "strict_Transfer E acc = strict_body decode_TransferRequest zero_transfer_request (\<lambda>body. Server_Transfer E acc (Some body))"

text \<open>The wrappers bind the parameters of a request; one that cannot be bound is a 400.\<close>

definition InvalidParamFormatError :: "string \<Rightarrow> error \<Rightarrow> error" where
  "InvalidParamFormatError paramName err = Wrap (''Invalid format for parameter '' @ paramName) err"

definition with_id :: "oapi \<Rightarrow> (string \<Rightarrow> ('c, 'w, 'b) handler) \<Rightarrow> string list \<Rightarrow> ('c, 'w, 'b) handler" where
  "with_id A h args r =
     (case bindPath A ''id'' (hd args) of
        Inl err \<Rightarrow> ret (http_Error (Error (InvalidParamFormatError ''id'' err)) StatusBadRequest)
      | Inr acc \<Rightarrow> h acc r)"

definition with_query ::
  "oapi \<Rightarrow> string \<Rightarrow> (string option \<Rightarrow> ('c, 'w, 'b) handler) \<Rightarrow> ('c, 'w, 'b) handler" where
  "with_query A name h r =
     (case bindQuery A name (Query r) of
        Inl err \<Rightarrow> ret (http_Error (Error (InvalidParamFormatError name err)) StatusBadRequest)
      | Inr v \<Rightarrow> h v r)"

definition wrapper_OwnerAccount ::
  "('w, 'h) env \<Rightarrow> oapi \<Rightarrow> string list \<Rightarrow> ('h call, 'w, api_json) handler" where
  "wrapper_OwnerAccount E A =
     with_id A (\<lambda>acc.
     with_query A ''code'' (\<lambda>code.
     with_query A ''network'' (\<lambda>network.
     with_query A ''channel'' (\<lambda>channel.
     with_query A ''namespace'' (\<lambda>namespace.
     strict_OwnerAccount E acc
       \<lparr>PCode = code, PNetwork = network, PChannel = channel, PNamespace = namespace\<rparr>)))))"

definition wrapper_Claim :: "('w, 'h) env \<Rightarrow> oapi \<Rightarrow> string list \<Rightarrow> ('h call, 'w, api_json) handler" where
  "wrapper_Claim E A = with_id A (strict_Claim E)"

definition wrapper_Lock :: "('w, 'h) env \<Rightarrow> oapi \<Rightarrow> string list \<Rightarrow> ('h call, 'w, api_json) handler" where
  "wrapper_Lock E A = with_id A (strict_Lock E)"

definition wrapper_Reclaim :: "('w, 'h) env \<Rightarrow> oapi \<Rightarrow> string list \<Rightarrow> ('h call, 'w, api_json) handler" where
  "wrapper_Reclaim E A = with_id A (strict_Reclaim E)"

definition wrapper_Redeem :: "('w, 'h) env \<Rightarrow> oapi \<Rightarrow> string list \<Rightarrow> ('h call, 'w, api_json) handler" where
  "wrapper_Redeem E A = with_id A (strict_Redeem E)"

definition wrapper_Transfer :: "('w, 'h) env \<Rightarrow> oapi \<Rightarrow> string list \<Rightarrow> ('h call, 'w, api_json) handler" where
  "wrapper_Transfer E A = with_id A (strict_Transfer E)"

definition wrapper_OwnerTransactions ::
  "('w, 'h) env \<Rightarrow> oapi \<Rightarrow> nat \<Rightarrow> string list \<Rightarrow> ('h call, 'w, api_json) handler" where
  "wrapper_OwnerTransactions E A fuel = with_id A (strict_OwnerTransactions E fuel)"

lemmas wrapper_defs = wrapper_Claim_def wrapper_Lock_def wrapper_Reclaim_def wrapper_Redeem_def
  wrapper_Transfer_def wrapper_OwnerTransactions_def

definition owner_routes :: "('w, 'h) env \<Rightarrow> oapi \<Rightarrow> nat \<Rightarrow> ('h call, 'w, api_json) route list" where
  "owner_routes E A fuel =
     [(''GET'', [Lit ''healthz''], \<lambda>_. strict_Healthz),
      (''GET'', [Lit ''owner'', Lit ''accounts''], \<lambda>_. strict_OwnerAccounts),
      (''GET'', [Lit ''owner'', Lit ''accounts'', Wild], wrapper_OwnerAccount E A),
      (''POST'', [Lit ''owner'', Lit ''accounts'', Wild, Lit ''claim''], wrapper_Claim E A),
      (''POST'', [Lit ''owner'', Lit ''accounts'', Wild, Lit ''lock''], wrapper_Lock E A),
      (''POST'', [Lit ''owner'', Lit ''accounts'', Wild, Lit ''reclaim''], wrapper_Reclaim E A),
      (''POST'', [Lit ''owner'', Lit ''accounts'', Wild, Lit ''redeem''], wrapper_Redeem E A),
      (''GET'', [Lit ''owner'', Lit ''accounts'', Wild, Lit ''transactions''],
        wrapper_OwnerTransactions E A fuel),
      (''POST'', [Lit ''owner'', Lit ''accounts'', Wild, Lit ''transfer''], wrapper_Transfer E A),
      (''GET'', [Lit ''readyz''], \<lambda>_. strict_Readyz)]"

definition owner_api :: "('w, 'h) env \<Rightarrow> oapi \<Rightarrow> nat \<Rightarrow> ('h call, 'w, api_json) handler" where
  "owner_api E A fuel = WithAnyCORS (serve_mux (owner_routes E A fuel))"

subsection \<open>Deadlines and lock requests\<close>

lemma deadline_bounds: "toDeadline s = (d, True) \<Longrightarrow> 0 < sint d \<and> sint d = sint s * 10 ^ 9"
proof -
  assume d: "toDeadline s = (d, True)"
  have sec: "sint Second = 10 ^ 9" by (simp add: Second_def)
  from d have s: "1 \<le> sint s" "sint s * 10 ^ 9 < 2 ^ 63" "d = s * Second"
    by (auto simp: toDeadline_def sec split: if_splits)
  then have "sint d = sint s * 10 ^ 9"
    unfolding s(3) sint_word_mult sec by (simp add: signed_take_bit_int_eq_self)
  with s show ?thesis by simp
qed

text \<open>
  \<open>toDeadline\<close> is exact: it accepts a number of seconds precisely when it is positive and its
  nanoseconds fit in a signed 64-bit integer, and then the multiplication does not overflow.
\<close>

lemma deadline_exact:
  "toDeadline s = (d, True) \<longleftrightarrow> 1 \<le> sint s \<and> sint s * 10 ^ 9 < 2 ^ 63 \<and> sint d = sint s * 10 ^ 9"
  (is "_ \<longleftrightarrow> ?R")
proof
  assume d: "toDeadline s = (d, True)"
  then have "1 \<le> sint s \<and> sint s \<le> (2 ^ 63 - 1) div 10 ^ 9"
    by (auto simp: toDeadline_def Second_def split: if_splits)
  with deadline_bounds [OF d] show ?R by simp
next
  assume r: ?R
  then have "snd (toDeadline s)" by (auto simp: toDeadline_def Second_def)
  then obtain d' where d': "toDeadline s = (d', True)" by (cases "toDeadline s") auto
  with deadline_bounds [OF d'] r have "sint d' = sint d" by simp
  with d' show "toDeadline s = (d, True)" by (metis word_eq_iff_signed)
qed

text \<open>
  C24: A lock request reaches the token service only when it is well formed, and unchanged. The
  lock operation is called with the type, quantity and hash of the request, a hash that is either
  absent (the service generates one) or 32 bytes long, and a deadline that is positive and exactly
  the requested number of seconds in nanoseconds. The identities of both sides come from the exchange of
  the account of the request with the account of its counterparty, after that account was bound to the
  counterparty's node if one was named; the transaction and the wallet are those created and found for
  the token management service of the request, the wallet by the account's name.
\<close>

theorem lock_request_checked:
  assumes env: "initiates E" and run: "Server_Lock E acc (Some body) w = (r, es, w')"
    and ev: "Event (Htlc (CLock tx wal me typ q recipient d h)) b v \<in> set es"
  shows "typ = Code (LqAmount body) \<and> q = Value (LqAmount body) \<and> h = LqHash body \<and>
    (\<forall>x. h = Some x \<longrightarrow> length x = 32) \<and> 0 < sint d \<and> sint d = sint (LqDeadline body) * 10 ^ 9 \<and>
    (\<exists>w0 w1 w2 w3 w4. getManager (fsc E) w = (Ok (), w0) \<and>
      (if Node (LqCounterparty body) = '''' then w1 = w0
       else bindEndpoint (fsc E) (Node (LqCounterparty body)) (Account (LqCounterparty body)) w0 = (Ok (), w1)) \<and>
      exchangeRecipientIdentities (htlc E) acc (Account (LqCounterparty body))
        (ServiceOpts (LqTmsId body) []) w1 = (Ok (me, recipient), w2) \<and>
      htlcNewTransaction (htlc E) (TxOpts (LqTmsId body) []) w2 = (Ok tx, w3) \<and>
      htlcGetWallet (htlc E) acc (ServiceOpts (LqTmsId body) []) w3 = (Some wal, w4))"
    (is ?G)
proof (rule ccontr)
  let ?P = "\<lambda>e. op e = Htlc (CLock tx wal me typ q recipient d h)"
  assume no: "\<not> ?G"
  obtain dl ok where dl: "toDeadline (LqDeadline body) = (dl, ok)" by (cases "toDeadline (LqDeadline body)")
  have "conf (forbid ?P) () (Server_Lock E acc (Some body)) (\<lambda>r p w1. True) w"
  proof (cases "ok \<and> (\<forall>x. LqHash body = Some x \<longrightarrow> length x = 32)")
    case True
    then have d: "0 < sint dl" "sint dl = sint (LqDeadline body) * 10 ^ 9"
      using deadline_bounds [of "LqDeadline body" dl] dl by simp_all
    let ?v = "LockView_Call E \<lparr>LTMSID = LqTmsId body, LWallet = acc, LTokenType = Code (LqAmount body),
      LQuantity = Value (LqAmount body), LRecipient = Account (LqCounterparty body),
      LRecipientNode = Node (LqCounterparty body), LHash = LqHash body, LReclamationDeadline = dl\<rparr>"
    have view: "conf (forbid ?P) () ?v (\<lambda>r p w1. True) w0" if "getManager (fsc E) w = (Ok (), w0)" for w0
      using no True d that
      by (auto simp: LockView_Call_def script_hash_at0_def sign_and_order_def api_defs prog_simps
          cong: conf_cong split: option.split list.split)
    have init: "conf (forbid ?P) () (InitiateView E ?v) (\<lambda>r p w1. True) w0"
      if "getManager (fsc E) w = (Ok (), w0)" for w0
      by (rule conf_InitiateView [OF env conf_mono [OF view [OF that]]]) (simp_all split: res.split)
    have "conf (forbid ?P) () (FSC_Lock E (Code (LqAmount body)) (Value (LqAmount body)) acc
        (Account (LqCounterparty body)) (Node (LqCounterparty body)) dl (LqHash body)
        (LqTmsId body)) (\<lambda>r p w1. True) w"
      by (simp add: FSC_Lock_def api_defs prog_simps cong: conf_cong)
        (auto simp: prog_simps init split: res.split any.split)
    from conf_mono [OF this] True show ?thesis
      by (simp add: Server_Lock_def dl Let_def prog_simps sha256_Size_def split: option.split res.split)
  next
    case False
    then show ?thesis
      by (auto simp: Server_Lock_def dl prog_simps sha256_Size_def split: option.split)
  qed
  with forbidD(2) [OF this run ev] show False by simp
qed

end
