(* ===== verification/Http_Settlement.thy ===== *)
theory Http_Settlement imports Http Settlement begin

text \<open>
  The contract between an operation of a server and the HTTP layer above it, which holds under
  the condition \<open>lawful\<close> on the libraries below. An operation
  \<open>serve\<close> takes the decoded body and answers with a status code and a JSON body, or fails. The
  contract: it answers 200 only with the id of a transaction that was endorsed, ordered once and
  confirmed. The stronger contract adds that any other outcome means nothing was confirmed. Both
  are carried over to the HTTP responses of the generated handler, whatever the body is.
\<close>

locale settling_operation =
  fixes lawful :: bool
    and ident :: "'h \<Rightarrow> string"
    and serve :: "'q \<Rightarrow> ('h call, 'w, nat \<times> 'b) prog"
    and body_id :: "'b \<Rightarrow> string option"
  assumes settles: "lawful \<Longrightarrow> conf settle_step Preparing (serve q)
    (\<lambda>r p w1. \<forall>b. r = Ok (StatusOK, b) \<longrightarrow> (\<exists>tx. p = Committed tx \<and> body_id b = Some (ident tx))) w"
begin

lemma responds:
  "lawful \<Longrightarrow> conf settle_step Preparing (strict_body dec zero serve r)
    (\<lambda>x p w1. \<forall>resp. x = Ok resp \<and> Status resp = StatusOK \<longrightarrow>
      (\<exists>b tx. Content resp = Json b \<and> p = Committed tx \<and> body_id b = Some (ident tx))) w"
  unfolding strict_body_def
  by (auto simp: prog_simps http_Error_def json_response_def status_defs split: sum.split prod.split res.split
      intro!: conf_mono [OF settles])

end

locale atomic_operation = settling_operation +
  assumes fails: "lawful \<Longrightarrow> conf settle_step Preparing (serve q)
    (\<lambda>r p w1. (\<forall>b. r \<noteq> Ok (StatusOK, b)) \<longrightarrow> (\<forall>tx. p \<noteq> Committed tx)) w"
begin

lemma responds_failed:
  "lawful \<Longrightarrow> conf settle_step Preparing (strict_body dec zero serve r)
    (\<lambda>x p w1. (\<forall>resp. x = Ok resp \<longrightarrow> Status resp \<noteq> StatusOK) \<longrightarrow> (\<forall>tx. p \<noteq> Committed tx)) w"
  unfolding strict_body_def
  by (auto simp: prog_simps http_Error_def json_response_def status_defs split: sum.split prod.split res.split
      intro!: conf_mono [OF fails])

end

text \<open>An operation that answers 200 with the id a settled computation returned meets both.\<close>

lemma atomic_operationI:
  assumes "\<And>q w. lawful \<Longrightarrow> conf settle_step Preparing (serve q)
    (\<lambda>r p w1. case r of
       Ok (code, b) \<Rightarrow> if code = StatusOK then \<exists>tx. p = Committed tx \<and> body_id b = Some (ident tx)
                       else \<forall>tx. p \<noteq> Committed tx
     | _ \<Rightarrow> \<forall>tx. p \<noteq> Committed tx) w"
  shows "atomic_operation lawful ident serve body_id"
proof
  fix q w
  assume lawful
  show "conf settle_step Preparing (serve q)
    (\<lambda>r p w1. \<forall>b. r = Ok (StatusOK, b) \<longrightarrow> (\<exists>tx. p = Committed tx \<and> body_id b = Some (ident tx))) w"
    by (rule conf_mono [OF assms [OF \<open>lawful\<close>]]) auto
next
  fix q w
  assume lawful
  show "conf settle_step Preparing (serve q)
    (\<lambda>r p w1. (\<forall>b. r \<noteq> Ok (StatusOK, b)) \<longrightarrow> (\<forall>tx. p \<noteq> Committed tx)) w"
    by (rule conf_mono [OF assms [OF \<open>lawful\<close>]]) (auto split: res.splits prod.splits if_splits)
qed

lemma txid_settled_split:
  "txid_settled ident r p \<longleftrightarrow>
   (case r of Ok i \<Rightarrow> \<exists>tx. p = Committed tx \<and> i = ident tx | _ \<Rightarrow> \<forall>tx. p \<noteq> Committed tx)"
  by (cases r) auto

subsection \<open>From phases to traces\<close>

text \<open>What a response with a transaction id stands for in the trace of the request.\<close>

definition settled_once :: "('h call, 'w) event list \<Rightarrow> 'h \<Rightarrow> bool" where
  "settled_once es tx \<longleftrightarrow>
     (\<exists>s o1 es1 es2. es = es1 @ s # es2 \<and> ev_kind s = Sign tx \<and> succeeded s \<and> sign_events es = [s] \<and>
        order_events es = [o1] \<and> o1 \<in> set es2 \<and> ev_kind o1 = Order tx \<and> succeeded o1)"

lemma committed_settled_once:
  assumes "settle_run Preparing es = Some (Committed tx)"
  shows "settled_once es tx"
proof -
  from run_Preparing [OF assms] obtain s o1 es1 es2 where
    *: "es = es1 @ s # es2" "ev_kind s = Sign tx" "succeeded s" "order_events es1 = []"
      "sign_events es = [s]" "order_events es2 = [o1]" "ev_kind o1 = Order tx" "succeeded o1"
    by (auto split: if_splits)
  then have "o1 \<in> set es2" "order_events es = [o1]"
    by (auto simp: order_events_def filter_eq_Cons_iff)
  with * show ?thesis unfolding settled_once_def by blast
qed

lemma not_committed_orders:
  assumes "settle_run Preparing es = Some p" and "\<forall>tx. p \<noteq> Committed tx" and "o1 \<in> set (order_events es)"
  shows "\<not> succeeded o1"
  using run_Preparing [OF assms(1)] assms(2,3) by (auto split: if_splits)

end
