(* ===== verification/Owner_Api.thy ===== *)
theory Owner_Api imports Owner_Routes Http_Settlement begin

text \<open>
  What a client of the owner's HTTP API can rely on, from the request to the calls of the
  orderer.
\<close>

subsection \<open>The service operations\<close>

lemma FSC_Transfer_settled:
  assumes "initiates E"
  shows "conf settle_step Preparing (FSC_Transfer E code q sender recipient node msg)
    (\<lambda>r p w1. txid_settled (txID (ttx E)) r p) w"
  unfolding FSC_Transfer_def by (rule initiate_txid_settled [OF assms transfer_settled])

lemma FSC_Redeem_settled:
  assumes "initiates E"
  shows "conf settle_step Preparing (owner_FSC_Redeem E code q sender msg)
    (\<lambda>r p w1. txid_settled (txID (ttx E)) r p) w"
  unfolding owner_FSC_Redeem_def by (rule initiate_txid_settled [OF assms redeem_settled])

lemma FSC_Claim_settled:
  assumes "initiates E"
  shows "conf settle_step Preparing (FSC_Claim E wallet preImage t)
    (\<lambda>r p w1. txid_settled (txID (ttx E)) r p) w"
  unfolding FSC_Claim_def by (rule initiate_txid_settled [OF assms claim_settled])

lemma FSC_Reclaim_settled:
  assumes "initiates E"
  shows "conf settle_step Preparing (FSC_Reclaim E wallet hash t)
    (\<lambda>r p w1. txid_settled (txID (ttx E)) r p) w"
  unfolding FSC_Reclaim_def by (rule initiate_txid_settled [OF assms reclaim_settled])

lemma FSC_Lock_follows:
  assumes "initiates E"
  shows "conf settle_step Preparing (FSC_Lock E code q sender recipient node deadline hash t)
    (\<lambda>r p w1. \<forall>l. r = Ok l \<longrightarrow> (\<exists>tx. p = Committed tx \<and> TxID l = txID (ttx E) tx)) w"
proof -
  let ?v = "LockView_Call E \<lparr>LTMSID = t, LWallet = sender, LTokenType = code, LQuantity = q,
    LRecipient = recipient, LRecipientNode = node, LHash = hash, LReclamationDeadline = deadline\<rparr>"
  let ?Q = "\<lambda>r p w1. \<forall>l. r = Ok l \<longrightarrow> (\<exists>tx. p = Committed tx \<and> TxID l = txID (ttx E) tx)"
  have init: "conf settle_step Preparing (InitiateView E ?v)
     (\<lambda>r q w1. case r of
        Ok x \<Rightarrow> conf settle_step q
          (case x of ALockResult result \<Rightarrow> ret result | _ \<Rightarrow> throw (New ''cannot parse lock response'')) ?Q w1
      | Err e \<Rightarrow> ?Q (Err e) q w1 | Panic s \<Rightarrow> ?Q (Panic s) q w1) w1" for w1
    by (rule conf_InitiateView [OF assms conf_mono [OF lock_follows]])
      (auto simp: lock_id_Some prog_simps split: res.split any.split)
  show ?thesis
    by (simp add: FSC_Lock_def api_defs prog_simps cong: conf_cong) (intro allI impI init)
qed

subsection \<open>The operations of the API\<close>

interpretation api_transfer: atomic_operation "initiates E" "txID (ttx E)"
  "\<lambda>body. Server_Transfer E acc (Some body)" payload_id for E acc
  by (rule atomic_operationI)
    (auto simp: Server_Transfer_def Let_def prog_simps txid_settled_split
      intro!: conf_mono [OF FSC_Transfer_settled] split: res.splits)

interpretation api_redeem: atomic_operation "initiates E" "txID (ttx E)"
  "\<lambda>body. Server_Redeem E acc (Some body)" payload_id for E acc
  by (rule atomic_operationI)
    (auto simp: Server_Redeem_def Let_def prog_simps txid_settled_split
      intro!: conf_mono [OF FSC_Redeem_settled] split: res.splits)

interpretation api_claim: atomic_operation "initiates E" "txID (ttx E)"
  "\<lambda>body. Server_Claim E acc (Some body)" payload_id for E acc
  by (rule atomic_operationI)
    (auto simp: Server_Claim_def prog_simps txid_settled_split status_defs
      intro!: conf_mono [OF FSC_Claim_settled] split: res.splits)

interpretation api_reclaim: atomic_operation "initiates E" "txID (ttx E)"
  "\<lambda>body. Server_Reclaim E acc (Some body)" payload_id for E acc
  by (rule atomic_operationI)
    (auto simp: Server_Reclaim_def prog_simps txid_settled_split status_defs
      intro!: conf_mono [OF FSC_Reclaim_settled] split: res.splits)

interpretation api_lock: settling_operation "initiates E" "txID (ttx E)"
  "\<lambda>body. Server_Lock E acc (Some body)" payload_id for E acc
  by unfold_locales
    (auto simp: Server_Lock_def Let_def prog_simps status_defs
      intro!: conf_mono [OF FSC_Lock_follows] split: res.splits prod.splits)

subsection \<open>The whole API\<close>

text \<open>Which handler answers a request: one of the route table, or the router itself.\<close>

lemma conf_serve_mux:
  assumes "\<And>m ps h args. (m, ps, h) \<in> set rs \<Longrightarrow> match_path ps (Path r) = Some args \<Longrightarrow>
      match_method m (Method r) \<Longrightarrow> conf D p (h args r) Q w"
    and "Q (Ok (http_Error ''Method Not Allowed'' StatusMethodNotAllowed)) p w"
    and "Q (Ok (http_Error ''404 page not found'' StatusNotFound)) p w"
  shows "conf D p (serve_mux rs r) Q w"
proof -
  have "find_route rs r = None \<or> (\<exists>m ps h args. (m, ps, h) \<in> set rs \<and>
      match_path ps (Path r) = Some args \<and> match_method m (Method r) \<and> find_route rs r = Some (h args r))"
    by (induction rs r rule: find_route.induct) (simp, auto split: option.split, blast+)
  with assms show ?thesis by (auto simp: serve_mux_def prog_simps)
qed

lemma conf_WithAnyCORS:
  assumes "Method r \<noteq> ''OPTIONS'' \<Longrightarrow> conf D p (next r)
      (\<lambda>x q w1. case x of Ok resp \<Rightarrow> Q (Ok (resp\<lparr>Header := cors_headers @ Header resp\<rparr>)) q w1
         | Err e \<Rightarrow> Q (Err e) q w1 | Panic s \<Rightarrow> Q (Panic s) q w1) w"
    and "Q (Ok \<lparr>Status = StatusNoContent, Header = cors_headers, Content = NoContent\<rparr>) p w"
  shows "conf D p (WithAnyCORS next r) Q w"
  using assms by (simp add: WithAnyCORS_def prog_simps cong: res.case_cong)

lemma conf_with_id:
  assumes "\<And>acc. conf D p (h acc r) Q w"
    and "\<And>err. Q (Ok (http_Error (Error (InvalidParamFormatError ''id'' err)) StatusBadRequest)) p w"
  shows "conf D p (with_id A h args r) Q w"
  using assms by (simp add: with_id_def prog_simps split: sum.split)

lemma conf_with_query:
  assumes "\<And>v. conf D p (h v r) Q w"
    and "\<And>err. Q (Ok (http_Error (Error (InvalidParamFormatError name err)) StatusBadRequest)) p w"
  shows "conf D p (with_query A name h r) Q w"
  using assms by (simp add: with_query_def prog_simps split: sum.split)

text \<open>The postconditions of interest do not look at the headers.\<close>

definition answered :: "('h \<Rightarrow> string) \<Rightarrow> api_json response res \<Rightarrow> 'h phase \<Rightarrow> bool" where
  "answered ident x p \<longleftrightarrow>
     (\<forall>resp. x = Ok resp \<and> Status resp = StatusOK \<longrightarrow>
       (\<exists>b tx. Content resp = Json b \<and> p = Committed tx \<and> payload_id b = Some (ident tx)))"

definition unconfirmed :: "api_json response res \<Rightarrow> 'h phase \<Rightarrow> bool" where
  "unconfirmed x p \<longleftrightarrow>
     (\<forall>resp. x = Ok resp \<longrightarrow> Status resp \<noteq> StatusOK) \<longrightarrow> (\<forall>tx. p \<noteq> Committed tx)"

lemma owner_post_answered:
  assumes env: "initiates E" and post: "Method r = ''POST''"
  shows "conf settle_step Preparing (owner_api E A fuel r) (\<lambda>x p w1. answered (txID (ttx E)) x p) w"
  unfolding owner_api_def
proof (rule conf_WithAnyCORS, rule conf_serve_mux)
  fix m ps h args
  assume "(m, ps, h) \<in> set (owner_routes E A fuel)" and "match_method m (Method r)"
  with post have "h \<in> {wrapper_Claim E A, wrapper_Lock E A, wrapper_Reclaim E A,
      wrapper_Redeem E A, wrapper_Transfer E A}"
    by (auto simp: owner_routes_def match_method_def)
  moreover note responds = api_claim.responds [OF env] api_lock.responds [OF env]
    api_reclaim.responds [OF env] api_redeem.responds [OF env] api_transfer.responds [OF env]
  ultimately show "conf settle_step Preparing (h args r)
      (\<lambda>x q w1. case x of
         Ok resp \<Rightarrow> answered (txID (ttx E)) (Ok (resp\<lparr>Header := cors_headers @ Header resp\<rparr>)) q
       | Err e \<Rightarrow> answered (txID (ttx E)) (Err e) q | Panic s \<Rightarrow> answered (txID (ttx E)) (Panic s) q) w"
    by (auto simp: wrapper_defs strict_Claim_def strict_Lock_def strict_Reclaim_def strict_Redeem_def
        strict_Transfer_def answered_def status_defs http_Error_def
        intro!: conf_with_id conf_mono [OF responds(1)] conf_mono [OF responds(2)]
          conf_mono [OF responds(3)] conf_mono [OF responds(4)] conf_mono [OF responds(5)]
        split: res.split)
qed (simp_all add: answered_def status_defs http_Error_def)

lemma match_path_last:
  "match_path ps ss = Some args \<Longrightarrow> ps \<noteq> [] \<Longrightarrow> last ps = Lit l \<Longrightarrow> last ss = l"
proof (induction ps ss arbitrary: args rule: match_path.induct)
  case (2 k ps s ss)
  then show ?case by (cases ps; cases ss) (auto split: if_splits)
next
  case (3 ps s ss)
  then show ?case by (cases ps; cases ss) (auto split: if_splits)
qed simp_all

lemma owner_post_unconfirmed:
  assumes env: "initiates E" and post: "Method r = ''POST''" and nolock: "last (Path r) \<noteq> ''lock''"
  shows "conf settle_step Preparing (owner_api E A fuel r) (\<lambda>x p w1. unconfirmed x p) w"
  unfolding owner_api_def
proof (rule conf_WithAnyCORS, rule conf_serve_mux)
  fix m ps h args
  assume "(m, ps, h) \<in> set (owner_routes E A fuel)" and "match_method m (Method r)"
    and "match_path ps (Path r) = Some args"
  with post nolock have "h \<in> {wrapper_Claim E A, wrapper_Reclaim E A,
      wrapper_Redeem E A, wrapper_Transfer E A}"
    by (auto simp: owner_routes_def match_method_def dest: match_path_last)
  moreover note failed = api_claim.responds_failed [OF env] api_reclaim.responds_failed [OF env]
    api_redeem.responds_failed [OF env] api_transfer.responds_failed [OF env]
  ultimately show "conf settle_step Preparing (h args r)
      (\<lambda>x q w1. case x of
         Ok resp \<Rightarrow> unconfirmed (Ok (resp\<lparr>Header := cors_headers @ Header resp\<rparr>)) q
       | Err e \<Rightarrow> unconfirmed (Err e) q | Panic s \<Rightarrow> unconfirmed (Panic s) q) w"
    by (auto simp: wrapper_defs strict_Claim_def strict_Reclaim_def strict_Redeem_def
        strict_Transfer_def unconfirmed_def status_defs http_Error_def
        intro!: conf_with_id conf_mono [OF failed(1)] conf_mono [OF failed(2)]
          conf_mono [OF failed(3)] conf_mono [OF failed(4)]
        split: res.split)
qed (simp_all add: unconfirmed_def)

text \<open>The other methods never sign and never order.\<close>

lemma owner_get_quiet:
  assumes "Method r \<noteq> ''POST''"
  shows "conf (forbid (\<lambda>e. \<exists>v. op e = Fsc (CRunView v))) () (owner_api E A fuel r) (\<lambda>x p w1. True) w"
  unfolding owner_api_def
proof (rule conf_WithAnyCORS, rule conf_serve_mux)
  let ?D = "forbid (\<lambda>e. \<exists>v. op e = Fsc (CRunView v))"
  have drain: "conf ?D () (drain E it fuel acc) (\<lambda>x p w1. True) w1" for it acc w1
    by (induction fuel arbitrary: acc w1) (auto simp: api_defs prog_simps split: option.split res.split)
  have trans: "conf ?D () (Server_OwnerTransactions E fuel acc) (\<lambda>x p w1. True) w1" for acc w1
    by (auto simp: Server_OwnerTransactions_def FSC_GetTransactions_def Let_def api_defs prog_simps
        cong: conf_cong split: option.split res.split intro!: conf_mono [OF drain])
  have acct: "conf ?D () (Server_OwnerAccount E acc ps) (\<lambda>x p w1. True) w1" for acc ps w1
    by (auto simp: Server_OwnerAccount_def FSC_Balance_def FSC_Balances_def Let_def api_defs prog_simps
        cong: conf_cong split: option.split sum.split)
  fix m ps h args
  assume "(m, ps, h) \<in> set (owner_routes E A fuel)" and "match_method m (Method r)"
  with assms have "h \<in> {\<lambda>_. strict_Healthz, \<lambda>_. strict_OwnerAccounts, wrapper_OwnerAccount E A,
      wrapper_OwnerTransactions E A fuel, \<lambda>_. strict_Readyz}"
    by (auto simp: owner_routes_def match_method_def)
  then show "conf ?D () (h args r)
      (\<lambda>x q w1. case x of Ok resp \<Rightarrow> True | Err e \<Rightarrow> True | Panic s \<Rightarrow> True) w"
    by (auto simp: strict_Healthz_def strict_Readyz_def strict_OwnerAccounts_def Server_Healthz_def
        Server_Readyz_def Server_OwnerAccounts_def wrapper_defs wrapper_OwnerAccount_def strict_OwnerAccount_def
        strict_OwnerTransactions_def prog_simps
        intro!: conf_with_id conf_with_query conf_mono [OF trans] conf_mono [OF acct] split: res.split)
qed simp_all

text \<open>
  C1: A 200 answer to a \<open>POST\<close> of the owner's API (transfer, redeem, lock, claim, reclaim) means
  what it says: it carries the id of a transaction on which the node collected the endorsements,
  successfully and once, that it then handed to the orderer, once, with success; and no other
  transaction was signed or ordered for the request.
\<close>

theorem owner_api_ok_settled:
  assumes "initiates E" and "Method r = ''POST''"
    and "owner_api E A fuel r w = (Ok resp, es, w')" and "Status resp = StatusOK"
  shows "\<exists>b tx. Content resp = Json b \<and> payload_id b = Some (txID (ttx E) tx) \<and> settled_once es tx"
  by (rule confD [OF owner_post_answered [OF assms(1,2)] assms(3)])
    (use assms(4) in \<open>auto simp: answered_def dest: committed_settled_once\<close>)

text \<open>
  C2: An answer other than 200 to a transfer, redeem, claim or reclaim, or none because a handler
  panicked, means that nothing the orderer confirmed was done for the request, so it can be
  retried unless the orderer itself reported the failure. (A lock is the exception: it reads the
  outputs of the transaction after it was ordered.)
\<close>

theorem owner_api_failure_unconfirmed:
  assumes "initiates E" and "Method r = ''POST''" and "last (Path r) \<noteq> ''lock''"
    and "owner_api E A fuel r w = (x, es, w')" and "\<forall>resp. x = Ok resp \<longrightarrow> Status resp \<noteq> StatusOK"
  shows "\<forall>o1 \<in> set (order_events es). \<not> succeeded o1"
  by (rule confD [OF owner_post_unconfirmed [OF assms(1-3)] assms(4)])
    (use assms(5) in \<open>auto simp: unconfirmed_def dest: not_committed_orders\<close>)

end
