(* ===== verification/Issuer_Api.thy ===== *)
theory Issuer_Api imports Issuer_Service Owner_Api begin

text \<open>
  The issuer's HTTP API: \<open>tokens/issuer/routes/routes.go\<close> and the generated handlers and route
  table of \<open>tokens/issuer/routes/routes.gen.go\<close>. Health and readiness are those of the owner's
  API, whose code is the same.
\<close>

definition issuer_toTMSID :: "tmsid option \<Rightarrow> tmsid option" where
  "issuer_toTMSID i =
     (case i of
        None \<Rightarrow> None
      | Some i \<Rightarrow> Some \<lparr>Network = Network i, Channel = Channel i, Namespace = Namespace i\<rparr>)"

definition Server_Issue ::
  "('w, 'h) env \<Rightarrow> issue_request option \<Rightarrow> ('h call, 'w, nat \<times> api_json) prog" where
  "Server_Issue E reqBody =
     (case reqBody of
        None \<Rightarrow> throw (New ''no body'')
      | Some b \<Rightarrow>
          let message = (case IqMessage b of None \<Rightarrow> '''' | Some m \<Rightarrow> m) in
          andThen
            (FSC_Issue E (Code (IqAmount b)) (Value (IqAmount b)) (Account (IqCounterparty b))
               (Node (IqCounterparty b)) message (issuer_toTMSID (IqTmsId b))) (\<lambda>res.
          ret (StatusOK, IssueSuccess ''ok'' res)))"

definition strict_Issue :: "('w, 'h) env \<Rightarrow> ('h call, 'w, api_json) handler" where
  "strict_Issue E = strict_body decode_IssueRequest zero_issue_request (\<lambda>body. Server_Issue E (Some body))"

definition issuer_routes :: "('w, 'h) env \<Rightarrow> ('h call, 'w, api_json) route list" where
  "issuer_routes E =
     [(''GET'', [Lit ''healthz''], \<lambda>_. strict_Healthz),
      (''POST'', [Lit ''issuer'', Lit ''issue''], \<lambda>_. strict_Issue E),
      (''GET'', [Lit ''readyz''], \<lambda>_. strict_Readyz)]"

definition issuer_api :: "('w, 'h) env \<Rightarrow> ('h call, 'w, api_json) handler" where
  "issuer_api E = WithAnyCORS (serve_mux (issuer_routes E))"

lemma FSC_Issue_settled:
  assumes "initiates E"
  shows "conf settle_step Preparing (FSC_Issue E code q recipient node msg t)
    (\<lambda>r p w1. txid_settled (txID (ttx E)) r p) w"
  unfolding FSC_Issue_def by (rule initiate_txid_settled [OF assms issue_settled])

interpretation api_issue: atomic_operation "initiates E" "txID (ttx E)"
  "\<lambda>body. Server_Issue E (Some body)" payload_id for E
  by (rule atomic_operationI)
    (auto simp: Server_Issue_def Let_def prog_simps txid_settled_split
      intro!: conf_mono [OF FSC_Issue_settled] split: res.splits)

lemma issuer_handlers:
  assumes "(m, ps, h) \<in> set (issuer_routes E)" and "match_method m (Method r)" and "Method r = ''POST''"
  shows "h = (\<lambda>_. strict_Issue E)"
  using assms by (auto simp: issuer_routes_def match_method_def)

lemma issuer_post_settled:
  assumes env: "initiates E" and post: "Method r = ''POST''"
    and run: "issuer_api E r w = (x, es, w')"
  shows "\<exists>p. settle_run Preparing es = Some p \<and> answered (txID (ttx E)) x p \<and> unconfirmed x p"
proof -
  have "conf settle_step Preparing (issuer_api E r) (\<lambda>x p w1. answered (txID (ttx E)) x p) w"
    unfolding issuer_api_def
    by (rule conf_WithAnyCORS, rule conf_serve_mux)
      (auto simp: strict_Issue_def answered_def status_defs http_Error_def dest!: issuer_handlers [OF _ _ post]
        intro!: conf_mono [OF api_issue.responds [OF env]] split: res.split)
  moreover have "conf settle_step Preparing (issuer_api E r) (\<lambda>x p w1. unconfirmed x p) w"
    unfolding issuer_api_def
    by (rule conf_WithAnyCORS, rule conf_serve_mux)
      (auto simp: strict_Issue_def unconfirmed_def status_defs http_Error_def dest!: issuer_handlers [OF _ _ post]
        intro!: conf_mono [OF api_issue.responds_failed [OF env]] split: res.split)
  ultimately show ?thesis using run by (metis (mono_tags, lifting) confD option.inject)
qed

text \<open>The other methods answer at once.\<close>

lemma issuer_get_quiet:
  assumes "Method r \<noteq> ''POST''"
  shows "conf (forbid (\<lambda>e. True)) () (issuer_api E r) (\<lambda>x p w1. True) w"
  unfolding issuer_api_def
proof (rule conf_WithAnyCORS, rule conf_serve_mux)
  fix m ps h args
  assume "(m, ps, h) \<in> set (issuer_routes E)" and "match_method m (Method r)"
  with assms have "h \<in> {\<lambda>_. strict_Healthz, \<lambda>_. strict_Readyz}"
    by (auto simp: issuer_routes_def match_method_def)
  then show "conf (forbid (\<lambda>e. True)) () (h args r)
      (\<lambda>x q w1. case x of Ok resp \<Rightarrow> True | Err e \<Rightarrow> True | Panic s \<Rightarrow> True) w"
    by (auto simp: strict_Healthz_def strict_Readyz_def Server_Healthz_def Server_Readyz_def prog_simps
        split: res.split)
qed simp_all

text \<open>
  C3: The issuer's \<open>POST\<close> answers 200 only with the id of an issue that was endorsed, ordered
  once and confirmed; any other outcome of it means that nothing was confirmed.
\<close>

theorem issuer_api_settled:
  assumes env: "initiates E" and post: "Method r = ''POST''"
    and run: "issuer_api E r w = (x, es, w')"
  shows "if \<exists>resp. x = Ok resp \<and> Status resp = StatusOK
    then \<exists>resp b tx. x = Ok resp \<and> Content resp = Json b \<and> payload_id b = Some (txID (ttx E) tx) \<and>
      settled_once es tx
    else \<forall>o1 \<in> set (order_events es). \<not> succeeded o1"
proof -
  from issuer_post_settled [OF assms] obtain p where
    "settle_run Preparing es = Some p" "answered (txID (ttx E)) x p" "unconfirmed x p" by blast
  moreover from this have "p = Committed tx \<Longrightarrow> settled_once es tx" for tx
    by (simp add: committed_settled_once)
  ultimately show ?thesis
    by (fastforce simp: answered_def unconfirmed_def dest: not_committed_orders)
qed

end
