(* ===== verification/Views.thy ===== *)
theory Views imports View_Utils begin

text \<open>
  \<open>tokens/common/views\<close>: the responders of the nodes (\<open>accept.go\<close>, and the issuer's side of a
  redeem in \<open>redeem.go\<close>) and the issue and redeem views that are started by name through a
  factory. These views check with \<open>assert\<close>, so a failed check is a panic.
\<close>

text \<open>
  \<open>assert.Equal(expected, vc)\<close> on the status of a transaction, as the views read it from the
  owner service of the node.
\<close>

definition assert_status ::
  "('w, 'h) env \<Rightarrow> 'h option \<Rightarrow> 'h \<Rightarrow> tx_status \<Rightarrow> string \<Rightarrow> ('h call, 'w, unit) prog" where
  "assert_status E owner tx expected word =
     andThen
       (must (''failed to retrieve status for transaction ['' @ txID (ttx E) tx @ '']'')
          (GetStatus E owner (txID (ttx E) tx))) (\<lambda>vc.
     assertTrue (''transaction ['' @ txID (ttx E) tx @ ''] should be in '' @ word @ '' state'')
       (vc = expected))"

definition AcceptCashView_Call :: "('w, 'h) env \<Rightarrow> ('h call, 'w, any) prog" where
  "AcceptCashView_Call E =
     andThen
       (must ''failed to respond to identity request'' (RespondRequestRecipientIdentityUsingWallet E '''')) (\<lambda>idn.
     andThen (must ''failed to receive tokens'' (ReceiveTransaction E)) (\<lambda>tx.
     andThen (must ''failed getting outputs'' (Outputs E tx)) (\<lambda>outputs.
     andThen (assertTrue '''' (0 < length outputs)) (\<lambda>_.
     andThen (assertTrue '''' (0 < length (byRecipient (ttx E) outputs idn))) (\<lambda>_.
     andThen (must ''failed to accept new tokens'' (RunView E (NewAcceptView tx))) (\<lambda>_.
     andThen (NewOwner E (tokenService (ttx E) tx)) (\<lambda>owner.
     andThen (assert_status E owner tx Pending ''busy'') (\<lambda>_.
     andThen (must ''new tokens were not committed'' (RunView E (NewFinalityView tx))) (\<lambda>_.
     andThen (assert_status E owner tx Confirmed ''valid'') (\<lambda>_.
     andThen (AssertTokens E tx outputs idn) (\<lambda>_.
     ret ANil)))))))))))"

definition IssuerRedeemAcceptView_Call :: "('w, 'h) env \<Rightarrow> ('h call, 'w, any) prog" where
  "IssuerRedeemAcceptView_Call E =
     andThen (wrapErr ''failed getting transaction'' (ReceiveTransaction E)) (\<lambda>tx.
     andThen (wrapErr ''issuer failed endorsing transaction'' (RunView E (NewEndorseView tx))) (\<lambda>_.
     ret ANil))"

subsection \<open>Issue and redeem, started through a factory\<close>

record views_issue_cash =
  VTMSID :: "tmsid option"
  VAnonymous :: bool
  VAuditor :: string
  VIssuerWallet :: string
  VTokenType :: string
  VQuantity :: u64
  VRecipient :: identity
  VRecipientWalletID :: string
  VRecipientEID :: string
  VSkipAuditorSignatureVerification :: bool

record views_redeem =
  RdAuditor :: string
  RdIssuer :: string
  RdIssuerPublicParamsPublicKey :: identity
  RdWallet :: string
  RdTokenIDs :: "string list"
  RdType :: string
  RdAmount :: u64
  RdTMSID :: "tmsid option"

text \<open>
  The tail of both views: order the endorsed transaction only while it is pending, and return
  its id only when it is confirmed.
\<close>

definition order_checked ::
  "('w, 'h) env \<Rightarrow> 'h \<Rightarrow> string \<Rightarrow> ('h call, 'w, any) prog" where
  "order_checked E tx orderMsg =
     andThen (NewOwner E (tokenService (ttx E) tx)) (\<lambda>owner.
     andThen (assert_status E owner tx Pending ''busy'') (\<lambda>_.
     andThen (must orderMsg (RunView E (NewOrderingAndFinalityView tx))) (\<lambda>_.
     andThen (assert_status E owner tx Confirmed ''valid'') (\<lambda>_.
     ret (AString (txID (ttx E) tx))))))"

definition views_IssueCashView_Call :: "('w, 'h) env \<Rightarrow> views_issue_cash \<Rightarrow> ('h call, 'w, any) prog" where
  "views_IssueCashView_Call E p =
     andThen
       (must ''failed getting recipient identity''
          (RequestRecipientIdentity E (VRecipient p)
             (ServiceOpts (VTMSID p) [WithRecipientWalletID (VRecipientWalletID p)]))) (\<lambda>recipient.
     andThen (must '''' (GetManagementService E (ServiceOpts (VTMSID p) []))) (\<lambda>tms.
     andThen
       (must (''failed to get enrollment id for recipient ['' @ recipient @ '']'')
          (GetEnrollmentID E tms recipient)) (\<lambda>eID.
     andThen
       (assertTrue (''recipient EID ['' @ eID @ ''] does not match the expected one ['' @ VRecipientEID p @ '']'')
          (HasPrefix eID (VRecipientEID p))) (\<lambda>_.
     andThen (GetIssuerWallet E (VIssuerWallet p) (ServiceOpts (VTMSID p) [])) (\<lambda>w.
       case w of
         None \<Rightarrow> panic (''issuer wallet ['' @ VIssuerWallet p @ ''] not found'')
       | Some wallet \<Rightarrow>
     andThen (must ''failed getting id provider'' (GetProvider E)) (\<lambda>_.
     andThen
       (if length (VAuditor p) = 0 then DefaultIdentity E else Identity E (VAuditor p)) (\<lambda>auditorID.
     let opts = TxOpts (VTMSID p) [WithAuditor auditorID] in
     andThen
       (must ''failed creating issue transaction''
          (if VAnonymous p then NewAnonymousTransaction E opts else NewTransaction E opts)) (\<lambda>tx.
     andThen
       (SetApplicationMetadata E tx
          ''github.com/hyperledger/fabric-samples/token-sdk/common/views/issue'' ''issue'') (\<lambda>_.
     andThen
       (SetApplicationMetadata E tx
          ''github.com/hyperledger/fabric-samples/token-sdk/common/views/meta'' ''meta'') (\<lambda>_.
     andThen
       (must ''failed adding new issued token''
          (Issue E tx wallet recipient (VTokenType p) (VQuantity p))) (\<lambda>_.
     let eOpts = (if VSkipAuditorSignatureVerification p then [WithSkipAuditorSignatureVerification] else []) in
     andThen
       (must (''failed to sign issue transaction for '' @ txID (ttx E) tx)
          (RunView E (NewCollectEndorsementsView tx eOpts))) (\<lambda>_.
     order_checked E tx ''failed to commit issue transaction''))))))))))))"

definition views_RedeemView_Call :: "('w, 'h) env \<Rightarrow> views_redeem \<Rightarrow> ('h call, 'w, any) prog" where
  "views_RedeemView_Call E t =
     andThen (must ''failed getting id provider'' (GetProvider E)) (\<lambda>_.
     andThen (Identity E (RdAuditor t)) (\<lambda>auditor.
     andThen
       (must ''failed creating transaction''
          (NewAnonymousTransaction E (TxOpts (RdTMSID t) [WithAuditor auditor]))) (\<lambda>tx.
     andThen (GetWallet E (RdWallet t) (ServiceOpts (RdTMSID t) [])) (\<lambda>w.
       case w of
         None \<Rightarrow> panic (''sender wallet ['' @ RdWallet t @ ''] not found'')
       | Some senderWallet \<Rightarrow>
     andThen
       (if RdIssuer t \<noteq> '''' then
          andThen (Identity E (RdIssuer t)) (\<lambda>issuer.
          ret [WithTokenIDs (RdTokenIDs t), WithFSCIssuerIdentity issuer,
               WithIssuerPublicParamsPublicKey (RdIssuerPublicParamsPublicKey t)])
        else ret [WithTokenIDs (RdTokenIDs t)]) (\<lambda>opts.
     andThen
       (must ''failed adding new tokens''
          (Redeem E tx senderWallet (RdType t) (RdAmount t) opts)) (\<lambda>_.
     andThen
       (must ''failed to sign transaction'' (RunView E (NewCollectEndorsementsView tx []))) (\<lambda>_.
     order_checked E tx ''failed asking ordering'')))))))"

subsection \<open>The views follow the settlement protocol\<close>

lemma views_issue_follows:
  "conf settle_step Preparing (views_IssueCashView_Call E v)
    (\<lambda>r p w1. \<forall>a. r = Ok a \<longrightarrow> (\<exists>tx. p = Committed tx \<and> string_id a = Some (txID (ttx E) tx))) w"
  by (simp add: views_IssueCashView_Call_def order_checked_def assert_status_def Let_def api_defs
      prog_simps cong: conf_cong split: option.split)

lemma views_redeem_follows:
  "conf settle_step Preparing (views_RedeemView_Call E v)
    (\<lambda>r p w1. \<forall>a. r = Ok a \<longrightarrow> (\<exists>tx. p = Committed tx \<and> string_id a = Some (txID (ttx E) tx))) w"
  by (simp add: views_RedeemView_Call_def order_checked_def assert_status_def api_defs
      prog_simps cong: conf_cong split: option.split)

interpretation views_issue: settlement_view "txID (ttx E)" "views_IssueCashView_Call E" string_id for E
  by unfold_locales (rule views_issue_follows)

interpretation views_redeem: settlement_view "txID (ttx E)" "views_RedeemView_Call E" string_id for E
  by unfold_locales (rule views_redeem_follows)

subsection \<open>What the responders sign\<close>

text \<open>
  C17: The recipient of an issue or of a transfer accepts a transaction (hands it to the accept
  view, which signs it) only if it is the transaction it just received, and that transaction has
  an output for the identity it answered the request for a recipient identity with.
\<close>

theorem accept_only_if_recipient:
  assumes run: "AcceptCashView_Call E w = (r, es, w')"
    and accept: "Event (Fsc (CRunView (NewAcceptView tx))) b v \<in> set es"
  shows "\<exists>idn w1 w2 outs w3.
    respondRequestRecipientIdentity (ttx E) '''' w = (Ok idn, w1) \<and>
    receiveTransaction (ttx E) w1 = (Ok tx, w2) \<and>
    txOutputs (ttx E) tx w2 = (Ok outs, w3) \<and> byRecipient (ttx E) outs idn \<noteq> []"
    (is ?G)
proof (rule ccontr)
  let ?P = "\<lambda>e. op e = Fsc (CRunView (NewAcceptView tx))"
  have tokens: "conf (forbid ?P) () (AssertTokens E t outs idn) (\<lambda>r p w1. True) w1" for t outs idn w1
    by (rule conf_forbid_mono [OF conf_AssertTokens]) auto
  assume "\<not> ?G"
  then have "conf (forbid ?P) () (AcceptCashView_Call E) (\<lambda>r p w1. True) w"
    by (auto simp: AcceptCashView_Call_def assert_status_def api_defs prog_simps
        cong: conf_cong intro!: conf_mono [OF tokens] split: res.split)
  with forbidD(2) [OF this run accept] show False by simp
qed

text \<open>
  C18: When the accept view of a recipient returns, the transaction is confirmed. What happened, call by
  call, each in the world the one before left: the transaction it received after answering the
  identity request, with an output for that identity, was accepted; then its status was pending;
  then the finality view of that transaction ran and succeeded; then its status, read from the same
  owner service, was confirmed; then every output of it was checked against the token database: the
  node's own outputs are recorded with their quantity and type, and outputs of others are not.
\<close>

theorem accept_returns_only_confirmed:
  assumes run: "AcceptCashView_Call E w = (Ok a, es, w')"
  shows "\<exists>idn w1 tx w2 outs w3 w4 owner w5 w6 w7 w8 db w9.
    respondRequestRecipientIdentity (ttx E) '''' w = (Ok idn, w1) \<and>
    receiveTransaction (ttx E) w1 = (Ok tx, w2) \<and> txOutputs (ttx E) tx w2 = (Ok outs, w3) \<and>
    byRecipient (ttx E) outs idn \<noteq> [] \<and> runView (fsc E) (NewAcceptView tx) w3 = (Ok (), w4) \<and>
    newOwner (ttx E) (tokenService (ttx E) tx) w4 = (owner, w5) \<and>
    getStatus (ttx E) owner (txID (ttx E) tx) w5 = (Ok Pending, w6) \<and>
    runView (fsc E) (NewFinalityView tx) w6 = (Ok (), w7) \<and>
    getStatus (ttx E) owner (txID (ttx E) tx) w7 = (Ok Confirmed, w8) \<and>
    getByTMSId (token E) tx w8 = (Ok db, w9) \<and> checked_outputs E db tx idn outs w9 w'"
    (is "?G w'")
proof -
  have tokens: "conf (forbid (\<lambda>e. False)) () (AssertTokens E tx outs idn)
      (\<lambda>r p w2. r = Ok () \<longrightarrow> (\<exists>db w1. getByTMSId (token E) tx w = (Ok db, w1) \<and>
        checked_outputs E db tx idn outs w1 w2)) w" for tx outs idn w
    by (rule conf_forbid_mono [OF conf_AssertTokens]) blast+
  have "conf (forbid (\<lambda>e. False)) () (AcceptCashView_Call E) (\<lambda>r p w'. (\<exists>a. r = Ok a) \<longrightarrow> ?G w') w"
    by (simp add: AcceptCashView_Call_def assert_status_def api_defs prog_simps cong: conf_cong)
      (auto simp: prog_simps split: res.split intro!: conf_mono [OF tokens])
  from forbidD(1) [OF this run] show ?thesis by simp
qed

text \<open>
  C25: The issue view started through its factory asks for endorsements only on the issue that was
  asked for, to a recipient whose enrollment id starts with the one of the request. Call by call:
  the recipient answered with an identity; the enrollment id that the token management service of the
  request reports for it has the requested one as a prefix; the transaction to be endorsed is the one the
  view created for that service and the auditor (anonymous if asked for), and the issue of the requested
  type and quantity to that identity, from the issuer wallet of the request, was added to it.
\<close>

theorem issue_checks_enrollment:
  assumes run: "views_IssueCashView_Call E p w = (r, es, w')"
    and sign: "Event (Fsc (CRunView (NewCollectEndorsementsView tx opts))) b v \<in> set es"
  shows "\<exists>recipient w1 tms w2 eID w3 wallet w4 w5 auditor w6 w7 w8 w9 w10.
    requestRecipientIdentity (ttx E) (VRecipient p)
      (ServiceOpts (VTMSID p) [WithRecipientWalletID (VRecipientWalletID p)]) w = (Ok recipient, w1) \<and>
    getManagementService (token E) (ServiceOpts (VTMSID p) []) w1 = (Ok tms, w2) \<and>
    getEnrollmentID (token E) tms recipient w2 = (Ok eID, w3) \<and> prefix (VRecipientEID p) eID \<and>
    getIssuerWallet (ttx E) (VIssuerWallet p) (ServiceOpts (VTMSID p) []) w3 = (Some wallet, w4) \<and>
    getProvider (fsc E) w4 = (Ok (), w5) \<and>
    (if VAuditor p = '''' then providerDefaultIdentity (fsc E) w5
     else providerIdentity (fsc E) (VAuditor p) w5) = (auditor, w6) \<and>
    (if VAnonymous p then newAnonymousTransaction (ttx E) (TxOpts (VTMSID p) [WithAuditor auditor]) w6
     else newTransaction (ttx E) (TxOpts (VTMSID p) [WithAuditor auditor]) w6) = (Ok tx, w7) \<and>
    setApplicationMetadata (ttx E) tx
      ''github.com/hyperledger/fabric-samples/token-sdk/common/views/issue'' ''issue'' w7 = ((), w8) \<and>
    setApplicationMetadata (ttx E) tx
      ''github.com/hyperledger/fabric-samples/token-sdk/common/views/meta'' ''meta'' w8 = ((), w9) \<and>
    txIssue (ttx E) tx wallet recipient (VTokenType p) (VQuantity p) w9 = (Ok (), w10)"
    (is ?G)
proof (rule ccontr)
  let ?P = "\<lambda>e. op e = Fsc (CRunView (NewCollectEndorsementsView tx opts))"
  assume "\<not> ?G"
  then have "conf (forbid ?P) () (views_IssueCashView_Call E p) (\<lambda>r p w1. True) w"
    by (auto simp: views_IssueCashView_Call_def HasPrefix_iff Let_def order_checked_def assert_status_def
        api_defs prog_simps cong: conf_cong split: option.split)
  with forbidD(2) [OF this run sign] show False by simp
qed

end
