(* ===== verification/Samples.thy ===== *)
theory Samples imports Issuer_Api Views begin

text \<open>
  A concrete environment, on which the properties are instantiated: a ledger (the list of the ids
  that were ordered), one wallet per name, and libraries that always succeed. References are
  names; a transaction is its id.
\<close>

definition sample_fsc :: "(string list, string) fsc_env" where
  "sample_fsc = \<lparr>
     getManager = (\<lambda>w. (Ok (), w)),
     initiateView = (\<lambda>view w. case view w of (Panic m, es, w1) \<Rightarrow> (Err (New m), es, w1) | r \<Rightarrow> r),
     bindEndpoint = (\<lambda>a b w. (Ok (), w)),
     getProvider = (\<lambda>w. (Ok (), w)),
     providerIdentity = (\<lambda>n w. (n, w)),
     providerDefaultIdentity = (\<lambda>w. (''me'', w)),
     runView = (\<lambda>v w. case v of
        NewOrderingAndFinalityView tx \<Rightarrow> (Ok (), w @ [tx])
      | HtlcOrderingAndFinalityView tx \<Rightarrow> (Ok (), w @ [tx])
      | NewFinalityView tx \<Rightarrow> (Ok (), w @ [tx])
      | HtlcFinalityView tx \<Rightarrow> (Ok (), w @ [tx])
      | _ \<Rightarrow> (Ok (), w)),
     isNone = (\<lambda>i. i = ''''),
     identityEqual = (\<lambda>a b. a = b)\<rparr>"

definition sample_output :: token_output where
  "sample_output = \<lparr>Owner = ''me'', OutType = ''USD'', OutQuantityHex = ''0x64''\<rparr>"

definition sample_token :: unspent_token where
  "sample_token = \<lparr>UType = ''USD'', UQuantity = ''0x64''\<rparr>"

definition sample_ttx :: "(string list, string) ttx_env" where
  "sample_ttx = \<lparr>
     getWallet = (\<lambda>n opts w. (Some n, w)),
     getIssuerWallet = (\<lambda>n opts w. (Some n, w)),
     myIssuerWallet = (\<lambda>opts w. (Some ''issuer'', w)),
     getRecipientIdentity = (\<lambda>h w. (Ok h, w)),
     requestRecipientIdentity = (\<lambda>i opts w. (Ok i, w)),
     respondRequestRecipientIdentity = (\<lambda>n w. (Ok ''me'', w)),
     newTransaction = (\<lambda>opts w. (Ok ''tx1'', w)),
     newAnonymousTransaction = (\<lambda>opts w. (Ok ''tx1'', w)),
     receiveTransaction = (\<lambda>w. (Ok ''tx1'', w)),
     setApplicationMetadata = (\<lambda>tx k v w. ((), w)),
     txTransfer = (\<lambda>tx wal typ qs ids w. (Ok (), w)),
     txRedeem = (\<lambda>tx wal typ q opts w. (Ok (), w)),
     txIssue = (\<lambda>tx wal i typ q w. (Ok (), w)),
     txOutputs = (\<lambda>tx w. (Ok [sample_output], w)),
     newOwner = (\<lambda>tms w. (Some ''owner'', w)),
     getStatus = (\<lambda>ow i w. (Ok (if i \<in> set w then Confirmed else Pending), w)),
     txID = (\<lambda>tx. tx),
     tokenService = (\<lambda>tx. ''tms''),
     byRecipient = (\<lambda>os i. filter (\<lambda>out. Owner out = i) os),
     outputID = (\<lambda>out tx. tx)\<rparr>"

definition sample_record :: transaction_record where
  "sample_record = \<lparr>RecTxID = ''tx0'', RecStatus = Confirmed, SenderEID = ''alice'', RecipientEID = ''bob'',
     RecTokenType = ''USD'', RecAmount = 100, Timestamp = 0, ApplicationMetadata = (\<lambda>k. None)\<rparr>"

definition sample_token_env :: "(string list, string) token_env" where
  "sample_token_env = \<lparr>
     getManagementService = (\<lambda>opts w. (Ok ''tms'', w)),
     publicParamsIssuers = (\<lambda>h w. ([''issuer''], w)),
     getEnrollmentID = (\<lambda>h i w. (Ok (i @ ''.eid''), w)),
     ownerWallet = (\<lambda>h n w. (Ok n, w)),
     listUnspentTokens = (\<lambda>h w. (Ok [sample_token, sample_token], w)),
     walletBalance = (\<lambda>h typ w. (Ok (int (total typ [sample_token, sample_token])), w)),
     getByTMSId = (\<lambda>tx w. (Ok ''db'', w)),
     isMe = (\<lambda>tx i w. (Ok (i = ''me''), w)),
     getTokens = (\<lambda>db i w. (Ok [sample_token], w)),
     paginationOffset = (\<lambda>a b w. (Ok ''page'', w)),
     transactions = (\<lambda>ow params page w. (Ok (Some ''it''), w)),
     itemsNext = (\<lambda>it w. case w of [] \<Rightarrow> (Ok None, w) | t # ts \<Rightarrow> (Ok (Some sample_record), ts)),
     itemsClose = (\<lambda>it w. ((), w)),
     defaultMaxPageSize = 1000,
     txStatusMessage = (\<lambda>s. ''Confirmed''),
     wrapNil = (\<lambda>m. None),
     mapRange = (\<lambda>m. m)\<rparr>"

definition sample_script :: htlc_script where
  "sample_script = \<lparr>Sender = ''alice'', SRecipient = ''me'', ScriptHash = Some ''hash''\<rparr>"

definition sample_htlc :: "(string list, string) htlc_env" where
  "sample_htlc = \<lparr>
     exchangeRecipientIdentities = (\<lambda>n i opts w. (Ok (''me'', i), w)),
     respondExchangeRecipientIdentities = (\<lambda>w. (Ok (''me'', ''alice''), w)),
     htlcNewTransaction = (\<lambda>opts w. (Ok ''tx1'', w)),
     htlcReceiveTransaction = (\<lambda>w. (Ok ''tx1'', w)),
     htlcGetWallet = (\<lambda>n opts w. (Some n, w)),
     txLock = (\<lambda>tx wal i typ q rec d h w. (Ok ''secret'', w)),
     listByPreImage = (\<lambda>h p w. (Ok [''tok''], w)),
     getExpiredByHash = (\<lambda>h p w. (Ok ''tok'', w)),
     txClaim = (\<lambda>tx wal tok p w. (Ok (), w)),
     txReclaim = (\<lambda>tx wal tok w. (Ok (), w)),
     htlcOutputs = (\<lambda>tx w. (Ok [Some sample_script], w)),
     byScript = List.map_filter (\<lambda>s. s),
     scriptValidate = (\<lambda>s w. (Ok (), w)),
     tokenID = (\<lambda>h. h)\<rparr>"

definition sample :: "(string list, string) env" where
  "sample = \<lparr>fsc = sample_fsc, ttx = sample_ttx, token = sample_token_env, htlc = sample_htlc\<rparr>"

definition sample_oapi :: oapi where
  "sample_oapi = \<lparr>bindPath = (\<lambda>n v. Inr v), bindQuery = (\<lambda>n q. Inr None)\<rparr>"

lemma initiates_sample: "initiates sample"
  by (auto simp: initiates_def InitiateView_def sample_def sample_fsc_def split: prod.splits res.splits)

text \<open>A run of a program, in the form the properties take it.\<close>

lemma run_split: "fst t = x \<Longrightarrow> t = (x, fst (snd t), snd (snd t))"
  by (cases t) auto

definition post :: "string \<Rightarrow> json \<Rightarrow> request" where
  "post action body = \<lparr>Method = ''POST'', Path = [''owner'', ''accounts'', ''alice'', action], Query = [],
     RequestBody = Inr body\<rparr>"

definition transfer_body :: json where
  "transfer_body = JObj [(''amount'', JObj [(''code'', JStr ''USD''), (''value'', JNum ''100'')]),
     (''counterparty'', JObj [(''account'', JStr ''bob''), (''node'', JStr ''owner2'')])]"

end
