(* ===== verification/Endorser_Service.thy ===== *)
theory Endorser_Service imports Owner_Routes begin

text \<open>
  \<open>tokens/endorser/service/fsc.go\<close> and \<open>tokens/endorser/routes\<close>: the endorser's only operation
  of its own, \<open>Init\<close>, which deploys the token management services (TMS) of its configuration.
  The configuration service, the file system and the deployer are the record \<open>deploy_env\<close>; a
  TMS configuration is what its methods return.
\<close>

record tms_config =
  IsSet :: "string \<Rightarrow> bool"
  GetString :: "string \<Rightarrow> string"
  ID :: tmsid
  TranslatePath :: "string \<Rightarrow> string"

datatype deploy_call =
  CGetTMSDeployerService
| CGetService
| CConfigurations
| CReadFile string
| CDeployTMSWithPP tmsid bytes

record 'w deploy_env =
  getTMSDeployerService :: "'w \<Rightarrow> unit res \<times> 'w"
  getService :: "'w \<Rightarrow> unit res \<times> 'w"
  configurations :: "'w \<Rightarrow> tms_config list res \<times> 'w"
  readFile :: "string \<Rightarrow> 'w \<Rightarrow> bytes res \<times> 'w"
  deployTMSWithPP :: "tmsid \<Rightarrow> bytes \<Rightarrow> 'w \<Rightarrow> unit res \<times> 'w"
  tmsidString :: "tmsid \<Rightarrow> string"

fun deploy_configs :: "'w deploy_env \<Rightarrow> tms_config list \<Rightarrow> (deploy_call, 'w, unit) prog" where
  "deploy_configs D [] = ret ()"
| "deploy_configs D (c # cs) =
     (if IsSet c ''services.network.evm'' then deploy_configs D cs
      else
        let path = GetString c ''publicParameters.path'' in
        if path = '''' then
          throw (New (''no publicParameters.path configured for TMS ['' @ tmsidString D (ID c) @ '']''))
        else
          andThen
            (wrapErr (''failed reading public parameters for TMS ['' @ tmsidString D (ID c) @ '']'')
               (ext (CReadFile (TranslatePath c path)) (readFile D (TranslatePath c path)))) (\<lambda>ppRaw.
          andThen
            (wrapErr (''failed deploying TMS ['' @ tmsidString D (ID c) @ '']'')
               (ext (CDeployTMSWithPP (ID c) ppRaw) (deployTMSWithPP D (ID c) ppRaw))) (\<lambda>_.
          deploy_configs D cs)))"

definition FSC_Init :: "'w deploy_env \<Rightarrow> (deploy_call, 'w, unit) prog" where
  "FSC_Init D =
     andThen (ext CGetTMSDeployerService (getTMSDeployerService D)) (\<lambda>_.
     andThen (wrapErr ''failed getting token config service'' (ext CGetService (getService D))) (\<lambda>_.
     andThen (wrapErr ''failed loading TMS configurations'' (ext CConfigurations (configurations D))) (\<lambda>configs.
     deploy_configs D configs)))"

definition Server_Init :: "'w deploy_env \<Rightarrow> (deploy_call, 'w, nat \<times> api_json) prog" where
  "Server_Init D = andThen (FSC_Init D) (\<lambda>_. ret (StatusOK, HealthSuccess ''ok''))"

definition strict_Init :: "'w deploy_env \<Rightarrow> (deploy_call, 'w, api_json) handler" where
  "strict_Init D r = strict_respond (Server_Init D)"

definition endorser_routes :: "'w deploy_env \<Rightarrow> (deploy_call, 'w, api_json) route list" where
  "endorser_routes D =
     [(''POST'', [Lit ''endorser'', Lit ''init''], \<lambda>_. strict_Init D),
      (''GET'', [Lit ''healthz''], \<lambda>_. strict_Healthz),
      (''GET'', [Lit ''readyz''], \<lambda>_. strict_Readyz)]"

definition endorser_api :: "'w deploy_env \<Rightarrow> (deploy_call, 'w, api_json) handler" where
  "endorser_api D = WithAnyCORS (serve_mux (endorser_routes D))"

subsection \<open>What is deployed\<close>

text \<open>The deployments a trace records as done, in order, and the TMSs that are to be deployed.\<close>

fun deployed :: "(deploy_call, 'w) event list \<Rightarrow> tmsid list" where
  "deployed [] = []"
| "deployed (e # es) =
     (case op e of CDeployTMSWithPP i pp \<Rightarrow> if succeeded e then i # deployed es else deployed es
      | _ \<Rightarrow> deployed es)"

lemma deployed_append [simp]: "deployed (es @ fs) = deployed es @ deployed fs"
  by (induction es) (auto split: deploy_call.split)

definition to_deploy :: "tms_config list \<Rightarrow> tmsid list" where
  "to_deploy cs = map ID (filter (\<lambda>c. \<not> IsSet c ''services.network.evm'') cs)"

lemma conf_deploy_configs:
  "conf collect es (deploy_configs D cs)
    (\<lambda>r fs w1. \<exists>k. deployed fs = deployed es @ take k (to_deploy cs) \<and>
       (r = Ok () \<longleftrightarrow> k \<ge> length (to_deploy cs))) w"
proof (induction cs arbitrary: es w)
  case Nil
  then show ?case by (simp add: prog_simps to_deploy_def)
next
  case (Cons c cs)
  show ?case
  proof (cases "IsSet c ''services.network.evm''")
    case True
    then show ?thesis using Cons.IH by (simp add: to_deploy_def)
  next
    case False
    then have t: "to_deploy (c # cs) = ID c # to_deploy cs" by (simp add: to_deploy_def)
    have stop: "\<exists>k. deployed es = deployed es @ take k (to_deploy (c # cs)) \<and> \<not> k \<ge> length (to_deploy (c # cs))"
      by (rule exI [of _ 0]) (simp add: t)
    have next_one: "\<exists>k. ds = deployed es @ take k (to_deploy (c # cs)) \<and>
        (P \<longleftrightarrow> k \<ge> length (to_deploy (c # cs)))"
      if "\<exists>k. ds = (deployed es @ [ID c]) @ take k (to_deploy cs) \<and> (P \<longleftrightarrow> k \<ge> length (to_deploy cs))"
      for ds P
    proof -
      from that obtain k where "ds = (deployed es @ [ID c]) @ take k (to_deploy cs) \<and>
        (P \<longleftrightarrow> k \<ge> length (to_deploy cs))" ..
      then show ?thesis by (intro exI [of _ "Suc k"]) (simp add: t)
    qed
    show ?thesis
      using False stop
      by (simp add: Let_def prog_simps cong: conf_cong)
        (intro conjI allI impI conf_mono [OF Cons.IH] next_one; simp)
  qed
qed

text \<open>
  C28: \<open>Init\<close> deploys the configured TMSs in the order of the configuration, leaving out those
  that are settled on an EVM chain, and answers 200 exactly when all of them are deployed. When it
  fails, what was deployed is an initial part of that list, and nothing else was.
\<close>

theorem init_deploys_in_order:
  assumes run: "endorser_api D r w = (x, es, w')" and post: "Method r = ''POST''" "Path r = [''endorser'', ''init'']"
    and "getTMSDeployerService D w = (Ok (), w1)" and "getService D w1 = (Ok (), w2)"
    and "configurations D w2 = (Ok cfgs, w3)"
  shows "\<exists>k. deployed es = take k (to_deploy cfgs) \<and>
    ((\<exists>resp. x = Ok resp \<and> Status resp = StatusOK) \<longleftrightarrow> k \<ge> length (to_deploy cfgs))"
proof -
  let ?es = "[Event CGetTMSDeployerService True w1, Event CGetService True w2, Event CConfigurations True w3]"
  have "conf collect ?es (deploy_configs D cfgs)
    (\<lambda>r fs v. \<exists>k. deployed fs = take k (to_deploy cfgs) \<and>
      (r = Ok () \<longleftrightarrow> k \<ge> length (to_deploy cfgs))) w3"
    by (rule conf_mono [OF conf_deploy_configs]) simp
  then have init: "conf collect [] (FSC_Init D)
    (\<lambda>r fs v. \<exists>k. deployed fs = take k (to_deploy cfgs) \<and>
      (r = Ok () \<longleftrightarrow> k \<ge> length (to_deploy cfgs))) w"
    using assms(4-) by (simp add: FSC_Init_def prog_simps cong: conf_cong)
  have "conf collect [] (endorser_api D r)
    (\<lambda>x fs v. \<exists>k. deployed fs = take k (to_deploy cfgs) \<and>
      ((\<exists>resp. x = Ok resp \<and> Status resp = StatusOK) \<longleftrightarrow> k \<ge> length (to_deploy cfgs))) w"
    using post
    by (simp add: endorser_api_def WithAnyCORS_def serve_mux_def endorser_routes_def match_method_def
        strict_Init_def Server_Init_def prog_simps cong: conf_cong)
      (rule conf_mono [OF init], auto simp: prog_simps json_response_def http_Error_def status_defs
        split: res.split)
  from collectD [OF this run] show ?thesis .
qed

end
