(* ===== verification/Ce_Config.thy ===== *)
theory Ce_Config imports Prog Go_Numbers begin

text \<open>
  \<open>custom-endorser/config/config.go\<close>: the configuration of the endorser, its validation, and
  the addresses and connection settings derived from it. The gRPC server settings come from a
  library and are any type \<open>'s\<close>. A method called through a \<open>nil\<close> pointer panics, so a conversion
  that may do so returns a \<open>res\<close>.
\<close>

record identity_config =
  MspID :: string
  MSPDir :: string

record tls_config =
  TlsMode :: string
  CertPath :: string
  KeyPath :: string
  CACertPaths :: "string list"

record endpoint =
  Host :: string
  Port :: int

record client_config =
  Endpoint :: "endpoint option"
  TLS :: tls_config

record 's config =
  ChannelID :: string
  Server :: "'s option"
  Committer :: client_config
  CfgIdentity :: "identity_config option"
  LogSpec :: string
  Protocol :: string
  ConnStr :: string

text \<open>\<open>network.PeerConf\<close> and \<open>network.OrdererConf\<close> of the SDK have the same fields.\<close>

record network_conf =
  ConfAddress :: string
  ConfTLS :: tls_config

definition JoinHostPort :: "string \<Rightarrow> string \<Rightarrow> string" where
  "JoinHostPort host port =
     (if CHR '':'' \<in> set host then ''['' @ host @ '']:'' @ port else host @ '':'' @ port)"

definition Address :: "endpoint \<Rightarrow> string" where
  "Address e =
     (if Host e = ''localhost'' then Host e @ '':'' @ Itoa (Port e)
      else JoinHostPort (Host e) (Itoa (Port e)))"

definition ToPeerConf :: "client_config \<Rightarrow> network_conf res" where
  "ToPeerConf c =
     (case Endpoint c of
        None \<Rightarrow> Panic ''invalid memory address or nil pointer dereference''
      | Some e \<Rightarrow> Ok \<lparr>ConfAddress = Address e, ConfTLS = TLS c\<rparr>)"

definition ToOrdererConf :: "client_config \<Rightarrow> network_conf res" where
  "ToOrdererConf c =
     (case Endpoint c of
        None \<Rightarrow> Panic ''invalid memory address or nil pointer dereference''
      | Some e \<Rightarrow> Ok \<lparr>ConfAddress = Address e, ConfTLS = TLS c\<rparr>)"

definition Validate :: "'s config \<Rightarrow> error option" where
  "Validate cfg =
     (let errs = [] in
      let errs = (if ConnStr cfg = '''' then errs @ [New ''database.connection-string is required''] else errs) in
      let errs = (if ChannelID cfg = '''' then errs @ [New ''channel-id is required''] else errs) in
      let errs = (if Protocol cfg \<noteq> '''' \<and> Protocol cfg \<noteq> ''fabric'' \<and> Protocol cfg \<noteq> ''fabric-x''
                  then errs @ [New ''protocol must be either fabric or fabric-x''] else errs) in
      let errs = (if Endpoint (Committer cfg) = None then errs @ [New ''committer.endpoint is required''] else errs) in
      let errs = (if Server cfg = None then errs @ [New ''server configuration is required''] else errs) in
      errors_Join (map Some errs))"

text \<open>What the configuration must have, and the complaint about each thing it lacks.\<close>

definition complaints :: "'s config \<Rightarrow> (bool \<times> string) list" where
  "complaints cfg =
     [(ConnStr cfg = '''', ''database.connection-string is required''),
      (ChannelID cfg = '''', ''channel-id is required''),
      (Protocol cfg \<notin> {'''', ''fabric'', ''fabric-x''}, ''protocol must be either fabric or fabric-x''),
      (Endpoint (Committer cfg) = None, ''committer.endpoint is required''),
      (Server cfg = None, ''server configuration is required'')]"

lemma Validate_complaints:
  "Validate cfg = errors_Join (map (\<lambda>(bad, m). if bad then Some (New m) else None) (complaints cfg))"
  unfolding Validate_def complaints_def Let_def
  by (cases "ConnStr cfg = ''''"; cases "ChannelID cfg = ''''"; cases "Endpoint (Committer cfg) = None";
      cases "Server cfg = None";
      cases "Protocol cfg \<noteq> '''' \<and> Protocol cfg \<noteq> ''fabric'' \<and> Protocol cfg \<noteq> ''fabric-x''")
    (simp_all add: errors_Join_def List.map_filter_def)

text \<open>
  \<open>Validate\<close> accepts a configuration exactly when it lacks nothing, and otherwise reports
  every single thing it lacks, not only the first: each is among the joined errors.
\<close>

lemma validate_reports_all:
  "(Validate cfg = None \<longleftrightarrow>
      ConnStr cfg \<noteq> '''' \<and> ChannelID cfg \<noteq> '''' \<and> Protocol cfg \<in> {'''', ''fabric'', ''fabric-x''} \<and>
      Endpoint (Committer cfg) \<noteq> None \<and> Server cfg \<noteq> None) \<and>
   (\<forall>(bad, m) \<in> set (complaints cfg). bad \<longrightarrow> (\<exists>e. Validate cfg = Some e \<and> is_error (New m) e))"
proof
  show "Validate cfg = None \<longleftrightarrow>
      ConnStr cfg \<noteq> '''' \<and> ChannelID cfg \<noteq> '''' \<and> Protocol cfg \<in> {'''', ''fabric'', ''fabric-x''} \<and>
      Endpoint (Committer cfg) \<noteq> None \<and> Server cfg \<noteq> None"
    unfolding Validate_complaints errors_Join_None_iff by (auto simp: complaints_def)
  show "\<forall>(bad, m) \<in> set (complaints cfg). bad \<longrightarrow> (\<exists>e. Validate cfg = Some e \<and> is_error (New m) e)"
    unfolding Validate_complaints
    by (force intro: errors_Join_reports)
qed

text \<open>A valid configuration never makes the conversion of the committer's address panic.\<close>

lemma valid_committer: "Validate cfg = None \<Longrightarrow> \<exists>c. ToPeerConf (Committer cfg) = Ok c"
  unfolding Validate_complaints errors_Join_None_iff
  by (cases "Endpoint (Committer cfg)") (simp_all add: complaints_def ToPeerConf_def)

subsection \<open>Addresses\<close>

definition bracketed :: "string \<Rightarrow> string" where
  "bracketed h = (if CHR '':'' \<in> set h then ''['' @ h @ '']'' else h)"

lemma bracketed_inj: "bracketed g = bracketed h \<Longrightarrow> g = h"
proof -
  assume eq: "bracketed g = bracketed h"
  have "CHR '':'' \<in> set (bracketed k) \<longleftrightarrow> CHR '':'' \<in> set k" for k by (simp add: bracketed_def)
  with eq have "CHR '':'' \<in> set g \<longleftrightarrow> CHR '':'' \<in> set h" by metis
  with eq show "g = h" by (simp add: bracketed_def split: if_splits)
qed

lemma format_base_char: "c \<in> set (format_base 10 n) \<Longrightarrow> \<exists>d < 10. c = digit_char d"
  by (auto simp: format_base_def dest: digits_of_bound [rotated])

lemma format_base_inj: "format_base 10 m = format_base 10 n \<Longrightarrow> m = n"
proof -
  assume eq: "format_base 10 m = format_base 10 n"
  have read: "digits_in 10 (format_base 10 k) = Some (digits_of 10 k)" for k
    unfolding format_base_def by (rule digits_in_map) (auto dest: digits_of_bound [rotated])
  have val: "value_of 10 0 (digits_of 10 k) = k" for k by (rule value_of_digits_of) simp
  from read eq have "digits_of 10 m = digits_of 10 n" by (metis option.inject)
  with val show "m = n" by metis
qed

lemma digit_char_punctuation: "d < 10 \<Longrightarrow> digit_char d \<noteq> CHR '':'' \<and> digit_char d \<noteq> CHR ''-''"
proof -
  assume "d < 10"
  then have n: "of_char (digit_char d) = (48 + d :: nat)" by (simp add: of_char_digit_char)
  have "of_char (CHR '':'') = (58 :: nat)" "of_char (CHR ''-'') = (45 :: nat)" by simp_all
  moreover have "48 + d \<noteq> 58" "48 + d \<noteq> 45" using \<open>d < 10\<close> by simp_all
  ultimately show ?thesis using n by metis
qed

lemma Itoa_char: "c \<in> set (Itoa i) \<Longrightarrow> c \<noteq> CHR '':''"
proof
  assume "c \<in> set (Itoa i)" and c: "c = CHR '':''"
  then have "c = CHR ''-'' \<or> (\<exists>d < 10. c = digit_char d)"
    by (auto simp: Itoa_def dest: format_base_char split: if_splits)
  then show False
  proof
    assume "\<exists>d < 10. c = digit_char d"
    then show False using c digit_char_punctuation by metis
  qed (use c in simp)
qed

lemma Itoa_inj: "Itoa i = Itoa j \<Longrightarrow> i = j"
proof -
  have nominus: "format_base 10 n \<noteq> ''-'' @ s" for n s
  proof
    assume "format_base 10 n = ''-'' @ s"
    then have "\<exists>d < 10. CHR ''-'' = digit_char d" using format_base_char [of "CHR ''-''" n] by simp
    then show False using digit_char_punctuation by (metis (full_types))
  qed
  assume "Itoa i = Itoa j"
  then show "i = j"
    using nominus nominus [symmetric]
    by (auto simp: Itoa_def dest!: format_base_inj split: if_splits)
qed

lemma split_last_colon:
  assumes "xs @ CHR '':'' # ys = us @ CHR '':'' # vs" and "CHR '':'' \<notin> set ys" and "CHR '':'' \<notin> set vs"
  shows "xs = us \<and> ys = vs"
  using assms by (auto simp: append_eq_append_conv2 Cons_eq_append_conv append_eq_Cons_conv)

text \<open>
  Two different endpoints never get the same address, also when a host is a literal IPv6
  address or \<open>localhost\<close>: the address determines host and port.
\<close>

lemma address_injective: "Address a = Address b \<Longrightarrow> a = b"
proof -
  assume eq: "Address a = Address b"
  have shape: "Address e = bracketed (Host e) @ CHR '':'' # Itoa (Port e)" for e
    by (auto simp: Address_def JoinHostPort_def bracketed_def)
  have "bracketed (Host a) = bracketed (Host b) \<and> Itoa (Port a) = Itoa (Port b)"
    using eq Itoa_char by (intro split_last_colon) (auto simp: shape)
  then show "a = b" using Itoa_inj bracketed_inj by (cases a; cases b) auto
qed

end
