(* ===== verification/Ce_Service.thy ===== *)
theory Ce_Service imports Ce_Config begin

text \<open>
  \<open>custom-endorser/service/service.go\<close>: the gRPC service that turns a signed proposal into an
  endorsed response, and \<open>custom-endorser/cmd/endorser/executor.go\<close>, the sample executor it
  runs. The SDK (proposal parsing, simulation stores, endorsement builders, the synchronizer, the
  databases) is the record \<open>sdk\<close>, over a world \<open>'w\<close>, store references \<open>'h\<close>, read/write sets
  \<open>'r\<close>, proposals \<open>'q\<close> and proposal responses \<open>'p\<close>.
\<close>

record invocation =
  InvTxID :: string
  InvChannel :: string
  CCIDName :: string
  CCIDVersion :: string
  Args :: "bytes list"

text \<open>\<open>endorsement.ExecutionResult\<close>, by the constructor functions the code calls.\<close>

datatype 'r exec_result = BadRequest string | Success 'r bytes

datatype builder = FabricBuilder | FabricXBuilder

datatype ('h, 'r, 'q) ce_call =
  CParse 'q
| CNewSimulationStore string u64 bool
| CGetState 'h string
| CPutState 'h string bytes
| CResult 'h
| CEndorse builder invocation "'r exec_result"
| CReady
| CSelect
| CNewWriteDB string string
| CNewReadDB string string
| CNewSynchronizer builder network_conf
| CStartSynchronizer
| CDone
| CCloseWriteDB
| CCloseReadDB
| CBlockNumber
| CRegisterServer string

record ('w, 'h, 'r, 'q, 'p) sdk =
  parse :: "'q \<Rightarrow> 'w \<Rightarrow> invocation res \<times> 'w"
  newSimulationStore :: "string \<Rightarrow> u64 \<Rightarrow> bool \<Rightarrow> 'w \<Rightarrow> 'h res \<times> 'w"
  getState :: "'h \<Rightarrow> string \<Rightarrow> 'w \<Rightarrow> bytes res \<times> 'w"
  putState :: "'h \<Rightarrow> string \<Rightarrow> bytes \<Rightarrow> 'w \<Rightarrow> unit res \<times> 'w"
  storeResult :: "'h \<Rightarrow> 'w \<Rightarrow> 'r \<times> 'w"
  endorse :: "builder \<Rightarrow> invocation \<Rightarrow> 'r exec_result \<Rightarrow> 'w \<Rightarrow> 'p res \<times> 'w"
  ready :: "'w \<Rightarrow> unit res \<times> 'w"
  selectDone :: "'w \<Rightarrow> bool \<times> 'w"
  newWriteDB :: "string \<Rightarrow> string \<Rightarrow> 'w \<Rightarrow> unit res \<times> 'w"
  newReadDB :: "string \<Rightarrow> string \<Rightarrow> 'w \<Rightarrow> unit res \<times> 'w"
  newSynchronizer :: "builder \<Rightarrow> network_conf \<Rightarrow> 'w \<Rightarrow> unit res \<times> 'w"
  startSynchronizer :: "'w \<Rightarrow> unit \<times> 'w"
  awaitDone :: "'w \<Rightarrow> unit \<times> 'w"
  closeWriteDB :: "'w \<Rightarrow> unit \<times> 'w"
  closeReadDB :: "'w \<Rightarrow> unit \<times> 'w"
  blockNumber :: "'w \<Rightarrow> u64 res \<times> 'w"
  registerServer :: "string \<Rightarrow> 'w \<Rightarrow> unit \<times> 'w"

type_synonym ('c, 'w, 'h) store_factory = "u64 \<Rightarrow> ('c, 'w, 'h) prog"

type_synonym ('c, 'w, 'h, 'r) executor =
  "('c, 'w, 'h) store_factory \<Rightarrow> invocation \<Rightarrow> ('c, 'w, 'r exec_result) prog"

text \<open>The fields of \<open>Service\<close> that its methods read; a \<open>nil\<close> builder is \<open>None\<close>.\<close>

record ('c, 'w, 'h, 'r) service =
  channel :: string
  executors :: "string \<Rightarrow> ('c, 'w, 'h, 'r) executor option"
  builder :: "builder option"
  monotonicVersions :: bool

record service_config =
  SvcChannelID :: string
  SvcProtocol :: string
  SvcCommitter :: network_conf
  SvcDBConnStr :: string

subsection \<open>The sample executor\<close>

definition SampleExecutor_Execute ::
  "('w, 'h, 'r, 'q, 'p) sdk \<Rightarrow> (('h, 'r, 'q) ce_call, 'w, 'h, 'r) executor" where
  "SampleExecutor_Execute S newStore call =
     andThen (wrapErr ''simulation store'' (newStore 0)) (\<lambda>store.
       if length (Args call) = 0 then ret (BadRequest ''no function specified'')
       else if Args call ! 0 = ''get'' then
         (if length (Args call) < 2 then ret (BadRequest ''usage: get [key]'')
          else
            andThen (wrapErr ''db'' (ext (CGetState store (Args call ! 1)) (getState S store (Args call ! 1)))) (\<lambda>res.
            andThen (extv (CResult store) (storeResult S store)) (\<lambda>rws.
            ret (Success rws res))))
       else if Args call ! 0 = ''set'' then
         (if length (Args call) < 3 then ret (BadRequest ''usage: set [key] [value]'')
          else
            andThen
              (wrapErr ''db''
                 (ext (CPutState store (Args call ! 1) (Args call ! 2))
                    (putState S store (Args call ! 1) (Args call ! 2)))) (\<lambda>_.
            andThen (extv (CResult store) (storeResult S store)) (\<lambda>rws.
            ret (Success rws (Args call ! 1 @ ''='' @ Args call ! 2)))))
       else ret (BadRequest ''usage: get [key] || set [key] [value]''))"

subsection \<open>The service\<close>

definition NewWithSigner ::
  "('w, 'h, 'r, 'q, 'p) sdk \<Rightarrow> service_config \<Rightarrow>
   (string \<Rightarrow> (('h, 'r, 'q) ce_call, 'w, 'h, 'r) executor option) \<Rightarrow>
   (('h, 'r, 'q) ce_call, 'w, (('h, 'r, 'q) ce_call, 'w, 'h, 'r) service) prog" where
  "NewWithSigner S cfg execs =
     andThen
       (wrapErr ''db''
          (ext (CNewWriteDB (SvcChannelID cfg) (SvcDBConnStr cfg))
             (newWriteDB S (SvcChannelID cfg) (SvcDBConnStr cfg)))) (\<lambda>_.
     andThen
       (wrapErr ''db''
          (ext (CNewReadDB (SvcChannelID cfg) (SvcDBConnStr cfg))
             (newReadDB S (SvcChannelID cfg) (SvcDBConnStr cfg)))) (\<lambda>_.
     let b = (if SvcProtocol cfg = ''fabric'' then Some FabricBuilder
              else if SvcProtocol cfg = ''fabric-x'' \<or> SvcProtocol cfg = '''' then Some FabricXBuilder
              else None);
         monotonic = (b = Some FabricXBuilder) in
     andThen
       (wrapErr ''create synchronizer''
          (case b of
             None \<Rightarrow> ret ()
           | Some k \<Rightarrow> ext (CNewSynchronizer k (SvcCommitter cfg)) (newSynchronizer S k (SvcCommitter cfg)))) (\<lambda>_.
     ret \<lparr>channel = SvcChannelID cfg, executors = execs, builder = b, monotonicVersions = monotonic\<rparr>)))"

definition Run :: "('w, 'h, 'r, 'q, 'p) sdk \<Rightarrow> (('h, 'r, 'q) ce_call, 'w, unit) prog" where
  "Run S =
     andThen (extv CStartSynchronizer (startSynchronizer S)) (\<lambda>_.
     andThen (extv CDone (awaitDone S)) (\<lambda>_.
     andThen (extv CCloseWriteDB (closeWriteDB S)) (\<lambda>_.
     andThen (extv CCloseReadDB (closeReadDB S)) (\<lambda>_.
     ret ()))))"

definition BlockNumber :: "('w, 'h, 'r, 'q, 'p) sdk \<Rightarrow> (('h, 'r, 'q) ce_call, 'w, u64) prog" where
  "BlockNumber S = ext CBlockNumber (blockNumber S)"

text \<open>The servers registered with the gRPC server: the endorser, its health check and reflection.\<close>

definition RegisterService :: "('w, 'h, 'r, 'q, 'p) sdk \<Rightarrow> (('h, 'r, 'q) ce_call, 'w, unit) prog" where
  "RegisterService S =
     andThen (extv (CRegisterServer ''EndorserServer'') (registerServer S ''EndorserServer'')) (\<lambda>_.
     andThen (extv (CRegisterServer ''HealthServer'') (registerServer S ''HealthServer'')) (\<lambda>_.
     extv (CRegisterServer ''reflection'') (registerServer S ''reflection'')))"

text \<open>
  \<open>ProcessProposal\<close> returns a response or a gRPC status error. The function name it logs last is
  the first argument, which need not be there.
\<close>

datatype code = InvalidArgument | Internal

definition default_version :: "invocation \<Rightarrow> invocation" where
  "default_version call =
     (if CCIDVersion call = '''' then call\<lparr>CCIDVersion := ''1.0''\<rparr> else call)"

definition Endorse ::
  "('w, 'h, 'r, 'q, 'p) sdk \<Rightarrow> builder option \<Rightarrow> invocation \<Rightarrow> 'r exec_result \<Rightarrow>
   (('h, 'r, 'q) ce_call, 'w, 'p) prog" where
  "Endorse S b call res =
     (case b of
        None \<Rightarrow> panic ''invalid memory address or nil pointer dereference''
      | Some k \<Rightarrow> ext (CEndorse k call res) (endorse S k call res))"

definition ProcessProposal ::
  "('w, 'h, 'r, 'q, 'p) sdk \<Rightarrow> (('h, 'r, 'q) ce_call, 'w, 'h, 'r) service \<Rightarrow> 'q \<Rightarrow>
   (('h, 'r, 'q) ce_call, 'w, (code \<times> string) + 'p) prog" where
  "ProcessProposal S s prop =
     andThen (attempt (ext (CParse prop) (parse S prop))) (\<lambda>parsed.
       case parsed of
         Inl err \<Rightarrow> ret (Inl (InvalidArgument, Error err))
       | Inr call \<Rightarrow>
     if InvChannel call \<noteq> channel s then ret (Inl (InvalidArgument, ''channel must be '' @ channel s))
     else
       (case executors s (CCIDName call) of
          None \<Rightarrow> ret (Inl (InvalidArgument, ''unknown namespace: '' @ CCIDName call))
        | Some execute \<Rightarrow>
     let call = default_version call;
         newStore = (\<lambda>blockNum.
           ext (CNewSimulationStore (CCIDName call) blockNum (monotonicVersions s))
             (newSimulationStore S (CCIDName call) blockNum (monotonicVersions s))) in
     andThen (attempt (execute newStore call)) (\<lambda>executed.
       case executed of
         Inl err \<Rightarrow> ret (Inl (Internal, Error err))
       | Inr res \<Rightarrow>
     andThen (attempt (Endorse S (builder s) call res)) (\<lambda>endorsed.
       case endorsed of
         Inl err \<Rightarrow> ret (Inl (Internal, ''endorsement: '' @ Error err))
       | Inr resp \<Rightarrow>
     if Args call = [] then panic ''index out of range [0] with length 0''
     else ret (Inr resp)))))"

text \<open>
  \<open>WaitForReady\<close> polls until the synchronizer is ready or the context is done. Each round ends
  in a \<open>select\<close> whose outcome is the environment's: \<open>True\<close> is \<open>ctx.Done()\<close>. The loop may run
  forever, so it takes fuel, and a run that uses it up has not returned (\<open>None\<close>).
\<close>

fun WaitForReady ::
  "('w, 'h, 'r, 'q, 'p) sdk \<Rightarrow> nat \<Rightarrow> (('h, 'r, 'q) ce_call, 'w, bool option) prog" where
  "WaitForReady S 0 = ret None"
| "WaitForReady S (Suc fuel) =
     andThen (attempt (ext CReady (ready S))) (\<lambda>r.
       case r of
         Inr _ \<Rightarrow> ret (Some True)
       | Inl err \<Rightarrow>
           andThen (extv CSelect (selectDone S)) (\<lambda>stopped.
             if stopped then ret (Some False) else WaitForReady S fuel))"

lemma default_version_simps [simp]:
  "CCIDName (default_version call) = CCIDName call" "Args (default_version call) = Args call"
  "InvChannel (default_version call) = InvChannel call" "CCIDVersion (default_version call) \<noteq> ''''"
  by (simp_all add: default_version_def)

subsection \<open>The interface between service and executor\<close>

text \<open>
  The contract of an \<open>Executor\<close>: it reaches the outside only through the store factory it is
  given and the stores that makes. \<open>confined\<close> is the calls of a store.
\<close>

fun confined :: "('h, 'r, 'q) ce_call \<Rightarrow> bool" where
  "confined (CNewSimulationStore ns n m) = True"
| "confined (CGetState h k) = True"
| "confined (CPutState h k v) = True"
| "confined (CResult h) = True"
| "confined c = False"

fun is_endorse :: "('h, 'r, 'q) ce_call \<Rightarrow> bool" where
  "is_endorse (CEndorse b call res) = True"
| "is_endorse c = False"

lemma confined_not_endorse: "is_endorse c \<Longrightarrow> \<not> confined c"
  by (cases c) auto

text \<open>
  What the service promises above any such executor: the endorsement builder is called at most
  once, as the last call, on a proposal that was parsed, is for the service's channel and a namespace
  with that executor, and has the version filled in, and on the result the executor returned for exactly that invocation.
\<close>

definition endorsed_properly ::
  "('w, 'h, 'r, 'q, 'p) sdk \<Rightarrow> (('h, 'r, 'q) ce_call, 'w, 'h, 'r) service \<Rightarrow>
   (('h, 'r, 'q) ce_call, 'w, 'h, 'r) executor \<Rightarrow> 'q \<Rightarrow> 'w \<Rightarrow> (('h, 'r, 'q) ce_call, 'w) event list \<Rightarrow> bool"
where
  "endorsed_properly S s execute prop w es \<longleftrightarrow>
     (\<forall>e \<in> set es. is_endorse (op e) \<longrightarrow>
       e = last es \<and> (\<forall>e' \<in> set (butlast es). \<not> is_endorse (op e')) \<and>
       (\<exists>call w1 k res xs w2.
          parse S prop w = (Ok call, w1) \<and> InvChannel call = channel s \<and> builder s = Some k \<and>
          executors s (CCIDName call) = Some execute \<and>
          execute
            (\<lambda>n. ext (CNewSimulationStore (CCIDName call) n (monotonicVersions s))
               (newSimulationStore S (CCIDName call) n (monotonicVersions s)))
            (default_version call) w1 = (Ok res, xs, w2) \<and>
          op e = CEndorse k (default_version call) res))"

locale executor =
  fixes execute :: "(('h, 'r, 'q) ce_call, 'w, 'h, 'r) executor"
  assumes confined: "(\<And>n w. conf (forbid (\<lambda>e. \<not> confined (op e))) () (newStore n) (\<lambda>r p w1. True) w) \<Longrightarrow>
    conf (forbid (\<lambda>e. \<not> confined (op e))) () (execute newStore call) (\<lambda>r p w1. True) w"
begin

lemma execute_collect:
  assumes "newStore = (\<lambda>n. ext (CNewSimulationStore ns n m) (newSimulationStore S ns n m))"
  shows "conf collect es (execute newStore call)
    (\<lambda>r fs w1. \<exists>xs. fs = es @ xs \<and> (\<forall>x \<in> set xs. \<not> is_endorse (op x)) \<and>
       (\<exists>ys. execute newStore call w = (r, ys, w1))) w"
proof -
  obtain r ys w1 where run: "execute newStore call w = (r, ys, w1)" by (cases "execute newStore call w")
  have "conf (forbid (\<lambda>e. \<not> confined (op e))) () (newStore n) (\<lambda>r p w1. True) v" for n v
    by (simp add: assms prog_simps)
  from forbidD(2) [OF confined [OF this] run] have "\<forall>x \<in> set ys. \<not> is_endorse (op x)"
    using confined_not_endorse by blast
  with run show ?thesis by (simp add: conf_def run_collect)
qed

lemma service_endorses_properly:
  assumes reg: "\<And>ns f. executors s ns = Some f \<Longrightarrow> f = execute"
    and run: "ProcessProposal S s prop w = (r, es, w')"
  shows "endorsed_properly S s execute prop w es"
proof -
  have "conf collect [] (ProcessProposal S s prop) (\<lambda>r es w1. endorsed_properly S s execute prop w es) w"
    unfolding ProcessProposal_def Let_def
    by (auto simp: prog_simps Endorse_def endorsed_properly_def split: option.split res.split dest!: reg
        intro!: conf_mono [OF execute_collect [OF refl]])
  from collectD [OF this run] show ?thesis .
qed

end

interpretation sample: executor "SampleExecutor_Execute S" for S
  by unfold_locales
    (auto simp: SampleExecutor_Execute_def prog_simps elim!: conf_mono split: res.split)

subsection \<open>Properties of the endorser\<close>

definition sample_executors ::
  "('w, 'h, 'r, 'q, 'p) sdk \<Rightarrow> string \<Rightarrow> (('h, 'r, 'q) ce_call, 'w, 'h, 'r) executor option" where
  "sample_executors S ns = (if ns = ''mynamespace'' then Some (SampleExecutor_Execute S) else None)"

lemma sample_endorses_properly:
  assumes "executors s = sample_executors S" and "ProcessProposal S s prop w = (r, es, w')"
  shows "endorsed_properly S s (SampleExecutor_Execute S) prop w es"
proof (rule sample.service_endorses_properly [OF _ assms(2)])
  show "f = SampleExecutor_Execute S" if "executors s ns = Some f" for ns f
    using that by (simp add: assms(1) sample_executors_def split: if_splits)
qed

text \<open>
  C29: The endorser asks its builder for at most one endorsement per proposal, and only as the
  last thing it does: for a proposal that parsed and is for its channel, with the version filled
  in when the client left it empty, and of exactly the result the executor returned for that
  invocation.
\<close>

theorem endorses_only_executed:
  assumes "executors s = sample_executors S" and "ProcessProposal S s prop w = (r, es, w')"
  shows "endorsed_properly S s (SampleExecutor_Execute S) prop w es"
  by (rule sample_endorses_properly [OF assms])

text \<open>
  C30: A proposal the service rejects as invalid (it does not parse, is for another channel, or
  names a namespace without an executor) touches nothing: after parsing, no call is made. With a
  parsed proposal for the right channel and a known namespace the status is never
  \<open>InvalidArgument\<close>.
\<close>

theorem invalid_proposals_touch_nothing:
  assumes run: "ProcessProposal S s prop w = (Ok (Inl (InvalidArgument, msg)), es, w')"
  shows "(\<forall>call w1. parse S prop w = (Ok call, w1) \<longrightarrow>
      InvChannel call \<noteq> channel s \<or> executors s (CCIDName call) = None) \<and>
    map op es = [CParse prop]"
proof -
  have exec: "conf collect fs (execute ns call) (\<lambda>r gs w2. True) v" for execute ns call fs v
    by (simp add: conf_def run_collect split: prod.split)
  have "conf collect [] (ProcessProposal S s prop)
    (\<lambda>r es w1. r = Ok (Inl (InvalidArgument, msg)) \<longrightarrow>
      (\<forall>call w1. parse S prop w = (Ok call, w1) \<longrightarrow>
        InvChannel call \<noteq> channel s \<or> executors s (CCIDName call) = None) \<and> map op es = [CParse prop]) w"
    unfolding ProcessProposal_def Let_def
    by (auto simp: prog_simps Endorse_def split: option.split res.split intro!: conf_mono [OF exec])
  from collectD [OF this run] show ?thesis by simp
qed

text \<open>
  C31: A valid proposal without arguments is endorsed and then lost: the sample executor answers it
  with a proper error result, the builder endorses that, and the service panics when it reads
  the first argument for its log line. No caller ever gets the endorsed error.
\<close>

theorem empty_args_panic:
  assumes "executors s = sample_executors S" and "builder s = Some k"
    and "parse S prop w = (Ok call, w1)" and "InvChannel call = channel s"
    and "CCIDName call = ''mynamespace''" and "Args call = []"
    and "newSimulationStore S (CCIDName call) 0 (monotonicVersions s) w1 = (Ok store, w2)"
    and "endorse S k (default_version call) (BadRequest ''no function specified'') w2 = (Ok resp, w3)"
  shows "\<exists>es. ProcessProposal S s prop w = (Panic ''index out of range [0] with length 0'', es, w3)"
  using assms(2-)
  by (simp add: ProcessProposal_def assms(1) sample_executors_def SampleExecutor_Execute_def Endorse_def
      Let_def attempt_def wrapErr_def andThen_def onError_def ext_def ret_def panic_def)

text \<open>
  \<open>set\<close> and \<open>get\<close>: a \<open>set\<close> writes exactly the value of the proposal under exactly its key and returns
  \<open>key=value\<close>; a \<open>get\<close> writes nothing and returns what the store has under the key. Further arguments
  are ignored. Both return the read/write set taken after the access.
\<close>

lemma sample_executor_run:
  assumes store: "newStore 0 = ext (CNewSimulationStore ns 0 m) (newSimulationStore S ns 0 m)"
    and run: "SampleExecutor_Execute S newStore call w = (Ok (Success rws payload), es, w')"
  shows "\<exists>h w1 w2 k. newSimulationStore S ns 0 m w = (Ok h, w1) \<and> storeResult S h w2 = (rws, w') \<and>
    ((\<exists>v xs. Args call = [''set'', k, v] @ xs \<and> putState S h k v w1 = (Ok (), w2) \<and>
        payload = k @ ''='' @ v \<and> map op es = [CNewSimulationStore ns 0 m, CPutState h k v, CResult h])
     \<or> (\<exists>xs. Args call = [''get'', k] @ xs \<and> getState S h k w1 = (Ok payload, w2) \<and>
        map op es = [CNewSimulationStore ns 0 m, CGetState h k, CResult h]))"
proof -
  let ?Q = "\<lambda>es w'. \<exists>h w1 w2 k. newSimulationStore S ns 0 m w = (Ok h, w1) \<and> storeResult S h w2 = (rws, w') \<and>
    ((\<exists>v xs. Args call = [''set'', k, v] @ xs \<and> putState S h k v w1 = (Ok (), w2) \<and>
        payload = k @ ''='' @ v \<and> map op es = [CNewSimulationStore ns 0 m, CPutState h k v, CResult h])
     \<or> (\<exists>xs. Args call = [''get'', k] @ xs \<and> getState S h k w1 = (Ok payload, w2) \<and>
        map op es = [CNewSimulationStore ns 0 m, CGetState h k, CResult h]))"
  have two: "\<exists>xs. as = [as ! 0, as ! 1] @ xs" if "\<not> length as < 2" for as :: "bytes list"
    using that by (cases as; cases "tl as") auto
  have three: "\<exists>xs. as = [as ! 0, as ! 1, as ! 2] @ xs" if "\<not> length as < 3" for as :: "bytes list"
    using that by (cases as; cases "tl as"; cases "tl (tl as)") auto
  have "conf collect [] (SampleExecutor_Execute S newStore call)
    (\<lambda>r es w'. r = Ok (Success rws payload) \<longrightarrow> ?Q es w') w"
    using two [of "Args call"] three [of "Args call"]
    by (auto simp: SampleExecutor_Execute_def store prog_simps)
  from collectD [OF this run] show ?thesis by simp
qed

text \<open>The world after \<open>n\<close> rounds that found the synchronizer not ready and the context not done.\<close>

inductive waits :: "('w, 'h, 'r, 'q, 'p) sdk \<Rightarrow> 'w \<Rightarrow> nat \<Rightarrow> 'w \<Rightarrow> bool" for S where
  "waits S w 0 w"
| "ready S w = (Err e, w1) \<Longrightarrow> selectDone S w1 = (False, w2) \<Longrightarrow> waits S w2 n w3 \<Longrightarrow> waits S w (Suc n) w3"

lemma WaitForReady_waits:
  assumes "waits S w n w1" and "n < fuel"
  shows "fst (WaitForReady S fuel w) = fst (WaitForReady S (fuel - n) w1)"
  using assms
proof (induction arbitrary: fuel rule: waits.induct)
  case (2 w e w1 w2 n w3)
  then obtain k where "fuel = Suc k" "n < k" by (cases fuel) auto
  moreover from this(2) have "fst (WaitForReady S k w2) = fst (WaitForReady S (k - n) w3)" by (rule 2)
  ultimately show ?case
    using 2(1,2)
    by (cases "WaitForReady S k w2") (simp add: andThen_def attempt_def onError_def ext_def extv_def ret_def)
qed simp

text \<open>
  C32: \<open>WaitForReady\<close> returns as soon as it can: after any number of rounds without an answer it
  returns \<open>true\<close> if the synchronizer is then ready (also when the context is done by then), and
  \<open>false\<close> if it is not and the context is done. As long as neither happens it does not return.
\<close>

theorem wait_for_ready_returns:
  assumes "waits S w n w1"
  shows "(\<forall>w2. ready S w1 = (Ok (), w2) \<longrightarrow> fst (WaitForReady S (Suc n) w) = Ok (Some True)) \<and>
    (\<forall>e w2 w3. ready S w1 = (Err e, w2) \<and> selectDone S w2 = (True, w3) \<longrightarrow>
       fst (WaitForReady S (Suc n) w) = Ok (Some False)) \<and>
    fst (WaitForReady S n w) = Ok None"
proof (intro conjI allI impI)
  note step = WaitForReady_waits [OF assms, of "Suc n"]
  show "fst (WaitForReady S (Suc n) w) = Ok (Some True)" if "ready S w1 = (Ok (), w2)" for w2
    using that step by (simp add: andThen_def attempt_def onError_def ext_def ret_def)
  show "fst (WaitForReady S (Suc n) w) = Ok (Some False)"
    if "ready S w1 = (Err e, w2) \<and> selectDone S w2 = (True, w3)" for e w2 w3
    using that step by (simp add: andThen_def attempt_def onError_def ext_def extv_def ret_def)
  show "fst (WaitForReady S n w) = Ok None"
    using assms
    by (induction rule: waits.induct)
      (auto simp: andThen_def attempt_def onError_def ext_def extv_def ret_def split: prod.split)
qed

end
