(* ===== verification/Ce_Client.thy ===== *)
theory Ce_Client imports Ce_Config Go_Json begin

text \<open>
  \<open>custom-endorser/cmd/client/main.go\<close>: the command line client. \<open>query\<close> has a proposal endorsed
  and prints the response; \<open>invoke\<close> also submits the endorsed transaction to the orderer.
  The flags, the configuration file, the MSP and the network of the SDK are the record
  \<open>client_env\<close>, over a world \<open>'w\<close>, connections \<open>'h\<close>, signers \<open>'s\<close> and endorsements \<open>'e\<close>.
\<close>

record client_cfg =
  CliChannelID :: string
  CliNamespace :: string
  CliProtocol :: string
  CliIdentity :: "identity_config option"
  Endorsers :: "client_config list"
  Orderer :: "client_config option"

record tx_input =
  Function :: string
  TxArgs :: "string list"

record proposal_response =
  RespStatus :: int
  RespMessage :: string
  RespPayload :: bytes

datatype protocol_kind = FabricSubmitter | FabricXSubmitter

datatype ('h, 's, 'e) client_call =
  COpen string
| CReadConfig
| CUnmarshal
| CFlag string
| CSignerFromMSP string string
| CNewEndorsementClient "network_conf list" 's string string string
| CNewSubmitter protocol_kind "network_conf list" 's
| CExecuteTransaction 'h string string "bytes list"
| CSubmit 'h 'e
| CCloseClient 'h
| CCloseSubmitter 'h
| CPrint string

record ('w, 'h, 's, 'e) client_env =
  openFile :: "string \<Rightarrow> 'w \<Rightarrow> unit res \<times> 'w"
  readConfig :: "'w \<Rightarrow> unit res \<times> 'w"
  unmarshalConfig :: "'w \<Rightarrow> client_cfg res \<times> 'w"
  flagString :: "string \<Rightarrow> 'w \<Rightarrow> string \<times> 'w"
  signerFromMSP :: "string \<Rightarrow> string \<Rightarrow> 'w \<Rightarrow> 's res \<times> 'w"
  newEndorsementClient :: "network_conf list \<Rightarrow> 's \<Rightarrow> string \<Rightarrow> string \<Rightarrow> string \<Rightarrow> 'w \<Rightarrow> 'h res \<times> 'w"
  newSubmitter :: "protocol_kind \<Rightarrow> network_conf list \<Rightarrow> 's \<Rightarrow> 'w \<Rightarrow> 'h res \<times> 'w"
  executeTransaction :: "'h \<Rightarrow> string \<Rightarrow> string \<Rightarrow> bytes list \<Rightarrow> 'w \<Rightarrow> 'e res \<times> 'w"
  submit :: "'h \<Rightarrow> 'e \<Rightarrow> 'w \<Rightarrow> unit res \<times> 'w"
  closeClient :: "'h \<Rightarrow> 'w \<Rightarrow> unit \<times> 'w"
  closeSubmitter :: "'h \<Rightarrow> 'w \<Rightarrow> unit \<times> 'w"
  print :: "string \<Rightarrow> 'w \<Rightarrow> unit \<times> 'w"
  responses :: "'e \<Rightarrow> proposal_response list"

subsection \<open>Arguments and configuration\<close>

text \<open>\<open>[]string\<close>; decoding again into a list keeps the elements that are \<open>null\<close>.\<close>

fun decode_string_list :: "json list \<Rightarrow> string list \<Rightarrow> error + string list" where
  "decode_string_list [] old = Inr []"
| "decode_string_list (j # js) old =
     (case decode_string j (if old = [] then '''' else hd old) of
        Inl e \<Rightarrow> Inl e
      | Inr s \<Rightarrow> (case decode_string_list js (tl old) of Inl e \<Rightarrow> Inl e | Inr ss \<Rightarrow> Inr (s # ss)))"

definition decode_strings :: "string list decoder" where
  "decode_strings j old =
     (case j of JNull \<Rightarrow> Inr [] | JArr js \<Rightarrow> decode_string_list js old | _ \<Rightarrow> type_error)"

definition decode_txInput :: "tx_input decoder" where
  "decode_txInput = decode_struct
     [field ''Function'' decode_string Function (\<lambda>x s. s\<lparr>Function := x\<rparr>),
      field ''Args'' decode_strings TxArgs (\<lambda>x s. s\<lparr>TxArgs := x\<rparr>)]"

text \<open>The argument is the JSON value of the command line, or the error of parsing it.\<close>

definition parseTxArgs :: "error + json \<Rightarrow> error + bytes list" where
  "parseTxArgs txJSON =
     (case (case txJSON of Inl err \<Rightarrow> Inl err | Inr j \<Rightarrow> decode_txInput j \<lparr>Function = '''', TxArgs = []\<rparr>) of
        Inl err \<Rightarrow> Inl (Wrap ''invalid transaction JSON'' err)
      | Inr tx \<Rightarrow>
          let txArgs = [];
              txArgs = (if Function tx \<noteq> '''' then txArgs @ [Function tx] else txArgs)
          in Inr (txArgs @ TxArgs tx))"

definition validate :: "client_cfg \<Rightarrow> error option" where
  "validate cfg =
     (if CliChannelID cfg = '''' then Some (New ''channel-id is required'')
      else if CliNamespace cfg = '''' then Some (New ''namespace is required'')
      else if CliIdentity cfg = None then Some (New ''identity is required'')
      else if length (Endorsers cfg) = 0 then Some (New ''at least one endorser is required'')
      else None)"

definition loadConfig :: "('w, 'h, 's, 'e) client_env \<Rightarrow> (('h, 's, 'e) client_call, 'w, client_cfg) prog" where
  "loadConfig C =
     andThen (extv (CFlag ''config'') (flagString C ''config'')) (\<lambda>configFile.
     andThen (wrapErr ''open config'' (ext (COpen configFile) (openFile C configFile))) (\<lambda>_.
     andThen (wrapErr ''read config'' (ext CReadConfig (readConfig C))) (\<lambda>_.
     andThen (wrapErr ''invalid config'' (ext CUnmarshal (unmarshalConfig C))) (\<lambda>cfg.
       case validate cfg of
         Some err \<Rightarrow> throw (Wrap ''invalid config'' err)
       | None \<Rightarrow> ret cfg))))"

definition prepare ::
  "('w, 'h, 's, 'e) client_env \<Rightarrow> error + json \<Rightarrow> (('h, 's, 'e) client_call, 'w, client_cfg \<times> bytes list) prog" where
  "prepare C txJSON =
     andThen (loadConfig C) (\<lambda>cfg.
       case parseTxArgs txJSON of
         Inl err \<Rightarrow> throw err
       | Inr txArgs \<Rightarrow> ret (cfg, txArgs))"

definition namespaceOrDefault ::
  "('w, 'h, 's, 'e) client_env \<Rightarrow> string \<Rightarrow> (('h, 's, 'e) client_call, 'w, string) prog" where
  "namespaceOrDefault C cfgNamespace =
     andThen (extv (CFlag ''namespace'') (flagString C ''namespace'')) (\<lambda>ns.
       if ns \<noteq> '''' then ret ns else ret cfgNamespace)"

text \<open>The conversion of every endorser; one without an endpoint is a panic.\<close>

fun peer_confs :: "client_config list \<Rightarrow> network_conf list res" where
  "peer_confs [] = Ok []"
| "peer_confs (c # cs) =
     (case ToPeerConf c of
        Ok p \<Rightarrow> (case peer_confs cs of Ok ps \<Rightarrow> Ok (p # ps) | Err e \<Rightarrow> Err e | Panic m \<Rightarrow> Panic m)
      | Err e \<Rightarrow> Err e
      | Panic m \<Rightarrow> Panic m)"

definition run_res :: "'a res \<Rightarrow> ('c, 'w, 'a) prog" where
  "run_res r = (case r of Ok x \<Rightarrow> ret x | Err e \<Rightarrow> throw e | Panic m \<Rightarrow> panic m)"

definition buildEndorsementClient ::
  "('w, 'h, 's, 'e) client_env \<Rightarrow> client_cfg \<Rightarrow> 's \<Rightarrow> string \<Rightarrow> (('h, 's, 'e) client_call, 'w, 'h) prog" where
  "buildEndorsementClient C cfg signer ns =
     andThen (run_res (peer_confs (Endorsers cfg))) (\<lambda>peerConfs.
     wrapErr ''create endorsement client''
       (ext (CNewEndorsementClient peerConfs signer (CliChannelID cfg) ns ''1.0'')
          (newEndorsementClient C peerConfs signer (CliChannelID cfg) ns ''1.0'')))"

definition load_identity ::
  "('w, 'h, 's, 'e) client_env \<Rightarrow> client_cfg \<Rightarrow> (('h, 's, 'e) client_call, 'w, 's) prog" where
  "load_identity C cfg =
     (case CliIdentity cfg of
        None \<Rightarrow> panic ''invalid memory address or nil pointer dereference''
      | Some i \<Rightarrow> wrapErr ''load identity'' (ext (CSignerFromMSP (MSPDir i) (MspID i)) (signerFromMSP C (MSPDir i) (MspID i))))"

definition status_error :: "proposal_response \<Rightarrow> error" where
  "status_error resp =
     New (''endorser returned error status '' @ Itoa (RespStatus resp) @ '': '' @ RespMessage resp)"

definition ok_status :: "proposal_response \<Rightarrow> bool" where
  "ok_status resp \<longleftrightarrow> \<not> (RespStatus resp < 200 \<or> RespStatus resp \<ge> 400)"

subsection \<open>The commands\<close>

definition query ::
  "('w, 'h, 's, 'e) client_env \<Rightarrow> error + json \<Rightarrow> (('h, 's, 'e) client_call, 'w, unit) prog" where
  "query C arg =
     andThen (prepare C arg) (\<lambda>(cfg, txArgs).
     andThen (namespaceOrDefault C (CliNamespace cfg)) (\<lambda>ns.
     andThen (load_identity C cfg) (\<lambda>signer.
     andThen (buildEndorsementClient C cfg signer ns) (\<lambda>ec.
     deferred
       (andThen
          (wrapErr ''endorsement failed''
             (ext (CExecuteTransaction ec ns ''1.0'' txArgs) (executeTransaction C ec ns ''1.0'' txArgs))) (\<lambda>end1.
          case responses C end1 of
            [] \<Rightarrow> ret ()
          | resp # _ \<Rightarrow>
              if \<not> ok_status resp then throw (status_error resp)
              else extv (CPrint (RespPayload resp)) (print C (RespPayload resp))))
       (extv (CCloseClient ec) (closeClient C ec))))))"

definition new_submitter ::
  "('w, 'h, 's, 'e) client_env \<Rightarrow> client_cfg \<Rightarrow> network_conf list \<Rightarrow> 's \<Rightarrow> (('h, 's, 'e) client_call, 'w, 'h) prog" where
  "new_submitter C cfg ordererConfs signer =
     (if CliProtocol cfg = ''fabric'' then
        wrapErr ''create submitter''
          (ext (CNewSubmitter FabricSubmitter ordererConfs signer) (newSubmitter C FabricSubmitter ordererConfs signer))
      else if CliProtocol cfg = ''fabric-x'' \<or> CliProtocol cfg = '''' then
        wrapErr ''create submitter''
          (ext (CNewSubmitter FabricXSubmitter ordererConfs signer) (newSubmitter C FabricXSubmitter ordererConfs signer))
      else throw (New (''unknown protocol '' @ Quote (CliProtocol cfg) @
                       '': must be '' @ [CHR 0x22] @ ''fabric'' @ [CHR 0x22] @ '' or '' @
                       [CHR 0x22] @ ''fabric-x'' @ [CHR 0x22])))"

definition invoke ::
  "('w, 'h, 's, 'e) client_env \<Rightarrow> error + json \<Rightarrow> (('h, 's, 'e) client_call, 'w, unit) prog" where
  "invoke C arg =
     andThen (prepare C arg) (\<lambda>(cfg, txArgs).
       case Orderer cfg of
         None \<Rightarrow> throw (New ''orderer is required for invoke'')
       | Some orderer \<Rightarrow>
     andThen (namespaceOrDefault C (CliNamespace cfg)) (\<lambda>ns.
     andThen (load_identity C cfg) (\<lambda>signer.
     andThen (buildEndorsementClient C cfg signer ns) (\<lambda>ec.
     deferred
       (andThen (run_res (ToOrdererConf orderer)) (\<lambda>conf1.
        andThen (new_submitter C cfg [conf1] signer) (\<lambda>submitter.
        deferred
          (andThen
             (wrapErr ''endorsement failed''
                (ext (CExecuteTransaction ec ns ''1.0'' txArgs) (executeTransaction C ec ns ''1.0'' txArgs))) (\<lambda>end1.
             case responses C end1 of
               [] \<Rightarrow> throw (New ''no responses'')
             | resp # _ \<Rightarrow>
                 if \<not> ok_status resp then throw (status_error resp)
                 else
                   andThen (wrapErr ''submit failed'' (ext (CSubmit submitter end1) (submit C submitter end1))) (\<lambda>_.
                   extv (CPrint (RespPayload resp)) (print C (RespPayload resp)))))
          (extv (CCloseSubmitter submitter) (closeSubmitter C submitter)))))
       (extv (CCloseClient ec) (closeClient C ec))))))"

subsection \<open>What is submitted\<close>

lemma conf_run_res [prog_simps]: "conf D p (run_res r) Q w \<longleftrightarrow> Q r p w"
  by (cases r) (simp_all add: run_res_def prog_simps)

fun submission :: "('h, 's, 'e) client_call \<Rightarrow> 'e option" where
  "submission (CSubmit h e) = Some e"
| "submission c = None"

definition submissions :: "(('h, 's, 'e) client_call, 'w) event list \<Rightarrow> ('e \<times> bool) list" where
  "submissions es = List.map_filter (\<lambda>e. map_option (\<lambda>x. (x, succeeded e)) (submission (op e))) es"

text \<open>A protocol that allows one submission and remembers it.\<close>

fun submit_step ::
  "('e \<times> bool) option \<Rightarrow> (('h, 's, 'e) client_call, 'w) event \<Rightarrow> ('e \<times> bool) option option" where
  "submit_step p (Event c ok w) =
     (case submission c of
        None \<Rightarrow> Some p
      | Some x \<Rightarrow> (case p of None \<Rightarrow> Some (Some (x, ok)) | Some q \<Rightarrow> None))"

lemma run_submit_step:
  "run_aut submit_step p es = Some q \<Longrightarrow>
   submissions es = (case (p, q) of (None, Some x) \<Rightarrow> [x] | _ \<Rightarrow> []) \<and> (p \<noteq> None \<longrightarrow> q = p)"
proof (induction es arbitrary: p)
  case (Cons e es)
  obtain c ok w where "e = Event c ok w" by (cases e)
  with Cons show ?case
    by (cases "submission c"; cases p; cases q)
      (fastforce simp: submissions_def List.map_filter_def split: option.splits)+
qed (simp add: submissions_def split: option.split)

text \<open>
  \<open>invoke\<close> submits at most one transaction to the orderer, and only what the endorsers
  returned for the arguments of the command line, with a first response whose status is at least
  200 and below 400. It succeeds exactly when the orderer accepted that submission.
\<close>

lemma invoke_submits_only_endorsed:
  assumes run: "invoke C arg w = (r, es, w')"
  shows "submissions es = [] \<and> r \<noteq> Ok () \<or>
    (\<exists>end1 ok resp rs ec ns args w1 w2.
       submissions es = [(end1, ok)] \<and> (r = Ok () \<longleftrightarrow> ok) \<and>
       parseTxArgs arg = Inr args \<and> executeTransaction C ec ns ''1.0'' args w1 = (Ok end1, w2) \<and>
       responses C end1 = resp # rs \<and> ok_status resp)"
proof -
  let ?G = "\<lambda>end1. \<exists>resp rs ec ns args w1 w2. parseTxArgs arg = Inr args \<and>
    executeTransaction C ec ns ''1.0'' args w1 = (Ok end1, w2) \<and>
    responses C end1 = resp # rs \<and> ok_status resp"
  have c: "conf submit_step None (invoke C arg)
    (\<lambda>r p w1. case p of None \<Rightarrow> r \<noteq> Ok () | Some (end1, ok) \<Rightarrow> (r = Ok () \<longleftrightarrow> ok) \<and> ?G end1) w"
    by (simp add: invoke_def prepare_def loadConfig_def namespaceOrDefault_def load_identity_def
        buildEndorsementClient_def new_submitter_def prog_simps cong: conf_cong
        split: option.split res.split list.split sum.split) blast
  show ?thesis
    by (rule confD [OF c run]) (auto dest!: run_submit_step split: option.splits)
qed

text \<open>What the commands print is the payload of a response whose status is at least 200 and below 400.\<close>

definition prints_payload :: "('w, 'h, 's, 'e) client_env \<Rightarrow> (('h, 's, 'e) client_call, 'w) event \<Rightarrow> bool" where
  "prints_payload C e \<longleftrightarrow>
     (\<forall>text. op e = CPrint text \<longrightarrow>
        (\<exists>end1 resp rs. responses C end1 = resp # rs \<and> ok_status resp \<and> text = RespPayload resp))"

lemma query_trace:
  assumes run: "query C arg w = (r, es, w')" and ev: "e \<in> set es"
  shows "submission (op e) = None \<and> prints_payload C e"
proof -
  have "conf (forbid (\<lambda>e. \<not> (submission (op e) = None \<and> prints_payload C e))) () (query C arg) (\<lambda>r p w1. True) w"
    by (auto simp: query_def prepare_def loadConfig_def namespaceOrDefault_def load_identity_def
        buildEndorsementClient_def prints_payload_def prog_simps cong: conf_cong
        split: option.split res.split list.split sum.split)
  from forbidD(2) [OF this run ev] show ?thesis by blast
qed

lemma invoke_prints:
  assumes run: "invoke C arg w = (r, es, w')" and ev: "e \<in> set es"
  shows "prints_payload C e"
proof -
  have "conf (forbid (\<lambda>e. \<not> prints_payload C e)) () (invoke C arg) (\<lambda>r p w1. True) w"
    by (auto simp: invoke_def prepare_def loadConfig_def namespaceOrDefault_def load_identity_def
        buildEndorsementClient_def new_submitter_def prints_payload_def prog_simps cong: conf_cong
        split: option.split res.split list.split sum.split)
  from forbidD(2) [OF this run ev] show ?thesis by blast
qed

end
