(* ===== verification/Witnesses.thy ===== *)
theory Witnesses imports Samples Endorser_Service Ce_Service Ce_Client begin

text \<open>
  Every property with a hypothesis, applied at a concrete input: the sample environment for the
  token nodes, small ones for the endorser and the custom endorser.
\<close>

subsection \<open>The HTTP APIs\<close>

abbreviation "api_run r w \<equiv> owner_api sample sample_oapi 0 r w"

theorem owner_api_ok_settled_witness:
  "\<exists>tx. txID (ttx sample) tx = ''tx1'' \<and> settled_once (fst (snd (api_run (post ''transfer'' transfer_body) []))) tx"
proof -
  let ?resp = "\<lparr>Status = StatusOK, Header = cors_headers @ [(''Content-Type'', ''application/json'')],
    Content = Json (TransferSuccess ''ok'' ''tx1'')\<rparr>"
  have "fst (api_run (post ''transfer'' transfer_body) []) = Ok ?resp" by code_simp
  from owner_api_ok_settled [OF initiates_sample _ run_split [OF this]] show ?thesis
    by (auto simp: post_def)
qed

theorem owner_api_failure_unconfirmed_witness:
  "filter succeeded (order_events (fst (snd (api_run (post ''claim'' (JObj [])) [])))) = []"
proof -
  let ?resp = "\<lparr>Status = StatusBadRequest, Header = cors_headers @ [(''Content-Type'', ''application/json'')],
    Content = Json (badRequest ''preimage is required'')\<rparr>"
  have run: "fst (api_run (post ''claim'' (JObj [])) []) = Ok ?resp" by code_simp
  have "\<forall>o1 \<in> set (order_events (fst (snd (api_run (post ''claim'' (JObj [])) [])))). \<not> succeeded o1"
    by (rule owner_api_failure_unconfirmed [OF initiates_sample _ _ run_split [OF run]])
      (simp_all add: post_def status_defs)
  then show ?thesis by (simp add: filter_empty_conv)
qed

theorem issuer_api_settled_witness:
  "\<exists>tx. settled_once (fst (snd (issuer_api sample \<lparr>Method = ''POST'', Path = [''issuer'', ''issue''],
      Query = [], RequestBody = Inr transfer_body\<rparr> []))) tx"
proof -
  let ?r = "\<lparr>Method = ''POST'', Path = [''issuer'', ''issue''], Query = [], RequestBody = Inr transfer_body\<rparr>"
  let ?resp = "\<lparr>Status = StatusOK, Header = cors_headers @ [(''Content-Type'', ''application/json'')],
    Content = Json (IssueSuccess ''ok'' ''tx1'')\<rparr>"
  have run: "fst (issuer_api sample ?r []) = Ok ?resp" by code_simp
  from issuer_api_settled [OF initiates_sample _ run_split [OF run]] show ?thesis
    by (auto split: if_splits)
qed

definition lock_body :: lock_request where
  "lock_body = \<lparr>LqAmount = \<lparr>Code = ''USD'', Value = 100\<rparr>,
     LqCounterparty = \<lparr>Account = ''bob'', Node = ''owner2''\<rparr>, LqDeadline = 60, LqHash = None, LqTmsId = None\<rparr>"

theorem lock_request_checked_witness:
  "sint (60000000000 :: i64) = sint (60 :: i64) * 10 ^ 9 \<and>
   (\<exists>w1 w2. exchangeRecipientIdentities (htlc sample) ''alice'' ''bob'' [] w1 = (Ok (''me'', ''bob''), w2))"
proof -
  let ?run = "Server_Lock sample ''alice'' (Some lock_body) []"
  have "\<exists>b v. Event (Htlc (CLock ''tx1'' ''alice'' ''me'' ''USD'' 100 ''bob'' 60000000000 None)) b v
      \<in> set (fst (snd ?run))"
    by (rule exI [of _ True], rule exI [of _ "[]"]) code_simp
  then obtain b v where "Event (Htlc (CLock ''tx1'' ''alice'' ''me'' ''USD'' 100 ''bob'' 60000000000 None)) b v
      \<in> set (fst (snd ?run))" by blast
  from lock_request_checked [OF initiates_sample run_split [OF refl, of ?run] this] show ?thesis
    by (auto simp: lock_body_def ServiceOpts_def)
qed

subsection \<open>The views\<close>

definition sample_transfer :: transfer_options where
  "sample_transfer = \<lparr>TWallet = ''alice'', TTokenType = ''USD'', TQuantity = 100, TRecipientNode = ''owner2'',
     TRecipient = ''bob'', TMessage = ''''\<rparr>"

abbreviation "transfer_run \<equiv> TransferView_Call sample sample_transfer []"

theorem transfer_all_or_nothing_witness:
  "\<exists>a tx o1. fst transfer_run = Ok a \<and> order_events (fst (snd transfer_run)) = [o1] \<and> succeeded o1 \<and>
    ev_kind o1 = Order tx \<and> string_id a = Some (txID (ttx sample) tx)"
proof -
  have ok: "fst transfer_run = Ok (AString ''tx1'')" by code_simp
  have "undisturbed length (\<lambda>c. \<forall>tx. call_kind c \<noteq> Order tx) [] (fst (snd transfer_run))"
    by (simp add: sample_transfer_def TransferView_Call_def transfer_recipient_def getRemoteIdentity_def
        sign_and_order_def api_defs sample_def sample_ttx_def sample_fsc_def andThen_def onError_def
        wrapErr_def ext_def extv_def ret_def)
  from transfer_all_or_nothing [OF run_split [OF ok] this] show ?thesis using ok by auto
qed

theorem transfer_as_requested_witness:
  "\<exists>w1 idn. getWallet (ttx sample) ''alice'' [] [] = (Some ''alice'', w1) \<and> [''bob''] = [idn]"
proof -
  have "\<exists>b u. Event (Ttx (CTransfer ''tx1'' ''alice'' ''USD'' [100] [''bob''])) b u \<in> set (fst (snd transfer_run))"
    by (rule exI [of _ True], rule exI [of _ "[]"]) code_simp
  then obtain b u where "Event (Ttx (CTransfer ''tx1'' ''alice'' ''USD'' [100] [''bob''])) b u \<in> set (fst (snd transfer_run))"
    by blast
  from transfer_as_requested [OF run_split [OF refl, of transfer_run] this] show ?thesis
    by (auto simp: sample_transfer_def)
qed

theorem accept_only_if_recipient_witness: "byRecipient (ttx sample) [sample_output] ''me'' \<noteq> []"
proof -
  have "\<exists>b v. Event (Fsc (CRunView (NewAcceptView ''tx1''))) b v \<in> set (fst (snd (AcceptCashView_Call sample [])))"
    by (rule exI [of _ True], rule exI [of _ "[]"]) code_simp
  then obtain b v where "Event (Fsc (CRunView (NewAcceptView ''tx1''))) b v \<in>
      set (fst (snd (AcceptCashView_Call sample [])))" by blast
  from accept_only_if_recipient [OF run_split [OF refl, of "AcceptCashView_Call sample []"] this]
  show ?thesis by (auto simp: sample_def sample_ttx_def)
qed

theorem accept_returns_only_confirmed_witness:
  "\<exists>db. checked_outputs sample db ''tx1'' ''me'' [sample_output] [''tx1''] (snd (snd (AcceptCashView_Call sample [])))"
proof -
  have "fst (AcceptCashView_Call sample []) = Ok ANil" by code_simp
  from accept_returns_only_confirmed [OF run_split [OF this]] show ?thesis
    by (auto simp: sample_def sample_ttx_def sample_fsc_def sample_token_env_def)
qed

definition sample_issue :: views_issue_cash where
  "sample_issue = \<lparr>VTMSID = None, VAnonymous = False, VAuditor = '''', VIssuerWallet = ''issuer'', VTokenType = ''USD'',
     VQuantity = 100, VRecipient = ''alice'', VRecipientWalletID = ''w'', VRecipientEID = ''ali'',
     VSkipAuditorSignatureVerification = False\<rparr>"

theorem issue_checks_enrollment_witness:
  "prefix ''ali'' ''alice.eid'' \<and> newTransaction (ttx sample) [WithAuditor ''me''] [] = (Ok ''tx1'', [])"
proof -
  let ?run = "views_IssueCashView_Call sample sample_issue []"
  have "\<exists>b v. Event (Fsc (CRunView (NewCollectEndorsementsView ''tx1'' []))) b v \<in> set (fst (snd ?run))"
    by (rule exI [of _ True], rule exI [of _ "[]"]) code_simp
  then obtain b v where "Event (Fsc (CRunView (NewCollectEndorsementsView ''tx1'' []))) b v \<in> set (fst (snd ?run))"
    by blast
  from issue_checks_enrollment [OF run_split [OF refl, of ?run] this] show ?thesis
    by (auto simp: sample_def sample_ttx_def sample_token_env_def sample_fsc_def sample_issue_def TxOpts_def)
qed

theorem lock_accept_only_valid_witness: "identityEqual (fsc sample) ''me'' (SRecipient sample_script)"
proof -
  let ?run = "LockAcceptView_Call sample []"
  have "\<exists>b v. Event (Fsc (CRunView (HtlcAcceptView ''tx1''))) b v \<in> set (fst (snd ?run))"
    by (rule exI [of _ True], rule exI [of _ "[]"]) code_simp
  then obtain b v where "Event (Fsc (CRunView (HtlcAcceptView ''tx1''))) b v \<in> set (fst (snd ?run))"
    by blast
  from lock_accept_only_valid [OF run_split [OF refl, of ?run] this] show ?thesis
    by (auto simp: sample_def sample_htlc_def List.map_filter_def)
qed

definition sample_lock :: lock_options where
  "sample_lock = \<lparr>LTMSID = None, LWallet = ''alice'', LTokenType = ''USD'', LQuantity = 100, LRecipient = ''bob'',
     LRecipientNode = ''owner2'', LHash = None, LReclamationDeadline = 60000000000\<rparr>"

theorem lock_reports_script_witness:
  "\<exists>w. Event (Fsc (CRunView (HtlcOrderingAndFinalityView ''tx1''))) True w
      \<in> set (fst (snd (LockView_Call sample sample_lock [])))"
proof -
  have "fst (LockView_Call sample sample_lock []) =
      Ok (ALockResult \<lparr>TxID = ''tx1'', PreImage = ''secret'', Hash = Some ''hash''\<rparr>)" by code_simp
  from lock_reports_script [OF run_split [OF this]] show ?thesis
    by (auto simp: sample_def sample_htlc_def sample_ttx_def)
qed

text \<open>An environment whose transactions have no outputs to read.\<close>

definition blind :: "(string list, string) env" where
  "blind = sample\<lparr>htlc := sample_htlc\<lparr>htlcOutputs := \<lambda>tx w. (Err (New ''db closed''), w)\<rparr>\<rparr>"

theorem lock_failure_after_commit_witness:
  "\<exists>tx. op (last (fst (snd (LockView_Call blind sample_lock [])))) = Htlc (CHtlcOutputs tx)"
proof -
  let ?run = "LockView_Call blind sample_lock []"
  have r: "fst ?run = Err (Wrap ''failed getting outputs'' (New ''db closed''))" by code_simp
  have "order_events (fst (snd ?run)) = [Event (Fsc (CRunView (HtlcOrderingAndFinalityView ''tx1''))) True [''tx1'']]"
    by (simp add: blind_def sample_lock_def LockView_Call_def sign_and_order_def api_defs sample_def sample_htlc_def
        sample_ttx_def sample_fsc_def andThen_def onError_def wrapErr_def throw_def ext_def extv_def ret_def)
  with lock_failure_after_commit [OF run_split [OF r], of "Event (Fsc (CRunView (HtlcOrderingAndFinalityView ''tx1''))) True [''tx1'']"]
  show ?thesis by auto
qed

subsection \<open>Balances and history\<close>

lemma ranges_over_sample: "ranges_over sample"
  by (simp add: ranges_over_def sample_def sample_token_env_def)

theorem balances_sum_witness:
  "unat (200 :: u64) = total ''USD'' [sample_token, sample_token] mod 2 ^ 64"
proof -
  have "fst (FSC_Balances sample ''alice'' None []) = Ok [\<lparr>Code = ''USD'', Value = 200\<rparr>]" by code_simp
  from balances_sum [OF ranges_over_sample run_split [OF this]] show ?thesis
    by (auto simp: sample_def sample_token_env_def)
qed

theorem balance_agrees_witness:
  "\<lparr>Code = ''USD'', Value = 200\<rparr> = \<lparr>Code = ''USD'', Value = 200\<rparr>"
proof -
  have all: "fst (FSC_Balances sample ''alice'' None []) = Ok [\<lparr>Code = ''USD'', Value = 200\<rparr>]"
    and one: "fst (FSC_Balance sample ''alice'' ''USD'' None []) = Ok \<lparr>Code = ''USD'', Value = 200\<rparr>"
    by code_simp+
  show ?thesis
    by (rule balance_agrees [OF ranges_over_sample run_split [OF all] run_split [OF one]])
      (auto simp: sample_def sample_token_env_def)
qed

theorem get_transactions_returns_witness:
  "\<exists>es w6. FSC_GetTransactions sample 2 ''alice'' [''x''] = (Ok (Some [sample_record]), es, w6)"
proof (rule get_transactions_returns)
  show "yields sample ''it'' [''x''] [sample_record] []"
    by (rule yields.more [of _ _ _ _ "[]", OF _ yields.finish]) (simp_all add: sample_def sample_token_env_def)
qed (simp_all add: sample_def sample_token_env_def sample_ttx_def)

theorem history_iterator_closed_witness:
  "op (last (fst (snd (FSC_GetTransactions sample 2 ''alice'' [''x''])))) = Token (CClose ''it'')"
proof -
  let ?run = "FSC_GetTransactions sample 2 ''alice'' [''x'']"
  have "Event (Token (CNext ''it'')) True [] \<in> set (fst (snd ?run))"
    by (simp add: FSC_GetTransactions_def Let_def numeral_2_eq_2 api_defs sample_def sample_ttx_def
        sample_token_env_def andThen_def onError_def wrapErr_def deferred_def ext_def extv_def ret_def)
  from history_iterator_closed [OF run_split [OF refl, of ?run] this] show ?thesis by simp
qed

subsection \<open>The endorser of the token nodes\<close>

definition sample_tms :: "string \<Rightarrow> bool \<Rightarrow> tms_config" where
  "sample_tms n evm = \<lparr>IsSet = (\<lambda>k. evm), GetString = (\<lambda>k. ''pp.json''),
     ID = \<lparr>Network = n, Channel = '''', Namespace = ''''\<rparr>, TranslatePath = (\<lambda>p. p)\<rparr>"

definition sample_deploy :: "nat deploy_env" where
  "sample_deploy = \<lparr>getTMSDeployerService = (\<lambda>w. (Ok (), w)), getService = (\<lambda>w. (Ok (), w)),
     configurations = (\<lambda>w. (Ok [sample_tms ''a'' False, sample_tms ''b'' True], w)),
     readFile = (\<lambda>p w. (Ok ''pp'', w)), deployTMSWithPP = (\<lambda>i pp w. (Ok (), w + 1)),
     tmsidString = (\<lambda>i. Network i)\<rparr>"

theorem init_deploys_in_order_witness:
  "\<exists>k. deployed (fst (snd (endorser_api sample_deploy
      \<lparr>Method = ''POST'', Path = [''endorser'', ''init''], Query = [], RequestBody = Inr JNull\<rparr> 0))) =
    take k [\<lparr>Network = ''a'', Channel = '''', Namespace = ''''\<rparr>]"
proof -
  let ?r = "\<lparr>Method = ''POST'', Path = [''endorser'', ''init''], Query = [], RequestBody = Inr JNull\<rparr>"
  have "\<exists>k. deployed (fst (snd (endorser_api sample_deploy ?r 0))) =
      take k (to_deploy [sample_tms ''a'' False, sample_tms ''b'' True]) \<and>
      ((\<exists>resp. fst (endorser_api sample_deploy ?r 0) = Ok resp \<and> Status resp = StatusOK) \<longleftrightarrow>
        k \<ge> length (to_deploy [sample_tms ''a'' False, sample_tms ''b'' True]))"
    by (rule init_deploys_in_order [OF run_split [OF refl]]) (simp_all add: sample_deploy_def)
  then show ?thesis by (auto simp: to_deploy_def sample_tms_def)
qed

subsection \<open>The custom endorser\<close>

definition sample_call :: "bytes list \<Rightarrow> invocation" where
  "sample_call as = \<lparr>InvTxID = ''t'', InvChannel = ''ch'', CCIDName = ''mynamespace'', CCIDVersion = '''', Args = as\<rparr>"

text \<open>A proposal is its arguments; the world is the value stored under every key.\<close>

definition sample_sdk :: "(string, nat, string, bytes list, string) sdk" where
  "sample_sdk = \<lparr>parse = (\<lambda>q w. (Ok (sample_call q), w)),
     newSimulationStore = (\<lambda>ns n m w. (Ok 0, w)), getState = (\<lambda>h k w. (Ok w, w)),
     putState = (\<lambda>h k v w. (Ok (), w)), storeResult = (\<lambda>h w. (''rws'', w)),
     endorse = (\<lambda>b call res w. (Ok ''endorsed'', w)), ready = (\<lambda>w. (Ok (), w)), selectDone = (\<lambda>w. (False, w)),
     newWriteDB = (\<lambda>c s w. (Ok (), w)), newReadDB = (\<lambda>c s w. (Ok (), w)),
     newSynchronizer = (\<lambda>b c w. (Ok (), w)), startSynchronizer = (\<lambda>w. ((), w)), awaitDone = (\<lambda>w. ((), w)),
     closeWriteDB = (\<lambda>w. ((), w)), closeReadDB = (\<lambda>w. ((), w)),
     blockNumber = (\<lambda>w. (Ok 0, w)), registerServer = (\<lambda>n w. ((), w))\<rparr>"

definition sample_service ::
  "((nat, string, bytes list) ce_call, string, nat, string) service" where
  "sample_service = \<lparr>channel = ''ch'', executors = sample_executors sample_sdk, builder = Some FabricXBuilder,
     monotonicVersions = True\<rparr>"

theorem endorses_only_executed_witness:
  "endorsed_properly sample_sdk sample_service (SampleExecutor_Execute sample_sdk) [''get'', ''k''] ''v''
    (fst (snd (ProcessProposal sample_sdk sample_service [''get'', ''k''] ''v'')))"
  by (rule endorses_only_executed [OF _ run_split [OF refl]]) (simp add: sample_service_def)

theorem invalid_proposals_touch_nothing_witness:
  "map op (fst (snd (ProcessProposal sample_sdk (sample_service\<lparr>channel := ''other''\<rparr>) [] ''v''))) = [CParse []]"
proof -
  let ?s = "sample_service\<lparr>channel := ''other''\<rparr>"
  have "fst (ProcessProposal sample_sdk ?s [] ''v'') = Ok (Inl (InvalidArgument, ''channel must be other''))"
    by code_simp
  from invalid_proposals_touch_nothing [OF run_split [OF this]] show ?thesis by simp
qed

theorem empty_args_panic_witness:
  "\<exists>es. ProcessProposal sample_sdk sample_service [] ''v'' = (Panic ''index out of range [0] with length 0'', es, ''v'')"
  by (rule empty_args_panic [where call = "sample_call []" and store = 0 and k = FabricXBuilder
        and resp = "''endorsed''" and ?w1.0 = "''v''" and ?w2.0 = "''v''"])
    (simp_all add: sample_service_def sample_sdk_def sample_call_def)

theorem wait_for_ready_returns_witness: "fst (WaitForReady sample_sdk 1 ''v'') = Ok (Some True)"
  using wait_for_ready_returns [OF waits.intros(1), of sample_sdk "''v''"] by (simp add: sample_sdk_def)

subsection \<open>The client\<close>

definition sample_client :: "(nat, nat, nat, nat) client_env" where
  "sample_client = \<lparr>openFile = (\<lambda>f w. (Ok (), w)), readConfig = (\<lambda>w. (Ok (), w)),
     unmarshalConfig = (\<lambda>w. (Ok \<lparr>CliChannelID = ''ch'', CliNamespace = ''ns'', CliProtocol = '''',
       CliIdentity = Some \<lparr>MspID = ''m'', MSPDir = ''d''\<rparr>,
       Endorsers = [\<lparr>Endpoint = Some \<lparr>Host = ''h'', Port = 1\<rparr>,
         TLS = \<lparr>TlsMode = '''', CertPath = '''', KeyPath = '''', CACertPaths = []\<rparr>\<rparr>],
       Orderer = Some \<lparr>Endpoint = Some \<lparr>Host = ''o'', Port = 2\<rparr>,
         TLS = \<lparr>TlsMode = '''', CertPath = '''', KeyPath = '''', CACertPaths = []\<rparr>\<rparr>\<rparr>, w)),
     flagString = (\<lambda>f w. ('''', w)), signerFromMSP = (\<lambda>d m w. (Ok 0, w)),
     newEndorsementClient = (\<lambda>cs s ch ns v w. (Ok 1, w)), newSubmitter = (\<lambda>k cs s w. (Ok 2, w)),
     executeTransaction = (\<lambda>h ns v as w. (Ok 5, w)), submit = (\<lambda>h e w. (Ok (), w + 1)),
     closeClient = (\<lambda>h w. ((), w)), closeSubmitter = (\<lambda>h w. ((), w)), print = (\<lambda>t w. ((), w)),
     responses = (\<lambda>e. [\<lparr>RespStatus = 200, RespMessage = '''', RespPayload = ''p''\<rparr>])\<rparr>"

end
