(* ===== verification/View_Factories.thy ===== *)
theory View_Factories imports Views Htlc Owner_Types begin

text \<open>
  The view factories of \<open>common/views\<close> and \<open>owner/service\<close>: a view that is started by name gets
  its options as JSON. The types of the token SDK and of the Fabric Smart Client among the options
  (TMS ids, token ids, token types, identities) are decoded by their own code, the record
  \<open>json_env\<close>; \<open>time.Duration\<close> is an \<open>int64\<close>. The input is the JSON value, or the error of a text
  that is none.
\<close>

record json_env =
  decodeTMSID :: "tmsid decoder"
  decodeTokenIDs :: "string list decoder"
  decodeTokenType :: "string decoder"
  decodeIdentity :: "identity decoder"

definition decode_bool :: "bool decoder" where
  "decode_bool j b = (case j of JNull \<Rightarrow> Inr b | JBool c \<Rightarrow> Inr c | _ \<Rightarrow> type_error)"

text \<open>\<open>json.Unmarshal\<close> into a value that is already there.\<close>

definition Unmarshal :: "'a decoder \<Rightarrow> error + json \<Rightarrow> 'a \<Rightarrow> error + 'a" where
  "Unmarshal dec inp x = (case inp of Inl e \<Rightarrow> Inl e | Inr j \<Rightarrow> dec j x)"

text \<open>The two factories of \<open>common/views\<close> assert that the options can be decoded.\<close>

definition assert_unmarshalled :: "error + 'a \<Rightarrow> 'a res" where
  "assert_unmarshalled r = (case r of Inl e \<Rightarrow> Panic ''failed unmarshalling input'' | Inr x \<Rightarrow> Ok x)"

definition decode_IssueCash :: "json_env \<Rightarrow> views_issue_cash decoder" where
  "decode_IssueCash J = decode_struct
     [field ''TMSID'' (decode_ptr zero_tmsid (decodeTMSID J)) VTMSID (\<lambda>x s. s\<lparr>VTMSID := x\<rparr>),
      field ''Anonymous'' decode_bool VAnonymous (\<lambda>x s. s\<lparr>VAnonymous := x\<rparr>),
      field ''Auditor'' decode_string VAuditor (\<lambda>x s. s\<lparr>VAuditor := x\<rparr>),
      field ''IssuerWallet'' decode_string VIssuerWallet (\<lambda>x s. s\<lparr>VIssuerWallet := x\<rparr>),
      field ''TokenType'' (decodeTokenType J) VTokenType (\<lambda>x s. s\<lparr>VTokenType := x\<rparr>),
      field ''Quantity'' decode_uint64 VQuantity (\<lambda>x s. s\<lparr>VQuantity := x\<rparr>),
      field ''Recipient'' (decodeIdentity J) VRecipient (\<lambda>x s. s\<lparr>VRecipient := x\<rparr>),
      field ''RecipientWalletID'' decode_string VRecipientWalletID (\<lambda>x s. s\<lparr>VRecipientWalletID := x\<rparr>),
      field ''RecipientEID'' decode_string VRecipientEID (\<lambda>x s. s\<lparr>VRecipientEID := x\<rparr>),
      field ''SkipAuditorSignatureVerification'' decode_bool VSkipAuditorSignatureVerification
        (\<lambda>x s. s\<lparr>VSkipAuditorSignatureVerification := x\<rparr>)]"

definition zero_issue_cash :: views_issue_cash where
  "zero_issue_cash =
     \<lparr>VTMSID = None, VAnonymous = False, VAuditor = '''', VIssuerWallet = '''', VTokenType = '''',
      VQuantity = 0, VRecipient = '''', VRecipientWalletID = '''', VRecipientEID = '''',
      VSkipAuditorSignatureVerification = False\<rparr>"

definition IssueCashViewFactory_NewView :: "json_env \<Rightarrow> error + json \<Rightarrow> views_issue_cash res" where
  "IssueCashViewFactory_NewView J inp =
     assert_unmarshalled (Unmarshal (decode_IssueCash J) inp zero_issue_cash)"

definition decode_Redeem :: "json_env \<Rightarrow> views_redeem decoder" where
  "decode_Redeem J = decode_struct
     [field ''Auditor'' decode_string RdAuditor (\<lambda>x s. s\<lparr>RdAuditor := x\<rparr>),
      field ''Issuer'' decode_string RdIssuer (\<lambda>x s. s\<lparr>RdIssuer := x\<rparr>),
      field ''IssuerPublicParamsPublicKey'' (decodeIdentity J) RdIssuerPublicParamsPublicKey
        (\<lambda>x s. s\<lparr>RdIssuerPublicParamsPublicKey := x\<rparr>),
      field ''Wallet'' decode_string RdWallet (\<lambda>x s. s\<lparr>RdWallet := x\<rparr>),
      field ''TokenIDs'' (decodeTokenIDs J) RdTokenIDs (\<lambda>x s. s\<lparr>RdTokenIDs := x\<rparr>),
      field ''Type'' (decodeTokenType J) RdType (\<lambda>x s. s\<lparr>RdType := x\<rparr>),
      field ''Amount'' decode_uint64 RdAmount (\<lambda>x s. s\<lparr>RdAmount := x\<rparr>),
      field ''TMSID'' (decode_ptr zero_tmsid (decodeTMSID J)) RdTMSID (\<lambda>x s. s\<lparr>RdTMSID := x\<rparr>)]"

definition zero_redeem :: views_redeem where
  "zero_redeem =
     \<lparr>RdAuditor = '''', RdIssuer = '''', RdIssuerPublicParamsPublicKey = '''', RdWallet = '''',
      RdTokenIDs = [], RdType = '''', RdAmount = 0, RdTMSID = None\<rparr>"

definition RedeemViewFactory_NewView :: "json_env \<Rightarrow> error + json \<Rightarrow> views_redeem res" where
  "RedeemViewFactory_NewView J inp = assert_unmarshalled (Unmarshal (decode_Redeem J) inp zero_redeem)"

text \<open>The factories of \<open>owner/service\<close> return the error.\<close>

definition wrap_unmarshalled :: "error + 'a \<Rightarrow> 'a res" where
  "wrap_unmarshalled r = (case r of Inl e \<Rightarrow> Err (Wrap ''failed unmarshalling input'' e) | Inr x \<Rightarrow> Ok x)"

definition decode_LockOptions :: "json_env \<Rightarrow> lock_options decoder" where
  "decode_LockOptions J = decode_struct
     [field ''TMSID'' (decode_ptr zero_tmsid (decodeTMSID J)) LTMSID (\<lambda>x s. s\<lparr>LTMSID := x\<rparr>),
      field ''Wallet'' decode_string LWallet (\<lambda>x s. s\<lparr>LWallet := x\<rparr>),
      field ''TokenType'' decode_string LTokenType (\<lambda>x s. s\<lparr>LTokenType := x\<rparr>),
      field ''Quantity'' decode_uint64 LQuantity (\<lambda>x s. s\<lparr>LQuantity := x\<rparr>),
      field ''Recipient'' decode_string LRecipient (\<lambda>x s. s\<lparr>LRecipient := x\<rparr>),
      field ''RecipientNode'' decode_string LRecipientNode (\<lambda>x s. s\<lparr>LRecipientNode := x\<rparr>),
      field ''Hash'' (decode_ptr [] decode_bytes) LHash (\<lambda>x s. s\<lparr>LHash := x\<rparr>),
      field ''ReclamationDeadline'' decode_int64 LReclamationDeadline (\<lambda>x s. s\<lparr>LReclamationDeadline := x\<rparr>)]"

definition zero_lock_options :: lock_options where
  "zero_lock_options =
     \<lparr>LTMSID = None, LWallet = '''', LTokenType = '''', LQuantity = 0, LRecipient = '''',
      LRecipientNode = '''', LHash = None, LReclamationDeadline = 0\<rparr>"

definition LockViewFactory_NewView :: "json_env \<Rightarrow> error + json \<Rightarrow> lock_options res" where
  "LockViewFactory_NewView J inp = wrap_unmarshalled (Unmarshal (decode_LockOptions J) inp zero_lock_options)"

definition decode_ClaimOptions :: "json_env \<Rightarrow> claim_options decoder" where
  "decode_ClaimOptions J = decode_struct
     [field ''TMSID'' (decode_ptr zero_tmsid (decodeTMSID J)) CTMSID (\<lambda>x s. s\<lparr>CTMSID := x\<rparr>),
      field ''Wallet'' decode_string CWallet (\<lambda>x s. s\<lparr>CWallet := x\<rparr>),
      field ''PreImage'' decode_bytes CPreImage (\<lambda>x s. s\<lparr>CPreImage := x\<rparr>)]"

definition zero_claim_options :: claim_options where
  "zero_claim_options = \<lparr>CTMSID = None, CWallet = '''', CPreImage = []\<rparr>"

definition ClaimViewFactory_NewView :: "json_env \<Rightarrow> error + json \<Rightarrow> claim_options res" where
  "ClaimViewFactory_NewView J inp = wrap_unmarshalled (Unmarshal (decode_ClaimOptions J) inp zero_claim_options)"

definition decode_ReclaimOptions :: "json_env \<Rightarrow> reclaim_options decoder" where
  "decode_ReclaimOptions J = decode_struct
     [field ''TMSID'' (decode_ptr zero_tmsid (decodeTMSID J)) KTMSID (\<lambda>x s. s\<lparr>KTMSID := x\<rparr>),
      field ''Wallet'' decode_string KWallet (\<lambda>x s. s\<lparr>KWallet := x\<rparr>),
      field ''Hash'' decode_bytes KHash (\<lambda>x s. s\<lparr>KHash := x\<rparr>)]"

definition zero_reclaim_options :: reclaim_options where
  "zero_reclaim_options = \<lparr>KTMSID = None, KWallet = '''', KHash = []\<rparr>"

definition ReclaimViewFactory_NewView :: "json_env \<Rightarrow> error + json \<Rightarrow> reclaim_options res" where
  "ReclaimViewFactory_NewView J inp =
     wrap_unmarshalled (Unmarshal (decode_ReclaimOptions J) inp zero_reclaim_options)"

end
