(* ===== verification/Node_Runs.thy ===== *)
theory Node_Runs imports Issuer_Api View_Factories "HOL-Library.Multiset" begin

text \<open>
  A node over time. What a token node does is a set of actions: it answers requests of its API, it answers
  other nodes with the responders its \<open>main\<close> registers, and it runs the views that are started by name through its
  factories. They run concurrently. The invariant of these histories is the account a node gives of
  itself: what it reported as done is what the orderer confirmed.
\<close>

subsection \<open>Actions and histories\<close>

text \<open>
  An action: the libraries as it finds them, the transaction id it reported to its client, if it did, and its
  calls. The libraries (\<open>libs\<close>) are those of this action only: they say what each of its calls is answered,
  and so hold whatever the other actions of the node and the rest of the world do between its calls.
\<close>

record ('h, 'w) node_action =
  libs :: "('w, 'h) env"
  reports :: "string option"
  calls :: "('h call, 'w) event list"

definition answer_id :: "request \<Rightarrow> api_json response res \<Rightarrow> string option" where
  "answer_id r x =
     (case x of
        Ok resp \<Rightarrow>
          if Method r = ''POST'' \<and> Status resp = StatusOK
          then (case Content resp of Json b \<Rightarrow> payload_id b | _ \<Rightarrow> None) else None
      | _ \<Rightarrow> None)"

definition view_report :: "(any \<Rightarrow> string option) \<Rightarrow> any res \<Rightarrow> string option" where
  "view_report rid x = (case x of Ok a \<Rightarrow> rid a | _ \<Rightarrow> None)"

definition viewed :: "('w, 'h) env \<Rightarrow> (any \<Rightarrow> string option) \<Rightarrow> any res \<Rightarrow> ('h call, 'w) event list \<Rightarrow> ('h, 'w) node_action" where
  "viewed E rid x es = \<lparr>libs = E, reports = view_report rid x, calls = es\<rparr>"

text \<open>The actions of an owner and of an issuer: API, responders, factories.\<close>

inductive owner_action :: "oapi \<Rightarrow> nat \<Rightarrow> json_env \<Rightarrow> ('h, 'w) node_action \<Rightarrow> bool" for A fuel J where
  request: "owner_api E A fuel r w = (x, es, w') \<Longrightarrow>
    owner_action A fuel J \<lparr>libs = E, reports = answer_id r x, calls = es\<rparr>"
| accept: "AcceptCashView_Call E w = (x, es, w') \<Longrightarrow> owner_action A fuel J (viewed E (\<lambda>a. None) x es)"
| lock_accept: "LockAcceptView_Call E w = (x, es, w') \<Longrightarrow> owner_action A fuel J (viewed E (\<lambda>a. None) x es)"
| redeem: "RedeemViewFactory_NewView J inp = Ok v \<Longrightarrow> views_RedeemView_Call E v w = (x, es, w') \<Longrightarrow>
    owner_action A fuel J (viewed E string_id x es)"
| lock: "LockViewFactory_NewView J inp = Ok l \<Longrightarrow> LockView_Call E l w = (x, es, w') \<Longrightarrow>
    owner_action A fuel J (viewed E lock_id x es)"
| claim: "ClaimViewFactory_NewView J inp = Ok c \<Longrightarrow> ClaimView_Call E c w = (x, es, w') \<Longrightarrow>
    owner_action A fuel J (viewed E string_id x es)"
| reclaim: "ReclaimViewFactory_NewView J inp = Ok k \<Longrightarrow> ReclaimView_Call E k w = (x, es, w') \<Longrightarrow>
    owner_action A fuel J (viewed E string_id x es)"

inductive issuer_action :: "json_env \<Rightarrow> ('h, 'w) node_action \<Rightarrow> bool" for J where
  request: "issuer_api E r w = (x, es, w') \<Longrightarrow> issuer_action J \<lparr>libs = E, reports = answer_id r x, calls = es\<rparr>"
| redeem_accept: "IssuerRedeemAcceptView_Call E w = (x, es, w') \<Longrightarrow> issuer_action J (viewed E (\<lambda>a. None) x es)"
| issue: "IssueCashViewFactory_NewView J inp = Ok v \<Longrightarrow> views_IssueCashView_Call E v w = (x, es, w') \<Longrightarrow>
    issuer_action J (viewed E string_id x es)"

text \<open>
  A history: the actions, and the log of the calls of the node, in which the calls of each action are in their
  order and those of different actions are interleaved in any way.
\<close>

inductive node_run ::
  "(('h, 'w) node_action \<Rightarrow> bool) \<Rightarrow> ('h, 'w) node_action list \<Rightarrow> ('h call, 'w) event list \<Rightarrow> bool"
  for act where
  boot: "node_run act [] []"
| action: "node_run act as log \<Longrightarrow> act a \<Longrightarrow> log' \<in> shuffles log (calls a) \<Longrightarrow> node_run act (as @ [a]) log'"

subsection \<open>The account of an action\<close>

definition confirmed_ids :: "('h \<Rightarrow> string) \<Rightarrow> ('h call, 'w) event list \<Rightarrow> string list" where
  "confirmed_ids ident es =
     List.map_filter (\<lambda>e. case ev_kind e of Order tx \<Rightarrow> if succeeded e then Some (ident tx) else None | _ \<Rightarrow> None) es"

lemma confirmed_ids_Nil [simp]: "confirmed_ids ident [] = []"
  by (simp add: confirmed_ids_def List.map_filter_def)

lemma confirmed_ids_shuffled:
  assumes "zs \<in> shuffles xs ys"
  shows "mset (confirmed_ids ident zs) = mset (confirmed_ids ident xs) + mset (confirmed_ids ident ys)"
  using mset_shuffles [OF assms] by (simp add: confirmed_ids_def List.map_filter_def)

lemma confirmed_ids_orders: "confirmed_ids ident es = confirmed_ids ident (order_events es)"
  by (induction es) (auto simp: confirmed_ids_def List.map_filter_simps split: kind.split)

lemma settled_confirmed:
  assumes "settle_run Preparing es = Some p"
  shows "confirmed_ids ident es = (case p of Committed tx \<Rightarrow> [ident tx] | _ \<Rightarrow> [])"
  using run_Preparing [OF assms] confirmed_ids_orders [of ident es]
  by (auto simp: confirmed_ids_def List.map_filter_simps split: if_splits kind.splits)

lemma no_orders_confirmed: "\<forall>e \<in> set es. \<forall>tx. ev_kind e \<noteq> Order tx \<Longrightarrow> confirmed_ids ident es = []"
  by (induction es) (auto simp: confirmed_ids_def List.map_filter_simps split: kind.split)

text \<open>
  What can go wrong after a transaction was ordered. The last call but one of the trace ordered \<open>tx\<close>, with
  success; the last one either read the outputs of \<open>tx\<close> and did not get a first one with a script, or read the
  status of \<open>tx\<close> and was not told that it is confirmed.
\<close>

definition unsettled :: "('w, 'h) env \<Rightarrow> ('h call, 'w) event list \<Rightarrow> 'h \<Rightarrow> bool" where
  "unsettled E es tx \<longleftrightarrow>
     (\<exists>earlier v w1 c ok w2. es = earlier @ [Event (Fsc (CRunView v)) True w1, Event c ok w2] \<and> subview_kind v = Order tx \<and>
        (c = Htlc (CHtlcOutputs tx) \<and>
           (\<exists>x. htlcOutputs (htlc E) tx w1 = (x, w2) \<and> (\<forall>script rest. x \<noteq> Ok (Some script # rest))) \<or>
         (\<exists>owner x. c = Ttx (CGetStatus owner (txID (ttx E) tx)) \<and>
            getStatus (ttx E) owner (txID (ttx E) tx) w1 = (x, w2) \<and> x \<noteq> Ok Confirmed)))"

text \<open>Over the reversed trace, which begins with the calls in question.\<close>

lemma unsettled_rev:
  "unsettled E es tx \<longleftrightarrow>
     (\<exists>c ok w2 v w1 earlier. rev es = Event c ok w2 # Event (Fsc (CRunView v)) True w1 # earlier \<and>
        subview_kind v = Order tx \<and>
        (c = Htlc (CHtlcOutputs tx) \<and>
           (\<exists>x. htlcOutputs (htlc E) tx w1 = (x, w2) \<and> (\<forall>script rest. x \<noteq> Ok (Some script # rest))) \<or>
         (\<exists>owner x. c = Ttx (CGetStatus owner (txID (ttx E) tx)) \<and>
            getStatus (ttx E) owner (txID (ttx E) tx) w1 = (x, w2) \<and> x \<noteq> Ok Confirmed)))"
  (is "_ \<longleftrightarrow> (\<exists>c ok w2 v w1 earlier. rev es = _ # _ # earlier \<and> ?P c w2 v w1)")
proof
  assume "unsettled E es tx"
  then obtain earlier v w1 c ok w2 where "es = earlier @ [Event (Fsc (CRunView v)) True w1, Event c ok w2]" "?P c w2 v w1"
    unfolding unsettled_def by blast
  then show "\<exists>c ok w2 v w1 earlier. rev es = Event c ok w2 # Event (Fsc (CRunView v)) True w1 # earlier \<and> ?P c w2 v w1"
    by (intro exI [of _ c] exI [of _ ok] exI [of _ w2] exI [of _ v] exI [of _ w1] exI [of _ "rev earlier"] conjI [OF _ \<open>?P c w2 v w1\<close>]) simp
next
  assume "\<exists>c ok w2 v w1 earlier. rev es = Event c ok w2 # Event (Fsc (CRunView v)) True w1 # earlier \<and> ?P c w2 v w1"
  then obtain c ok w2 v w1 earlier where "es = rev earlier @ [Event (Fsc (CRunView v)) True w1, Event c ok w2]" "?P c w2 v w1"
    by (auto simp: rev_swap)
  then show "unsettled E es tx" unfolding unsettled_def by blast
qed

lemma ex_rev [simp]: "\<exists>ys. xs = rev ys"
  by (metis rev_rev_ident)

definition failed_after_ordering :: "('h, 'w) node_action \<Rightarrow> bool" where
  "failed_after_ordering a \<longleftrightarrow> reports a = None \<and> (\<exists>tx. unsettled (libs a) (calls a) tx)"

text \<open>
  An action accounts for itself when the orderer confirmed exactly what it reports; one that failed after
  ordering reports nothing and had that one transaction confirmed.
\<close>

definition accounts :: "('h \<Rightarrow> string) \<Rightarrow> ('h, 'w) node_action \<Rightarrow> bool" where
  "accounts ident a \<longleftrightarrow>
     (if failed_after_ordering a
      then \<exists>tx. unsettled (libs a) (calls a) tx \<and> confirmed_ids ident (calls a) = [ident tx]
      else confirmed_ids ident (calls a) = (case reports a of None \<Rightarrow> [] | Some i \<Rightarrow> [i]))"

definition reported :: "('h, 'w) node_action list \<Rightarrow> string list" where
  "reported as = List.map_filter reports as"

lemma reported_simps [simp]:
  "reported [] = []" "reported (as @ [a]) = reported as @ (case reports a of None \<Rightarrow> [] | Some i \<Rightarrow> [i])"
  by (simp_all add: reported_def List.map_filter_def split: option.split)

text \<open>The ids that were confirmed for actions that failed after ordering.\<close>

definition lost :: "('h \<Rightarrow> string) \<Rightarrow> ('h, 'w) node_action list \<Rightarrow> string list" where
  "lost ident as = concat (map (\<lambda>a. confirmed_ids ident (calls a)) (filter failed_after_ordering as))"

text \<open>The contract of a node: its actions account for themselves. It is kept by its histories.\<close>

locale accountable =
  fixes ident :: "'h \<Rightarrow> string"
    and act :: "('h, 'w) node_action \<Rightarrow> bool"
  assumes action_accounts: "act a \<Longrightarrow> initiates (libs a) \<Longrightarrow> txID (ttx (libs a)) = ident \<Longrightarrow> accounts ident a"
begin

lemma run_accounts:
  assumes "node_run act as log" and "\<forall>a \<in> set as. initiates (libs a) \<and> txID (ttx (libs a)) = ident"
  shows "mset (confirmed_ids ident log) = mset (reported as) + mset (lost ident as) \<and> (\<forall>a \<in> set as. accounts ident a)"
  using assms
proof (induction rule: node_run.induct)
  case (action as log a log')
  then have a: "accounts ident a" using action_accounts by simp
  have "failed_after_ordering a \<Longrightarrow> reports a = None" by (simp add: failed_after_ordering_def)
  with a action.IH action.prems confirmed_ids_shuffled [OF action.hyps(3), of ident] show ?case
    by (auto simp: accounts_def lost_def)
qed (simp add: lost_def)

end

subsection \<open>Actions that fail after ordering\<close>

definition excused :: "('w, 'h) env \<Rightarrow> ('h call, 'w) event list \<Rightarrow> bool" where
  "excused E es \<longleftrightarrow> (\<forall>o1 \<in> set (order_events es). succeeded o1 \<longrightarrow> (\<exists>tx. unsettled E es tx))"

lemma excused_simps [simp]: "order_events es = [] \<Longrightarrow> excused E es"
  by (simp add: excused_def)

lemma not_ordered_excused: "\<forall>o1 \<in> set (order_events es). \<not> succeeded o1 \<Longrightarrow> excused E es"
  by (simp add: excused_def)

lemma lock_excused:
  assumes "order_events fs = []"
  shows "conf collect fs (LockView_Call E v)
    (\<lambda>r es w1. case r of Ok a \<Rightarrow> \<exists>l. a = ALockResult l | _ \<Rightarrow> excused E es) w"
  using assms
  by (auto simp: LockView_Call_def script_hash_at0_def sign_and_order_def api_defs prog_simps excused_def unsettled_rev
      cong: conf_cong split: option.split list.split)

lemma order_checked_excused:
  assumes "order_events fs = []"
  shows "conf collect fs (order_checked E tx msg) (\<lambda>r es w1. (\<forall>a. r \<noteq> Ok a) \<longrightarrow> excused E es) w"
  using assms
  by (auto simp: order_checked_def assert_status_def api_defs prog_simps excused_def unsettled_rev cong: conf_cong)

lemma views_excused:
  "conf collect [] (views_RedeemView_Call E rd) (\<lambda>r es w1. (\<forall>a. r \<noteq> Ok a) \<longrightarrow> excused E es) w"
  "conf collect [] (views_IssueCashView_Call E ic) (\<lambda>r es w1. (\<forall>a. r \<noteq> Ok a) \<longrightarrow> excused E es) w"
  by (auto simp: views_RedeemView_Call_def views_IssueCashView_Call_def Let_def api_defs prog_simps
      cong: conf_cong split: option.split intro!: order_checked_excused)

lemma FSC_Lock_excused:
  assumes env: "initiates E" and fs: "order_events fs = []"
  shows "conf collect fs (FSC_Lock E ty q acc recipient node d hash tms)
    (\<lambda>r es w1. (\<forall>l. r \<noteq> Ok l) \<longrightarrow> excused E es) w"
proof -
  let ?Q = "\<lambda>r es (w1 :: 'a). case r of
      Ok x \<Rightarrow> conf collect es (case x of ALockResult result \<Rightarrow> ret result | _ \<Rightarrow> throw (New ''cannot parse lock response''))
        (\<lambda>r es w1. (\<forall>l. r \<noteq> Ok l) \<longrightarrow> excused E es) w1
    | _ \<Rightarrow> excused E es"
  have init: "conf collect gs (InitiateView E (LockView_Call E v)) ?Q w1" if "order_events gs = []" for gs v w1
    by (rule conf_InitiateView [OF env conf_mono [OF lock_excused [OF that]]])
      (use that in \<open>auto simp: prog_simps split: res.splits\<close>)
  show ?thesis
    unfolding FSC_Lock_def GetManager_def
    by (auto simp: prog_simps fs intro!: conf_mono [OF init] split: res.splits)
qed

definition unanswered :: "api_json response res \<Rightarrow> bool" where
  "unanswered x \<longleftrightarrow> (\<forall>resp. x = Ok resp \<longrightarrow> Status resp \<noteq> StatusOK)"

lemma Server_Lock_excused:
  assumes env: "initiates E"
  shows "conf collect [] (Server_Lock E acc (Some body)) (\<lambda>r es w1. (\<forall>b. r \<noteq> Ok (StatusOK, b)) \<longrightarrow> excused E es) w"
  by (auto simp: Server_Lock_def Let_def prog_simps intro!: conf_mono [OF FSC_Lock_excused [OF env]]
      split: res.splits prod.splits option.splits)

lemma strict_Lock_excused:
  assumes env: "initiates E"
  shows "conf collect [] (strict_Lock E acc r) (\<lambda>x es w1. unanswered x \<longrightarrow> excused E es) w"
  unfolding strict_Lock_def strict_body_def strict_respond_def
  by (auto simp: prog_simps unanswered_def http_Error_def json_response_def status_defs
      intro!: conf_mono [OF Server_Lock_excused [OF env]] split: sum.split res.split)

lemma settled_excused:
  assumes "conf settle_step Preparing m (\<lambda>x p w1. unconfirmed x p) w"
  shows "conf collect [] m (\<lambda>x es w1. unanswered x \<longrightarrow> excused E es) w"
  unfolding conf_collect
proof (clarify, intro not_ordered_excused ballI)
  fix x es w1 o1
  assume run: "m w = (x, es, w1)" and "unanswered x" and "o1 \<in> set (order_events es)"
  moreover from confD [OF assms run] obtain p where "settle_run Preparing es = Some p" "unconfirmed x p" by blast
  ultimately show "\<not> succeeded o1" unfolding unconfirmed_def unanswered_def using not_committed_orders by blast
qed

lemma owner_post_excused:
  assumes env: "initiates E" and post: "Method r = ''POST''"
  shows "conf collect [] (owner_api E A fuel r) (\<lambda>x es w1. unanswered x \<longrightarrow> excused E es) w"
proof (cases "last (Path r) = ''lock''")
  case True
  show ?thesis
    unfolding owner_api_def
  proof (rule conf_WithAnyCORS, rule conf_serve_mux)
    fix m ps h args
    assume "(m, ps, h) \<in> set (owner_routes E A fuel)" and "match_method m (Method r)"
      and "match_path ps (Path r) = Some args"
    with post True have "h = wrapper_Lock E A"
      by (auto simp: owner_routes_def match_method_def dest: match_path_last)
    then show "conf collect [] (h args r)
        (\<lambda>x q w1. case x of
           Ok resp \<Rightarrow> unanswered (Ok (resp\<lparr>Header := cors_headers @ Header resp\<rparr>)) \<longrightarrow> excused E q
         | Err e \<Rightarrow> unanswered (Err e) \<longrightarrow> excused E q | Panic s \<Rightarrow> unanswered (Panic s) \<longrightarrow> excused E q) w"
      by (auto simp: wrapper_defs unanswered_def
          intro!: conf_with_id conf_mono [OF strict_Lock_excused [OF env]] split: res.split)
  qed simp_all
qed (use settled_excused [OF owner_post_unconfirmed [OF env post]] in blast)

subsection \<open>The nodes account for themselves\<close>

lemma unsettled_ordered:
  assumes "unsettled E es tx" and "settle_run Preparing es = Some p"
  shows "p = Committed tx"
proof -
  from assms(1) obtain earlier v w1 e where es: "es = earlier @ [Event (Fsc (CRunView v)) True w1, e]"
    and v: "subview_kind v = Order tx" unfolding unsettled_def by blast
  obtain o1 where "o1 \<in> set (order_events es)" "ev_kind o1 = Order tx" "succeeded o1"
    by (rule that [of "Event (Fsc (CRunView v)) True w1"]) (simp_all add: es v order_events_def)
  with run_Preparing [OF assms(2)] show ?thesis by (auto split: if_splits)
qed

text \<open>An action that follows the settlement protocol, and reports nothing only when it is excused.\<close>

lemma protocol_accounts:
  assumes run: "settle_run Preparing (calls a) = Some p"
    and some: "\<And>i. reports a = Some i \<Longrightarrow> \<exists>tx. p = Committed tx \<and> i = ident tx"
    and none: "reports a = None \<Longrightarrow> excused (libs a) (calls a)"
  shows "accounts ident a"
proof (cases "reports a")
  case None
  show ?thesis
  proof (cases "\<exists>tx. p = Committed tx")
    case True
    then obtain tx where tx: "p = Committed tx" by blast
    with run_Preparing [OF run] obtain o1 where "o1 \<in> set (order_events (calls a))" "succeeded o1"
      by (auto split: if_splits)
    with none [OF None] obtain u where u: "unsettled (libs a) (calls a) u" unfolding excused_def by blast
    with unsettled_ordered [OF u run] tx settled_confirmed [OF run, of ident] None show ?thesis
      by (auto simp: accounts_def failed_after_ordering_def)
  next
    case False
    then have "\<not> failed_after_ordering a"
      using unsettled_ordered [OF _ run] by (auto simp: failed_after_ordering_def)
    with False settled_confirmed [OF run, of ident] None show ?thesis
      by (auto simp: accounts_def split: phase.splits)
  qed
next
  case (Some i)
  with some [OF Some] settled_confirmed [OF run, of ident] show ?thesis
    by (auto simp: accounts_def failed_after_ordering_def)
qed

lemma quiet_accounts:
  assumes "\<forall>e \<in> set (calls a). \<forall>tx. ev_kind e \<noteq> Order tx" and "reports a = None"
  shows "accounts ident a"
proof -
  have "\<not> unsettled (libs a) (calls a) tx" for tx
    using assms(1) by (force simp: unsettled_def)
  with no_orders_confirmed [OF assms(1)] assms(2) show ?thesis by (simp add: accounts_def failed_after_ordering_def)
qed

lemma responder_accounts:
  assumes "conf (forbid (\<lambda>e. \<exists>tx. ev_kind e = Order tx)) () m (\<lambda>x p w1. True) w" and "m w = (x, es, w')"
  shows "accounts ident (viewed E (\<lambda>a. None) x es)"
  by (rule quiet_accounts)
    (use forbidD(2) [OF assms] in \<open>auto simp: viewed_def view_report_def split: res.split\<close>)

lemma view_accounts:
  assumes follows: "conf settle_step Preparing m
      (\<lambda>r p w1. \<forall>a. r = Ok a \<longrightarrow> (\<exists>tx. p = Committed tx \<and> rid a = Some (ident tx))) w"
    and fails: "conf collect [] m (\<lambda>r es w1. (\<forall>a. r \<noteq> Ok a) \<longrightarrow> excused E es) w"
    and run: "m w = (x, es, w')"
  shows "accounts ident (viewed E rid x es)"
proof -
  obtain p where p: "settle_run Preparing es = Some p"
    and ok: "\<And>a. x = Ok a \<Longrightarrow> \<exists>tx. p = Committed tx \<and> rid a = Some (ident tx)"
    using confD [OF follows run] by blast
  have "(\<forall>a. x \<noteq> Ok a) \<longrightarrow> excused E es" using collectD [OF fails run] .
  with p ok show ?thesis
    by (intro protocol_accounts [of _ p]) (auto simp: viewed_def view_report_def split: res.splits)
qed

lemma settled_view_fails:
  assumes "conf settle_step Preparing m (\<lambda>r p w1. settled ident rid r p) w"
  shows "conf collect [] m (\<lambda>r es w1. (\<forall>a. r \<noteq> Ok a) \<longrightarrow> excused E es) w"
  unfolding conf_collect
proof (clarify, intro not_ordered_excused ballI)
  fix r es w1 o1
  assume run: "m w = (r, es, w1)" and "\<forall>a. r \<noteq> Ok a" and "o1 \<in> set (order_events es)"
  moreover from confD [OF assms run] obtain p where "settle_run Preparing es = Some p" "settled ident rid r p" by blast
  ultimately show "\<not> succeeded o1" by (metis settled_not_Ok not_committed_orders)
qed

lemma settled_view_accounts:
  assumes settled: "conf settle_step Preparing m (\<lambda>r p w1. settled ident rid r p) w" and run: "m w = (x, es, w')"
  shows "accounts ident (viewed E rid x es)"
  by (rule view_accounts [OF conf_mono [OF settled] settled_view_fails [OF settled] run]) (auto dest: settled_Ok)

lemma responders_order_nothing:
  "conf (forbid (\<lambda>e. \<exists>tx. ev_kind e = Order tx)) () (AcceptCashView_Call E) (\<lambda>x p w1. True) w"
  "conf (forbid (\<lambda>e. \<exists>tx. ev_kind e = Order tx)) () (LockAcceptView_Call E) (\<lambda>x p w1. True) w"
  "conf (forbid (\<lambda>e. \<exists>tx. ev_kind e = Order tx)) () (IssuerRedeemAcceptView_Call E) (\<lambda>x p w1. True) w"
proof -
  let ?P = "\<lambda>e. \<exists>tx. ev_kind e = Order tx"
  have tokens: "conf (forbid ?P) () (AssertTokens E t outs idn) (\<lambda>r p w1. True) w1" for t outs idn w1
    by (rule conf_forbid_mono [OF conf_AssertTokens]) (auto simp: is_Token_def)
  show "conf (forbid ?P) () (AcceptCashView_Call E) (\<lambda>x p w1. True) w"
    by (auto simp: AcceptCashView_Call_def assert_status_def api_defs prog_simps
        cong: conf_cong intro!: conf_mono [OF tokens] split: res.split)
  show "conf (forbid ?P) () (LockAcceptView_Call E) (\<lambda>x p w1. True) w"
    by (auto simp: LockAcceptView_Call_def Let_def api_defs prog_simps cong: conf_cong split: list.split)
  show "conf (forbid ?P) () (IssuerRedeemAcceptView_Call E) (\<lambda>x p w1. True) w"
    by (auto simp: IssuerRedeemAcceptView_Call_def api_defs prog_simps cong: conf_cong)
qed

lemma order_runs_view: "ev_kind e = Order tx \<Longrightarrow> \<exists>v. op e = Fsc (CRunView v)"
  by (cases "op e" rule: call_kind.cases) (auto elim!: fsc_kind.elims ttx_kind.elims htlc_kind.elims)

lemma answer_id_None: "Method r \<noteq> ''POST'' \<Longrightarrow> answer_id r x = None"
  by (simp add: answer_id_def split: res.split)

lemma answered_reports:
  assumes "answered ident x p" and "Method r = ''POST''"
  shows "answer_id r x = Some i \<Longrightarrow> \<exists>tx. p = Committed tx \<and> i = ident tx"
    and "answer_id r x = None \<Longrightarrow> unanswered x"
  using assms by (auto simp: answer_id_def answered_def unanswered_def split: res.splits if_splits content.splits)

lemma owner_action_accounts:
  assumes act: "owner_action A fuel J a" and env: "initiates (libs a)"
  shows "accounts (txID (ttx (libs a))) a"
  using act
proof cases
  case (request E r w x es w')
  have E: "initiates E" using env request(1) by simp
  show ?thesis
  proof (cases "Method r = ''POST''")
    case post: True
    obtain p where "settle_run Preparing es = Some p" and "answered (txID (ttx E)) x p"
      using confD [OF owner_post_answered [OF E post] request(2)] by blast
    moreover have "unanswered x \<longrightarrow> excused E es" using collectD [OF owner_post_excused [OF E post] request(2)] .
    ultimately show ?thesis
      using answered_reports [of _ x p r, OF _ post] by (intro protocol_accounts [of _ p]) (auto simp: request(1))
  next
    case False
    have "\<forall>e \<in> set es. \<forall>tx. ev_kind e \<noteq> Order tx"
      using forbidD(2) [OF owner_get_quiet [OF False] request(2)] by (metis order_runs_view)
    with answer_id_None [OF False] show ?thesis by (intro quiet_accounts) (simp_all add: request(1))
  qed
next
  case (redeem inp v E w x es w')
  then show ?thesis using view_accounts [OF views_redeem_follows views_excused(1) redeem(3)] by (simp add: viewed_def)
next
  case (lock inp l E w x es w')
  have "conf collect [] (LockView_Call E l) (\<lambda>r es w1. (\<forall>a. r \<noteq> Ok a) \<longrightarrow> excused E es) w"
    by (rule conf_mono [OF lock_excused]) (auto split: res.splits)
  from view_accounts [OF lock_follows this lock(3)] show ?thesis using lock(1) by (simp add: viewed_def)
qed (use responder_accounts [OF responders_order_nothing(1)] responder_accounts [OF responders_order_nothing(2)]
    settled_view_accounts [OF claim_settled] settled_view_accounts [OF reclaim_settled] in \<open>auto simp: viewed_def\<close>)

lemma issuer_action_accounts:
  assumes act: "issuer_action J a" and env: "initiates (libs a)"
  shows "accounts (txID (ttx (libs a))) a"
  using act
proof cases
  case (request E r w x es w')
  have E: "initiates E" using env request(1) by simp
  show ?thesis
  proof (cases "Method r = ''POST''")
    case post: True
    from issuer_post_settled [OF E post request(2)] obtain p where p:
      "settle_run Preparing es = Some p" "answered (txID (ttx E)) x p" "unconfirmed x p" by blast
    then have "unanswered x \<longrightarrow> excused E es"
      by (auto simp: unconfirmed_def unanswered_def intro!: not_ordered_excused dest: not_committed_orders)
    with p answered_reports [OF p(2) post] show ?thesis by (intro protocol_accounts [of _ p]) (auto simp: request(1))
  next
    case False
    have "\<forall>e \<in> set es. \<forall>tx. ev_kind e \<noteq> Order tx"
      using forbidD(2) [OF issuer_get_quiet [OF False] request(2)] by blast
    with answer_id_None [OF False] show ?thesis by (intro quiet_accounts) (simp_all add: request(1))
  qed
next
  case (issue inp v E w x es w')
  then show ?thesis using view_accounts [OF views_issue_follows views_excused(2) issue(3)] by (simp add: viewed_def)
qed (use responder_accounts [OF responders_order_nothing(3)] in \<open>auto simp: viewed_def\<close>)

interpretation owner_node: accountable ident "owner_action A fuel J" for ident A fuel J
  by unfold_locales (use owner_action_accounts in blast)

interpretation issuer_node: accountable ident "issuer_action J" for ident J
  by unfold_locales (use issuer_action_accounts in blast)

text \<open>
  C5: The books of a node balance. In any history of an owner or of an issuer (requests of its API, views of other
  nodes it responds to, views started by name, all of them concurrent: the calls of different actions in any
  order, anything in between), when its actions have ended: the ids the orderer confirmed for it are, each as
  often, those it reported, and one for each action that failed after ordering. Such an action had exactly one
  transaction confirmed, and its last call was either that of a lock reading the outputs of that transaction, which did not
  give it a first output with a script, or that of a view of \<open>common/views\<close> reading the status of that transaction, which
  was not answered with \<open>Confirmed\<close>. Without such an action what the node reported is what was confirmed.
\<close>

theorem node_books_balance:
  assumes run: "node_run act as log" and act: "act \<in> {owner_action A fuel J, issuer_action J}"
    and libs: "\<forall>a \<in> set as. initiates (libs a) \<and> txID (ttx (libs a)) = ident"
  shows "mset (confirmed_ids ident log) = mset (reported as) + mset (lost ident as) \<and>
    (\<forall>a \<in> set as. failed_after_ordering a \<longrightarrow>
       (\<exists>tx. unsettled (libs a) (calls a) tx \<and> confirmed_ids ident (calls a) = [ident tx])) \<and>
    (\<not> (\<exists>a \<in> set as. failed_after_ordering a) \<longrightarrow> mset (confirmed_ids ident log) = mset (reported as))"
proof -
  have books: "mset (confirmed_ids ident log) = mset (reported as) + mset (lost ident as)"
    and each: "\<forall>a \<in> set as. accounts ident a"
    using act run owner_node.run_accounts [OF _ libs] issuer_node.run_accounts [OF _ libs] by blast+
  have "\<not> (\<exists>a \<in> set as. failed_after_ordering a) \<Longrightarrow> lost ident as = []"
    by (simp add: lost_def filter_empty_conv)
  with books each show ?thesis by (auto simp: accounts_def)
qed

end
