(* ===== verification/Ce_Ledger.thy ===== *)
theory Ce_Ledger imports Ce_Service "HOL-Library.Multiset" begin

text \<open>
  The contract of the sample executor, and of the endorser around it: a key-value store. The abstract
  machine is a map that \<open>set\<close> updates and \<open>get\<close> reads; the model is the service of
  \<open>custom-endorser/service/service.go\<close> with \<open>executor.go\<close>, over a simulation store of the library and a
  ledger that changes only when a transaction is committed.
\<close>

subsection \<open>The abstract machine\<close>

type_synonym kv = "string \<rightharpoonup> bytes"

definition kv_value :: "kv \<Rightarrow> string \<Rightarrow> bytes" where
  "kv_value m k = (case m k of None \<Rightarrow> [] | Some v \<Rightarrow> v)"

text \<open>What a call writes and answers; \<open>None\<close> is a call that is refused. Further arguments are ignored.\<close>

fun kv_exec :: "kv \<Rightarrow> bytes list \<Rightarrow> (kv \<times> bytes) option" where
  "kv_exec m (f # k # rest) =
     (if f = ''get'' then Some (Map.empty, kv_value m k)
      else if f = ''set'' then
        (case rest of [] \<Rightarrow> None | v # _ \<Rightarrow> Some ([k \<mapsto> v], k @ ''='' @ v))
      else None)"
| "kv_exec m args = None"

text \<open>
  The machine over time: calls that ran, whether what was endorsed for the call may be committed, and the
  answer that was seen, if any; and calls that were committed. A call that is refused leaves nothing behind; a
  call is answered in the state committed when it runs; only a pending call is committed, once, in any order,
  and its writes are those it makes.
\<close>

datatype kv_step = Ran "bytes list" bool "bytes option" | Commit "bytes list"

fun kv_machine :: "kv \<Rightarrow> bytes list multiset \<Rightarrow> kv_step list \<Rightarrow> (kv \<times> bytes list multiset) option" where
  "kv_machine m pool [] = Some (m, pool)"
| "kv_machine m pool (Ran args pends out # steps) =
     (case kv_exec m args of
        None \<Rightarrow> if pends \<or> out \<noteq> None then None else kv_machine m pool steps
      | Some (ws, answer) \<Rightarrow>
          if out = None \<or> out = Some answer
          then kv_machine m (if pends then add_mset args pool else pool) steps else None)"
| "kv_machine m pool (Commit args # steps) =
     (if args \<in># pool then
        (case kv_exec m args of
           None \<Rightarrow> None
         | Some (ws, answer) \<Rightarrow> kv_machine (m ++ ws) (pool - {#args#}) steps)
      else None)"

lemma kv_machine_append:
  "kv_machine m pool (xs @ ys) =
     (case kv_machine m pool xs of None \<Rightarrow> None | Some (m1, pool1) \<Rightarrow> kv_machine m1 pool1 ys)"
  by (induction m pool xs rule: kv_machine.induct) (auto split: option.split prod.split)

text \<open>The calls committed, in their order, and what running them one after another leaves.\<close>

fun commits :: "kv_step list \<Rightarrow> bytes list list" where
  "commits [] = []"
| "commits (Ran args pends out # steps) = commits steps"
| "commits (Commit args # steps) = args # commits steps"

fun kv_serial :: "kv \<Rightarrow> bytes list list \<Rightarrow> kv option" where
  "kv_serial m [] = Some m"
| "kv_serial m (args # calls) =
     (case kv_exec m args of None \<Rightarrow> None | Some (ws, answer) \<Rightarrow> kv_serial (m ++ ws) calls)"

lemma kv_machine_serial:
  "kv_machine m pool steps = Some (m', pool') \<Longrightarrow> kv_serial m (commits steps) = Some m'"
  by (induction m pool steps rule: kv_machine.induct) (auto split: option.splits prod.splits if_splits)

text \<open>
  The invariant of the systems below: from \<open>m\<close> the machine has come to \<open>m'\<close>, and whatever is pending writes
  what its call writes, which does not depend on the state it ran in.
\<close>

lemma kv_exec_writes:
  assumes "kv_exec m args = Some (ws, answer)"
  shows "\<exists>answer'. kv_exec m' args = Some (ws, answer')"
  using assms by (induction m args rule: kv_exec.induct) (auto split: if_splits list.splits)

definition in_step :: "kv \<Rightarrow> kv_step list \<Rightarrow> kv \<Rightarrow> (bytes list \<times> kv) multiset \<Rightarrow> bool" where
  "in_step m hist m' pool \<longleftrightarrow>
     kv_machine m {#} hist = Some (m', image_mset fst pool) \<and>
     (\<forall>(args, ws) \<in># pool. \<exists>m1 answer. kv_exec m1 args = Some (ws, answer))"

lemma in_stepD:
  assumes "in_step m hist m' pool"
  shows "kv_machine m {#} hist = Some (m', image_mset fst pool) \<and> kv_serial m (commits hist) = Some m'"
  using assms kv_machine_serial by (auto simp: in_step_def)

lemma in_step_start [simp]: "in_step m [] m {#}"
  by (simp add: in_step_def)

lemma in_step_refused:
  assumes "in_step m hist m1 pool"
  shows "in_step m (hist @ [Ran args False None]) m1 pool"
  using assms by (simp add: in_step_def kv_machine_append split: option.split)

lemma in_step_ran:
  assumes inv: "in_step m hist m1 pool" and exec: "kv_exec m1 args = Some (ws, answer)"
    and out: "out = None \<or> out = Some answer"
  shows "in_step m (hist @ [Ran args pends out]) m1 (if pends then add_mset (args, ws) pool else pool)"
proof -
  have "\<exists>m1 answer. kv_exec m1 args = Some (ws, answer)" using exec by blast
  with inv exec out show ?thesis
    by (cases pends) (simp_all add: in_step_def kv_machine_append)
qed

lemma in_step_commit:
  assumes inv: "in_step m hist m1 pool" and member: "(args, ws) \<in># pool"
  shows "in_step m (hist @ [Commit args]) (m1 ++ ws) (pool - {#(args, ws)#})"
proof -
  from inv member obtain m2 answer where "kv_exec m2 args = Some (ws, answer)"
    unfolding in_step_def by blast
  from kv_exec_writes [OF this, of m1] obtain answer' where "kv_exec m1 args = Some (ws, answer')" by blast
  moreover have "args \<in># image_mset fst pool" using member by (force intro: image_eqI)
  ultimately show ?thesis
    using inv member by (auto simp: in_step_def kv_machine_append image_mset_Diff dest: in_diffD)
qed

subsection \<open>The store of the library\<close>

text \<open>
  How the world and the results of the library are read: the committed state of each namespace, the
  state a simulation store was opened at, the writes it has collected, and the writes of a read/write
  set. \<open>lawful_store\<close> is the documented behaviour of the simulation store: it reads the state at
  the height it was opened at, it collects what is put, its result are these writes, a key that was
  never written has no value, and simulating, parsing and endorsing commit nothing.
\<close>

record ('w, 'h, 'r) ledger_view =
  ledger :: "'w \<Rightarrow> string \<Rightarrow> kv"
  snapshot :: "'w \<Rightarrow> 'h \<Rightarrow> kv"
  pending :: "'w \<Rightarrow> 'h \<Rightarrow> kv"
  writes :: "'r \<Rightarrow> kv"

definition lawful_store :: "('w, 'h, 'r, 'q, 'p) sdk \<Rightarrow> ('w, 'h, 'r) ledger_view \<Rightarrow> bool" where
  "lawful_store S V \<longleftrightarrow>
     (\<forall>ns m w h w1. newSimulationStore S ns 0 m w = (Ok h, w1) \<longrightarrow>
        snapshot V w1 h = ledger V w ns \<and> pending V w1 h = Map.empty) \<and>
     (\<forall>h k w v w1. getState S h k w = (Ok v, w1) \<and> pending V w h = Map.empty \<longrightarrow>
        v = kv_value (snapshot V w h) k \<and> pending V w1 h = Map.empty) \<and>
     (\<forall>h k v w w1. putState S h k v w = (Ok (), w1) \<longrightarrow> pending V w1 h = (pending V w h)(k \<mapsto> v)) \<and>
     (\<forall>h w rws w1. storeResult S h w = (rws, w1) \<longrightarrow> writes V rws = pending V w h) \<and>
     (\<forall>q w. ledger V (snd (parse S q w)) = ledger V w) \<and>
     (\<forall>ns n m w. ledger V (snd (newSimulationStore S ns n m w)) = ledger V w) \<and>
     (\<forall>h k w. ledger V (snd (getState S h k w)) = ledger V w) \<and>
     (\<forall>h k v w. ledger V (snd (putState S h k v w)) = ledger V w) \<and>
     (\<forall>h w. ledger V (snd (storeResult S h w)) = ledger V w) \<and>
     (\<forall>b call res w. ledger V (snd (endorse S b call res w)) = ledger V w)"

lemma lawful_frames:
  assumes "lawful_store S V"
  shows "parse S q w = (x1, w1) \<Longrightarrow> ledger V w1 = ledger V w"
    "newSimulationStore S ns n m w = (x2, w1) \<Longrightarrow> ledger V w1 = ledger V w"
    "getState S h k w = (x3, w1) \<Longrightarrow> ledger V w1 = ledger V w"
    "putState S h k v w = (x4, w1) \<Longrightarrow> ledger V w1 = ledger V w"
    "storeResult S h w = (x5, w1) \<Longrightarrow> ledger V w1 = ledger V w"
    "endorse S b call res w = (x6, w1) \<Longrightarrow> ledger V w1 = ledger V w"
  using assms unfolding lawful_store_def by (metis snd_conv)+

lemma lawful_store_laws:
  assumes "lawful_store S V"
  shows "newSimulationStore S ns 0 m w = (Ok h, w1) \<Longrightarrow> snapshot V w1 h = ledger V w ns \<and> pending V w1 h = Map.empty"
    "getState S h k w = (Ok v, w1) \<Longrightarrow> pending V w h = Map.empty \<Longrightarrow>
      v = kv_value (snapshot V w h) k \<and> pending V w1 h = Map.empty"
    "putState S h k v w = (Ok (), w1) \<Longrightarrow> pending V w1 h = (pending V w h)(k \<mapsto> v)"
    "storeResult S h w = (rws, w1) \<Longrightarrow> writes V rws = pending V w h"
  using assms unfolding lawful_store_def by meson+

subsection \<open>One proposal\<close>

text \<open>A successful execution is a call of the abstract machine on the committed state.\<close>

lemma execute_is_kv_exec:
  assumes laws: "lawful_store S V"
    and store: "newStore 0 = ext (CNewSimulationStore ns 0 m) (newSimulationStore S ns 0 m)"
    and run: "SampleExecutor_Execute S newStore call w = (Ok (Success rws payload), es, w')"
  shows "kv_exec (ledger V w ns) (Args call) = Some (writes V rws, payload)"
proof -
  note law = lawful_store_laws [OF laws]
  from sample_executor_run [OF store run] obtain h w1 w2 k where
    new: "newSimulationStore S ns 0 m w = (Ok h, w1)" and res: "storeResult S h w2 = (rws, w')"
    and acc: "(\<exists>v xs. Args call = [''set'', k, v] @ xs \<and> putState S h k v w1 = (Ok (), w2) \<and> payload = k @ ''='' @ v)
      \<or> (\<exists>xs. Args call = [''get'', k] @ xs \<and> getState S h k w1 = (Ok payload, w2))" by blast
  from acc law(1) [OF new] law(4) [OF res] show ?thesis by (auto dest: law(2,3))
qed

text \<open>Processing a proposal commits nothing.\<close>

lemma process_commits_nothing:
  assumes laws: "lawful_store S V" and sample: "executors s = sample_executors S"
    and run: "ProcessProposal S s prop w = (r, es, w')"
  shows "ledger V w' = ledger V w"
proof -
  note frame = lawful_frames [OF laws]
  have exec: "conf collect fs (SampleExecutor_Execute S
      (\<lambda>n. ext (CNewSimulationStore ns n m) (newSimulationStore S ns n m)) call) (\<lambda>r fs w1. ledger V w1 = ledger V v) v"
    for fs ns m call v
    unfolding SampleExecutor_Execute_def
    by (auto simp: prog_simps frame split: res.split)
  have "conf collect [] (ProcessProposal S s prop) (\<lambda>r es w1. ledger V w1 = ledger V w) w"
    unfolding ProcessProposal_def Let_def
    by (auto simp: prog_simps Endorse_def sample sample_executors_def frame split: option.split res.split
        intro!: conf_mono [OF exec])
  from collectD [OF this run] show ?thesis .
qed

lemma endorsed_is_kv_exec:
  assumes laws: "lawful_store S V" and sample: "executors s = sample_executors S"
    and run: "ProcessProposal S s prop w = (r, es, w')"
    and endorsed: "Event (CEndorse k call (Success rws payload)) ok v \<in> set es"
  shows "kv_exec (ledger V w ''mynamespace'') (Args call) = Some (writes V rws, payload)"
proof -
  have "endorsed_properly S s (SampleExecutor_Execute S) prop w es"
    using sample_endorses_properly [OF sample run] .
  from this [unfolded endorsed_properly_def, rule_format, OF endorsed] obtain call0 w1 xs w2 where "parse S prop w = (Ok call0, w1)"
    and ns: "executors s (CCIDName call0) = Some (SampleExecutor_Execute S)"
    and exec: "SampleExecutor_Execute S
      (\<lambda>n. ext (CNewSimulationStore (CCIDName call0) n (monotonicVersions s))
         (newSimulationStore S (CCIDName call0) n (monotonicVersions s)))
      (default_version call0) w1 = (Ok (Success rws payload), xs, w2)"
    and call: "call = default_version call0"
    by auto
  moreover from ns have "CCIDName call0 = ''mynamespace''"
    by (simp add: sample sample_executors_def split: if_splits)
  ultimately show ?thesis
    using execute_is_kv_exec [OF laws refl exec] lawful_frames(1) [OF laws] by simp
qed

subsection \<open>A history of proposals\<close>

text \<open>
  The endorser over time: it processes proposals one after another, and the peer commits the writes of what it
  endorsed at any later time, in any order, or never (it was not submitted, or found invalid). The history
  keeps the arguments and the answer of each endorsed proposal and the arguments of each commit; the
  endorsements that are not committed yet are in the pool. The peer may commit whatever it likes to the
  other namespaces.
\<close>

inductive kv_history ::
  "('w, 'h, 'r, 'q, 'p) sdk \<Rightarrow> ('w, 'h, 'r) ledger_view \<Rightarrow> (('h, 'r, 'q) ce_call, 'w, 'h, 'r) service \<Rightarrow> 'w \<Rightarrow>
   kv_step list \<Rightarrow> 'w \<Rightarrow> (bytes list \<times> kv) multiset \<Rightarrow> bool"
  for S V s w where
  start: "kv_history S V s w [] w {#}"
| endorsed: "kv_history S V s w hist w1 pool \<Longrightarrow> ProcessProposal S s prop w1 = (r, es, w2) \<Longrightarrow>
    Event (CEndorse k call (Success rws payload)) ok v \<in> set es \<Longrightarrow>
    ledger V w3 ''mynamespace'' = ledger V w2 ''mynamespace'' \<Longrightarrow>
    kv_history S V s w (hist @ [Ran (Args call) True (Some payload)]) w3 (add_mset (Args call, writes V rws) pool)"
| refused: "kv_history S V s w hist w1 pool \<Longrightarrow> ProcessProposal S s prop w1 = (r, es, w2) \<Longrightarrow>
    ledger V w3 ''mynamespace'' = ledger V w2 ''mynamespace'' \<Longrightarrow>
    kv_history S V s w hist w3 pool"
| committed: "kv_history S V s w hist w1 pool \<Longrightarrow> (args, ws) \<in># pool \<Longrightarrow>
    ledger V w2 ''mynamespace'' = ledger V w1 ''mynamespace'' ++ ws \<Longrightarrow>
    kv_history S V s w (hist @ [Commit args]) w2 (pool - {#(args, ws)#})"

text \<open>
  C8: The endorser with the sample executor implements a key-value store. Over any history of
  proposals, valid and refused, whose endorsements are committed later, in any order, or never, the answers
  that were endorsed are those of the abstract machine in the state committed at the time, and the committed
  state is the one the machine reaches: that of the committed calls run one after another in the order of
  their commits. So every \<open>get\<close> is answered with the value of the last committed \<open>set\<close> of its key.
\<close>

theorem endorser_refines_kv:
  assumes laws: "lawful_store S V" and sample: "executors s = sample_executors S"
    and hist: "kv_history S V s w hist w' pool"
  shows "kv_machine (ledger V w ''mynamespace'') {#} hist = Some (ledger V w' ''mynamespace'', image_mset fst pool) \<and>
    kv_serial (ledger V w ''mynamespace'') (commits hist) = Some (ledger V w' ''mynamespace'')"
proof (rule in_stepD)
  from hist show "in_step (ledger V w ''mynamespace'') hist (ledger V w' ''mynamespace'') pool"
  proof (induction rule: kv_history.induct)
    case (endorsed hist w1 pool q r es w2 k call rws payload ok v w3)
    from in_step_ran [OF endorsed.IH endorsed_is_kv_exec [OF laws sample endorsed.hyps(2,3)], where pends = True]
      process_commits_nothing [OF laws sample endorsed.hyps(2)] endorsed.hyps(4)
    show ?case by simp
  next
    case (refused hist w1 pool q r es w2 w3)
    with process_commits_nothing [OF laws sample refused.hyps(2)] show ?case by simp
  next
    case (committed hist w1 pool args ws w2)
    from in_step_commit [OF committed.IH committed.hyps(2)] committed.hyps(3) show ?case by simp
  qed simp
qed

end
