(* ===== verification/Progress.thy ===== *)
theory Progress imports Issuer_Service Owner_Service Htlc begin

text \<open>
  Progress of the token views: when every call a view makes of the libraries succeeds, the view
  returns, unless what the libraries answered does not fit the request. The ways in which it does not
  fit are few: for each view they are listed here as what the libraries answer, call by call from the
  world the view starts in, and the outcome that stands for it.
\<close>

definition not_found :: "string \<Rightarrow> string \<Rightarrow> any res" where
  "not_found what wallet = Err (New (what @ '' ['' @ wallet @ ''] not found''))"

text \<open>
  A transfer: the sender's wallet is not there; or it is, and the recipient is not: the node has no wallet of its
  name, or the node it is on answered with the empty identity.
\<close>

definition transfer_misfit :: "('w, 'h) env \<Rightarrow> transfer_options \<Rightarrow> 'w \<Rightarrow> any res \<Rightarrow> bool" where
  "transfer_misfit E v w x \<longleftrightarrow>
     (\<exists>w1. getWallet (ttx E) (TWallet v) [] w = (None, w1) \<and> x = not_found ''sender wallet'' (TWallet v)) \<or>
     (\<exists>wal w1. getWallet (ttx E) (TWallet v) [] w = (Some wal, w1) \<and> x = Err ErrCounterpartyAccountNotFound \<and>
        (if TRecipientNode v = '''' then \<exists>w2. getWallet (ttx E) (TRecipient v) [] w1 = (None, w2)
         else \<exists>w2 idn w3. bindEndpoint (fsc E) (TRecipientNode v) (TRecipient v) w1 = (Ok (), w2) \<and>
           requestRecipientIdentity (ttx E) (TRecipient v) [] w2 = (Ok idn, w3) \<and> isNone (fsc E) idn))"

text \<open>A redeem: the wallet is not there, or the public parameters name no issuer.\<close>

definition redeem_misfit :: "('w, 'h) env \<Rightarrow> redeem_options \<Rightarrow> 'w \<Rightarrow> any res \<Rightarrow> bool" where
  "redeem_misfit E v w x \<longleftrightarrow>
     (\<exists>w1. getWallet (ttx E) (RWallet v) [] w = (None, w1) \<and> x = not_found ''sender wallet'' (RWallet v)) \<or>
     (\<exists>wal w1 w2 tx w3 w4 mgmt w5 w6. getWallet (ttx E) (RWallet v) [] w = (Some wal, w1) \<and>
        getProvider (fsc E) w1 = (Ok (), w2) \<and> newTransaction (ttx E) [] w2 = (Ok tx, w3) \<and>
        (if RMessage v = '''' then w4 = w3
         else setApplicationMetadata (ttx E) tx ''message'' (RMessage v) w3 = ((), w4)) \<and>
        getManagementService (token E) [] w4 = (Ok mgmt, w5) \<and> publicParamsIssuers (token E) mgmt w5 = ([], w6) \<and>
        x = Err (New ''no issuer found in public parameters''))"

text \<open>An issue: the issuer has no wallet.\<close>

definition issue_misfit :: "('w, 'h) env \<Rightarrow> issue_cash \<Rightarrow> 'w \<Rightarrow> any res \<Rightarrow> bool" where
  "issue_misfit E v w x \<longleftrightarrow>
     (\<exists>w1. myIssuerWallet (ttx E) (ServiceOpts (ITMSID v) []) w = (None, w1) \<and> x = Err (New ''issuer wallet not found''))"

text \<open>
  A lock: the sender's wallet is not there; or the transaction was ordered and its first output has no script,
  or it has no output. The latter is a panic, not an error the view returns.
\<close>

definition lock_misfit :: "('w, 'h) env \<Rightarrow> lock_options \<Rightarrow> 'w \<Rightarrow> any res \<Rightarrow> bool" where
  "lock_misfit E v w x \<longleftrightarrow>
     (\<exists>w1 me recipient w2 tx w3 w4.
        (if LRecipientNode v = '''' then w1 = w
         else bindEndpoint (fsc E) (LRecipientNode v) (LRecipient v) w = (Ok (), w1)) \<and>
        exchangeRecipientIdentities (htlc E) (LWallet v) (LRecipient v) (ServiceOpts (LTMSID v) []) w1 =
          (Ok (me, recipient), w2) \<and>
        htlcNewTransaction (htlc E) (TxOpts (LTMSID v) []) w2 = (Ok tx, w3) \<and>
        (htlcGetWallet (htlc E) (LWallet v) (ServiceOpts (LTMSID v) []) w3 = (None, w4) \<and>
           x = not_found ''sender wallet'' (LWallet v) \<or>
         (\<exists>wal preimage w5 w6 w7 outs w8.
           htlcGetWallet (htlc E) (LWallet v) (ServiceOpts (LTMSID v) []) w3 = (Some wal, w4) \<and>
           txLock (htlc E) tx wal me (LTokenType v) (LQuantity v) recipient (LReclamationDeadline v) (LHash v) w4 =
             (Ok preimage, w5) \<and>
           runView (fsc E) (HtlcCollectEndorsementsView tx) w5 = (Ok (), w6) \<and>
           runView (fsc E) (HtlcOrderingAndFinalityView tx) w6 = (Ok (), w7) \<and>
           htlcOutputs (htlc E) tx w7 = (Ok outs, w8) \<and> (\<forall>script rest. outs \<noteq> Some script # rest) \<and>
           x = Panic ''invalid memory address or nil pointer dereference'')))"

text \<open>A claim: the wallet is not there, or it has another number of scripts than one with the pre-image.\<close>

definition claim_misfit :: "('w, 'h) env \<Rightarrow> claim_options \<Rightarrow> 'w \<Rightarrow> any res \<Rightarrow> bool" where
  "claim_misfit E v w x \<longleftrightarrow>
     (\<exists>w1. htlcGetWallet (htlc E) (CWallet v) (ServiceOpts (CTMSID v) []) w = (None, w1) \<and>
        x = not_found ''wallet'' (CWallet v)) \<or>
     (\<exists>wal w1 matched w2. htlcGetWallet (htlc E) (CWallet v) (ServiceOpts (CTMSID v) []) w = (Some wal, w1) \<and>
        listByPreImage (htlc E) wal (CPreImage v) w1 = (Ok matched, w2) \<and> length matched \<noteq> 1 \<and>
        x = Err (New (''expected exactly one htlc script to match, got ['' @ Itoa (int (length matched)) @ '']'')))"

text \<open>A reclaim: the wallet is not there.\<close>

definition reclaim_misfit :: "('w, 'h) env \<Rightarrow> reclaim_options \<Rightarrow> 'w \<Rightarrow> any res \<Rightarrow> bool" where
  "reclaim_misfit E v w x \<longleftrightarrow>
     (\<exists>w1. htlcGetWallet (htlc E) (KWallet v) (ServiceOpts (KTMSID v) []) w = (None, w1) \<and>
        x = not_found ''sender wallet'' (KWallet v))"

text \<open>
  A run none of whose calls failed ends as the misfit says if there is one, and returns a value if there is none.
\<close>

definition outcome :: "(any res \<Rightarrow> bool) \<Rightarrow> any res \<Rightarrow> bool" where
  "outcome misfit r \<longleftrightarrow> (if \<exists>x. misfit x then misfit r else \<exists>a. r = Ok a)"

definition progresses :: "('c, 'w, any) prog \<Rightarrow> ('w \<Rightarrow> any res \<Rightarrow> bool) \<Rightarrow> bool" where
  "progresses m misfit \<longleftrightarrow> (\<forall>w. case m w of (r, es, w') \<Rightarrow> list_all succeeded es \<longrightarrow> outcome (misfit w) r)"

lemma progressesI:
  "(\<And>w. conf collect [] m (\<lambda>r es w1. list_all succeeded es \<longrightarrow> outcome (misfit w) r) w) \<Longrightarrow> progresses m misfit"
  by (simp add: progresses_def conf_collect)

lemma progressesD:
  "progresses m misfit \<Longrightarrow> m w = (r, es, w') \<Longrightarrow> list_all succeeded es \<Longrightarrow> outcome (misfit w) r"
  unfolding progresses_def by (drule spec [of _ w]) simp

lemma transfer_progresses: "progresses (TransferView_Call E t) (transfer_misfit E t)"
  by (rule progressesI)
    (auto simp: TransferView_Call_def transfer_recipient_def getRemoteIdentity_def sign_and_order_def
      outcome_def transfer_misfit_def not_found_def api_defs prog_simps cong: conf_cong split: option.split)

lemma redeem_progresses: "progresses (owner_RedeemView_Call E rd) (redeem_misfit E rd)"
  by (rule progressesI)
    (auto simp: owner_RedeemView_Call_def sign_and_order_def outcome_def redeem_misfit_def not_found_def api_defs prog_simps
      cong: conf_cong split: option.split list.split)

lemma issue_progresses: "progresses (issuer_IssueCashView_Call E i) (issue_misfit E i)"
  by (rule progressesI)
    (auto simp: issuer_IssueCashView_Call_def sign_and_order_def outcome_def issue_misfit_def not_found_def api_defs prog_simps
      cong: conf_cong split: option.split)

lemma lock_progresses: "progresses (LockView_Call E l) (lock_misfit E l)"
  by (rule progressesI)
    (auto simp: LockView_Call_def script_hash_at0_def sign_and_order_def outcome_def lock_misfit_def not_found_def api_defs prog_simps
      cong: conf_cong split: option.split list.split)

lemma claim_progresses: "progresses (ClaimView_Call E c) (claim_misfit E c)"
  by (rule progressesI)
    (auto simp: ClaimView_Call_def sign_and_order_def outcome_def claim_misfit_def not_found_def api_defs prog_simps
      cong: conf_cong split: option.split list.split)

lemma reclaim_progresses: "progresses (ReclaimView_Call E k) (reclaim_misfit E k)"
  by (rule progressesI)
    (auto simp: ReclaimView_Call_def sign_and_order_def outcome_def reclaim_misfit_def not_found_def api_defs prog_simps
      cong: conf_cong split: option.split)

text \<open>
  C12: The token views make progress. When all the calls of an issue, transfer, redeem, lock, claim or
  reclaim succeed, it returns its result, unless what the libraries answered in this run does not fit the
  request, and then, and only then, it ends as that says. It reports an error when a wallet was looked
  up and not found, when the recipient of a transfer was looked up and not found or its node answered with the empty identity,
  when the public parameters listed no issuer, or when another number of scripts than one was found for the pre-image;
  and a lock panics, after its transaction was ordered, when the first output of that transaction has no script.
\<close>

theorem views_progress:
  assumes "(m, misfit) \<in>
      {(TransferView_Call E t, transfer_misfit E t), (owner_RedeemView_Call E rd, redeem_misfit E rd),
       (issuer_IssueCashView_Call E i, issue_misfit E i), (LockView_Call E l, lock_misfit E l),
       (ClaimView_Call E c, claim_misfit E c), (ReclaimView_Call E k, reclaim_misfit E k)}"
    and "m w = (r, es, w')" and "list_all succeeded es"
  shows "if \<exists>x. misfit w x then misfit w r else \<exists>a. r = Ok a"
proof -
  have "progresses m misfit"
    using assms(1) transfer_progresses redeem_progresses issue_progresses lock_progresses claim_progresses
      reclaim_progresses by auto
  from progressesD [OF this assms(2,3)] show ?thesis unfolding outcome_def .
qed

end
