(* ===== verification/Api_Responses.thy ===== *)
theory Api_Responses imports Issuer_Api Endorser_Service begin

text \<open>
  The responses of the three HTTP APIs: the response objects of each operation and how they are
  written (the \<open>Visit\<close> methods of \<open>routes.gen.go\<close>), the JSON of their bodies by the field tags of the
  generated types, and the schemas that \<open>tokens/swagger.yaml\<close> publishes for them. What the servers
  answer is typed by the former and conforms to the latter.
\<close>

subsection \<open>Response objects\<close>

datatype healthz_response = Healthz200JSONResponse string | Healthz503JSONResponse string string
datatype readyz_response = Readyz200JSONResponse string | Readyz503JSONResponse string string

datatype owner_accounts_response =
  OwnerAccounts200JSONResponse string "account list" | OwnerAccountsdefaultJSONResponse string string nat
datatype owner_account_response =
  OwnerAccount200JSONResponse string account | OwnerAccountdefaultJSONResponse string string nat
datatype claim_response = Claim200JSONResponse string string | ClaimdefaultJSONResponse string string nat
datatype lock_response = Lock200JSONResponse string lock_payload | LockdefaultJSONResponse string string nat
datatype reclaim_response = Reclaim200JSONResponse string string | ReclaimdefaultJSONResponse string string nat
datatype redeem_response = Redeem200JSONResponse string string | RedeemdefaultJSONResponse string string nat
datatype owner_transactions_response =
  OwnerTransactions200JSONResponse string "transaction_json list"
| OwnerTransactionsdefaultJSONResponse string string nat
datatype transfer_response = Transfer200JSONResponse string string | TransferdefaultJSONResponse string string nat
datatype issue_response = Issue200JSONResponse string string | IssuedefaultJSONResponse string string nat
datatype init_response = Init200JSONResponse string | InitdefaultJSONResponse string string nat

fun VisitHealthzResponse :: "healthz_response \<Rightarrow> api_json response" where
  "VisitHealthzResponse (Healthz200JSONResponse m) = json_response 200 (HealthSuccess m)"
| "VisitHealthzResponse (Healthz503JSONResponse m p) = json_response 503 (ErrorBody m p)"

fun VisitReadyzResponse :: "readyz_response \<Rightarrow> api_json response" where
  "VisitReadyzResponse (Readyz200JSONResponse m) = json_response 200 (HealthSuccess m)"
| "VisitReadyzResponse (Readyz503JSONResponse m p) = json_response 503 (ErrorBody m p)"

fun VisitOwnerAccountsResponse :: "owner_accounts_response \<Rightarrow> api_json response" where
  "VisitOwnerAccountsResponse (OwnerAccounts200JSONResponse m as) = json_response 200 (AccountsSuccess m as)"
| "VisitOwnerAccountsResponse (OwnerAccountsdefaultJSONResponse m p code) = json_response code (ErrorBody m p)"

fun VisitOwnerAccountResponse :: "owner_account_response \<Rightarrow> api_json response" where
  "VisitOwnerAccountResponse (OwnerAccount200JSONResponse m a) = json_response 200 (AccountSuccess m a)"
| "VisitOwnerAccountResponse (OwnerAccountdefaultJSONResponse m p code) = json_response code (ErrorBody m p)"

fun VisitClaimResponse :: "claim_response \<Rightarrow> api_json response" where
  "VisitClaimResponse (Claim200JSONResponse m i) = json_response 200 (ClaimSuccess m i)"
| "VisitClaimResponse (ClaimdefaultJSONResponse m p code) = json_response code (ErrorBody m p)"

fun VisitLockResponse :: "lock_response \<Rightarrow> api_json response" where
  "VisitLockResponse (Lock200JSONResponse m l) = json_response 200 (LockSuccess m l)"
| "VisitLockResponse (LockdefaultJSONResponse m p code) = json_response code (ErrorBody m p)"

fun VisitReclaimResponse :: "reclaim_response \<Rightarrow> api_json response" where
  "VisitReclaimResponse (Reclaim200JSONResponse m i) = json_response 200 (ReclaimSuccess m i)"
| "VisitReclaimResponse (ReclaimdefaultJSONResponse m p code) = json_response code (ErrorBody m p)"

fun VisitRedeemResponse :: "redeem_response \<Rightarrow> api_json response" where
  "VisitRedeemResponse (Redeem200JSONResponse m i) = json_response 200 (RedeemSuccess m i)"
| "VisitRedeemResponse (RedeemdefaultJSONResponse m p code) = json_response code (ErrorBody m p)"

fun VisitOwnerTransactionsResponse :: "owner_transactions_response \<Rightarrow> api_json response" where
  "VisitOwnerTransactionsResponse (OwnerTransactions200JSONResponse m ts) =
     json_response 200 (TransactionsSuccess m ts)"
| "VisitOwnerTransactionsResponse (OwnerTransactionsdefaultJSONResponse m p code) =
     json_response code (ErrorBody m p)"

fun VisitTransferResponse :: "transfer_response \<Rightarrow> api_json response" where
  "VisitTransferResponse (Transfer200JSONResponse m i) = json_response 200 (TransferSuccess m i)"
| "VisitTransferResponse (TransferdefaultJSONResponse m p code) = json_response code (ErrorBody m p)"

fun VisitIssueResponse :: "issue_response \<Rightarrow> api_json response" where
  "VisitIssueResponse (Issue200JSONResponse m i) = json_response 200 (IssueSuccess m i)"
| "VisitIssueResponse (IssuedefaultJSONResponse m p code) = json_response code (ErrorBody m p)"

fun VisitInitResponse :: "init_response \<Rightarrow> api_json response" where
  "VisitInitResponse (Init200JSONResponse m) = json_response 200 (HealthSuccess m)"
| "VisitInitResponse (InitdefaultJSONResponse m p code) = json_response code (ErrorBody m p)"

subsection \<open>The JSON of a body\<close>

text \<open>
  \<open>encoding/json\<close> by the field tags. A slice the servers build is never \<open>nil\<close>, so it is an array.
  \<open>T\<close> prints a time.
\<close>

definition encode_Amount :: "amount \<Rightarrow> json" where
  "encode_Amount a = JObj [(''code'', JStr (Code a)), (''value'', encode_uint64 (Value a))]"

definition encode_Account :: "account \<Rightarrow> json" where
  "encode_Account a = JObj [(''balance'', JArr (map encode_Amount (AccBalance a))), (''id'', JStr (AccId a))]"

definition encode_TransactionRecord :: "(int \<Rightarrow> string) \<Rightarrow> transaction_json \<Rightarrow> json" where
  "encode_TransactionRecord T t = JObj
     [(''amount'', encode_Amount (TxAmount t)), (''id'', JStr (TxId t)), (''message'', JStr (TxMessage t)),
      (''recipient'', JStr (TxRecipient t)), (''sender'', JStr (TxSender t)), (''status'', JStr (TxStatus t)),
      (''timestamp'', JStr (T (TxTimestamp t)))]"

definition encode_message :: "string \<Rightarrow> json \<Rightarrow> json" where
  "encode_message m payload = JObj [(''message'', JStr m), (''payload'', payload)]"

fun encode_body :: "(int \<Rightarrow> string) \<Rightarrow> api_json \<Rightarrow> json" where
  "encode_body T (AccountSuccess m a) = encode_message m (encode_Account a)"
| "encode_body T (AccountsSuccess m as) = encode_message m (JArr (map encode_Account as))"
| "encode_body T (TransactionsSuccess m ts) = encode_message m (JArr (map (encode_TransactionRecord T) ts))"
| "encode_body T (RedeemSuccess m i) = encode_message m (JStr i)"
| "encode_body T (TransferSuccess m i) = encode_message m (JStr i)"
| "encode_body T (ClaimSuccess m i) = encode_message m (JStr i)"
| "encode_body T (ReclaimSuccess m i) = encode_message m (JStr i)"
| "encode_body T (IssueSuccess m i) = encode_message m (JStr i)"
| "encode_body T (LockSuccess m l) = encode_message m (encode_LockResult l)"
| "encode_body T (HealthSuccess m) = JObj [(''message'', JStr m)]"
| "encode_body T (ErrorBody m p) = encode_message m (JStr p)"

text \<open>
  \<open>json.Marshal\<close>. Of the values the servers answer only a time can be one that cannot be marshalled (its year
  has to have four digits); \<open>TM\<close> is \<open>time.Time.MarshalJSON\<close>.
\<close>

type_synonym time_marshaller = "int \<Rightarrow> error + string"

fun times :: "api_json \<Rightarrow> int list" where
  "times (TransactionsSuccess m ts) = map TxTimestamp ts"
| "times b = []"

fun first_error :: "(error + 'a) list \<Rightarrow> error option" where
  "first_error [] = None"
| "first_error (Inl err # xs) = Some err"
| "first_error (Inr x # xs) = first_error xs"

definition Marshal :: "time_marshaller \<Rightarrow> api_json \<Rightarrow> error + json" where
  "Marshal TM b =
     (case first_error (map TM (times b)) of
        Some err \<Rightarrow> Inl err
      | None \<Rightarrow> Inr (encode_body (\<lambda>t. case TM t of Inr s \<Rightarrow> s | Inl err \<Rightarrow> '''') b))"

lemma first_error_Inr [simp]: "first_error (map (\<lambda>x. Inr (f x)) xs) = None"
  by (induction xs) auto

lemma Marshal_total: "Marshal (\<lambda>t. Inr (T t)) b = Inr (encode_body T b)"
  by (simp add: Marshal_def)

lemma no_first_error: "first_error xs = None \<Longrightarrow> x \<in> set xs \<Longrightarrow> \<exists>y. x = Inr y"
  by (induction xs rule: first_error.induct) auto

subsection \<open>The published schemas\<close>

text \<open>
  The format \<open>date-time\<close> is that of RFC 3339, 5.6: a date that exists, a time of day (a second may be a leap
  second) with an optional fraction, and \<open>Z\<close> or an offset.
\<close>

definition is_digit :: "char \<Rightarrow> bool" where
  "is_digit c \<longleftrightarrow> c \<in> set ''0123456789''"

definition decimal :: "string \<Rightarrow> nat" where
  "decimal s = foldl (\<lambda>n c. 10 * n + (of_char c - 48)) 0 s"

definition decimal_between :: "nat \<Rightarrow> nat \<Rightarrow> string \<Rightarrow> bool" where
  "decimal_between lo hi s \<longleftrightarrow> s \<noteq> [] \<and> list_all is_digit s \<and> lo \<le> decimal s \<and> decimal s \<le> hi"

definition days_in_month :: "nat \<Rightarrow> nat \<Rightarrow> nat" where
  "days_in_month y m =
     (if m = 2 then (if y mod 4 = 0 \<and> (y mod 100 \<noteq> 0 \<or> y mod 400 = 0) then 29 else 28)
      else if m \<in> {4, 6, 9, 11} then 30 else 31)"

definition time_offset :: "string \<Rightarrow> bool" where
  "time_offset z \<longleftrightarrow> z = ''Z'' \<or> z = ''z'' \<or>
     (length z = 6 \<and> z ! 0 \<in> {CHR ''+'', CHR ''-''} \<and> decimal_between 0 23 (take 2 (drop 1 z)) \<and>
      z ! 3 = CHR '':'' \<and> decimal_between 0 59 (drop 4 z))"

definition fraction_and_offset :: "string \<Rightarrow> bool" where
  "fraction_and_offset s =
     (case s of
        c # cs \<Rightarrow>
          if c = CHR ''.'' then takeWhile is_digit cs \<noteq> [] \<and> time_offset (dropWhile is_digit cs) else time_offset s
      | [] \<Rightarrow> False)"

definition date_time :: "string \<Rightarrow> bool" where
  "date_time s \<longleftrightarrow>
     20 \<le> length s \<and> s ! 4 = CHR ''-'' \<and> s ! 7 = CHR ''-'' \<and> s ! 10 \<in> {CHR ''T'', CHR ''t''} \<and>
     s ! 13 = CHR '':'' \<and> s ! 16 = CHR '':'' \<and>
     decimal_between 0 9999 (take 4 s) \<and> decimal_between 1 12 (take 2 (drop 5 s)) \<and>
     decimal_between 1 (days_in_month (decimal (take 4 s)) (decimal (take 2 (drop 5 s)))) (take 2 (drop 8 s)) \<and>
     decimal_between 0 23 (take 2 (drop 11 s)) \<and> decimal_between 0 59 (take 2 (drop 14 s)) \<and>
     decimal_between 0 60 (take 2 (drop 17 s)) \<and> fraction_and_offset (drop 19 s)"

text \<open>\<open>SInt64 m\<close> is an integer of at least \<open>m\<close>; properties a schema does not name may be there too.\<close>

datatype schema = SString | SDateTime | SBytes | SUint64 | SInt64 int | SArray schema | SObject fields
and fields = NoField | Required string schema fields | Optional string schema fields

fun conforms :: "schema \<Rightarrow> json \<Rightarrow> bool"
  and conforms_fields :: "fields \<Rightarrow> (string \<times> json) list \<Rightarrow> bool" where
  "conforms SString j = (case j of JStr s \<Rightarrow> True | _ \<Rightarrow> False)"
| "conforms SDateTime j = (case j of JStr s \<Rightarrow> date_time s | _ \<Rightarrow> False)"
| "conforms SBytes j = (case j of JStr s \<Rightarrow> DecodeString s \<noteq> None | _ \<Rightarrow> False)"
| "conforms SUint64 j = (case j of JNum lit \<Rightarrow> (case ParseUint10 lit of Inr n \<Rightarrow> True | _ \<Rightarrow> False) | _ \<Rightarrow> False)"
| "conforms (SInt64 m) j = (case j of JNum lit \<Rightarrow> (case ParseInt10 lit of Inr n \<Rightarrow> m \<le> sint n | _ \<Rightarrow> False) | _ \<Rightarrow> False)"
| "conforms (SArray s) j = (case j of JArr js \<Rightarrow> list_all (conforms s) js | _ \<Rightarrow> False)"
| "conforms (SObject fs) j = (case j of JObj kvs \<Rightarrow> conforms_fields fs kvs | _ \<Rightarrow> False)"
| "conforms_fields NoField kvs = True"
| "conforms_fields (Required name s fs) kvs =
     ((case map_of kvs name of None \<Rightarrow> False | Some j \<Rightarrow> conforms s j) \<and> conforms_fields fs kvs)"
| "conforms_fields (Optional name s fs) kvs =
     ((case map_of kvs name of None \<Rightarrow> True | Some j \<Rightarrow> conforms s j) \<and> conforms_fields fs kvs)"

definition Amount_schema :: schema where
  "Amount_schema = SObject (Required ''code'' SString (Required ''value'' SUint64 NoField))"

definition Account_schema :: schema where
  "Account_schema = SObject (Required ''id'' SString (Required ''balance'' (SArray Amount_schema) NoField))"

definition TransactionRecord_schema :: schema where
  "TransactionRecord_schema = SObject
     (Required ''id'' SString (Required ''sender'' SString (Required ''recipient'' SString
     (Required ''amount'' Amount_schema (Required ''timestamp'' SDateTime (Required ''status'' SString
     (Required ''message'' SString NoField)))))))"

definition LockResult_schema :: schema where
  "LockResult_schema = SObject
     (Required ''txId'' SString (Optional ''preimage'' SBytes (Required ''hash'' SBytes NoField)))"

definition Error_schema :: schema where
  "Error_schema = SObject (Required ''message'' SString (Required ''payload'' SString NoField))"

definition HealthSuccess_schema :: schema where
  "HealthSuccess_schema = SObject (Required ''message'' SString NoField)"

definition Success_schema :: "schema \<Rightarrow> schema" where
  "Success_schema payload = SObject (Required ''message'' SString (Required ''payload'' payload NoField))"

text \<open>The paths: method, path, operation; and the schema of each operation's 200 response.\<close>

definition swagger_paths :: "(string \<times> segment list \<times> string) list" where
  "swagger_paths =
     [(''POST'', [Lit ''endorser'', Lit ''init''], ''init''),
      (''POST'', [Lit ''issuer'', Lit ''issue''], ''issue''),
      (''GET'', [Lit ''owner'', Lit ''accounts''], ''ownerAccounts''),
      (''GET'', [Lit ''owner'', Lit ''accounts'', Wild], ''ownerAccount''),
      (''GET'', [Lit ''owner'', Lit ''accounts'', Wild, Lit ''transactions''], ''ownerTransactions''),
      (''POST'', [Lit ''owner'', Lit ''accounts'', Wild, Lit ''transfer''], ''transfer''),
      (''POST'', [Lit ''owner'', Lit ''accounts'', Wild, Lit ''redeem''], ''redeem''),
      (''POST'', [Lit ''owner'', Lit ''accounts'', Wild, Lit ''lock''], ''lock''),
      (''POST'', [Lit ''owner'', Lit ''accounts'', Wild, Lit ''claim''], ''claim''),
      (''POST'', [Lit ''owner'', Lit ''accounts'', Wild, Lit ''reclaim''], ''reclaim''),
      (''GET'', [Lit ''healthz''], ''healthz''),
      (''GET'', [Lit ''readyz''], ''readyz'')]"

definition success_schema :: "string \<Rightarrow> schema option" where
  "success_schema opn = map_of
     [(''init'', HealthSuccess_schema), (''issue'', Success_schema SString),
      (''ownerAccounts'', Success_schema (SArray Account_schema)), (''ownerAccount'', Success_schema Account_schema),
      (''ownerTransactions'', Success_schema (SArray TransactionRecord_schema)),
      (''transfer'', Success_schema SString), (''redeem'', Success_schema SString),
      (''lock'', Success_schema LockResult_schema), (''claim'', Success_schema SString),
      (''reclaim'', Success_schema SString), (''healthz'', HealthSuccess_schema), (''readyz'', HealthSuccess_schema)] opn"

text \<open>Every operation documents an error for the other codes, the two checks for 503 only.\<close>

definition response_schema :: "string \<Rightarrow> nat \<Rightarrow> schema option" where
  "response_schema opn code =
     (if code = 200 then success_schema opn
      else if opn \<in> {''healthz'', ''readyz''} \<and> code \<noteq> 503 then None else Some Error_schema)"

text \<open>
  An answer is documented when its JSON meets the schema of its operation and status, provided its times are
  printed in the format of the schema. There is one exception, the answer to a lock whose script has a
  \<open>nil\<close> hash: its \<open>hash\<close> is \<open>null\<close>.
\<close>

fun nil_hash :: "api_json \<Rightarrow> bool" where
  "nil_hash (LockSuccess m l) \<longleftrightarrow> PHash l = None"
| "nil_hash b \<longleftrightarrow> False"

definition documented :: "string \<Rightarrow> nat \<Rightarrow> api_json \<Rightarrow> bool" where
  "documented opn code b \<longleftrightarrow>
     (\<exists>s. response_schema opn code = Some s \<and>
        (\<forall>T. (\<forall>t \<in> set (times b). date_time (T t)) \<longrightarrow> (conforms s (encode_body T b) \<longleftrightarrow> \<not> nil_hash b)))"

lemma json_conforms:
  "conforms SString (JStr s)" "conforms SBytes (encode_bytes bs)" "conforms SUint64 (encode_uint64 n)"
  "conforms Amount_schema (encode_Amount a)" "conforms Account_schema (encode_Account acc)"
  "date_time (T (TxTimestamp t)) \<Longrightarrow> conforms TransactionRecord_schema (encode_TransactionRecord T t)"
  "conforms LockResult_schema (encode_LockResult l) \<longleftrightarrow> PHash l \<noteq> None"
proof -
  show bytes: "conforms SBytes (encode_bytes bs)" for bs by (simp add: encode_bytes_def base64_roundtrip)
  have "ParseUint10 (format_base 10 (unat n)) = Inr n" for n
    using unat_u64_less [of n] by (simp add: ParseUint10_format)
  then show uint: "conforms SUint64 (encode_uint64 n)" for n by (simp add: encode_uint64_def)
  show amount: "conforms Amount_schema (encode_Amount a)" for a
    using uint [of "Value a"] by (simp add: Amount_schema_def encode_Amount_def)
  then show "conforms Account_schema (encode_Account acc)"
    by (simp add: Account_schema_def encode_Account_def list_all_iff)
  show "conforms TransactionRecord_schema (encode_TransactionRecord T t)" if "date_time (T (TxTimestamp t))"
    using amount that by (simp add: TransactionRecord_schema_def encode_TransactionRecord_def)
  have "conforms SBytes (encode_slice s) \<longleftrightarrow> s \<noteq> None" for s
    using bytes by (simp add: encode_slice_def split: option.split)
  with bytes show "conforms LockResult_schema (encode_LockResult l) \<longleftrightarrow> PHash l \<noteq> None"
    by (auto simp: LockResult_schema_def encode_LockResult_def split: option.split)
qed simp

subsection \<open>What the servers answer\<close>

definition response_objects :: "string \<Rightarrow> api_json response set" where
  "response_objects opn =
     (if opn = ''healthz'' then range VisitHealthzResponse
      else if opn = ''readyz'' then range VisitReadyzResponse
      else if opn = ''ownerAccounts'' then range VisitOwnerAccountsResponse
      else if opn = ''ownerAccount'' then range VisitOwnerAccountResponse
      else if opn = ''ownerTransactions'' then range VisitOwnerTransactionsResponse
      else if opn = ''transfer'' then range VisitTransferResponse
      else if opn = ''redeem'' then range VisitRedeemResponse
      else if opn = ''lock'' then range VisitLockResponse
      else if opn = ''claim'' then range VisitClaimResponse
      else if opn = ''reclaim'' then range VisitReclaimResponse
      else if opn = ''issue'' then range VisitIssueResponse
      else if opn = ''init'' then range VisitInitResponse
      else {})"

text \<open>An answer is typed when it is one of the operation's response objects and meets its schema.\<close>

definition typed_answer :: "string \<Rightarrow> nat \<Rightarrow> api_json \<Rightarrow> bool" where
  "typed_answer opn code b \<longleftrightarrow> json_response code b \<in> response_objects opn \<and> documented opn code b"

lemma typed_answers:
  "typed_answer ''healthz'' StatusOK (HealthSuccess m)" "typed_answer ''readyz'' StatusOK (HealthSuccess m)"
  "typed_answer ''init'' StatusOK (HealthSuccess m)" "typed_answer ''issue'' StatusOK (IssueSuccess m i)"
  "typed_answer ''transfer'' StatusOK (TransferSuccess m i)" "typed_answer ''redeem'' StatusOK (RedeemSuccess m i)"
  "typed_answer ''claim'' StatusOK (ClaimSuccess m i)" "typed_answer ''reclaim'' StatusOK (ReclaimSuccess m i)"
  "typed_answer ''lock'' StatusOK (LockSuccess m l)" "typed_answer ''ownerAccount'' StatusOK (AccountSuccess m a)"
  "typed_answer ''ownerTransactions'' StatusOK (TransactionsSuccess m ts)"
  "typed_answer ''lock'' StatusBadRequest (ErrorBody m p)" "typed_answer ''claim'' StatusBadRequest (ErrorBody m p)"
  "typed_answer ''reclaim'' StatusBadRequest (ErrorBody m p)"
proof -
  note objects = range_eqI [where f = VisitHealthzResponse and x = "Healthz200JSONResponse m"]
    range_eqI [where f = VisitReadyzResponse and x = "Readyz200JSONResponse m"]
    range_eqI [where f = VisitInitResponse and x = "Init200JSONResponse m"]
    range_eqI [where f = VisitIssueResponse and x = "Issue200JSONResponse m i"]
    range_eqI [where f = VisitTransferResponse and x = "Transfer200JSONResponse m i"]
    range_eqI [where f = VisitRedeemResponse and x = "Redeem200JSONResponse m i"]
    range_eqI [where f = VisitClaimResponse and x = "Claim200JSONResponse m i"]
    range_eqI [where f = VisitReclaimResponse and x = "Reclaim200JSONResponse m i"]
    range_eqI [where f = VisitLockResponse and x = "Lock200JSONResponse m l"]
    range_eqI [where f = VisitOwnerAccountResponse and x = "OwnerAccount200JSONResponse m a"]
    range_eqI [where f = VisitOwnerTransactionsResponse and x = "OwnerTransactions200JSONResponse m ts"]
    range_eqI [where f = VisitLockResponse and x = "LockdefaultJSONResponse m p 400"]
    range_eqI [where f = VisitClaimResponse and x = "ClaimdefaultJSONResponse m p 400"]
    range_eqI [where f = VisitReclaimResponse and x = "ReclaimdefaultJSONResponse m p 400"]
  note visits = VisitHealthzResponse.simps VisitReadyzResponse.simps VisitInitResponse.simps VisitIssueResponse.simps
    VisitTransferResponse.simps VisitRedeemResponse.simps VisitClaimResponse.simps VisitReclaimResponse.simps
    VisitLockResponse.simps VisitOwnerAccountResponse.simps VisitOwnerTransactionsResponse.simps
  note facts = typed_answer_def response_objects_def documented_def response_schema_def success_schema_def
    status_defs encode_message_def Success_schema_def HealthSuccess_schema_def Error_schema_def json_conforms
    list_all_iff
  show "typed_answer ''healthz'' StatusOK (HealthSuccess m)" "typed_answer ''readyz'' StatusOK (HealthSuccess m)"
    "typed_answer ''init'' StatusOK (HealthSuccess m)" "typed_answer ''issue'' StatusOK (IssueSuccess m i)"
    "typed_answer ''transfer'' StatusOK (TransferSuccess m i)" "typed_answer ''redeem'' StatusOK (RedeemSuccess m i)"
    "typed_answer ''claim'' StatusOK (ClaimSuccess m i)" "typed_answer ''reclaim'' StatusOK (ReclaimSuccess m i)"
    "typed_answer ''lock'' StatusOK (LockSuccess m l)" "typed_answer ''ownerAccount'' StatusOK (AccountSuccess m a)"
    "typed_answer ''ownerTransactions'' StatusOK (TransactionsSuccess m ts)"
    "typed_answer ''lock'' StatusBadRequest (ErrorBody m p)" "typed_answer ''claim'' StatusBadRequest (ErrorBody m p)"
    "typed_answer ''reclaim'' StatusBadRequest (ErrorBody m p)"
    by (simp_all add: facts, (rule objects, rule visits [symmetric])+)
qed

text \<open>A computation, and a handler, all of whose JSON answers are typed.\<close>

definition typed :: "string \<Rightarrow> ('c, 'w, nat \<times> api_json) prog \<Rightarrow> bool" where
  "typed opn m \<longleftrightarrow> (\<forall>w code b. fst (m w) = Ok (code, b) \<longrightarrow> typed_answer opn code b)"

definition typed_handler :: "string \<Rightarrow> ('c, 'w, api_json) handler \<Rightarrow> bool" where
  "typed_handler opn h \<longleftrightarrow>
     (\<forall>r w resp b. fst (h r w) = Ok resp \<and> Content resp = Json b \<longrightarrow> typed_answer opn (Status resp) b)"

lemma typedI: "(\<And>w code b es w'. m w = (Ok (code, b), es, w') \<Longrightarrow> typed_answer opn code b) \<Longrightarrow> typed opn m"
  unfolding typed_def by (metis prod.collapse)

lemma typedD: "typed opn m \<Longrightarrow> m w = (Ok (code, b), es, w') \<Longrightarrow> typed_answer opn code b"
  unfolding typed_def by (metis fst_conv)

lemma typed_basic [intro!]:
  "typed_answer opn code b \<Longrightarrow> typed opn (ret (code, b))" "typed opn (throw e)" "typed opn (panic p)"
  by (simp_all add: typed_def ret_def throw_def panic_def)

lemma typed_andThen [intro!]:
  assumes "\<And>x. typed opn (k x)"
  shows "typed opn (andThen m k)"
  by (rule typedI) (auto simp: andThen_eq_iff dest: typedD [OF assms])

lemma typed_strict_respond [intro!]:
  assumes "typed opn m"
  shows "typed_handler opn (\<lambda>r. strict_respond m)"
  unfolding typed_handler_def strict_respond_def
  by (auto simp: attempt_def onError_def andThen_def ret_def http_Error_def json_response_def
      dest!: typedD [OF assms] split: prod.splits res.splits sum.splits)

lemma typed_strict_body [intro!]:
  assumes "\<And>body. typed opn (m body)"
  shows "typed_handler opn (strict_body dec zero m)"
  using typed_strict_respond [OF assms]
  by (auto simp: typed_handler_def strict_body_def ret_def http_Error_def split: sum.splits)

lemma typed_with_id [intro!]:
  "(\<And>acc. typed_handler opn (h acc)) \<Longrightarrow> typed_handler opn (with_id A h args)"
  by (auto simp: typed_handler_def with_id_def ret_def http_Error_def split: sum.splits)

lemma typed_with_query [intro!]:
  "(\<And>v. typed_handler opn (h v)) \<Longrightarrow> typed_handler opn (with_query A name h)"
  by (auto simp: typed_handler_def with_query_def ret_def http_Error_def split: sum.splits)

lemma typed_operations:
  "typed ''redeem'' (Server_Redeem E acc (Some rq))" "typed ''transfer'' (Server_Transfer E acc (Some tq))"
  "typed ''lock'' (Server_Lock E acc (Some lq))" "typed ''claim'' (Server_Claim E acc (Some cq))"
  "typed ''reclaim'' (Server_Reclaim E acc (Some kq))" "typed ''issue'' (Server_Issue E (Some iq))"
  "typed ''ownerAccount'' (Server_OwnerAccount E acc ps)" "typed ''ownerAccounts'' Server_OwnerAccounts"
  "typed ''ownerTransactions'' (Server_OwnerTransactions E fuel acc)"
  "typed ''healthz'' Server_Healthz" "typed ''readyz'' Server_Readyz" "typed ''init'' (Server_Init D)"
  unfolding Server_Redeem_def Server_Transfer_def Server_Lock_def Server_Claim_def Server_Reclaim_def
    Server_Issue_def Server_OwnerAccount_def Server_OwnerAccounts_def Server_OwnerTransactions_def
    Server_Healthz_def Server_Readyz_def Server_Init_def Let_def badRequest_def option.case
  by (auto intro!: typed_answers split: option.split prod.split)

subsection \<open>The APIs\<close>

text \<open>A route table all of whose entries are published operations with typed handlers.\<close>

definition typed_routes :: "('c, 'w, api_json) route list \<Rightarrow> bool" where
  "typed_routes rs \<longleftrightarrow>
     (\<forall>(m, ps, h) \<in> set rs. \<exists>opn. (m, ps, opn) \<in> set swagger_paths \<and> (\<forall>args. typed_handler opn (h args)))"

lemma find_route_in:
  assumes "find_route rs r = Some prg"
  shows "\<exists>m ps h args. (m, ps, h) \<in> set rs \<and> match_method m (Method r) \<and>
    match_path ps (Path r) = Some args \<and> prg = h args r"
  using assms
proof (induction rs)
  case (Cons route rs)
  obtain m ps h where route: "route = (m, ps, h)" by (cases route)
  show ?case
  proof (cases "find_route rs r = Some prg")
    case True
    from Cons.IH [OF True] show ?thesis by (metis list.set_intros(2))
  next
    case False
    with Cons.prems obtain args where "match_path ps (Path r) = Some args" "match_method m (Method r)" "prg = h args r"
      by (auto simp: route split: option.splits if_splits)
    then show ?thesis using route by (metis list.set_intros(1))
  qed
qed simp

lemma typed_api:
  assumes routes: "typed_routes rs" and run: "WithAnyCORS (serve_mux rs) r w = (Ok resp, es, w')"
    and json: "Content resp = Json b"
  shows "\<exists>m ps opn. (m, ps, opn) \<in> set swagger_paths \<and> match_method m (Method r) \<and>
    match_path ps (Path r) \<noteq> None \<and> typed_answer opn (Status resp) b"
proof -
  from run json obtain prg resp1 where prg: "find_route rs r = Some prg" and "fst (prg w) = Ok resp1"
    "Status resp1 = Status resp" "Content resp1 = Json b"
    by (auto simp: WithAnyCORS_def serve_mux_def basic_eq_iff andThen_eq_iff http_Error_def
        split: if_splits option.splits)
  moreover from find_route_in [OF prg] obtain m ps h args where "(m, ps, h) \<in> set rs"
    "match_method m (Method r)" "match_path ps (Path r) = Some args" "prg = h args r" by blast
  moreover from routes this(1) obtain opn where "(m, ps, opn) \<in> set swagger_paths" "typed_handler opn (h args)"
    unfolding typed_routes_def by fastforce
  ultimately show ?thesis unfolding typed_handler_def by (metis option.distinct(1))
qed

lemma routes_typed:
  "typed_routes (owner_routes E A fuel)" "typed_routes (issuer_routes E)" "typed_routes (endorser_routes D)"
proof -
  have handlers: "typed_handler ''healthz'' strict_Healthz" "typed_handler ''readyz'' strict_Readyz"
    "typed_handler ''ownerAccounts'' strict_OwnerAccounts" "typed_handler ''init'' (strict_Init D)"
    "typed_handler ''issue'' (strict_Issue E)"
    unfolding strict_Healthz_def strict_Readyz_def strict_OwnerAccounts_def strict_Init_def strict_Issue_def
    by (auto intro: typed_operations)
  have wrappers: "typed_handler ''ownerAccount'' (wrapper_OwnerAccount E A args)"
    "typed_handler ''claim'' (wrapper_Claim E A args)" "typed_handler ''lock'' (wrapper_Lock E A args)"
    "typed_handler ''reclaim'' (wrapper_Reclaim E A args)" "typed_handler ''redeem'' (wrapper_Redeem E A args)"
    "typed_handler ''transfer'' (wrapper_Transfer E A args)"
    "typed_handler ''ownerTransactions'' (wrapper_OwnerTransactions E A fuel args)" for args
    unfolding wrapper_OwnerAccount_def wrapper_defs strict_OwnerAccount_def strict_OwnerTransactions_def
      strict_Claim_def strict_Lock_def strict_Reclaim_def strict_Redeem_def strict_Transfer_def
    by (auto intro: typed_operations)
  show "typed_routes (owner_routes E A fuel)" "typed_routes (issuer_routes E)" "typed_routes (endorser_routes D)"
    by (auto simp: typed_routes_def owner_routes_def issuer_routes_def endorser_routes_def swagger_paths_def
        intro: handlers wrappers)
qed

text \<open>
  \<open>time.Time.MarshalJSON\<close> is documented to give a text in the format of RFC 3339, or an error when the
  time has none.
\<close>

definition prints_rfc3339 :: "time_marshaller \<Rightarrow> bool" where
  "prints_rfc3339 TM \<longleftrightarrow> (\<forall>t s. TM t = Inr s \<longrightarrow> date_time s)"

lemma documented_marshalled:
  assumes "documented opn code b" and "prints_rfc3339 TM" and "Marshal TM b = Inr j"
  shows "\<exists>s. response_schema opn code = Some s \<and> (conforms s j \<longleftrightarrow> \<not> nil_hash b)"
proof -
  let ?T = "\<lambda>t. case TM t of Inr s \<Rightarrow> s | Inl err \<Rightarrow> ''''"
  from assms(3) have ok: "first_error (map TM (times b)) = None" and j: "j = encode_body ?T b"
    by (auto simp: Marshal_def split: option.splits)
  have dates: "\<forall>t \<in> set (times b). date_time (?T t)"
    using no_first_error [OF ok] assms(2) by (fastforce simp: prints_rfc3339_def split: sum.split)
  from assms(1) obtain s where "response_schema opn code = Some s" and
    "\<forall>T. (\<forall>t \<in> set (times b). date_time (T t)) \<longrightarrow> (conforms s (encode_body T b) \<longleftrightarrow> \<not> nil_hash b)"
    unfolding documented_def by blast
  from this(1) this(2) [THEN spec, THEN mp, OF dates] show ?thesis unfolding j by blast
qed

text \<open>
  C13: What the nodes answer is what they publish, with one exception. Every JSON answer of the owner's, the
  issuer's or the token endorser's API, errors included, is given for an operation of \<open>swagger.yaml\<close> whose
  method and path the request has; it is one of the response objects of that operation; and when it can be
  marshalled, its JSON meets the schema published for that operation and status, the format of times included
  (given that times are marshalled as RFC 3339 texts), unless it answers a lock whose
  script has a \<open>nil\<close> hash: then it does not, because its required \<open>hash\<close> is \<open>null\<close>.
\<close>

theorem answers_conform:
  assumes "(\<exists>E A fuel es w w'. owner_api E A fuel r w = (Ok resp, es, w')) \<or>
      (\<exists>E es w w'. issuer_api E r w = (Ok resp, es, w')) \<or>
      (\<exists>D es w w'. endorser_api D r w = (Ok resp, es, w'))"
    and "Content resp = Json b" and "prints_rfc3339 TM" and "Marshal TM b = Inr j"
  shows "\<exists>m ps opn s. (m, ps, opn) \<in> set swagger_paths \<and> match_method m (Method r) \<and>
    match_path ps (Path r) \<noteq> None \<and> json_response (Status resp) b \<in> response_objects opn \<and>
    response_schema opn (Status resp) = Some s \<and>
    (conforms s j \<longleftrightarrow> (\<forall>m l. b = LockSuccess m l \<longrightarrow> PHash l \<noteq> None))"
proof -
  have "\<exists>m ps opn. (m, ps, opn) \<in> set swagger_paths \<and> match_method m (Method r) \<and>
      match_path ps (Path r) \<noteq> None \<and> typed_answer opn (Status resp) b"
    using assms(1) unfolding owner_api_def issuer_api_def endorser_api_def
    by (elim disjE exE) (rule typed_api [OF routes_typed(1) _ assms(2)], assumption,
        rule typed_api [OF routes_typed(2) _ assms(2)], assumption,
        rule typed_api [OF routes_typed(3) _ assms(2)], assumption)
  then obtain m ps opn where "(m, ps, opn) \<in> set swagger_paths" "match_method m (Method r)"
    "match_path ps (Path r) \<noteq> None" "json_response (Status resp) b \<in> response_objects opn"
    "documented opn (Status resp) b"
    unfolding typed_answer_def by blast
  moreover from documented_marshalled [OF this(5) assms(3,4)] obtain s where
    "response_schema opn (Status resp) = Some s" "conforms s j \<longleftrightarrow> \<not> nil_hash b" by blast
  moreover have "nil_hash b \<longleftrightarrow> (\<exists>m l. b = LockSuccess m l \<and> PHash l = None)" by (cases b) auto
  ultimately show ?thesis by blast
qed

end
