(* ===== verification/History_Witnesses.thy ===== *)
theory History_Witnesses imports Witnesses Node_Runs Ce_Ledger Progress Api_Responses begin

text \<open>
  The properties of histories and of progress, applied at concrete inputs: an owner that carries out
  a transfer, and an endorser over a small ledger.
\<close>

subsection \<open>Token nodes\<close>

definition sample_json :: json_env where
  "sample_json = \<lparr>decodeTMSID = decode_TMSID, decodeTokenIDs = (\<lambda>j ids. Inr ids),
     decodeTokenType = decode_string, decodeIdentity = decode_bytes\<rparr>"

text \<open>
  A transfer requested through the API, and beside it a lock started by name whose transaction has no outputs to
  read. The lock starts first, and the transfer is ordered before it.
\<close>

definition lock_options_json :: json where
  "lock_options_json = JObj [(''Wallet'', JStr ''alice'')]"

definition small_lock :: lock_options where
  "small_lock = zero_lock_options\<lparr>LWallet := ''alice''\<rparr>"

definition blind_lock :: "(string list, string) env" where
  "blind_lock = blind\<lparr>htlc := htlc blind\<lparr>htlcNewTransaction := \<lambda>opts w. (Ok ''tx2'', w)\<rparr>\<rparr>"

lemma initiates_blind: "initiates blind_lock"
proof -
  have same: "InitiateView blind_lock = InitiateView sample"
    by (simp add: fun_eq_iff InitiateView_def blind_lock_def blind_def)
  show ?thesis using initiates_sample unfolding initiates_def same .
qed

lemma append_shuffled: "xs @ ys \<in> shuffles xs ys"
  by (induction xs) (auto intro: Cons_in_shuffles_leftI)

abbreviation "transfer_served \<equiv> api_run (post ''transfer'' transfer_body) []"
abbreviation "lock_served \<equiv> LockView_Call blind_lock small_lock []"

theorem node_books_balance_witness:
  "mset (confirmed_ids (\<lambda>tx. tx)
      (hd (fst (snd lock_served)) # fst (snd transfer_served) @ tl (fst (snd lock_served)))) = {#''tx1'', ''tx2''#}"
proof -
  let ?act = "owner_action sample_oapi 0 sample_json"
  let ?es = "fst (snd transfer_served)" and ?fs = "fst (snd lock_served)"
  let ?a = "\<lparr>libs = sample, reports = answer_id (post ''transfer'' transfer_body) (fst transfer_served), calls = ?es\<rparr>"
  let ?b = "viewed blind_lock lock_id (fst lock_served) ?fs"
  let ?log = "hd ?fs # ?es @ tl ?fs"
  have ids: "answer_id (post ''transfer'' transfer_body) (fst transfer_served) = Some ''tx1''"
    "view_report lock_id (fst lock_served) = None" by code_simp+
  have "?fs \<noteq> []" by code_simp
  then have "?fs = hd ?fs # tl ?fs" by simp
  moreover have "?es @ tl ?fs \<in> shuffles ?es (tl ?fs)" by (rule append_shuffled)
  ultimately have mixed: "?log \<in> shuffles ?es ?fs" by (metis Cons_in_shuffles_rightI)
  have options: "LockViewFactory_NewView sample_json (Inr lock_options_json) = Ok small_lock" by code_simp
  have "?act ?a" "?act ?b"
    by (rule owner_action.request [OF run_split [OF refl]]) (rule owner_action.lock [OF options run_split [OF refl]])
  then have "node_run ?act ([] @ [?a]) ?es"
    by (intro node_run.action [where act = ?act, OF node_run.boot]) simp_all
  from node_run.action [where act = ?act, OF this \<open>?act ?b\<close>] mixed
  have run: "node_run ?act [?a, ?b] ?log" by (simp add: viewed_def)
  have ends: "take 2 (rev ?fs) = [Event (Htlc (CHtlcOutputs ''tx2'')) False [''tx2''],
      Event (Fsc (CRunView (HtlcOrderingAndFinalityView ''tx2''))) True [''tx2'']]" by code_simp
  have "rev ?fs = take 2 (rev ?fs) @ drop 2 (rev ?fs)" by simp
  then have "rev ?fs = Event (Htlc (CHtlcOutputs ''tx2'')) False [''tx2''] #
      Event (Fsc (CRunView (HtlcOrderingAndFinalityView ''tx2''))) True [''tx2''] # drop 2 (rev ?fs)"
    by (simp add: ends)
  then have "unsettled blind_lock ?fs ''tx2''"
    unfolding unsettled_rev
    by (intro exI conjI) (assumption, simp, simp add: blind_lock_def blind_def)
  then have failed: "failed_after_ordering ?b" "\<not> failed_after_ordering ?a"
    using ids by (auto simp: failed_after_ordering_def viewed_def)
  have libs: "\<forall>a \<in> set [?a, ?b]. initiates (libs a) \<and> txID (ttx (libs a)) = (\<lambda>tx. tx)"
    using initiates_sample initiates_blind
    by (simp add: viewed_def blind_lock_def blind_def sample_def sample_ttx_def)
  from node_books_balance [OF run insertI1 libs] failed obtain tx where
    books: "mset (confirmed_ids (\<lambda>tx. tx) ?log) = mset (reported [?a, ?b]) + mset (lost (\<lambda>tx. tx) [?a, ?b])"
    and tx: "unsettled blind_lock ?fs tx" "confirmed_ids (\<lambda>tx. tx) ?fs = [tx]" by (auto simp: viewed_def)
  from tx(1) ends have "tx = ''tx2''" by (auto simp: unsettled_rev blind_lock_def blind_def sample_def sample_ttx_def)
  with books tx(2) failed ids show ?thesis by (simp add: reported_def List.map_filter_def lost_def viewed_def)
qed

text \<open>A transfer to an account for which its node answers with the empty identity.\<close>

theorem views_progress_witness:
  "fst (TransferView_Call sample (sample_transfer\<lparr>TRecipient := ''''\<rparr>) []) = Err ErrCounterpartyAccountNotFound"
proof -
  let ?t = "sample_transfer\<lparr>TRecipient := ''''\<rparr>"
  have ok: "list_all succeeded (fst (snd (TransferView_Call sample ?t [])))" by code_simp
  have misfit: "transfer_misfit sample ?t [] x \<longleftrightarrow> x = Err ErrCounterpartyAccountNotFound" for x
    by (auto simp: transfer_misfit_def sample_transfer_def sample_def sample_ttx_def sample_fsc_def)
  have "if \<exists>x. transfer_misfit sample ?t [] x
    then transfer_misfit sample ?t [] (fst (TransferView_Call sample ?t []))
    else \<exists>a. fst (TransferView_Call sample ?t []) = Ok a"
    by (rule views_progress [where E = sample and t = ?t and m = "TransferView_Call sample ?t" and
          misfit = "transfer_misfit sample ?t" and w = "[]", OF insertI1 run_split [OF refl] ok])
  then show ?thesis by (simp add: misfit)
qed

text \<open>The history of an account, with a time stamp.\<close>

definition new_year :: time_marshaller where
  "new_year t = Inr ''2006-01-02T15:04:05.25+01:00''"

lemma new_year_rfc3339: "prints_rfc3339 new_year"
proof -
  have "date_time ''2006-01-02T15:04:05.25+01:00''" by code_simp
  then show ?thesis by (simp add: prints_rfc3339_def new_year_def)
qed

definition account_history :: request where
  "account_history = \<lparr>Method = ''GET'', Path = [''owner'', ''accounts'', ''alice'', ''transactions''], Query = [],
     RequestBody = Inl (New ''EOF'')\<rparr>"

definition history_answer :: api_json where
  "history_answer = TransactionsSuccess ''ok'' [\<lparr>TxAmount = \<lparr>Code = ''USD'', Value = 100\<rparr>, TxId = ''tx0'', TxMessage = '''',
     TxRecipient = ''bob'', TxSender = ''alice'', TxStatus = ''Confirmed'', TxTimestamp = 0\<rparr>]"

theorem answers_conform_witness:
  "\<exists>opn s j. response_schema opn 200 = Some s \<and> Marshal new_year history_answer = Inr j \<and> conforms s j"
proof -
  let ?resp = "\<lparr>Status = StatusOK, Header = cors_headers @ [(''Content-Type'', ''application/json'')],
    Content = Json history_answer\<rparr>"
  have "fst (owner_api sample sample_oapi 2 account_history [''x'']) = Ok ?resp" by code_simp
  from run_split [OF this] have run: "\<exists>(E :: (string list, string) env) A fuel es w w'.
      owner_api E A fuel account_history w = (Ok ?resp, es, w')"
    by (intro exI)
  obtain j where j: "Marshal new_year history_answer = Inr j"
    by (simp add: Marshal_def new_year_def history_answer_def)
  from answers_conform [OF disjI1 [OF run] _ new_year_rfc3339 j]
  obtain opn s where "response_schema opn StatusOK = Some s" "conforms s j" by (auto simp: history_answer_def)
  with j show ?thesis unfolding StatusOK_def by blast
qed

subsection \<open>The custom endorser\<close>

text \<open>
  The world is the committed state of every namespace, and the state and the writes of the one
  simulation store; a read/write set is its writes. What the endorsement builder makes of a result is \<open>mk\<close>.
\<close>

type_synonym kv_world = "(string \<Rightarrow> kv) \<times> kv \<times> kv"

definition kv_sdk_with :: "(kv exec_result \<Rightarrow> 'p) \<Rightarrow> (kv_world, unit, kv, bytes list, 'p) sdk" where
  "kv_sdk_with mk = \<lparr>parse = (\<lambda>q w. (Ok (sample_call q), w)),
     newSimulationStore = (\<lambda>ns n m (l, s, p). (Ok (), (l, l ns, Map.empty))),
     getState = (\<lambda>h k (l, s, p). (Ok (kv_value s k), (l, s, p))),
     putState = (\<lambda>h k v (l, s, p). (Ok (), (l, s, p(k \<mapsto> v)))),
     storeResult = (\<lambda>h (l, s, p). (p, (l, s, p))),
     endorse = (\<lambda>b call res w. (Ok (mk res), w)), ready = (\<lambda>w. (Ok (), w)), selectDone = (\<lambda>w. (False, w)),
     newWriteDB = (\<lambda>c s w. (Ok (), w)), newReadDB = (\<lambda>c s w. (Ok (), w)),
     newSynchronizer = (\<lambda>b c w. (Ok (), w)), startSynchronizer = (\<lambda>w. ((), w)), awaitDone = (\<lambda>w. ((), w)),
     closeWriteDB = (\<lambda>w. ((), w)), closeReadDB = (\<lambda>w. ((), w)),
     blockNumber = (\<lambda>w. (Ok 0, w)), registerServer = (\<lambda>n w. ((), w))\<rparr>"

definition kv_view :: "(kv_world, unit, kv) ledger_view" where
  "kv_view = \<lparr>ledger = fst, snapshot = (\<lambda>w h. fst (snd w)), pending = (\<lambda>w h. snd (snd w)), writes = (\<lambda>p. p)\<rparr>"

lemma kv_lawful: "lawful_store (kv_sdk_with mk) kv_view"
  by (simp add: lawful_store_def kv_sdk_with_def kv_view_def split: prod.split)

definition kv_service_with :: "(kv exec_result \<Rightarrow> 'p) \<Rightarrow> ((unit, kv, bytes list) ce_call, kv_world, unit, kv) service" where
  "kv_service_with mk = \<lparr>channel = ''ch'', executors = sample_executors (kv_sdk_with mk),
     builder = Some FabricXBuilder, monotonicVersions = True\<rparr>"

lemma kv_process:
  "\<exists>es call w' v. ProcessProposal (kv_sdk_with mk) (kv_service_with mk) [''set'', k, x] (l, s, p) =
       (Ok (Inr (mk (Success [k \<mapsto> x] (k @ ''='' @ x)))), es, w') \<and>
     Event (CEndorse FabricXBuilder call (Success [k \<mapsto> x] (k @ ''='' @ x))) True v \<in> set es \<and>
     Args call = [''set'', k, x] \<and> fst w' = l"
  "\<exists>es call w' v. ProcessProposal (kv_sdk_with mk) (kv_service_with mk) [''get'', k] (l, s, p) =
       (Ok (Inr (mk (Success Map.empty (kv_value (l ''mynamespace'') k)))), es, w') \<and>
     Event (CEndorse FabricXBuilder call (Success Map.empty (kv_value (l ''mynamespace'') k))) True v \<in> set es \<and>
     Args call = [''get'', k] \<and> fst w' = l"
  by (simp_all add: ProcessProposal_def kv_service_with_def sample_executors_def SampleExecutor_Execute_def
      kv_sdk_with_def sample_call_def Endorse_def Let_def attempt_def wrapErr_def andThen_def onError_def ext_def
      extv_def ret_def default_version_def)

abbreviation "kv_sdk \<equiv> kv_sdk_with (\<lambda>res. ''endorsed'')"
abbreviation "kv_service \<equiv> kv_service_with (\<lambda>res. ''endorsed'')"

text \<open>Worlds whose committed state is the same in every namespace, between proposals.\<close>

abbreviation kv_at :: "kv \<Rightarrow> kv_world" where "kv_at m \<equiv> (\<lambda>ns. m, Map.empty, Map.empty)"

abbreviation "kv_proposals \<equiv> kv_history kv_sdk kv_view kv_service (kv_at Map.empty)"

lemma kv_sets:
  assumes "kv_proposals hist (kv_at m) pool"
  shows "kv_proposals (hist @ [Ran [''set'', k, v] True (Some (k @ ''='' @ v))]) (kv_at m)
    (add_mset ([''set'', k, v], [k \<mapsto> v]) pool)"
proof -
  from kv_process(1) [of "\<lambda>res. ''endorsed''" k v "\<lambda>ns. m" Map.empty Map.empty] obtain r es call w1 v1 where
    run: "ProcessProposal kv_sdk kv_service [''set'', k, v] (kv_at m) = (r, es, w1)"
      "Event (CEndorse FabricXBuilder call (Success [k \<mapsto> v] (k @ ''='' @ v))) True v1 \<in> set es"
    and "Args call = [''set'', k, v]" "fst w1 = (\<lambda>ns. m)" by blast
  with kv_history.endorsed [OF assms run, of "kv_at m"] show ?thesis by (simp add: kv_view_def)
qed

lemma kv_gets:
  assumes "kv_proposals hist (kv_at m) pool"
  shows "kv_proposals (hist @ [Ran [''get'', k] True (Some (kv_value m k))]) (kv_at m)
    (add_mset ([''get'', k], Map.empty) pool)"
proof -
  from kv_process(2) [of "\<lambda>res. ''endorsed''" k "\<lambda>ns. m" Map.empty Map.empty] obtain r es call w1 v1 where
    run: "ProcessProposal kv_sdk kv_service [''get'', k] (kv_at m) = (r, es, w1)"
      "Event (CEndorse FabricXBuilder call (Success Map.empty (kv_value m k))) True v1 \<in> set es"
    and "Args call = [''get'', k]" "fst w1 = (\<lambda>ns. m)" by blast
  with kv_history.endorsed [OF assms run, of "kv_at m"] show ?thesis by (simp add: kv_view_def)
qed

lemma kv_commits:
  assumes "kv_proposals hist (kv_at m) pool" and "(args, [k \<mapsto> v]) \<in># pool"
  shows "kv_proposals (hist @ [Commit args]) (kv_at (m(k \<mapsto> v))) (pool - {#(args, [k \<mapsto> v])#})"
  using kv_history.committed [OF assms, of "kv_at (m(k \<mapsto> v))"] by (simp add: kv_view_def)

text \<open>A \<open>set\<close> is answered to a \<open>get\<close> once it is committed.\<close>

theorem endorser_refines_kv_witness:
  "kv_machine Map.empty {#}
     [Ran [''set'', ''k'', ''v''] True (Some ''k=v''), Ran [''get'', ''k''] True (Some []),
      Commit [''set'', ''k'', ''v''], Ran [''get'', ''k''] True (Some ''v'')] =
     Some ([''k'' \<mapsto> ''v''], {#[''get'', ''k''], [''get'', ''k'']#}) \<and>
   kv_serial Map.empty [[''set'', ''k'', ''v'']] = Some [''k'' \<mapsto> ''v'']"
proof -
  have "kv_proposals [] (kv_at Map.empty) {#}" by (rule kv_history.start)
  from kv_gets [OF kv_sets [OF this, of "''k''" "''v''"], of "''k''"]
  have "kv_proposals [Ran [''set'', ''k'', ''v''] True (Some ''k=v''), Ran [''get'', ''k''] True (Some [])] (kv_at Map.empty)
    {#([''get'', ''k''], Map.empty), ([''set'', ''k'', ''v''], [''k'' \<mapsto> ''v''])#}"
    by (simp add: kv_value_def)
  from kv_gets [OF kv_commits [OF this, of "[''set'', ''k'', ''v'']" "''k''" "''v''"], of "''k''"]
  have "kv_proposals [Ran [''set'', ''k'', ''v''] True (Some ''k=v''), Ran [''get'', ''k''] True (Some []),
      Commit [''set'', ''k'', ''v''], Ran [''get'', ''k''] True (Some ''v'')] (kv_at [''k'' \<mapsto> ''v''])
    {#([''get'', ''k''], Map.empty), ([''get'', ''k''], Map.empty)#}"
    by (simp add: kv_value_def)
  from endorser_refines_kv [OF kv_lawful _ this] show ?thesis
    by (simp add: kv_service_with_def kv_view_def)
qed

end
