(* ===== verification/Api_Requests.thy ===== *)
theory Api_Requests imports Api_Responses begin

text \<open>
  The request bodies of the three APIs: the schemas \<open>tokens/swagger.yaml\<close> publishes for them, the value a
  body of that schema stands for, read off its members by name, and the generated decoding, which walks
  through the members in order and takes names that differ in letter case for the same. On a body of the
  schema the two agree, so a published request reaches the server.
\<close>

subsection \<open>Schemas\<close>

definition Counterparty_schema :: schema where
  "Counterparty_schema = SObject (Required ''node'' SString (Required ''account'' SString NoField))"

definition TMSID_schema :: schema where
  "TMSID_schema = SObject
     (Required ''network'' SString (Required ''channel'' SString (Required ''namespace'' SString NoField)))"

definition IssueRequest_schema :: schema where
  "IssueRequest_schema = SObject
     (Required ''amount'' Amount_schema (Required ''counterparty'' Counterparty_schema
     (Optional ''message'' SString (Optional ''tmsId'' TMSID_schema NoField))))"

definition TransferRequest_schema :: schema where
  "TransferRequest_schema = SObject
     (Required ''amount'' Amount_schema (Required ''counterparty'' Counterparty_schema
     (Optional ''message'' SString NoField)))"

definition RedeemRequest_schema :: schema where
  "RedeemRequest_schema = SObject (Required ''amount'' Amount_schema (Optional ''message'' SString NoField))"

definition LockRequest_schema :: schema where
  "LockRequest_schema = SObject
     (Required ''amount'' Amount_schema (Required ''counterparty'' Counterparty_schema
     (Required ''deadline'' (SInt64 1) (Optional ''hash'' SBytes (Optional ''tmsId'' TMSID_schema NoField)))))"

definition ClaimRequest_schema :: schema where
  "ClaimRequest_schema = SObject (Required ''preimage'' SBytes (Optional ''tmsId'' TMSID_schema NoField))"

definition ReclaimRequest_schema :: schema where
  "ReclaimRequest_schema = SObject (Required ''hash'' SBytes (Optional ''tmsId'' TMSID_schema NoField))"

lemmas request_schema_defs = Amount_schema_def Counterparty_schema_def TMSID_schema_def IssueRequest_schema_def
  TransferRequest_schema_def RedeemRequest_schema_def LockRequest_schema_def ClaimRequest_schema_def
  ReclaimRequest_schema_def

text \<open>
  JSON leaves it open what repeated names mean, and \<open>encoding/json\<close> takes another spelling of a name for
  the name. A body is plain when it has neither, in any object the schema describes.
\<close>

fun field_names :: "fields \<Rightarrow> string list" where
  "field_names NoField = []"
| "field_names (Required name s fs) = name # field_names fs"
| "field_names (Optional name s fs) = name # field_names fs"

definition exact_names :: "string list \<Rightarrow> (string \<times> json) list \<Rightarrow> bool" where
  "exact_names names kvs \<longleftrightarrow>
     distinct (map fst kvs) \<and> (\<forall>(k, j) \<in> set kvs. \<forall>n \<in> set names. fold_name k = fold_name n \<longrightarrow> k = n)"

fun plain :: "schema \<Rightarrow> json \<Rightarrow> bool" and plain_fields :: "fields \<Rightarrow> (string \<times> json) list \<Rightarrow> bool" where
  "plain SString j = True"
| "plain SDateTime j = True"
| "plain SBytes j = True"
| "plain SUint64 j = True"
| "plain (SInt64 m) j = True"
| "plain (SArray s) j = (case j of JArr js \<Rightarrow> list_all (plain s) js | _ \<Rightarrow> True)"
| "plain (SObject fs) j =
     (case j of JObj kvs \<Rightarrow> exact_names (field_names fs) kvs \<and> plain_fields fs kvs | _ \<Rightarrow> True)"
| "plain_fields NoField kvs = True"
| "plain_fields (Required name s fs) kvs =
     ((case map_of kvs name of None \<Rightarrow> True | Some j \<Rightarrow> plain s j) \<and> plain_fields fs kvs)"
| "plain_fields (Optional name s fs) kvs =
     ((case map_of kvs name of None \<Rightarrow> True | Some j \<Rightarrow> plain s j) \<and> plain_fields fs kvs)"

definition published :: "schema \<Rightarrow> json \<Rightarrow> bool" where
  "published s j \<longleftrightarrow> conforms s j \<and> plain s j"

subsection \<open>The value of a body\<close>

fun members :: "json \<Rightarrow> (string \<times> json) list" where
  "members (JObj kvs) = kvs"
| "members j = []"

definition member :: "json \<Rightarrow> string \<Rightarrow> json" where
  "member j name = (case map_of (members j) name of None \<Rightarrow> JNull | Some v \<Rightarrow> v)"

definition optional :: "(json \<Rightarrow> 'a) \<Rightarrow> json \<Rightarrow> string \<Rightarrow> 'a option" where
  "optional read j name = map_option read (map_of (members j) name)"

definition string_of :: "json \<Rightarrow> string" where
  "string_of j = (case j of JStr s \<Rightarrow> s | _ \<Rightarrow> '''')"

definition bytes_of :: "json \<Rightarrow> bytes" where
  "bytes_of j = (case j of JStr s \<Rightarrow> (case DecodeString s of None \<Rightarrow> [] | Some bs \<Rightarrow> bs) | _ \<Rightarrow> [])"

definition uint64_of :: "json \<Rightarrow> u64" where
  "uint64_of j = (case j of JNum lit \<Rightarrow> (case ParseUint10 lit of Inr n \<Rightarrow> n | Inl e \<Rightarrow> 0) | _ \<Rightarrow> 0)"

definition int64_of :: "json \<Rightarrow> i64" where
  "int64_of j = (case j of JNum lit \<Rightarrow> (case ParseInt10 lit of Inr n \<Rightarrow> n | Inl e \<Rightarrow> 0) | _ \<Rightarrow> 0)"

definition amount_of :: "json \<Rightarrow> amount" where
  "amount_of j = \<lparr>Code = string_of (member j ''code''), Value = uint64_of (member j ''value'')\<rparr>"

definition counterparty_of :: "json \<Rightarrow> counterparty" where
  "counterparty_of j = \<lparr>Account = string_of (member j ''account''), Node = string_of (member j ''node'')\<rparr>"

definition tmsid_of :: "json \<Rightarrow> tmsid" where
  "tmsid_of j =
     \<lparr>Network = string_of (member j ''network''), Channel = string_of (member j ''channel''),
      Namespace = string_of (member j ''namespace'')\<rparr>"

definition issue_of :: "json \<Rightarrow> issue_request" where
  "issue_of j =
     \<lparr>IqAmount = amount_of (member j ''amount''), IqCounterparty = counterparty_of (member j ''counterparty''),
      IqMessage = optional string_of j ''message'', IqTmsId = optional tmsid_of j ''tmsId''\<rparr>"

definition transfer_of :: "json \<Rightarrow> transfer_request" where
  "transfer_of j =
     \<lparr>TqAmount = amount_of (member j ''amount''), TqCounterparty = counterparty_of (member j ''counterparty''),
      TqMessage = optional string_of j ''message''\<rparr>"

definition redeem_of :: "json \<Rightarrow> redeem_request" where
  "redeem_of j = \<lparr>RqAmount = amount_of (member j ''amount''), RqMessage = optional string_of j ''message''\<rparr>"

definition lock_of :: "json \<Rightarrow> lock_request" where
  "lock_of j =
     \<lparr>LqAmount = amount_of (member j ''amount''), LqCounterparty = counterparty_of (member j ''counterparty''),
      LqDeadline = int64_of (member j ''deadline''), LqHash = optional bytes_of j ''hash'',
      LqTmsId = optional tmsid_of j ''tmsId''\<rparr>"

definition claim_of :: "json \<Rightarrow> claim_request" where
  "claim_of j = \<lparr>CqPreimage = bytes_of (member j ''preimage''), CqTmsId = optional tmsid_of j ''tmsId''\<rparr>"

definition reclaim_of :: "json \<Rightarrow> reclaim_request" where
  "reclaim_of j = \<lparr>KqHash = bytes_of (member j ''hash''), KqTmsId = optional tmsid_of j ''tmsId''\<rparr>"

subsection \<open>Decoding a plain body\<close>

lemma find_field_exact:
  assumes "\<forall>n \<in> set (map fst fs). fold_name k = fold_name n \<longrightarrow> k = n"
  shows "find_field fs k = map_of fs k"
  using assms by (induction fs) (auto simp: find_field_def)

text \<open>
  A decoder reads a schema when, on a published value of it, it yields the value whatever was there before.
  On an object with exact names each member is then decoded by the field of its name.
\<close>

definition reads :: "'a decoder \<Rightarrow> schema \<Rightarrow> (json \<Rightarrow> 'a) \<Rightarrow> bool" where
  "reads dec s val \<longleftrightarrow> (\<forall>j old. published s j \<longrightarrow> dec j old = Inr (val j))"

lemma readsD: "reads dec s val \<Longrightarrow> published s j \<Longrightarrow> dec j old = Inr (val j)"
  unfolding reads_def by blast

lemma reads_basic:
  "reads decode_string SString string_of" "reads decode_bytes SBytes bytes_of"
  "reads decode_uint64 SUint64 uint64_of" "reads decode_int64 (SInt64 m) int64_of"
  by (auto simp: reads_def published_def decode_string_def string_of_def decode_bytes_def bytes_of_def
      decode_uint64_def uint64_of_def decode_int64_def int64_of_def split: json.splits option.splits sum.splits)

lemma reads_ptr:
  assumes "reads dec s val" and "\<not> conforms s JNull"
  shows "reads (decode_ptr zero dec) s (\<lambda>j. Some (val j))"
  using assms by (auto simp: reads_def published_def decode_ptr_def split: json.splits)

text \<open>
  The walk over exact names makes the updates \<open>ups\<close> of the fields one after another, in the order of the
  members. Updates of different fields commute, so it might as well go through the fields.
\<close>

type_synonym 'a updates = "(string \<times> (json \<Rightarrow> 'a \<Rightarrow> 'a)) list"

definition walk :: "'a updates \<Rightarrow> (string \<times> json) list \<Rightarrow> 'a \<Rightarrow> 'a" where
  "walk ups kvs s = foldl (\<lambda>s (k, j). case map_of ups k of None \<Rightarrow> s | Some u \<Rightarrow> u j s) s kvs"

fun by_names :: "'a updates \<Rightarrow> (string \<times> json) list \<Rightarrow> 'a \<Rightarrow> 'a" where
  "by_names [] kvs s = s"
| "by_names ((n, u) # ups) kvs s = by_names ups kvs (case map_of kvs n of None \<Rightarrow> s | Some j \<Rightarrow> u j s)"

definition commuting :: "'a updates \<Rightarrow> bool" where
  "commuting ups \<longleftrightarrow>
     (\<forall>(n, u) \<in> set ups. \<forall>(m, v) \<in> set ups. n \<noteq> m \<longrightarrow> (\<forall>j j' s. u j (v j' s) = v j' (u j s)))"

lemma commuting_Cons: "commuting (x # ups) \<Longrightarrow> commuting ups"
  by (simp add: commuting_def case_prod_unfold)

lemma by_names_Cons:
  assumes "commuting ups" and "distinct (map fst ups)" and k: "k \<notin> fst ` set kvs"
  shows "by_names ups ((k, j) # kvs) s =
    by_names ups kvs (case map_of ups k of None \<Rightarrow> s | Some u \<Rightarrow> u j s)"
  using assms(1,2)
proof (induction ups arbitrary: s)
  case (Cons nu ups)
  obtain n u where nu: "nu = (n, u)" by (cases nu)
  have comm: "u i (v j s) = v j (u i s)" if "map_of ups k = Some v" "n \<noteq> k" for v i s
  proof -
    from that(1) have "(k, v) \<in> set ups" by (rule map_of_SomeD)
    with Cons.prems(1) that(2) show ?thesis by (auto simp: commuting_def nu)
  qed
  note IH = Cons.IH [OF commuting_Cons [OF Cons.prems(1)]]
  show ?case
  proof (cases "n = k")
    case True
    with Cons.prems(2) k have "map_of ups k = None" "map_of kvs k = None" by (simp_all add: nu map_of_eq_None_iff)
    with True Cons.prems(2) IH show ?thesis by (simp add: nu)
  next
    case False
    with Cons.prems(2) IH comm show ?thesis by (simp add: nu split: option.split)
  qed
qed simp

lemma walk_by_names:
  assumes "commuting ups" and "distinct (map fst ups)" and "distinct (map fst kvs)"
  shows "walk ups kvs s = by_names ups kvs s"
  using assms(3)
proof (induction kvs arbitrary: s)
  case Nil
  show ?case by (induction ups arbitrary: s) (auto simp: walk_def)
next
  case (Cons kv kvs)
  then show ?case
    using by_names_Cons [OF assms(1,2)] by (cases kv) (simp add: walk_def)
qed

text \<open>Decoders and updates that agree on the members of an object.\<close>

definition agree :: "'a Go_Json.fields \<Rightarrow> 'a updates \<Rightarrow> (string \<times> json) list \<Rightarrow> bool" where
  "agree fs ups kvs \<longleftrightarrow>
     list_all2 (\<lambda>(k, dec) (k', u). k = k' \<and> (\<forall>j. map_of kvs k = Some j \<longrightarrow> (\<forall>s. dec j s = Inr (u j s)))) fs ups"

lemma agree_find:
  assumes "agree fs ups kvs"
  shows "map_of fs k = None \<longleftrightarrow> map_of ups k = None"
    and "map_of fs k = Some dec \<Longrightarrow> map_of kvs k = Some j \<Longrightarrow> \<exists>u. map_of ups k = Some u \<and> (\<forall>s. dec j s = Inr (u j s))"
  using assms unfolding agree_def
  by (induction rule: list_all2_induct) (auto split: if_splits)

lemma decode_fields_walk:
  assumes "exact_names (map fst fs) kvs" and "agree fs ups all" and "\<And>k j. map_of kvs k = Some j \<Longrightarrow> map_of all k = Some j"
  shows "decode_fields fs kvs s = Inr (walk ups kvs s)"
  using assms(1,3)
proof (induction kvs arbitrary: s)
  case (Cons kv kvs)
  obtain k j where kv: "kv = (k, j)" by (cases kv)
  have find: "find_field fs k = map_of fs k"
    using Cons.prems(1) by (intro find_field_exact) (auto simp: exact_names_def kv)
  have k: "k \<notin> fst ` set kvs" using Cons.prems(1) by (simp add: exact_names_def kv)
  have "map_of all k' = Some j'" if "map_of kvs k' = Some j'" for k' j'
    using Cons.prems(2) [of k' j'] that k by (cases "k' = k") (auto simp: kv map_of_eq_None_iff [symmetric])
  with Cons.IH Cons.prems(1) have IH: "decode_fields fs kvs s = Inr (walk ups kvs s)" for s
    by (simp add: exact_names_def kv)
  show ?case
  proof (cases "map_of fs k")
    case None
    moreover from None agree_find(1) [OF assms(2), of k] have "map_of ups k = None" by blast
    ultimately show ?thesis by (simp add: kv find IH walk_def)
  next
    case (Some dec)
    from Cons.prems(2) [of k j] have "map_of all k = Some j" by (simp add: kv)
    from agree_find(2) [OF assms(2) Some this] Some show ?thesis by (auto simp: kv find IH walk_def)
  qed
qed (simp add: walk_def)

text \<open>The parts of a published object.\<close>

definition published_members :: "fields \<Rightarrow> (string \<times> json) list \<Rightarrow> bool" where
  "published_members fs kvs \<longleftrightarrow> conforms_fields fs kvs \<and> plain_fields fs kvs"

lemma published_object:
  assumes "published (SObject fs) j"
  obtains kvs where "j = JObj kvs" "exact_names (field_names fs) kvs" "published_members fs kvs"
  using assms by (cases j) (auto simp: published_def published_members_def)

lemma published_members_simps [simp]:
  "published_members NoField kvs"
  "published_members (Required n s fs) kvs \<longleftrightarrow>
     (\<exists>j. map_of kvs n = Some j \<and> published s j) \<and> published_members fs kvs"
  "published_members (Optional n s fs) kvs \<longleftrightarrow>
     (\<forall>j. map_of kvs n = Some j \<longrightarrow> published s j) \<and> published_members fs kvs"
  by (auto simp: published_members_def published_def split: option.splits)

declare fold_name.simps [simp del]

lemma decode_struct_published:
  assumes "published (SObject S) j" and names: "set (map fst ups) = set (field_names S)" "distinct (map fst ups)"
    and agree: "\<And>kvs. published_members S kvs \<Longrightarrow> agree fs ups kvs" and comm: "commuting ups"
    and val: "\<And>kvs. published_members S kvs \<Longrightarrow> by_names ups kvs s = val (JObj kvs)"
  shows "decode_struct fs j s = Inr (val j)"
proof -
  from assms(1) obtain kvs where j: "j = JObj kvs" and ex: "exact_names (field_names S) kvs"
    and m: "published_members S kvs" by (rule published_object)
  from agree [OF m] have "map fst fs = map fst ups"
    unfolding agree_def by (induction rule: list_all2_induct) auto
  with ex names(1) have ex': "exact_names (map fst fs) kvs" by (simp add: exact_names_def)
  then have d: "distinct (map fst kvs)" by (simp add: exact_names_def)
  have "decode_fields fs kvs s = Inr (walk ups kvs s)"
    by (rule decode_fields_walk [OF ex' agree [OF m]])
  also have "\<dots> = Inr (val (JObj kvs))"
    by (simp only: walk_by_names [OF comm names(2) d] val [OF m])
  finally show ?thesis by (simp add: decode_struct_def j)
qed

lemmas reads_basicD = reads_basic [THEN readsD]

lemma reads_Amount: "reads decode_Amount Amount_schema amount_of"
  unfolding reads_def decode_Amount_def Amount_schema_def
  by (intro allI impI, rule decode_struct_published [where ups =
        "[(''code'', \<lambda>j s. s\<lparr>Code := string_of j\<rparr>),
         (''value'', \<lambda>j s. s\<lparr>Value := uint64_of j\<rparr>)]"])
    (auto simp: commuting_def agree_def field_def amount_of_def member_def reads_basicD)

lemma reads_Counterparty: "reads decode_Counterparty Counterparty_schema counterparty_of"
  unfolding reads_def decode_Counterparty_def Counterparty_schema_def
  by (intro allI impI, rule decode_struct_published [where ups =
        "[(''account'', \<lambda>j s. s\<lparr>Account := string_of j\<rparr>),
         (''node'', \<lambda>j s. s\<lparr>Node := string_of j\<rparr>)]"])
    (auto simp: commuting_def agree_def field_def counterparty_of_def member_def reads_basicD)

lemma reads_TMSID: "reads decode_TMSID TMSID_schema tmsid_of"
  unfolding reads_def decode_TMSID_def TMSID_schema_def
  by (intro allI impI, rule decode_struct_published [where ups =
        "[(''channel'', \<lambda>j s. s\<lparr>Channel := string_of j\<rparr>),
         (''namespace'', \<lambda>j s. s\<lparr>Namespace := string_of j\<rparr>),
         (''network'', \<lambda>j s. s\<lparr>Network := string_of j\<rparr>)]"])
    (auto simp: commuting_def agree_def field_def tmsid_of_def member_def reads_basicD)

lemma null_conforms [simp]: "\<not> conforms SString JNull" "\<not> conforms SBytes JNull" "\<not> conforms TMSID_schema JNull"
  by (simp_all add: TMSID_schema_def)

lemmas reads_partsD = reads_basicD reads_Amount [THEN readsD] reads_Counterparty [THEN readsD]
  reads_ptr [OF reads_basic(1) null_conforms(1), THEN readsD] reads_ptr [OF reads_basic(2) null_conforms(2), THEN readsD]
  reads_ptr [OF reads_TMSID null_conforms(3), THEN readsD]

text \<open>The requests.\<close>

lemma decode_IssueRequest_published: "published IssueRequest_schema j \<Longrightarrow> decode_IssueRequest j zero_issue_request = Inr (issue_of j)"
  unfolding decode_IssueRequest_def IssueRequest_schema_def
  by (rule decode_struct_published [where ups =
        "[(''amount'', \<lambda>j s. s\<lparr>IqAmount := amount_of j\<rparr>),
         (''counterparty'', \<lambda>j s. s\<lparr>IqCounterparty := counterparty_of j\<rparr>),
         (''message'', \<lambda>j s. s\<lparr>IqMessage := Some (string_of j)\<rparr>),
         (''tmsId'', \<lambda>j s. s\<lparr>IqTmsId := Some (tmsid_of j)\<rparr>)]"])
    (auto simp: commuting_def agree_def field_def issue_of_def zero_issue_request_def member_def optional_def reads_partsD split: option.split)

lemma decode_TransferRequest_published: "published TransferRequest_schema j \<Longrightarrow> decode_TransferRequest j zero_transfer_request = Inr (transfer_of j)"
  unfolding decode_TransferRequest_def TransferRequest_schema_def
  by (rule decode_struct_published [where ups =
        "[(''amount'', \<lambda>j s. s\<lparr>TqAmount := amount_of j\<rparr>),
         (''counterparty'', \<lambda>j s. s\<lparr>TqCounterparty := counterparty_of j\<rparr>),
         (''message'', \<lambda>j s. s\<lparr>TqMessage := Some (string_of j)\<rparr>)]"])
    (auto simp: commuting_def agree_def field_def transfer_of_def zero_transfer_request_def member_def optional_def reads_partsD split: option.split)

lemma decode_RedeemRequest_published: "published RedeemRequest_schema j \<Longrightarrow> decode_RedeemRequest j zero_redeem_request = Inr (redeem_of j)"
  unfolding decode_RedeemRequest_def RedeemRequest_schema_def
  by (rule decode_struct_published [where ups =
        "[(''amount'', \<lambda>j s. s\<lparr>RqAmount := amount_of j\<rparr>),
         (''message'', \<lambda>j s. s\<lparr>RqMessage := Some (string_of j)\<rparr>)]"])
    (auto simp: commuting_def agree_def field_def redeem_of_def zero_redeem_request_def member_def optional_def reads_partsD split: option.split)

lemma decode_LockRequest_published: "published LockRequest_schema j \<Longrightarrow> decode_LockRequest j zero_lock_request = Inr (lock_of j)"
  unfolding decode_LockRequest_def LockRequest_schema_def
  by (rule decode_struct_published [where ups =
        "[(''amount'', \<lambda>j s. s\<lparr>LqAmount := amount_of j\<rparr>),
         (''counterparty'', \<lambda>j s. s\<lparr>LqCounterparty := counterparty_of j\<rparr>),
         (''deadline'', \<lambda>j s. s\<lparr>LqDeadline := int64_of j\<rparr>),
         (''hash'', \<lambda>j s. s\<lparr>LqHash := Some (bytes_of j)\<rparr>),
         (''tmsId'', \<lambda>j s. s\<lparr>LqTmsId := Some (tmsid_of j)\<rparr>)]"])
    (auto simp: commuting_def agree_def field_def lock_of_def zero_lock_request_def member_def optional_def reads_partsD split: option.split)

lemma decode_ClaimRequest_published: "published ClaimRequest_schema j \<Longrightarrow> decode_ClaimRequest j zero_claim_request = Inr (claim_of j)"
  unfolding decode_ClaimRequest_def ClaimRequest_schema_def
  by (rule decode_struct_published [where ups =
        "[(''preimage'', \<lambda>j s. s\<lparr>CqPreimage := bytes_of j\<rparr>),
         (''tmsId'', \<lambda>j s. s\<lparr>CqTmsId := Some (tmsid_of j)\<rparr>)]"])
    (auto simp: commuting_def agree_def field_def claim_of_def zero_claim_request_def member_def optional_def reads_partsD split: option.split)

lemma decode_ReclaimRequest_published: "published ReclaimRequest_schema j \<Longrightarrow> decode_ReclaimRequest j zero_reclaim_request = Inr (reclaim_of j)"
  unfolding decode_ReclaimRequest_def ReclaimRequest_schema_def
  by (rule decode_struct_published [where ups =
        "[(''hash'', \<lambda>j s. s\<lparr>KqHash := bytes_of j\<rparr>),
         (''tmsId'', \<lambda>j s. s\<lparr>KqTmsId := Some (tmsid_of j)\<rparr>)]"])
    (auto simp: commuting_def agree_def field_def reclaim_of_def zero_reclaim_request_def member_def optional_def reads_partsD split: option.split)

subsection \<open>Published requests reach the servers\<close>

text \<open>
  The condition is needed: this body has the schema of a redeem request, which allows other properties, but one
  of them is another spelling of \<open>amount\<close>, and the request is refused.
\<close>

lemma respelled_name_refused:
  fixes E :: "('w, 'h) env"
  defines "j \<equiv> JObj [(''amount'', JObj [(''code'', JStr ''USD''), (''value'', JNum ''1'')]), (''AMOUNT'', JStr ''x'')]"
  assumes "RequestBody r = Inr j"
  shows "conforms RedeemRequest_schema j \<and>
    (\<exists>msg. strict_Redeem E acc r = ret (http_Error msg StatusBadRequest))"
proof -
  have "conforms RedeemRequest_schema j" unfolding j_def by code_simp
  moreover have "isl (decode_RedeemRequest j zero_redeem_request)" unfolding j_def by code_simp
  then obtain err where "decode_RedeemRequest j zero_redeem_request = Inl err" by (auto simp: isl_def)
  then have "strict_Redeem E acc r = ret (http_Error (Error (Wrap ''can't decode JSON body'' err)) StatusBadRequest)"
    using assms(2) by (simp add: strict_Redeem_def strict_body_def)
  ultimately show ?thesis by blast
qed

text \<open>
  C14: A request that keeps to the published API, and spells no name twice, is never refused for its format, and
  reaches the server as it was meant. Let the body of a POST have the schema \<open>swagger.yaml\<close> gives its operation,
  and let no object the schema describes repeat a name or have a name that differs from one of the schema's only in
  letter case (\<open>published\<close> asks for both). Then, whatever other properties it has and in whatever order, the strict
  handler does not refuse it but hands the server exactly the values found under the names of the schema, \<open>nil\<close>
  for an optional one that is absent.
\<close>

theorem published_requests_reach_server:
  assumes body: "RequestBody r = Inr j"
  shows "(published TransferRequest_schema j \<longrightarrow>
      strict_Transfer E acc r = strict_respond (Server_Transfer E acc (Some (transfer_of j)))) \<and>
    (published RedeemRequest_schema j \<longrightarrow>
      strict_Redeem E acc r = strict_respond (Server_Redeem E acc (Some (redeem_of j)))) \<and>
    (published LockRequest_schema j \<longrightarrow>
      strict_Lock E acc r = strict_respond (Server_Lock E acc (Some (lock_of j)))) \<and>
    (published ClaimRequest_schema j \<longrightarrow>
      strict_Claim E acc r = strict_respond (Server_Claim E acc (Some (claim_of j)))) \<and>
    (published ReclaimRequest_schema j \<longrightarrow>
      strict_Reclaim E acc r = strict_respond (Server_Reclaim E acc (Some (reclaim_of j)))) \<and>
    (published IssueRequest_schema j \<longrightarrow>
      strict_Issue E r = strict_respond (Server_Issue E (Some (issue_of j))))"
  using body
  by (simp add: strict_Transfer_def strict_Redeem_def strict_Lock_def strict_Claim_def strict_Reclaim_def
      strict_Issue_def strict_body_def decode_TransferRequest_published decode_RedeemRequest_published
      decode_LockRequest_published decode_ClaimRequest_published decode_ReclaimRequest_published
      decode_IssueRequest_published)

end
