(* ===== verification/Http_Writer.thy ===== *)
theory Http_Writer imports Api_Responses "HOL-Library.AList" begin

text \<open>
  The wire below the responses: an \<open>http.ResponseWriter\<close> as \<open>net/http\<close> implements it, the encoder of
  JSON bodies, \<open>http.Error\<close>, routing and \<open>common.WithAnyCORS\<close> in terms of it. A handler of this level
  takes a writer and leaves it changed. The locales \<open>serves_as\<close> and \<open>acts_as\<close> are the contracts
  between such a handler and a handler that returns its response (\<open>Http\<close>): on an open connection the same calls
  are made, and what is sent is that response; on any connection the same calls are made.
\<close>

subsection \<open>Response writers\<close>

text \<open>
  The headers a handler sets are sent, with the status, when it first calls \<open>WriteHeader\<close> or writes;
  what it sets afterwards, and any later status, is lost. \<open>WGone\<close> is the error that writing to a
  connection returns once the client is gone.
\<close>

datatype chunk = JsonText json | RawText string

record writer =
  WHeader :: "(string \<times> string) list"
  WSent :: "(nat \<times> (string \<times> string) list) option"
  WBody :: "chunk list"
  WGone :: "error option"

definition new_writer :: writer where
  "new_writer = \<lparr>WHeader = [], WSent = None, WBody = [], WGone = None\<rparr>"

definition Header_Set :: "string \<Rightarrow> string \<Rightarrow> writer \<Rightarrow> writer" where
  "Header_Set k v wr = wr\<lparr>WHeader := AList.update k v (WHeader wr)\<rparr>"

fun set_headers :: "(string \<times> string) list \<Rightarrow> writer \<Rightarrow> writer" where
  "set_headers [] wr = wr"
| "set_headers ((k, v) # hs) wr = set_headers hs (Header_Set k v wr)"

definition WriteHeader :: "nat \<Rightarrow> writer \<Rightarrow> writer" where
  "WriteHeader code wr =
     (case WSent wr of None \<Rightarrow> wr\<lparr>WSent := Some (code, WHeader wr)\<rparr> | Some sent \<Rightarrow> wr)"

definition Write :: "chunk \<Rightarrow> writer \<Rightarrow> error option \<times> writer" where
  "Write c wr =
     (let wr = WriteHeader StatusOK wr in
      case WGone wr of
        Some err \<Rightarrow> (Some err, wr)
      | None \<Rightarrow> (None, wr\<lparr>WBody := WBody wr @ [c]\<rparr>))"

text \<open>What the client gets when the handler has returned; without any write it is an empty 200.\<close>

definition sent :: "writer \<Rightarrow> nat \<times> (string \<times> string) list \<times> chunk list" where
  "sent wr = (case WSent wr of
     None \<Rightarrow> (StatusOK, WHeader wr, WBody wr) | Some (code, h) \<Rightarrow> (code, h, WBody wr))"

subsection \<open>Encoding\<close>

text \<open>\<open>json.NewEncoder(w).Encode(v)\<close> marshals before it writes, so a value that cannot be marshalled writes nothing.\<close>

definition Encode :: "time_marshaller \<Rightarrow> api_json \<Rightarrow> writer \<Rightarrow> error option \<times> writer" where
  "Encode TM b wr =
     (case Marshal TM b of
        Inl err \<Rightarrow> (Some err, wr)
      | Inr j \<Rightarrow> Write (JsonText j) wr)"

text \<open>
  A \<open>Visit\<close> method sets the headers of its response object, writes its status and encodes its body.
\<close>

definition visit :: "time_marshaller \<Rightarrow> api_json response \<Rightarrow> writer \<Rightarrow> error option \<times> writer" where
  "visit TM resp wr =
     (let wr = WriteHeader (Status resp) (set_headers (Header resp) wr) in
      case Content resp of
        Json b \<Rightarrow> Encode TM b wr
      | PlainText s \<Rightarrow> Write (RawText s) wr
      | NoContent \<Rightarrow> (None, wr))"

text \<open>\<open>http.Error\<close> ends the text with a newline and ignores the error of writing it.\<close>

definition http_Error_to :: "string \<Rightarrow> nat \<Rightarrow> writer \<Rightarrow> writer" where
  "http_Error_to msg code wr =
     snd (Write (RawText (msg @ [CHR 0x0A]))
       (WriteHeader code
         (Header_Set ''X-Content-Type-Options'' ''nosniff''
           (Header_Set ''Content-Type'' ''text/plain; charset=utf-8'' wr))))"

subsection \<open>Handlers, routing, CORS\<close>

type_synonym ('c, 'w) whandler = "request \<Rightarrow> writer \<Rightarrow> ('c, 'w, writer) prog"

text \<open>
  A \<open>http.ServeMux\<close> as the patterns registered with it, each a method, a space and a path.
  The \<open>Allow\<close> header of a 405 is not modelled.
\<close>

type_synonym ('c, 'w) mux = "(string \<times> (string list \<Rightarrow> ('c, 'w) whandler)) list"

definition HandleFunc :: "string \<Rightarrow> (string list \<Rightarrow> ('c, 'w) whandler) \<Rightarrow> ('c, 'w) mux \<Rightarrow> ('c, 'w) mux" where
  "HandleFunc pattern h m = m @ [(pattern, h)]"

fun split_at :: "char \<Rightarrow> string \<Rightarrow> string list" where
  "split_at c [] = [[]]"
| "split_at c (x # xs) =
     (if x = c then [] # split_at c xs
      else (case split_at c xs of [] \<Rightarrow> [[x]] | s # ss \<Rightarrow> (x # s) # ss))"

definition parse_segment :: "string \<Rightarrow> segment" where
  "parse_segment s = (if HasPrefix s [CHR 0x7B] then Wild else Lit s)"

definition parse_pattern :: "string \<Rightarrow> string \<times> segment list" where
  "parse_pattern p =
     (case split_at (CHR 0x20) p of
        [] \<Rightarrow> ('''', [])
      | m # rest \<Rightarrow> (m, map parse_segment (tl (split_at (CHR 0x2F) (concat rest)))))"

definition mux_routes ::
  "('c, 'w) mux \<Rightarrow> (string \<times> segment list \<times> (string list \<Rightarrow> ('c, 'w) whandler)) list" where
  "mux_routes m = map (\<lambda>(pattern, h). (fst (parse_pattern pattern), snd (parse_pattern pattern), h)) m"

definition mux_ServeHTTP :: "('c, 'w) mux \<Rightarrow> ('c, 'w) whandler" where
  "mux_ServeHTTP m r wr =
     (case find_route (mux_routes m) r of
        Some act \<Rightarrow> act wr
      | None \<Rightarrow>
          if \<exists>(me, ps, h) \<in> set (mux_routes m). match_path ps (Path r) \<noteq> None
          then ret (http_Error_to ''Method Not Allowed'' StatusMethodNotAllowed wr)
          else ret (http_Error_to ''404 page not found'' StatusNotFound wr))"

definition WithAnyCORS_to :: "('c, 'w) whandler \<Rightarrow> ('c, 'w) whandler" where
  "WithAnyCORS_to next r wr =
     (let wr = Header_Set ''Access-Control-Allow-Origin'' ''*'' wr;
          wr = Header_Set ''Access-Control-Allow-Methods'' ''GET, POST, PUT, DELETE, OPTIONS'' wr;
          wr = Header_Set ''Access-Control-Allow-Headers'' ''Content-Type, Authorization'' wr in
      if Method r = ''OPTIONS'' then ret (WriteHeader StatusNoContent wr)
      else next r wr)"

subsection \<open>What is sent\<close>

definition open_writer :: "writer \<Rightarrow> bool" where
  "open_writer wr \<longleftrightarrow> WSent wr = None \<and> WGone wr = None"

text \<open>
  A response as it is sent: headers, status, then the body. When the body cannot be marshalled the text of the
  error is sent in its place; the headers the error handler sets come too late.
\<close>

fun body_chunks :: "time_marshaller \<Rightarrow> api_json content \<Rightarrow> chunk list" where
  "body_chunks TM (Json b) =
     (case Marshal TM b of Inr j \<Rightarrow> [JsonText j] | Inl err \<Rightarrow> [RawText (Error err @ [CHR 0x0A])])"
| "body_chunks TM (PlainText s) = [RawText (s @ [CHR 0x0A])]"
| "body_chunks TM NoContent = []"

fun late_headers :: "time_marshaller \<Rightarrow> api_json content \<Rightarrow> (string \<times> string) list" where
  "late_headers TM (Json b) =
     (case Marshal TM b of
        Inr j \<Rightarrow> []
      | Inl err \<Rightarrow> [(''Content-Type'', ''text/plain; charset=utf-8''), (''X-Content-Type-Options'', ''nosniff'')])"
| "late_headers TM (PlainText s) = []"
| "late_headers TM NoContent = []"

definition send :: "time_marshaller \<Rightarrow> api_json response \<Rightarrow> writer \<Rightarrow> writer" where
  "send TM resp wr =
     (let wr = WriteHeader (Status resp) (set_headers (Header resp) wr);
          wr = set_headers (late_headers TM (Content resp)) wr in
      wr\<lparr>WBody := WBody wr @ body_chunks TM (Content resp)\<rparr>)"

lemma open_new_writer [simp]: "open_writer new_writer"
  by (simp add: open_writer_def new_writer_def)

lemma open_Header_Set [simp]: "open_writer (Header_Set k v wr) \<longleftrightarrow> open_writer wr"
  by (simp add: open_writer_def Header_Set_def)

lemma open_set_headers [simp]: "open_writer (set_headers hs wr) \<longleftrightarrow> open_writer wr"
  by (induction hs wr rule: set_headers.induct) simp_all

lemma set_headers_append [simp]: "set_headers (hs @ hs') wr = set_headers hs' (set_headers hs wr)"
  by (induction hs wr rule: set_headers.induct) simp_all

lemma Write_opened:
  assumes "open_writer wr"
  shows "Write c (WriteHeader code wr) =
    (None, (WriteHeader code wr)\<lparr>WBody := WBody (WriteHeader code wr) @ [c]\<rparr>)"
  using assms by (simp add: open_writer_def Write_def WriteHeader_def Let_def)

lemma visit_sends:
  assumes "open_writer wr"
  shows "(case visit TM (json_response code b) wr of
       (None, wr) \<Rightarrow> wr | (Some err, wr) \<Rightarrow> http_Error_to (Error err) StatusInternalServerError wr) =
     send TM (json_response code b) wr"
proof (cases "Marshal TM b")
  case (Inl err)
  with assms show ?thesis
    by (simp add: visit_def send_def json_response_def Encode_def http_Error_to_def Write_def WriteHeader_def
        Header_Set_def open_writer_def Let_def)
next
  case (Inr j)
  with assms show ?thesis
    by (simp add: visit_def send_def json_response_def Encode_def Write_opened Let_def)
qed

lemma http_Error_sends:
  assumes "open_writer wr"
  shows "http_Error_to msg code wr = send TM (http_Error msg code) wr"
  using assms by (simp add: http_Error_to_def send_def http_Error_def Write_opened Let_def)

lemma send_more_headers:
  "send TM (resp\<lparr>Header := hs @ Header resp\<rparr>) wr = send TM resp (set_headers hs wr)"
  by (simp add: send_def)

text \<open>Sent on a new connection, a response arrives as it is, when it names no header twice.\<close>

lemma set_headers_new:
  assumes "distinct (map fst hs)" and "\<forall>(k, v) \<in> set hs. k \<notin> fst ` set (WHeader wr)"
  shows "set_headers hs wr = wr\<lparr>WHeader := WHeader wr @ hs\<rparr>"
  using assms
proof (induction hs wr rule: set_headers.induct)
  case (2 k v hs wr)
  have upd: "AList.update k v al = al @ [(k, v)]" if "k \<notin> fst ` set al" for al
    using that by (induction al) auto
  from 2(3) have set: "Header_Set k v wr = wr\<lparr>WHeader := WHeader wr @ [(k, v)]\<rparr>"
    by (simp add: Header_Set_def upd)
  from 2(2,3) have "\<forall>(k', v') \<in> set hs. k' \<notin> fst ` set (WHeader (Header_Set k v wr))"
    by (force simp: set)
  with 2(1,2) show ?case by (simp add: set)
qed simp

lemma set_headers_keeps [simp]:
  "WSent (set_headers hs wr) = WSent wr" "WBody (set_headers hs wr) = WBody wr"
  by (induction hs wr rule: set_headers.induct) (simp_all add: Header_Set_def)

lemma sent_send:
  assumes "distinct (map fst (Header resp))"
  shows "sent (send TM resp new_writer) = (Status resp, Header resp, body_chunks TM (Content resp))"
  using set_headers_new [OF assms, of new_writer]
  by (simp add: sent_def send_def WriteHeader_def new_writer_def Let_def)

subsection \<open>The contract between the two levels\<close>

text \<open>
  Two levels are related by what holds of the program of a writing handler and the program that returns the
  response (\<open>Q\<close>), on the writers it is claimed for (\<open>ok\<close>). The locale collects what such a relation has to
  satisfy to pass through the constructs of the generated servers.
\<close>

definition related ::
  "(writer \<Rightarrow> bool) \<Rightarrow> (writer \<Rightarrow> ('c, 'w, writer) prog \<Rightarrow> ('c, 'w, api_json response) prog \<Rightarrow> bool) \<Rightarrow>
   ('c, 'w) whandler \<Rightarrow> ('c, 'w, api_json) handler \<Rightarrow> bool" where
  "related ok Q H h \<longleftrightarrow> (\<forall>r wr. ok wr \<longrightarrow> Q wr (H r wr) (h r))"

definition related_routes ::
  "(writer \<Rightarrow> bool) \<Rightarrow> (writer \<Rightarrow> ('c, 'w, writer) prog \<Rightarrow> ('c, 'w, api_json response) prog \<Rightarrow> bool) \<Rightarrow>
   ('c, 'w) mux \<Rightarrow> ('c, 'w, api_json) route list \<Rightarrow> bool" where
  "related_routes ok Q m rs \<longleftrightarrow> list_all2 (\<lambda>(me, ps, H) (me', ps', h).
     me = me' \<and> ps = ps' \<and> (\<forall>args. related ok Q (H args) (h args))) (mux_routes m) rs"

lemma relatedI: "(\<And>r wr. ok wr \<Longrightarrow> Q wr (H r wr) (h r)) \<Longrightarrow> related ok Q H h"
  by (simp add: related_def)

lemma relatedD: "related ok Q H h \<Longrightarrow> ok wr \<Longrightarrow> Q wr (H r wr) (h r)"
  by (simp add: related_def)

locale levels =
  fixes ok :: "writer \<Rightarrow> bool"
    and Q :: "writer \<Rightarrow> ('c, 'w, writer) prog \<Rightarrow> ('c, 'w, api_json response) prog \<Rightarrow> bool"
  assumes ok_headers: "ok wr \<Longrightarrow> ok (set_headers hs wr)"
    and error: "ok wr \<Longrightarrow> Q wr (ret (http_Error_to msg code wr)) (ret (http_Error msg code))"
    and no_content: "ok wr \<Longrightarrow> Q wr (ret (WriteHeader code (set_headers hs wr)))
      (ret \<lparr>Status = code, Header = hs, Content = NoContent\<rparr>)"
    and more_headers: "ok wr \<Longrightarrow> Q (set_headers hs wr) a b \<Longrightarrow>
      Q wr a (andThen b (\<lambda>resp. ret (resp\<lparr>Header := hs @ Header resp\<rparr>)))"
begin

lemma with_cors:
  assumes "related ok Q H h"
  shows "related ok Q (WithAnyCORS_to H) (WithAnyCORS h)"
proof (rule relatedI)
  fix r wr
  assume wr: "ok wr"
  have "WithAnyCORS_to H r wr =
    (if Method r = ''OPTIONS'' then ret (WriteHeader StatusNoContent (set_headers cors_headers wr))
     else H r (set_headers cors_headers wr))"
    by (simp add: WithAnyCORS_to_def cors_headers_def Let_def)
  with relatedD [OF assms ok_headers [OF wr]] show "Q wr (WithAnyCORS_to H r wr) (WithAnyCORS h r)"
    by (simp add: WithAnyCORS_def no_content [OF wr] more_headers [OF wr])
qed

lemma find_route_related:
  assumes "list_all2 (\<lambda>(me, ps, H) (me', ps', h).
     me = me' \<and> ps = ps' \<and> (\<forall>args. related ok Q (H args) (h args))) Rs rs" and "ok wr"
  shows "rel_option (\<lambda>act m. Q wr (act wr) m) (find_route Rs r) (find_route rs r)"
  using assms(1)
proof (induction rule: list_all2_induct)
  case (Cons R Rs q rs)
  obtain me ps H h where "R = (me, ps, H)" "q = (me, ps, h)" "\<And>args. related ok Q (H args) (h args)"
    using Cons.hyps(1) by (cases R; cases q) auto
  with Cons.IH relatedD [OF this(3) assms(2)] show ?case by (auto split: option.split)
qed simp

text \<open>A router is related to a route table when its handlers are, pattern by pattern.\<close>

lemma mux:
  assumes routes: "related_routes ok Q m rs"
  shows "related ok Q (mux_ServeHTTP m) (serve_mux rs)"
proof (rule relatedI)
  fix wr and r :: request
  assume wr: "ok wr"
  let ?P = "\<lambda>(me, ps, h). match_path ps (Path r) \<noteq> None"
  note all2 = routes [unfolded related_routes_def]
  have "list_all2 (\<lambda>x y. ?P x = ?P y) (mux_routes m) rs"
    by (rule list_all2_mono [OF all2]) auto
  then have paths: "(\<exists>x \<in> set (mux_routes m). ?P x) \<longleftrightarrow> (\<exists>y \<in> set rs. ?P y)"
    by (induction rule: list_all2_induct) auto
  from find_route_related [OF all2 wr, of r] show "Q wr (mux_ServeHTTP m r wr) (serve_mux rs r)"
    unfolding mux_ServeHTTP_def serve_mux_def paths
    by (cases rule: option.rel_cases) (auto simp: error [OF wr])
qed

end

text \<open>
  On an open connection a writing handler sends the response: the same calls are made, and what is left in the
  writer is that response.
\<close>

definition sends_response ::
  "time_marshaller \<Rightarrow> writer \<Rightarrow> ('c, 'w, writer) prog \<Rightarrow> ('c, 'w, api_json response) prog \<Rightarrow> bool" where
  "sends_response TM wr a b \<longleftrightarrow> a = andThen b (\<lambda>resp. ret (send TM resp wr))"

interpretation sending: levels open_writer "sends_response TM" for TM
proof
  show "sends_response TM wr (ret (http_Error_to msg code wr)) (ret (http_Error msg code))" if "open_writer wr" for wr msg code
    using that by (simp add: sends_response_def http_Error_sends [where TM = TM])
qed (simp_all add: sends_response_def send_more_headers andThen_assoc, simp add: send_def)

text \<open>
  On any connection, one whose client is gone, or on which something was sent already, a writing handler does
  what the other does: the same calls in the same order, the same world, the same panics.
\<close>

definition effect :: "('c, 'w, 'a) prog \<Rightarrow> ('c, 'w, unit) prog" where
  "effect m = andThen m (\<lambda>x. ret ())"

lemma effect_simps [simp]:
  "effect (ret x) = ret ()" "effect (andThen m (\<lambda>x. ret (f x))) = effect m"
  by (simp_all add: effect_def andThen_assoc)

definition same_effect :: "writer \<Rightarrow> ('c, 'w, writer) prog \<Rightarrow> ('c, 'w, api_json response) prog \<Rightarrow> bool" where
  "same_effect wr a b \<longleftrightarrow> effect a = effect b"

interpretation acting: levels "\<lambda>wr. True" same_effect
  by unfold_locales (simp_all add: same_effect_def)

text \<open>The contracts, as a client of a handler uses them.\<close>

locale serves_as =
  fixes TM :: time_marshaller
    and H :: "('c, 'w) whandler"
    and h :: "('c, 'w, api_json) handler"
  assumes serves: "related open_writer (sends_response TM) H h"
begin

lemma sends: "open_writer wr \<Longrightarrow> H r wr = andThen (h r) (\<lambda>resp. ret (send TM resp wr))"
  using relatedD [OF serves] by (simp add: sends_response_def)

end

locale acts_as =
  fixes H :: "('c, 'w) whandler" and h :: "('c, 'w, api_json) handler"
  assumes acts: "related (\<lambda>wr. True) same_effect H h"
begin

lemma effects: "effect (H r wr) = effect (h r)"
  using relatedD [OF acts] by (simp add: same_effect_def)

end

end
