(* ===== verification/Generated_Http.thy ===== *)
theory Generated_Http imports Http_Writer begin

text \<open>
  What the three \<open>routes.gen.go\<close> have in common, as oapi-codegen writes it: the options of the server,
  the wrapper that binds parameters and applies the middlewares, the strict handler that decodes the
  body, calls the server, and writes the response object. The types that the code erases to
  \<open>interface{}\<close> for its middlewares are the sums \<open>any_request\<close> and \<open>any_response\<close>. The lemmas relate
  each construct, with the options the nodes use, to its counterpart in \<open>Http\<close> and \<open>Owner_Routes\<close>.
\<close>

subsection \<open>The server\<close>

type_synonym ('c, 'w) MiddlewareFunc = "('c, 'w) whandler \<Rightarrow> ('c, 'w) whandler"
type_synonym ('c, 'w) error_handler = "writer \<Rightarrow> request \<Rightarrow> error \<Rightarrow> ('c, 'w, writer) prog"

definition error_handler :: "nat \<Rightarrow> ('c, 'w) error_handler" where
  "error_handler code wr r err = ret (http_Error_to (Error err) code wr)"

text \<open>\<open>for _, middleware := range ms { handler = middleware(handler) }\<close>: the last one is outermost.\<close>

definition with_middlewares :: "('c, 'w) MiddlewareFunc list \<Rightarrow> ('c, 'w) MiddlewareFunc" where
  "with_middlewares ms handler = foldl (\<lambda>handler middleware. middleware handler) handler ms"

text \<open>A wrapper for the server interface \<open>'i\<close> of a node, and the options it is made with.\<close>

record ('i, 'c, 'w) ServerInterfaceWrapper =
  Handler :: 'i
  HandlerMiddlewares :: "('c, 'w) MiddlewareFunc list"
  ErrorHandlerFunc :: "('c, 'w) error_handler"

record ('c, 'w) StdHTTPServerOptions =
  BaseURL :: string
  BaseRouter :: "('c, 'w) mux option"
  Middlewares :: "('c, 'w) MiddlewareFunc list"
  OptErrorHandlerFunc :: "('c, 'w) error_handler option"

definition zero_options :: "('c, 'w) StdHTTPServerOptions" where
  "zero_options = \<lparr>BaseURL = '''', BaseRouter = None, Middlewares = [], OptErrorHandlerFunc = None\<rparr>"

text \<open>The options \<open>HandlerFromMux\<close> makes.\<close>

definition mux_options :: "('c, 'w) mux \<Rightarrow> ('c, 'w) StdHTTPServerOptions" where
  "mux_options m = zero_options\<lparr>BaseRouter := Some m\<rparr>"

definition base_router :: "('c, 'w) StdHTTPServerOptions \<Rightarrow> ('c, 'w) mux" where
  "base_router options = (case BaseRouter options of None \<Rightarrow> [] | Some m \<Rightarrow> m)"

definition new_wrapper :: "'i \<Rightarrow> ('c, 'w) StdHTTPServerOptions \<Rightarrow> ('i, 'c, 'w) ServerInterfaceWrapper" where
  "new_wrapper si options =
     \<lparr>Handler = si, HandlerMiddlewares = Middlewares options,
      ErrorHandlerFunc =
        (case OptErrorHandlerFunc options of None \<Rightarrow> error_handler StatusBadRequest | Some f \<Rightarrow> f)\<rparr>"

text \<open>Binding a parameter: on an error the wrapper's error handler answers.\<close>

definition bind_path ::
  "oapi \<Rightarrow> ('i, 'c, 'w) ServerInterfaceWrapper \<Rightarrow> (string \<Rightarrow> ('c, 'w) whandler) \<Rightarrow> string list \<Rightarrow> ('c, 'w) whandler"
where
  "bind_path A siw k args r wr =
     (case bindPath A ''id'' (hd args) of
        Inl err \<Rightarrow> ErrorHandlerFunc siw wr r (InvalidParamFormatError ''id'' err)
      | Inr x \<Rightarrow> k x r wr)"

definition bind_query ::
  "oapi \<Rightarrow> ('i, 'c, 'w) ServerInterfaceWrapper \<Rightarrow> string \<Rightarrow> (string option \<Rightarrow> ('c, 'w) whandler) \<Rightarrow> ('c, 'w) whandler"
where
  "bind_query A siw name k r wr =
     (case bindQuery A name (Query r) of
        Inl err \<Rightarrow> ErrorHandlerFunc siw wr r (InvalidParamFormatError name err)
      | Inr x \<Rightarrow> k x r wr)"

lemma new_wrapper_simps [simp]:
  "Handler (new_wrapper si opts) = si"
  "HandlerMiddlewares (new_wrapper si (mux_options m)) = []"
  "ErrorHandlerFunc (new_wrapper si (mux_options m)) = error_handler StatusBadRequest"
  "BaseURL (mux_options m) = ''''" "base_router (mux_options m) = m" "with_middlewares [] H = H"
  by (simp_all add: new_wrapper_def mux_options_def zero_options_def base_router_def with_middlewares_def)

subsection \<open>Errors of parameters\<close>

text \<open>
  The error types the generator declares for parameters, with their texts and causes. The wrappers only
  make the one of a wrong format; no operation has cookies, header parameters or required queries.
\<close>

datatype param_error =
  UnescapedCookieParam string error
| UnmarshalingParam string error
| RequiredParam string
| RequiredHeader string error
| InvalidParamFormat string error
| TooManyValuesForParam string int

fun param_error_text :: "param_error \<Rightarrow> string" where
  "param_error_text (UnescapedCookieParam name err) =
     ''error unescaping cookie parameter '' @ [CHR 0x27] @ name @ [CHR 0x27]"
| "param_error_text (UnmarshalingParam name err) =
     ''Error unmarshaling parameter '' @ name @ '' as JSON: '' @ Error err"
| "param_error_text (RequiredParam name) = ''Query argument '' @ name @ '' is required, but not found''"
| "param_error_text (RequiredHeader name err) = ''Header parameter '' @ name @ '' is required, but not found''"
| "param_error_text (InvalidParamFormat name err) = ''Invalid format for parameter '' @ name @ '': '' @ Error err"
| "param_error_text (TooManyValuesForParam name n) =
     ''Expected one value for '' @ name @ '', got '' @ Itoa n"

fun param_error_Unwrap :: "param_error \<Rightarrow> error option" where
  "param_error_Unwrap (UnescapedCookieParam name err) = Some err"
| "param_error_Unwrap (UnmarshalingParam name err) = Some err"
| "param_error_Unwrap (RequiredHeader name err) = Some err"
| "param_error_Unwrap (InvalidParamFormat name err) = Some err"
| "param_error_Unwrap e = None"

text \<open>The error of the wrappers is that of the error type: same text, same chain of causes.\<close>

lemma InvalidParamFormat_is_error:
  "Error (InvalidParamFormatError name err) = param_error_text (InvalidParamFormat name err)"
  "is_error cause (InvalidParamFormatError name err) \<longleftrightarrow>
     cause = InvalidParamFormatError name err \<or> (\<exists>e. param_error_Unwrap (InvalidParamFormat name err) = Some e \<and> is_error cause e)"
  by (simp_all add: InvalidParamFormatError_def)

subsection \<open>The strict handler\<close>

datatype any_request =
  HealthzRequestObject
| ReadyzRequestObject
| InitRequestObject
| IssueRequestObject "issue_request option"
| OwnerAccountsRequestObject
| OwnerAccountRequestObject string account_params
| OwnerTransactionsRequestObject string
| ClaimRequestObject string "claim_request option"
| LockRequestObject string "lock_request option"
| ReclaimRequestObject string "reclaim_request option"
| RedeemRequestObject string "redeem_request option"
| TransferRequestObject string "transfer_request option"

datatype any_response =
  AnyHealthz healthz_response
| AnyReadyz readyz_response
| AnyInit init_response
| AnyIssue issue_response
| AnyOwnerAccounts owner_accounts_response
| AnyOwnerAccount owner_account_response
| AnyOwnerTransactions owner_transactions_response
| AnyClaim claim_response
| AnyLock lock_response
| AnyReclaim reclaim_response
| AnyRedeem redeem_response
| AnyTransfer transfer_response
| OtherType string

text \<open>
  A strict handler function takes a request object and returns a response object, \<open>None\<close> for
  \<open>nil\<close>, or an error; it may write on its own. A middleware is given the name of the operation.
\<close>

type_synonym ('c, 'w) StrictHandlerFunc =
  "request \<Rightarrow> writer \<Rightarrow> any_request \<Rightarrow> ('c, 'w, (error + any_response option) \<times> writer) prog"
type_synonym ('c, 'w) StrictMiddlewareFunc =
  "('c, 'w) StrictHandlerFunc \<Rightarrow> string \<Rightarrow> ('c, 'w) StrictHandlerFunc"

record ('c, 'w) StrictHTTPServerOptions =
  RequestErrorHandlerFunc :: "('c, 'w) error_handler"
  ResponseErrorHandlerFunc :: "('c, 'w) error_handler"

record ('s, 'c, 'w) strictHandler =
  ssi :: 's
  middlewares :: "('c, 'w) StrictMiddlewareFunc list"
  options :: "('c, 'w) StrictHTTPServerOptions"

definition NewStrictHandler ::
  "'s \<Rightarrow> ('c, 'w) StrictMiddlewareFunc list \<Rightarrow> ('s, 'c, 'w) strictHandler" where
  "NewStrictHandler s ms =
     \<lparr>ssi = s, middlewares = ms,
      options = \<lparr>RequestErrorHandlerFunc = error_handler StatusBadRequest,
                 ResponseErrorHandlerFunc = error_handler StatusInternalServerError\<rparr>\<rparr>"

definition NewStrictHandlerWithOptions ::
  "'s \<Rightarrow> ('c, 'w) StrictMiddlewareFunc list \<Rightarrow> ('c, 'w) StrictHTTPServerOptions \<Rightarrow> ('s, 'c, 'w) strictHandler"
where
  "NewStrictHandlerWithOptions s ms opts = \<lparr>ssi = s, middlewares = ms, options = opts\<rparr>"

text \<open>
  The closure around the server's method: the request object is asserted to have the operation's
  type (\<open>sel\<close>), which panics when it has not, and the result is erased again (\<open>any\<close>).
\<close>

definition call_server ::
  "(any_request \<Rightarrow> 'a option) \<Rightarrow> ('y \<Rightarrow> any_response) \<Rightarrow> ('a \<Rightarrow> ('c, 'w, 'y option) prog) \<Rightarrow> ('c, 'w) StrictHandlerFunc"
where
  "call_server sel any f r wr request =
     (case sel request of
        None \<Rightarrow> panic ''interface conversion''
      | Some a \<Rightarrow>
          andThen (attempt (f a)) (\<lambda>res.
          ret (case res of Inl err \<Rightarrow> (Inl err, wr) | Inr y \<Rightarrow> (Inr (map_option any y), wr))))"

text \<open>
  The rest of every operation: the middlewares, then the error, the response object when it has the
  operation's \<open>Visit\<close> method (\<open>as\<close>), or the complaint about another type. An error of the \<open>Visit\<close>
  method is reported to the same handler, after the status has been written.
\<close>

fun type_name :: "any_response \<Rightarrow> string" where
  "type_name (OtherType t) = t"
| "type_name x = ''routes response''"

definition respond ::
  "('s, 'c, 'w) strictHandler \<Rightarrow> string \<Rightarrow> (any_response \<Rightarrow> 'y option) \<Rightarrow>
   ('y \<Rightarrow> writer \<Rightarrow> error option \<times> writer) \<Rightarrow> ('c, 'w) StrictHandlerFunc \<Rightarrow> any_request \<Rightarrow> ('c, 'w) whandler"
where
  "respond sh name as visitor f request r wr =
     (let handler = foldl (\<lambda>handler middleware. middleware handler name) f (middlewares sh) in
      andThen (handler r wr request) (\<lambda>(response, wr).
      case response of
        Inl err \<Rightarrow> ResponseErrorHandlerFunc (options sh) wr r err
      | Inr None \<Rightarrow> ret wr
      | Inr (Some x) \<Rightarrow>
          (case as x of
             Some validResponse \<Rightarrow>
               (case visitor validResponse wr of
                  (None, wr) \<Rightarrow> ret wr
                | (Some err, wr) \<Rightarrow> ResponseErrorHandlerFunc (options sh) wr r err)
           | None \<Rightarrow>
               ResponseErrorHandlerFunc (options sh) wr r
                 (New (''unexpected response type: '' @ type_name x)))))"

definition decode_body ::
  "('s, 'c, 'w) strictHandler \<Rightarrow> 'q decoder \<Rightarrow> 'q \<Rightarrow> ('q option \<Rightarrow> ('c, 'w) whandler) \<Rightarrow> ('c, 'w) whandler"
where
  "decode_body sh dec zero k r wr =
     (case (case RequestBody r of Inl err \<Rightarrow> Inl err | Inr j \<Rightarrow> dec j zero) of
        Inl err \<Rightarrow>
          RequestErrorHandlerFunc (options sh) wr r (Wrap ''can't decode JSON body'' err)
      | Inr body \<Rightarrow> k (Some body) r wr)"

subsection \<open>Response objects of the servers\<close>

text \<open>
  The servers of \<open>Owner_Routes\<close>, \<open>Issuer_Api\<close> and \<open>Endorser_Service\<close> answer with a status and a body;
  here is the response object that stands for, if any. The selectors are the type assertions.
\<close>

fun healthz_object :: "nat \<times> api_json \<Rightarrow> healthz_response option" where
  "healthz_object (code, HealthSuccess m) = (if code = 200 then Some (Healthz200JSONResponse m) else None)"
| "healthz_object (code, ErrorBody m p) = (if code = 503 then Some (Healthz503JSONResponse m p) else None)"
| "healthz_object (code, b) = None"

fun readyz_object :: "nat \<times> api_json \<Rightarrow> readyz_response option" where
  "readyz_object (code, HealthSuccess m) = (if code = 200 then Some (Readyz200JSONResponse m) else None)"
| "readyz_object (code, ErrorBody m p) = (if code = 503 then Some (Readyz503JSONResponse m p) else None)"
| "readyz_object (code, b) = None"

fun init_object :: "nat \<times> api_json \<Rightarrow> init_response option" where
  "init_object (code, HealthSuccess m) = (if code = 200 then Some (Init200JSONResponse m) else None)"
| "init_object (code, ErrorBody m p) = Some (InitdefaultJSONResponse m p code)"
| "init_object (code, b) = None"

fun issue_object :: "nat \<times> api_json \<Rightarrow> issue_response option" where
  "issue_object (code, IssueSuccess m i) = (if code = 200 then Some (Issue200JSONResponse m i) else None)"
| "issue_object (code, ErrorBody m p) = Some (IssuedefaultJSONResponse m p code)"
| "issue_object (code, b) = None"

fun owner_accounts_object :: "nat \<times> api_json \<Rightarrow> owner_accounts_response option" where
  "owner_accounts_object (code, AccountsSuccess m as) =
     (if code = 200 then Some (OwnerAccounts200JSONResponse m as) else None)"
| "owner_accounts_object (code, ErrorBody m p) = Some (OwnerAccountsdefaultJSONResponse m p code)"
| "owner_accounts_object (code, b) = None"

fun owner_account_object :: "nat \<times> api_json \<Rightarrow> owner_account_response option" where
  "owner_account_object (code, AccountSuccess m a) =
     (if code = 200 then Some (OwnerAccount200JSONResponse m a) else None)"
| "owner_account_object (code, ErrorBody m p) = Some (OwnerAccountdefaultJSONResponse m p code)"
| "owner_account_object (code, b) = None"

fun owner_transactions_object :: "nat \<times> api_json \<Rightarrow> owner_transactions_response option" where
  "owner_transactions_object (code, TransactionsSuccess m ts) =
     (if code = 200 then Some (OwnerTransactions200JSONResponse m ts) else None)"
| "owner_transactions_object (code, ErrorBody m p) = Some (OwnerTransactionsdefaultJSONResponse m p code)"
| "owner_transactions_object (code, b) = None"

fun claim_object :: "nat \<times> api_json \<Rightarrow> claim_response option" where
  "claim_object (code, ClaimSuccess m i) = (if code = 200 then Some (Claim200JSONResponse m i) else None)"
| "claim_object (code, ErrorBody m p) = Some (ClaimdefaultJSONResponse m p code)"
| "claim_object (code, b) = None"

fun lock_object :: "nat \<times> api_json \<Rightarrow> lock_response option" where
  "lock_object (code, LockSuccess m l) = (if code = 200 then Some (Lock200JSONResponse m l) else None)"
| "lock_object (code, ErrorBody m p) = Some (LockdefaultJSONResponse m p code)"
| "lock_object (code, b) = None"

fun reclaim_object :: "nat \<times> api_json \<Rightarrow> reclaim_response option" where
  "reclaim_object (code, ReclaimSuccess m i) = (if code = 200 then Some (Reclaim200JSONResponse m i) else None)"
| "reclaim_object (code, ErrorBody m p) = Some (ReclaimdefaultJSONResponse m p code)"
| "reclaim_object (code, b) = None"

fun redeem_object :: "nat \<times> api_json \<Rightarrow> redeem_response option" where
  "redeem_object (code, RedeemSuccess m i) = (if code = 200 then Some (Redeem200JSONResponse m i) else None)"
| "redeem_object (code, ErrorBody m p) = Some (RedeemdefaultJSONResponse m p code)"
| "redeem_object (code, b) = None"

fun transfer_object :: "nat \<times> api_json \<Rightarrow> transfer_response option" where
  "transfer_object (code, TransferSuccess m i) = (if code = 200 then Some (Transfer200JSONResponse m i) else None)"
| "transfer_object (code, ErrorBody m p) = Some (TransferdefaultJSONResponse m p code)"
| "transfer_object (code, b) = None"

lemma objects_visited:
  "VisitHealthzResponse y1 = json_response code b \<Longrightarrow> healthz_object (code, b) = Some y1"
  "VisitReadyzResponse y2 = json_response code b \<Longrightarrow> readyz_object (code, b) = Some y2"
  "VisitInitResponse y3 = json_response code b \<Longrightarrow> init_object (code, b) = Some y3"
  "VisitIssueResponse y4 = json_response code b \<Longrightarrow> issue_object (code, b) = Some y4"
  "VisitOwnerAccountsResponse y5 = json_response code b \<Longrightarrow> owner_accounts_object (code, b) = Some y5"
  "VisitOwnerAccountResponse y6 = json_response code b \<Longrightarrow> owner_account_object (code, b) = Some y6"
  "VisitOwnerTransactionsResponse y7 = json_response code b \<Longrightarrow> owner_transactions_object (code, b) = Some y7"
  "VisitClaimResponse y8 = json_response code b \<Longrightarrow> claim_object (code, b) = Some y8"
  "VisitLockResponse y9 = json_response code b \<Longrightarrow> lock_object (code, b) = Some y9"
  "VisitReclaimResponse z1 = json_response code b \<Longrightarrow> reclaim_object (code, b) = Some z1"
  "VisitRedeemResponse z2 = json_response code b \<Longrightarrow> redeem_object (code, b) = Some z2"
  "VisitTransferResponse z3 = json_response code b \<Longrightarrow> transfer_object (code, b) = Some z3"
  by (auto simp: json_response_def elim!: VisitHealthzResponse.elims VisitReadyzResponse.elims VisitInitResponse.elims
      VisitIssueResponse.elims VisitOwnerAccountsResponse.elims VisitOwnerAccountResponse.elims
      VisitOwnerTransactionsResponse.elims VisitClaimResponse.elims VisitLockResponse.elims
      VisitReclaimResponse.elims VisitRedeemResponse.elims VisitTransferResponse.elims)

fun as_Healthz :: "any_response \<Rightarrow> healthz_response option" where
  "as_Healthz (AnyHealthz y) = Some y" | "as_Healthz x = None"
fun as_Readyz :: "any_response \<Rightarrow> readyz_response option" where
  "as_Readyz (AnyReadyz y) = Some y" | "as_Readyz x = None"
fun as_Init :: "any_response \<Rightarrow> init_response option" where
  "as_Init (AnyInit y) = Some y" | "as_Init x = None"
fun as_Issue :: "any_response \<Rightarrow> issue_response option" where
  "as_Issue (AnyIssue y) = Some y" | "as_Issue x = None"
fun as_OwnerAccounts :: "any_response \<Rightarrow> owner_accounts_response option" where
  "as_OwnerAccounts (AnyOwnerAccounts y) = Some y" | "as_OwnerAccounts x = None"
fun as_OwnerAccount :: "any_response \<Rightarrow> owner_account_response option" where
  "as_OwnerAccount (AnyOwnerAccount y) = Some y" | "as_OwnerAccount x = None"
fun as_OwnerTransactions :: "any_response \<Rightarrow> owner_transactions_response option" where
  "as_OwnerTransactions (AnyOwnerTransactions y) = Some y" | "as_OwnerTransactions x = None"
fun as_Claim :: "any_response \<Rightarrow> claim_response option" where
  "as_Claim (AnyClaim y) = Some y" | "as_Claim x = None"
fun as_Lock :: "any_response \<Rightarrow> lock_response option" where
  "as_Lock (AnyLock y) = Some y" | "as_Lock x = None"
fun as_Reclaim :: "any_response \<Rightarrow> reclaim_response option" where
  "as_Reclaim (AnyReclaim y) = Some y" | "as_Reclaim x = None"
fun as_Redeem :: "any_response \<Rightarrow> redeem_response option" where
  "as_Redeem (AnyRedeem y) = Some y" | "as_Redeem x = None"
fun as_Transfer :: "any_response \<Rightarrow> transfer_response option" where
  "as_Transfer (AnyTransfer y) = Some y" | "as_Transfer x = None"

subsection \<open>With the options of the nodes\<close>

context levels
begin

lemma decode_body:
  assumes "\<And>body. related ok Q (k (Some body)) (\<lambda>r. strict_respond (m body))"
  shows "related ok Q (decode_body (NewStrictHandler s []) dec zero k) (strict_body dec zero m)"
  using assms
  by (auto simp: related_def decode_body_def strict_body_def NewStrictHandler_def error_handler_def error split: sum.split)

lemma bind_path:
  assumes "\<And>x. related ok Q (k x) (h x)"
  shows "related ok Q (bind_path A (new_wrapper si (mux_options m)) k args) (with_id A h args)"
  using assms by (auto simp: related_def bind_path_def with_id_def error_handler_def error split: sum.split)

lemma bind_query:
  assumes "\<And>x. related ok Q (k x) (h x)"
  shows "related ok Q (bind_query A (new_wrapper si (mux_options m)) name k) (with_query A name h)"
  using assms by (auto simp: related_def bind_query_def with_query_def error_handler_def error split: sum.split)

end

text \<open>
  The rest of an operation, in the two relations. On an open connection the
  response object is the one the server means, so nothing is lost; the effects are the server's whatever the
  object, the encoder and the connection do.
\<close>

lemma respond_sends:
  assumes f: "sel q = Some a" "f a = andThen m (\<lambda>cb. ret (obj cb))"
    and as: "\<And>y. as (any y) = Some y"
    and obj: "\<And>y code b. vis y = json_response code b \<Longrightarrow> obj (code, b) = Some y"
    and typed: "\<And>w code b es w'. m w = (Ok (code, b), es, w') \<Longrightarrow> json_response code b \<in> range vis"
  shows "related open_writer (sends_response TM)
    (respond (NewStrictHandler s []) name as (\<lambda>y. visit TM (vis y)) (call_server sel any f) q)
    (\<lambda>r. strict_respond m)"
proof (rule relatedI)
  fix wr and r :: request
  assume wr: "open_writer wr"
  let ?H = "respond (NewStrictHandler s []) name as (\<lambda>y. visit TM (vis y)) (call_server sel any f) q r wr"
  have "?H w = andThen (strict_respond m) (\<lambda>resp. ret (send TM resp wr)) w" for w
  proof (cases "m w")
    case (fields res es w')
    show ?thesis
    proof (cases res)
      case (Ok cb)
      obtain code b where cb: "cb = (code, b)" by (cases cb)
      from typed [of w code b es w'] fields Ok cb obtain y where y: "vis y = json_response code b" by auto
      from obj [OF y] y fields Ok cb show ?thesis
        by (simp add: respond_def call_server_def NewStrictHandler_def f as strict_respond_def Let_def
            andThen_def attempt_def onError_def ret_def error_handler_def visit_sends [OF wr, symmetric] split: prod.split option.split)
    qed (simp_all add: fields respond_def call_server_def NewStrictHandler_def f strict_respond_def Let_def
          andThen_def attempt_def onError_def ret_def error_handler_def http_Error_sends [OF wr, where TM = TM])
  qed
  then show "sends_response TM wr ?H (strict_respond m)" unfolding sends_response_def ..
qed

lemma respond_acts:
  assumes f: "sel q = Some a" "f a = andThen m (\<lambda>cb. ret (obj cb))"
  shows "related (\<lambda>wr. True) same_effect
    (respond (NewStrictHandler s []) name as visitor (call_server sel any f) q) (\<lambda>r. strict_respond m)"
proof (rule relatedI)
  fix wr and r :: request
  let ?H = "respond (NewStrictHandler s []) name as visitor (call_server sel any f) q r wr"
  have "effect ?H w = effect (strict_respond m) w" for w
  proof (cases "m w")
    case (fields res es w')
    then show ?thesis
      by (cases res)
        (auto simp: effect_def respond_def call_server_def NewStrictHandler_def f strict_respond_def Let_def andThen_def
          attempt_def onError_def ret_def error_handler_def split: option.split prod.split)
  qed
  then show "same_effect wr ?H (strict_respond m)" unfolding same_effect_def ..
qed

lemma typed_object:
  "typed opn m \<Longrightarrow> m w = (Ok (code, b), es, w') \<Longrightarrow> response_objects opn = range vis \<Longrightarrow>
   json_response code b \<in> range vis"
  by (auto dest: typedD simp: typed_answer_def)

end
