(* ===== verification/Owner_Generated.thy ===== *)
theory Owner_Generated imports Generated_Http begin

text \<open>
  \<open>tokens/owner/routes/routes.gen.go\<close>, construct by construct, and the handler \<open>tokens/owner/main.go\<close>
  builds from it, which serves the API of \<open>Owner_Routes\<close>. The \<open>Visit\<close> methods are those of
  \<open>Api_Responses\<close>; \<open>A\<close> is the library that binds parameters.
\<close>

record ('c, 'w) owner_ServerInterface =
  OHealthz :: "('c, 'w) whandler"
  OOwnerAccounts :: "('c, 'w) whandler"
  OOwnerAccount :: "string \<Rightarrow> account_params \<Rightarrow> ('c, 'w) whandler"
  OClaim :: "string \<Rightarrow> ('c, 'w) whandler"
  OLock :: "string \<Rightarrow> ('c, 'w) whandler"
  OReclaim :: "string \<Rightarrow> ('c, 'w) whandler"
  ORedeem :: "string \<Rightarrow> ('c, 'w) whandler"
  OOwnerTransactions :: "string \<Rightarrow> ('c, 'w) whandler"
  OTransfer :: "string \<Rightarrow> ('c, 'w) whandler"
  OReadyz :: "('c, 'w) whandler"

type_synonym ('c, 'w) owner_ServerInterfaceWrapper =
  "(('c, 'w) owner_ServerInterface, 'c, 'w) ServerInterfaceWrapper"

definition owner_siw_Healthz ::
  "('c, 'w) owner_ServerInterfaceWrapper \<Rightarrow> string list \<Rightarrow> ('c, 'w) whandler" where
  "owner_siw_Healthz siw args = with_middlewares (HandlerMiddlewares siw) (OHealthz (Handler siw))"

definition owner_siw_OwnerAccounts ::
  "('c, 'w) owner_ServerInterfaceWrapper \<Rightarrow> string list \<Rightarrow> ('c, 'w) whandler" where
  "owner_siw_OwnerAccounts siw args = with_middlewares (HandlerMiddlewares siw) (OOwnerAccounts (Handler siw))"

definition owner_siw_OwnerAccount ::
  "oapi \<Rightarrow> ('c, 'w) owner_ServerInterfaceWrapper \<Rightarrow> string list \<Rightarrow> ('c, 'w) whandler" where
  "owner_siw_OwnerAccount A siw =
     bind_path A siw (\<lambda>acc.
     bind_query A siw ''code'' (\<lambda>code.
     bind_query A siw ''network'' (\<lambda>network.
     bind_query A siw ''channel'' (\<lambda>channel.
     bind_query A siw ''namespace'' (\<lambda>namespace.
     with_middlewares (HandlerMiddlewares siw)
       (OOwnerAccount (Handler siw) acc
          \<lparr>PCode = code, PNetwork = network, PChannel = channel, PNamespace = namespace\<rparr>))))))"

definition owner_siw_Claim ::
  "oapi \<Rightarrow> ('c, 'w) owner_ServerInterfaceWrapper \<Rightarrow> string list \<Rightarrow> ('c, 'w) whandler" where
  "owner_siw_Claim A siw =
     bind_path A siw (\<lambda>acc. with_middlewares (HandlerMiddlewares siw) (OClaim (Handler siw) acc))"

definition owner_siw_Lock ::
  "oapi \<Rightarrow> ('c, 'w) owner_ServerInterfaceWrapper \<Rightarrow> string list \<Rightarrow> ('c, 'w) whandler" where
  "owner_siw_Lock A siw =
     bind_path A siw (\<lambda>acc. with_middlewares (HandlerMiddlewares siw) (OLock (Handler siw) acc))"

definition owner_siw_Reclaim ::
  "oapi \<Rightarrow> ('c, 'w) owner_ServerInterfaceWrapper \<Rightarrow> string list \<Rightarrow> ('c, 'w) whandler" where
  "owner_siw_Reclaim A siw =
     bind_path A siw (\<lambda>acc. with_middlewares (HandlerMiddlewares siw) (OReclaim (Handler siw) acc))"

definition owner_siw_Redeem ::
  "oapi \<Rightarrow> ('c, 'w) owner_ServerInterfaceWrapper \<Rightarrow> string list \<Rightarrow> ('c, 'w) whandler" where
  "owner_siw_Redeem A siw =
     bind_path A siw (\<lambda>acc. with_middlewares (HandlerMiddlewares siw) (ORedeem (Handler siw) acc))"

definition owner_siw_OwnerTransactions ::
  "oapi \<Rightarrow> ('c, 'w) owner_ServerInterfaceWrapper \<Rightarrow> string list \<Rightarrow> ('c, 'w) whandler" where
  "owner_siw_OwnerTransactions A siw =
     bind_path A siw (\<lambda>acc. with_middlewares (HandlerMiddlewares siw) (OOwnerTransactions (Handler siw) acc))"

definition owner_siw_Transfer ::
  "oapi \<Rightarrow> ('c, 'w) owner_ServerInterfaceWrapper \<Rightarrow> string list \<Rightarrow> ('c, 'w) whandler" where
  "owner_siw_Transfer A siw =
     bind_path A siw (\<lambda>acc. with_middlewares (HandlerMiddlewares siw) (OTransfer (Handler siw) acc))"

definition owner_siw_Readyz ::
  "('c, 'w) owner_ServerInterfaceWrapper \<Rightarrow> string list \<Rightarrow> ('c, 'w) whandler" where
  "owner_siw_Readyz siw args = with_middlewares (HandlerMiddlewares siw) (OReadyz (Handler siw))"

definition owner_HandlerWithOptions ::
  "oapi \<Rightarrow> ('c, 'w) owner_ServerInterface \<Rightarrow> ('c, 'w) StdHTTPServerOptions \<Rightarrow> ('c, 'w) mux" where
  "owner_HandlerWithOptions A si opts =
     (let m = base_router opts;
          wrapper = new_wrapper si opts;
          m = HandleFunc (''GET '' @ BaseURL opts @ ''/healthz'') (owner_siw_Healthz wrapper) m;
          m = HandleFunc (''GET '' @ BaseURL opts @ ''/owner/accounts'') (owner_siw_OwnerAccounts wrapper) m;
          m = HandleFunc (''GET '' @ BaseURL opts @ ''/owner/accounts/{id}'') (owner_siw_OwnerAccount A wrapper) m;
          m = HandleFunc (''POST '' @ BaseURL opts @ ''/owner/accounts/{id}/claim'') (owner_siw_Claim A wrapper) m;
          m = HandleFunc (''POST '' @ BaseURL opts @ ''/owner/accounts/{id}/lock'') (owner_siw_Lock A wrapper) m;
          m = HandleFunc (''POST '' @ BaseURL opts @ ''/owner/accounts/{id}/reclaim'') (owner_siw_Reclaim A wrapper) m;
          m = HandleFunc (''POST '' @ BaseURL opts @ ''/owner/accounts/{id}/redeem'') (owner_siw_Redeem A wrapper) m;
          m = HandleFunc (''GET '' @ BaseURL opts @ ''/owner/accounts/{id}/transactions'') (owner_siw_OwnerTransactions A wrapper) m;
          m = HandleFunc (''POST '' @ BaseURL opts @ ''/owner/accounts/{id}/transfer'') (owner_siw_Transfer A wrapper) m;
          m = HandleFunc (''GET '' @ BaseURL opts @ ''/readyz'') (owner_siw_Readyz wrapper) m
      in m)"

definition owner_Handler :: "oapi \<Rightarrow> ('c, 'w) owner_ServerInterface \<Rightarrow> ('c, 'w) mux" where
  "owner_Handler A si = owner_HandlerWithOptions A si zero_options"

definition owner_HandlerFromMux ::
  "oapi \<Rightarrow> ('c, 'w) owner_ServerInterface \<Rightarrow> ('c, 'w) mux \<Rightarrow> ('c, 'w) mux" where
  "owner_HandlerFromMux A si m = owner_HandlerWithOptions A si (mux_options m)"

definition owner_HandlerFromMuxWithBaseURL ::
  "oapi \<Rightarrow> ('c, 'w) owner_ServerInterface \<Rightarrow> ('c, 'w) mux \<Rightarrow> string \<Rightarrow> ('c, 'w) mux" where
  "owner_HandlerFromMuxWithBaseURL A si m baseURL =
     owner_HandlerWithOptions A si (zero_options\<lparr>BaseURL := baseURL, BaseRouter := Some m\<rparr>)"

text \<open>The methods of a server take the fields of their request object.\<close>

record ('c, 'w) owner_StrictServerInterface =
  SOwnerHealthz :: "unit \<Rightarrow> ('c, 'w, healthz_response option) prog"
  SOwnerAccounts :: "unit \<Rightarrow> ('c, 'w, owner_accounts_response option) prog"
  SOwnerAccount :: "string \<times> account_params \<Rightarrow> ('c, 'w, owner_account_response option) prog"
  SClaim :: "string \<times> claim_request option \<Rightarrow> ('c, 'w, claim_response option) prog"
  SLock :: "string \<times> lock_request option \<Rightarrow> ('c, 'w, lock_response option) prog"
  SReclaim :: "string \<times> reclaim_request option \<Rightarrow> ('c, 'w, reclaim_response option) prog"
  SRedeem :: "string \<times> redeem_request option \<Rightarrow> ('c, 'w, redeem_response option) prog"
  SOwnerTransactions :: "string \<Rightarrow> ('c, 'w, owner_transactions_response option) prog"
  STransfer :: "string \<times> transfer_request option \<Rightarrow> ('c, 'w, transfer_response option) prog"
  SOwnerReadyz :: "unit \<Rightarrow> ('c, 'w, readyz_response option) prog"

type_synonym ('c, 'w) owner_strictHandler = "(('c, 'w) owner_StrictServerInterface, 'c, 'w) strictHandler"

definition owner_sh_Healthz :: "time_marshaller \<Rightarrow> ('c, 'w) owner_strictHandler \<Rightarrow> ('c, 'w) whandler" where
  "owner_sh_Healthz TM sh =
     respond sh ''Healthz'' as_Healthz (\<lambda>y. visit TM (VisitHealthzResponse y))
       (call_server (\<lambda>q. case q of HealthzRequestObject \<Rightarrow> Some () | _ \<Rightarrow> None) AnyHealthz (SOwnerHealthz (ssi sh)))
       HealthzRequestObject"

definition owner_sh_OwnerAccounts :: "time_marshaller \<Rightarrow> ('c, 'w) owner_strictHandler \<Rightarrow> ('c, 'w) whandler" where
  "owner_sh_OwnerAccounts TM sh =
     respond sh ''OwnerAccounts'' as_OwnerAccounts (\<lambda>y. visit TM (VisitOwnerAccountsResponse y))
       (call_server (\<lambda>q. case q of OwnerAccountsRequestObject \<Rightarrow> Some () | _ \<Rightarrow> None) AnyOwnerAccounts (SOwnerAccounts (ssi sh)))
       OwnerAccountsRequestObject"

definition owner_sh_OwnerAccount ::
  "time_marshaller \<Rightarrow> ('c, 'w) owner_strictHandler \<Rightarrow> string \<Rightarrow> account_params \<Rightarrow> ('c, 'w) whandler" where
  "owner_sh_OwnerAccount TM sh acc params =
     respond sh ''OwnerAccount'' as_OwnerAccount (\<lambda>y. visit TM (VisitOwnerAccountResponse y))
       (call_server (\<lambda>q. case q of OwnerAccountRequestObject i ps \<Rightarrow> Some (i, ps) | _ \<Rightarrow> None) AnyOwnerAccount (SOwnerAccount (ssi sh)))
       (OwnerAccountRequestObject acc params)"

definition owner_sh_Claim ::
  "time_marshaller \<Rightarrow> ('c, 'w) owner_strictHandler \<Rightarrow> string \<Rightarrow> ('c, 'w) whandler" where
  "owner_sh_Claim TM sh acc =
     decode_body sh decode_ClaimRequest zero_claim_request (\<lambda>body.
     respond sh ''Claim'' as_Claim (\<lambda>y. visit TM (VisitClaimResponse y))
       (call_server (\<lambda>q. case q of ClaimRequestObject i b \<Rightarrow> Some (i, b) | _ \<Rightarrow> None) AnyClaim (SClaim (ssi sh)))
       (ClaimRequestObject acc body))"

definition owner_sh_Lock ::
  "time_marshaller \<Rightarrow> ('c, 'w) owner_strictHandler \<Rightarrow> string \<Rightarrow> ('c, 'w) whandler" where
  "owner_sh_Lock TM sh acc =
     decode_body sh decode_LockRequest zero_lock_request (\<lambda>body.
     respond sh ''Lock'' as_Lock (\<lambda>y. visit TM (VisitLockResponse y))
       (call_server (\<lambda>q. case q of LockRequestObject i b \<Rightarrow> Some (i, b) | _ \<Rightarrow> None) AnyLock (SLock (ssi sh)))
       (LockRequestObject acc body))"

definition owner_sh_Reclaim ::
  "time_marshaller \<Rightarrow> ('c, 'w) owner_strictHandler \<Rightarrow> string \<Rightarrow> ('c, 'w) whandler" where
  "owner_sh_Reclaim TM sh acc =
     decode_body sh decode_ReclaimRequest zero_reclaim_request (\<lambda>body.
     respond sh ''Reclaim'' as_Reclaim (\<lambda>y. visit TM (VisitReclaimResponse y))
       (call_server (\<lambda>q. case q of ReclaimRequestObject i b \<Rightarrow> Some (i, b) | _ \<Rightarrow> None) AnyReclaim (SReclaim (ssi sh)))
       (ReclaimRequestObject acc body))"

definition owner_sh_Redeem ::
  "time_marshaller \<Rightarrow> ('c, 'w) owner_strictHandler \<Rightarrow> string \<Rightarrow> ('c, 'w) whandler" where
  "owner_sh_Redeem TM sh acc =
     decode_body sh decode_RedeemRequest zero_redeem_request (\<lambda>body.
     respond sh ''Redeem'' as_Redeem (\<lambda>y. visit TM (VisitRedeemResponse y))
       (call_server (\<lambda>q. case q of RedeemRequestObject i b \<Rightarrow> Some (i, b) | _ \<Rightarrow> None) AnyRedeem (SRedeem (ssi sh)))
       (RedeemRequestObject acc body))"

definition owner_sh_OwnerTransactions ::
  "time_marshaller \<Rightarrow> ('c, 'w) owner_strictHandler \<Rightarrow> string \<Rightarrow> ('c, 'w) whandler" where
  "owner_sh_OwnerTransactions TM sh acc =
     respond sh ''OwnerTransactions'' as_OwnerTransactions (\<lambda>y. visit TM (VisitOwnerTransactionsResponse y))
       (call_server (\<lambda>q. case q of OwnerTransactionsRequestObject i \<Rightarrow> Some i | _ \<Rightarrow> None) AnyOwnerTransactions (SOwnerTransactions (ssi sh)))
       (OwnerTransactionsRequestObject acc)"

definition owner_sh_Transfer ::
  "time_marshaller \<Rightarrow> ('c, 'w) owner_strictHandler \<Rightarrow> string \<Rightarrow> ('c, 'w) whandler" where
  "owner_sh_Transfer TM sh acc =
     decode_body sh decode_TransferRequest zero_transfer_request (\<lambda>body.
     respond sh ''Transfer'' as_Transfer (\<lambda>y. visit TM (VisitTransferResponse y))
       (call_server (\<lambda>q. case q of TransferRequestObject i b \<Rightarrow> Some (i, b) | _ \<Rightarrow> None) AnyTransfer (STransfer (ssi sh)))
       (TransferRequestObject acc body))"

definition owner_sh_Readyz :: "time_marshaller \<Rightarrow> ('c, 'w) owner_strictHandler \<Rightarrow> ('c, 'w) whandler" where
  "owner_sh_Readyz TM sh =
     respond sh ''Readyz'' as_Readyz (\<lambda>y. visit TM (VisitReadyzResponse y))
       (call_server (\<lambda>q. case q of ReadyzRequestObject \<Rightarrow> Some () | _ \<Rightarrow> None) AnyReadyz (SOwnerReadyz (ssi sh)))
       ReadyzRequestObject"

text \<open>A strict handler is a server interface.\<close>

definition owner_interface ::
  "time_marshaller \<Rightarrow> ('c, 'w) owner_strictHandler \<Rightarrow> ('c, 'w) owner_ServerInterface" where
  "owner_interface TM sh =
     \<lparr>OHealthz = owner_sh_Healthz TM sh,
      OOwnerAccounts = owner_sh_OwnerAccounts TM sh,
      OOwnerAccount = owner_sh_OwnerAccount TM sh,
      OClaim = owner_sh_Claim TM sh,
      OLock = owner_sh_Lock TM sh,
      OReclaim = owner_sh_Reclaim TM sh,
      ORedeem = owner_sh_Redeem TM sh,
      OOwnerTransactions = owner_sh_OwnerTransactions TM sh,
      OTransfer = owner_sh_Transfer TM sh,
      OReadyz = owner_sh_Readyz TM sh\<rparr>"

text \<open>\<open>routes.Server\<close> of the owner, with the response objects its methods return.\<close>

definition owner_NewServer :: "('w, 'h) env \<Rightarrow> nat \<Rightarrow> ('h call, 'w) owner_StrictServerInterface" where
  "owner_NewServer E fuel =
     \<lparr>SOwnerHealthz = (\<lambda>_. andThen Server_Healthz (\<lambda>cb. ret (healthz_object cb))),
      SOwnerAccounts = (\<lambda>_. andThen Server_OwnerAccounts (\<lambda>cb. ret (owner_accounts_object cb))),
      SOwnerAccount = (\<lambda>(acc, params). andThen (Server_OwnerAccount E acc params) (\<lambda>cb. ret (owner_account_object cb))),
      SClaim = (\<lambda>(acc, body). andThen (Server_Claim E acc body) (\<lambda>cb. ret (claim_object cb))),
      SLock = (\<lambda>(acc, body). andThen (Server_Lock E acc body) (\<lambda>cb. ret (lock_object cb))),
      SReclaim = (\<lambda>(acc, body). andThen (Server_Reclaim E acc body) (\<lambda>cb. ret (reclaim_object cb))),
      SRedeem = (\<lambda>(acc, body). andThen (Server_Redeem E acc body) (\<lambda>cb. ret (redeem_object cb))),
      SOwnerTransactions = (\<lambda>acc. andThen (Server_OwnerTransactions E fuel acc) (\<lambda>cb. ret (owner_transactions_object cb))),
      STransfer = (\<lambda>(acc, body). andThen (Server_Transfer E acc body) (\<lambda>cb. ret (transfer_object cb))),
      SOwnerReadyz = (\<lambda>_. andThen Server_Readyz (\<lambda>cb. ret (readyz_object cb)))\<rparr>"

definition owner_http ::
  "time_marshaller \<Rightarrow> ('w, 'h) env \<Rightarrow> oapi \<Rightarrow> nat \<Rightarrow> ('h call, 'w) whandler" where
  "owner_http TM E A fuel =
     (let sh = NewStrictHandler (owner_NewServer E fuel) [] in
      WithAnyCORS_to (mux_ServeHTTP (owner_HandlerFromMux A (owner_interface TM sh) [])))"

subsection \<open>It serves the owner's API\<close>

lemma owner_patterns:
  "parse_pattern ''GET /healthz'' = (''GET'', [Lit ''healthz''])"
  "parse_pattern ''GET /owner/accounts'' = (''GET'', [Lit ''owner'', Lit ''accounts''])"
  "parse_pattern ''GET /owner/accounts/{id}'' = (''GET'', [Lit ''owner'', Lit ''accounts'', Wild])"
  "parse_pattern ''POST /owner/accounts/{id}/claim'' = (''POST'', [Lit ''owner'', Lit ''accounts'', Wild, Lit ''claim''])"
  "parse_pattern ''POST /owner/accounts/{id}/lock'' = (''POST'', [Lit ''owner'', Lit ''accounts'', Wild, Lit ''lock''])"
  "parse_pattern ''POST /owner/accounts/{id}/reclaim'' = (''POST'', [Lit ''owner'', Lit ''accounts'', Wild, Lit ''reclaim''])"
  "parse_pattern ''POST /owner/accounts/{id}/redeem'' = (''POST'', [Lit ''owner'', Lit ''accounts'', Wild, Lit ''redeem''])"
  "parse_pattern ''GET /owner/accounts/{id}/transactions'' = (''GET'', [Lit ''owner'', Lit ''accounts'', Wild, Lit ''transactions''])"
  "parse_pattern ''POST /owner/accounts/{id}/transfer'' = (''POST'', [Lit ''owner'', Lit ''accounts'', Wild, Lit ''transfer''])"
  "parse_pattern ''GET /readyz'' = (''GET'', [Lit ''readyz''])"
  by (simp_all add: parse_pattern_def parse_segment_def)

text \<open>Related operations make related servers.\<close>

lemma owner_http_related:
  fixes E :: "('w, 'h) env" and fuel :: nat
  assumes levels: "levels ok Q"
  defines "sh \<equiv> NewStrictHandler (owner_NewServer E fuel) []"
  assumes "related ok Q (owner_sh_Healthz TM sh) strict_Healthz"
    "related ok Q (owner_sh_Readyz TM sh) strict_Readyz"
    "related ok Q (owner_sh_OwnerAccounts TM sh) strict_OwnerAccounts"
    "\<And>acc params. related ok Q (owner_sh_OwnerAccount TM sh acc params) (strict_OwnerAccount E acc params)"
    "\<And>acc. related ok Q (owner_sh_OwnerTransactions TM sh acc) (strict_OwnerTransactions E fuel acc)"
    "\<And>acc. related ok Q (owner_sh_Claim TM sh acc) (strict_Claim E acc)"
    "\<And>acc. related ok Q (owner_sh_Lock TM sh acc) (strict_Lock E acc)"
    "\<And>acc. related ok Q (owner_sh_Reclaim TM sh acc) (strict_Reclaim E acc)"
    "\<And>acc. related ok Q (owner_sh_Redeem TM sh acc) (strict_Redeem E acc)"
    "\<And>acc. related ok Q (owner_sh_Transfer TM sh acc) (strict_Transfer E acc)"
  shows "related ok Q (owner_http TM E A fuel) (owner_api E A fuel)"
proof -
  note siw = owner_siw_Healthz_def owner_siw_OwnerAccounts_def owner_siw_OwnerAccount_def owner_siw_Claim_def
    owner_siw_Lock_def owner_siw_Reclaim_def owner_siw_Redeem_def owner_siw_OwnerTransactions_def
    owner_siw_Transfer_def owner_siw_Readyz_def owner_interface_def
  have "related_routes ok Q (owner_HandlerFromMux A (owner_interface TM sh) []) (owner_routes E A fuel)"
    using assms(3-)
    by (simp add: related_routes_def owner_HandlerFromMux_def owner_HandlerWithOptions_def mux_routes_def
        HandleFunc_def owner_patterns owner_routes_def Let_def siw wrapper_defs wrapper_OwnerAccount_def
        levels.bind_path [OF levels] levels.bind_query [OF levels])
  then show ?thesis
    unfolding owner_http_def owner_api_def Let_def sh_def
    by (intro levels.with_cors [OF levels] levels.mux [OF levels])
qed

lemmas owner_ops = owner_sh_Healthz_def owner_sh_Readyz_def owner_sh_OwnerAccounts_def owner_sh_OwnerAccount_def
  owner_sh_OwnerTransactions_def owner_sh_Claim_def owner_sh_Lock_def owner_sh_Reclaim_def owner_sh_Redeem_def
  owner_sh_Transfer_def strict_Healthz_def strict_Readyz_def strict_OwnerAccounts_def strict_OwnerAccount_def
  strict_OwnerTransactions_def strict_Claim_def strict_Lock_def strict_Reclaim_def strict_Redeem_def
  strict_Transfer_def

lemmas owner_server = NewStrictHandler_def owner_NewServer_def

interpretation owner_wire: serves_as TM "owner_http TM E A fuel" "owner_api E A fuel" for TM E A fuel
proof (unfold_locales, rule owner_http_related [OF sending.levels_axioms], unfold owner_ops)
qed ((rule sending.decode_body)?, rule respond_sends, simp; auto simp: owner_server response_objects_def
    intro!: objects_visited intro: typed_operations [THEN typed_object])+

interpretation owner_actions: acts_as "owner_http TM E A fuel" "owner_api E A fuel" for TM E A fuel
proof (unfold_locales, rule owner_http_related [OF acting.levels_axioms], unfold owner_ops)
qed ((rule acting.decode_body)?, rule respond_acts, simp, simp add: owner_server)+

end
