(* ===== verification/Issuer_Generated.thy ===== *)
theory Issuer_Generated imports Generated_Http begin

text \<open>
  \<open>tokens/issuer/routes/routes.gen.go\<close>, construct by construct: the server interface and its wrapper,
  the registration of the patterns, the \<open>Visit\<close> methods, the strict server interface and the strict
  handler; and the handler \<open>tokens/issuer/main.go\<close> builds from them, which serves the API of
  \<open>Issuer_Api\<close>.
\<close>

record ('c, 'w) issuer_ServerInterface =
  IIssue :: "('c, 'w) whandler"
  IHealthz :: "('c, 'w) whandler"
  IReadyz :: "('c, 'w) whandler"

type_synonym ('c, 'w) issuer_ServerInterfaceWrapper =
  "(('c, 'w) issuer_ServerInterface, 'c, 'w) ServerInterfaceWrapper"

definition issuer_siw_Issue ::
  "('c, 'w) issuer_ServerInterfaceWrapper \<Rightarrow> string list \<Rightarrow> ('c, 'w) whandler" where
  "issuer_siw_Issue siw args = with_middlewares (HandlerMiddlewares siw) (IIssue (Handler siw))"

definition issuer_siw_Healthz ::
  "('c, 'w) issuer_ServerInterfaceWrapper \<Rightarrow> string list \<Rightarrow> ('c, 'w) whandler" where
  "issuer_siw_Healthz siw args = with_middlewares (HandlerMiddlewares siw) (IHealthz (Handler siw))"

definition issuer_siw_Readyz ::
  "('c, 'w) issuer_ServerInterfaceWrapper \<Rightarrow> string list \<Rightarrow> ('c, 'w) whandler" where
  "issuer_siw_Readyz siw args = with_middlewares (HandlerMiddlewares siw) (IReadyz (Handler siw))"

definition issuer_HandlerWithOptions ::
  "('c, 'w) issuer_ServerInterface \<Rightarrow> ('c, 'w) StdHTTPServerOptions \<Rightarrow> ('c, 'w) mux" where
  "issuer_HandlerWithOptions si opts =
     (let m = base_router opts;
          wrapper = new_wrapper si opts;
          m = HandleFunc (''GET '' @ BaseURL opts @ ''/healthz'') (issuer_siw_Healthz wrapper) m;
          m = HandleFunc (''POST '' @ BaseURL opts @ ''/issuer/issue'') (issuer_siw_Issue wrapper) m;
          m = HandleFunc (''GET '' @ BaseURL opts @ ''/readyz'') (issuer_siw_Readyz wrapper) m
      in m)"

definition issuer_Handler :: "('c, 'w) issuer_ServerInterface \<Rightarrow> ('c, 'w) mux" where
  "issuer_Handler si = issuer_HandlerWithOptions si zero_options"

definition issuer_HandlerFromMux ::
  "('c, 'w) issuer_ServerInterface \<Rightarrow> ('c, 'w) mux \<Rightarrow> ('c, 'w) mux" where
  "issuer_HandlerFromMux si m = issuer_HandlerWithOptions si (mux_options m)"

definition issuer_HandlerFromMuxWithBaseURL ::
  "('c, 'w) issuer_ServerInterface \<Rightarrow> ('c, 'w) mux \<Rightarrow> string \<Rightarrow> ('c, 'w) mux" where
  "issuer_HandlerFromMuxWithBaseURL si m baseURL =
     issuer_HandlerWithOptions si (zero_options\<lparr>BaseURL := baseURL, BaseRouter := Some m\<rparr>)"

fun issuer_VisitIssueResponse :: "issue_response \<Rightarrow> api_json response" where
  "issuer_VisitIssueResponse (Issue200JSONResponse m i) = json_response 200 (IssueSuccess m i)"
| "issuer_VisitIssueResponse (IssuedefaultJSONResponse m p code) = json_response code (ErrorBody m p)"

fun issuer_VisitHealthzResponse :: "healthz_response \<Rightarrow> api_json response" where
  "issuer_VisitHealthzResponse (Healthz200JSONResponse m) = json_response 200 (HealthSuccess m)"
| "issuer_VisitHealthzResponse (Healthz503JSONResponse m p) = json_response 503 (ErrorBody m p)"

fun issuer_VisitReadyzResponse :: "readyz_response \<Rightarrow> api_json response" where
  "issuer_VisitReadyzResponse (Readyz200JSONResponse m) = json_response 200 (HealthSuccess m)"
| "issuer_VisitReadyzResponse (Readyz503JSONResponse m p) = json_response 503 (ErrorBody m p)"

lemma issuer_visits [simp]:
  "issuer_VisitIssueResponse = VisitIssueResponse" "issuer_VisitHealthzResponse = VisitHealthzResponse"
  "issuer_VisitReadyzResponse = VisitReadyzResponse"
proof -
  show "issuer_VisitIssueResponse = VisitIssueResponse"
  proof
    show "issuer_VisitIssueResponse x = VisitIssueResponse x" for x by (cases x) simp_all
  qed
  show "issuer_VisitHealthzResponse = VisitHealthzResponse"
  proof
    show "issuer_VisitHealthzResponse x = VisitHealthzResponse x" for x by (cases x) simp_all
  qed
  show "issuer_VisitReadyzResponse = VisitReadyzResponse"
  proof
    show "issuer_VisitReadyzResponse x = VisitReadyzResponse x" for x by (cases x) simp_all
  qed
qed

text \<open>A request object without fields is \<open>unit\<close>; the result \<open>None\<close> is a \<open>nil\<close> response object.\<close>

record ('c, 'w) issuer_StrictServerInterface =
  SIssue :: "issue_request option \<Rightarrow> ('c, 'w, issue_response option) prog"
  SIssuerHealthz :: "unit \<Rightarrow> ('c, 'w, healthz_response option) prog"
  SIssuerReadyz :: "unit \<Rightarrow> ('c, 'w, readyz_response option) prog"

type_synonym ('c, 'w) issuer_strictHandler =
  "(('c, 'w) issuer_StrictServerInterface, 'c, 'w) strictHandler"

definition issuer_sh_Issue ::
  "time_marshaller \<Rightarrow> ('c, 'w) issuer_strictHandler \<Rightarrow> ('c, 'w) whandler" where
  "issuer_sh_Issue TM sh =
     decode_body sh decode_IssueRequest zero_issue_request (\<lambda>body.
     respond sh ''Issue'' as_Issue (\<lambda>y. visit TM (issuer_VisitIssueResponse y))
       (call_server (\<lambda>q. case q of IssueRequestObject b \<Rightarrow> Some b | _ \<Rightarrow> None) AnyIssue (SIssue (ssi sh)))
       (IssueRequestObject body))"

definition issuer_sh_Healthz ::
  "time_marshaller \<Rightarrow> ('c, 'w) issuer_strictHandler \<Rightarrow> ('c, 'w) whandler" where
  "issuer_sh_Healthz TM sh =
     respond sh ''Healthz'' as_Healthz (\<lambda>y. visit TM (issuer_VisitHealthzResponse y))
       (call_server (\<lambda>q. case q of HealthzRequestObject \<Rightarrow> Some () | _ \<Rightarrow> None) AnyHealthz (SIssuerHealthz (ssi sh)))
       HealthzRequestObject"

definition issuer_sh_Readyz ::
  "time_marshaller \<Rightarrow> ('c, 'w) issuer_strictHandler \<Rightarrow> ('c, 'w) whandler" where
  "issuer_sh_Readyz TM sh =
     respond sh ''Readyz'' as_Readyz (\<lambda>y. visit TM (issuer_VisitReadyzResponse y))
       (call_server (\<lambda>q. case q of ReadyzRequestObject \<Rightarrow> Some () | _ \<Rightarrow> None) AnyReadyz (SIssuerReadyz (ssi sh)))
       ReadyzRequestObject"

text \<open>A strict handler is a server interface.\<close>

definition issuer_interface ::
  "time_marshaller \<Rightarrow> ('c, 'w) issuer_strictHandler \<Rightarrow> ('c, 'w) issuer_ServerInterface" where
  "issuer_interface TM sh =
     \<lparr>IIssue = issuer_sh_Issue TM sh, IHealthz = issuer_sh_Healthz TM sh, IReadyz = issuer_sh_Readyz TM sh\<rparr>"

text \<open>The options of a strict handler, as this file has them.\<close>

definition issuer_NewStrictHandler ::
  "('c, 'w) issuer_StrictServerInterface \<Rightarrow> ('c, 'w) StrictMiddlewareFunc list \<Rightarrow> ('c, 'w) issuer_strictHandler" where
  "issuer_NewStrictHandler s ms =
     \<lparr>ssi = s, middlewares = ms,
      options = \<lparr>RequestErrorHandlerFunc = error_handler StatusBadRequest,
                 ResponseErrorHandlerFunc = error_handler StatusInternalServerError\<rparr>\<rparr>"

definition issuer_NewStrictHandlerWithOptions ::
  "('c, 'w) issuer_StrictServerInterface \<Rightarrow> ('c, 'w) StrictMiddlewareFunc list \<Rightarrow> ('c, 'w) StrictHTTPServerOptions \<Rightarrow>
   ('c, 'w) issuer_strictHandler" where
  "issuer_NewStrictHandlerWithOptions s ms opts = \<lparr>ssi = s, middlewares = ms, options = opts\<rparr>"

definition issuer_Server_Healthz :: "('c, 'w, healthz_response option) prog" where
  "issuer_Server_Healthz = ret (Some (Healthz200JSONResponse ''ok''))"

definition issuer_Server_Readyz :: "('c, 'w, readyz_response option) prog" where
  "issuer_Server_Readyz = ret (Some (Readyz200JSONResponse ''ok''))"

text \<open>They agree with those of the owner.\<close>

lemma issuer_copies:
  "issuer_NewStrictHandler = NewStrictHandler"
  "issuer_Server_Healthz = andThen Server_Healthz (\<lambda>cb. ret (healthz_object cb))"
  "issuer_Server_Readyz = andThen Server_Readyz (\<lambda>cb. ret (readyz_object cb))"
  by (simp_all add: issuer_NewStrictHandler_def NewStrictHandler_def fun_eq_iff issuer_Server_Healthz_def
      issuer_Server_Readyz_def Server_Healthz_def Server_Readyz_def StatusOK_def)

text \<open>\<open>routes.Server\<close> of the issuer, with the response objects its methods return.\<close>

definition issuer_NewServer :: "('w, 'h) env \<Rightarrow> ('h call, 'w) issuer_StrictServerInterface" where
  "issuer_NewServer E =
     \<lparr>SIssue = (\<lambda>body. andThen (Server_Issue E body) (\<lambda>cb. ret (issue_object cb))),
      SIssuerHealthz = (\<lambda>_. issuer_Server_Healthz),
      SIssuerReadyz = (\<lambda>_. issuer_Server_Readyz)\<rparr>"

definition issuer_http :: "time_marshaller \<Rightarrow> ('w, 'h) env \<Rightarrow> ('h call, 'w) whandler" where
  "issuer_http TM E =
     (let sh = issuer_NewStrictHandler (issuer_NewServer E) [] in
      WithAnyCORS_to (mux_ServeHTTP (issuer_HandlerFromMux (issuer_interface TM sh) [])))"

subsection \<open>It serves the issuer's API\<close>

lemma issuer_patterns:
  "parse_pattern ''POST /issuer/issue'' = (''POST'', [Lit ''issuer'', Lit ''issue''])"
  "parse_pattern ''GET /healthz'' = (''GET'', [Lit ''healthz''])"
  "parse_pattern ''GET /readyz'' = (''GET'', [Lit ''readyz''])"
  by (simp_all add: parse_pattern_def parse_segment_def)

text \<open>Related operations make related servers.\<close>

lemma issuer_http_related:
  fixes E :: "('w, 'h) env"
  assumes levels: "levels ok Q"
  defines "sh \<equiv> issuer_NewStrictHandler (issuer_NewServer E) []"
  assumes "related ok Q (issuer_sh_Issue TM sh) (strict_Issue E)"
    "related ok Q (issuer_sh_Healthz TM sh) strict_Healthz" "related ok Q (issuer_sh_Readyz TM sh) strict_Readyz"
  shows "related ok Q (issuer_http TM E) (issuer_api E)"
proof -
  have "related_routes ok Q (issuer_HandlerFromMux (issuer_interface TM sh) []) (issuer_routes E)"
    using assms(3-)
    by (simp add: related_routes_def issuer_HandlerFromMux_def issuer_HandlerWithOptions_def mux_routes_def
        HandleFunc_def issuer_patterns issuer_routes_def Let_def
        issuer_siw_Issue_def issuer_siw_Healthz_def issuer_siw_Readyz_def issuer_interface_def)
  then show ?thesis
    unfolding issuer_http_def issuer_api_def Let_def sh_def
    by (intro levels.with_cors [OF levels] levels.mux [OF levels])
qed

lemmas issuer_ops = issuer_sh_Issue_def issuer_sh_Healthz_def issuer_sh_Readyz_def issuer_copies
  strict_Issue_def strict_Healthz_def strict_Readyz_def

lemmas issuer_server = NewStrictHandler_def issuer_NewServer_def issuer_copies

interpretation issuer_wire: serves_as TM "issuer_http TM E" "issuer_api E" for TM E
proof (unfold_locales, rule issuer_http_related [OF sending.levels_axioms], unfold issuer_ops)
qed ((rule sending.decode_body)?, rule respond_sends, simp; auto simp: issuer_server response_objects_def
    intro!: objects_visited intro: typed_operations [THEN typed_object])+

interpretation issuer_actions: acts_as "issuer_http TM E" "issuer_api E" for TM E
proof (unfold_locales, rule issuer_http_related [OF acting.levels_axioms], unfold issuer_ops)
qed ((rule acting.decode_body)?, rule respond_acts, simp, simp add: issuer_server)+

end
