(* ===== verification/Endorser_Generated.thy ===== *)
theory Endorser_Generated imports Generated_Http begin

text \<open>
  \<open>tokens/endorser/routes/routes.gen.go\<close>, construct by construct: the server interface and its wrapper,
  the registration of the patterns, the \<open>Visit\<close> methods, the strict server interface and the strict
  handler; and the handler \<open>tokens/endorser/main.go\<close> builds from them, which serves the API of
  \<open>Endorser_Service\<close>.
\<close>

record ('c, 'w) endorser_ServerInterface =
  EInit :: "('c, 'w) whandler"
  EHealthz :: "('c, 'w) whandler"
  EReadyz :: "('c, 'w) whandler"

type_synonym ('c, 'w) endorser_ServerInterfaceWrapper =
  "(('c, 'w) endorser_ServerInterface, 'c, 'w) ServerInterfaceWrapper"

definition endorser_siw_Init ::
  "('c, 'w) endorser_ServerInterfaceWrapper \<Rightarrow> string list \<Rightarrow> ('c, 'w) whandler" where
  "endorser_siw_Init siw args = with_middlewares (HandlerMiddlewares siw) (EInit (Handler siw))"

definition endorser_siw_Healthz ::
  "('c, 'w) endorser_ServerInterfaceWrapper \<Rightarrow> string list \<Rightarrow> ('c, 'w) whandler" where
  "endorser_siw_Healthz siw args = with_middlewares (HandlerMiddlewares siw) (EHealthz (Handler siw))"

definition endorser_siw_Readyz ::
  "('c, 'w) endorser_ServerInterfaceWrapper \<Rightarrow> string list \<Rightarrow> ('c, 'w) whandler" where
  "endorser_siw_Readyz siw args = with_middlewares (HandlerMiddlewares siw) (EReadyz (Handler siw))"

definition endorser_HandlerWithOptions ::
  "('c, 'w) endorser_ServerInterface \<Rightarrow> ('c, 'w) StdHTTPServerOptions \<Rightarrow> ('c, 'w) mux" where
  "endorser_HandlerWithOptions si opts =
     (let m = base_router opts;
          wrapper = new_wrapper si opts;
          m = HandleFunc (''POST '' @ BaseURL opts @ ''/endorser/init'') (endorser_siw_Init wrapper) m;
          m = HandleFunc (''GET '' @ BaseURL opts @ ''/healthz'') (endorser_siw_Healthz wrapper) m;
          m = HandleFunc (''GET '' @ BaseURL opts @ ''/readyz'') (endorser_siw_Readyz wrapper) m
      in m)"

definition endorser_Handler :: "('c, 'w) endorser_ServerInterface \<Rightarrow> ('c, 'w) mux" where
  "endorser_Handler si = endorser_HandlerWithOptions si zero_options"

definition endorser_HandlerFromMux ::
  "('c, 'w) endorser_ServerInterface \<Rightarrow> ('c, 'w) mux \<Rightarrow> ('c, 'w) mux" where
  "endorser_HandlerFromMux si m = endorser_HandlerWithOptions si (mux_options m)"

definition endorser_HandlerFromMuxWithBaseURL ::
  "('c, 'w) endorser_ServerInterface \<Rightarrow> ('c, 'w) mux \<Rightarrow> string \<Rightarrow> ('c, 'w) mux" where
  "endorser_HandlerFromMuxWithBaseURL si m baseURL =
     endorser_HandlerWithOptions si (zero_options\<lparr>BaseURL := baseURL, BaseRouter := Some m\<rparr>)"

fun endorser_VisitInitResponse :: "init_response \<Rightarrow> api_json response" where
  "endorser_VisitInitResponse (Init200JSONResponse m) = json_response 200 (HealthSuccess m)"
| "endorser_VisitInitResponse (InitdefaultJSONResponse m p code) = json_response code (ErrorBody m p)"

fun endorser_VisitHealthzResponse :: "healthz_response \<Rightarrow> api_json response" where
  "endorser_VisitHealthzResponse (Healthz200JSONResponse m) = json_response 200 (HealthSuccess m)"
| "endorser_VisitHealthzResponse (Healthz503JSONResponse m p) = json_response 503 (ErrorBody m p)"

fun endorser_VisitReadyzResponse :: "readyz_response \<Rightarrow> api_json response" where
  "endorser_VisitReadyzResponse (Readyz200JSONResponse m) = json_response 200 (HealthSuccess m)"
| "endorser_VisitReadyzResponse (Readyz503JSONResponse m p) = json_response 503 (ErrorBody m p)"

lemma endorser_visits [simp]:
  "endorser_VisitInitResponse = VisitInitResponse" "endorser_VisitHealthzResponse = VisitHealthzResponse"
  "endorser_VisitReadyzResponse = VisitReadyzResponse"
proof -
  show "endorser_VisitInitResponse = VisitInitResponse"
  proof
    show "endorser_VisitInitResponse x = VisitInitResponse x" for x by (cases x) simp_all
  qed
  show "endorser_VisitHealthzResponse = VisitHealthzResponse"
  proof
    show "endorser_VisitHealthzResponse x = VisitHealthzResponse x" for x by (cases x) simp_all
  qed
  show "endorser_VisitReadyzResponse = VisitReadyzResponse"
  proof
    show "endorser_VisitReadyzResponse x = VisitReadyzResponse x" for x by (cases x) simp_all
  qed
qed

text \<open>A request object without fields is \<open>unit\<close>; the result \<open>None\<close> is a \<open>nil\<close> response object.\<close>

record ('c, 'w) endorser_StrictServerInterface =
  SInit :: "unit \<Rightarrow> ('c, 'w, init_response option) prog"
  SHealthz :: "unit \<Rightarrow> ('c, 'w, healthz_response option) prog"
  SReadyz :: "unit \<Rightarrow> ('c, 'w, readyz_response option) prog"

type_synonym ('c, 'w) endorser_strictHandler =
  "(('c, 'w) endorser_StrictServerInterface, 'c, 'w) strictHandler"

definition endorser_sh_Init ::
  "time_marshaller \<Rightarrow> ('c, 'w) endorser_strictHandler \<Rightarrow> ('c, 'w) whandler" where
  "endorser_sh_Init TM sh =
     respond sh ''Init'' as_Init (\<lambda>y. visit TM (endorser_VisitInitResponse y))
       (call_server (\<lambda>q. case q of InitRequestObject \<Rightarrow> Some () | _ \<Rightarrow> None) AnyInit (SInit (ssi sh)))
       InitRequestObject"

definition endorser_sh_Healthz ::
  "time_marshaller \<Rightarrow> ('c, 'w) endorser_strictHandler \<Rightarrow> ('c, 'w) whandler" where
  "endorser_sh_Healthz TM sh =
     respond sh ''Healthz'' as_Healthz (\<lambda>y. visit TM (endorser_VisitHealthzResponse y))
       (call_server (\<lambda>q. case q of HealthzRequestObject \<Rightarrow> Some () | _ \<Rightarrow> None) AnyHealthz (SHealthz (ssi sh)))
       HealthzRequestObject"

definition endorser_sh_Readyz ::
  "time_marshaller \<Rightarrow> ('c, 'w) endorser_strictHandler \<Rightarrow> ('c, 'w) whandler" where
  "endorser_sh_Readyz TM sh =
     respond sh ''Readyz'' as_Readyz (\<lambda>y. visit TM (endorser_VisitReadyzResponse y))
       (call_server (\<lambda>q. case q of ReadyzRequestObject \<Rightarrow> Some () | _ \<Rightarrow> None) AnyReadyz (SReadyz (ssi sh)))
       ReadyzRequestObject"

text \<open>A strict handler is a server interface.\<close>

definition endorser_interface ::
  "time_marshaller \<Rightarrow> ('c, 'w) endorser_strictHandler \<Rightarrow> ('c, 'w) endorser_ServerInterface" where
  "endorser_interface TM sh =
     \<lparr>EInit = endorser_sh_Init TM sh, EHealthz = endorser_sh_Healthz TM sh, EReadyz = endorser_sh_Readyz TM sh\<rparr>"

text \<open>The options of a strict handler, as this file has them.\<close>

definition endorser_NewStrictHandler ::
  "('c, 'w) endorser_StrictServerInterface \<Rightarrow> ('c, 'w) StrictMiddlewareFunc list \<Rightarrow> ('c, 'w) endorser_strictHandler" where
  "endorser_NewStrictHandler s ms =
     \<lparr>ssi = s, middlewares = ms,
      options = \<lparr>RequestErrorHandlerFunc = error_handler StatusBadRequest,
                 ResponseErrorHandlerFunc = error_handler StatusInternalServerError\<rparr>\<rparr>"

definition endorser_NewStrictHandlerWithOptions ::
  "('c, 'w) endorser_StrictServerInterface \<Rightarrow> ('c, 'w) StrictMiddlewareFunc list \<Rightarrow> ('c, 'w) StrictHTTPServerOptions \<Rightarrow>
   ('c, 'w) endorser_strictHandler" where
  "endorser_NewStrictHandlerWithOptions s ms opts = \<lparr>ssi = s, middlewares = ms, options = opts\<rparr>"

definition endorser_Server_Healthz :: "('c, 'w, healthz_response option) prog" where
  "endorser_Server_Healthz = ret (Some (Healthz200JSONResponse ''ok''))"

definition endorser_Server_Readyz :: "('c, 'w, readyz_response option) prog" where
  "endorser_Server_Readyz = ret (Some (Readyz200JSONResponse ''ok''))"

text \<open>They agree with those of the owner.\<close>

lemma endorser_copies:
  "endorser_NewStrictHandler = NewStrictHandler"
  "endorser_Server_Healthz = andThen Server_Healthz (\<lambda>cb. ret (healthz_object cb))"
  "endorser_Server_Readyz = andThen Server_Readyz (\<lambda>cb. ret (readyz_object cb))"
  by (simp_all add: endorser_NewStrictHandler_def NewStrictHandler_def fun_eq_iff endorser_Server_Healthz_def
      endorser_Server_Readyz_def Server_Healthz_def Server_Readyz_def StatusOK_def)

text \<open>\<open>routes.Server\<close> of the endorser, with the response objects its methods return.\<close>

definition endorser_NewServer :: "'w deploy_env \<Rightarrow> (deploy_call, 'w) endorser_StrictServerInterface" where
  "endorser_NewServer D =
     \<lparr>SInit = (\<lambda>_. andThen (Server_Init D) (\<lambda>cb. ret (init_object cb))),
      SHealthz = (\<lambda>_. endorser_Server_Healthz),
      SReadyz = (\<lambda>_. endorser_Server_Readyz)\<rparr>"

definition endorser_http :: "time_marshaller \<Rightarrow> 'w deploy_env \<Rightarrow> (deploy_call, 'w) whandler" where
  "endorser_http TM D =
     (let sh = endorser_NewStrictHandler (endorser_NewServer D) [] in
      WithAnyCORS_to (mux_ServeHTTP (endorser_HandlerFromMux (endorser_interface TM sh) [])))"

subsection \<open>It serves the endorser's API\<close>

lemma endorser_patterns:
  "parse_pattern ''POST /endorser/init'' = (''POST'', [Lit ''endorser'', Lit ''init''])"
  "parse_pattern ''GET /healthz'' = (''GET'', [Lit ''healthz''])"
  "parse_pattern ''GET /readyz'' = (''GET'', [Lit ''readyz''])"
  by (simp_all add: parse_pattern_def parse_segment_def)

text \<open>Related operations make related servers.\<close>

lemma endorser_http_related:
  fixes D :: "'w deploy_env"
  assumes levels: "levels ok Q"
  defines "sh \<equiv> endorser_NewStrictHandler (endorser_NewServer D) []"
  assumes "related ok Q (endorser_sh_Init TM sh) (strict_Init D)"
    "related ok Q (endorser_sh_Healthz TM sh) strict_Healthz" "related ok Q (endorser_sh_Readyz TM sh) strict_Readyz"
  shows "related ok Q (endorser_http TM D) (endorser_api D)"
proof -
  have "related_routes ok Q (endorser_HandlerFromMux (endorser_interface TM sh) []) (endorser_routes D)"
    using assms(3-)
    by (simp add: related_routes_def endorser_HandlerFromMux_def endorser_HandlerWithOptions_def mux_routes_def
        HandleFunc_def endorser_patterns endorser_routes_def Let_def
        endorser_siw_Init_def endorser_siw_Healthz_def endorser_siw_Readyz_def endorser_interface_def)
  then show ?thesis
    unfolding endorser_http_def endorser_api_def Let_def sh_def
    by (intro levels.with_cors [OF levels] levels.mux [OF levels])
qed

lemmas endorser_ops = endorser_sh_Init_def endorser_sh_Healthz_def endorser_sh_Readyz_def endorser_copies
  strict_Init_def strict_Healthz_def strict_Readyz_def

lemmas endorser_server = NewStrictHandler_def endorser_NewServer_def endorser_copies

interpretation endorser_wire: serves_as TM "endorser_http TM D" "endorser_api D" for TM D
proof (unfold_locales, rule endorser_http_related [OF sending.levels_axioms], unfold endorser_ops)
qed (rule respond_sends, simp; auto simp: endorser_server response_objects_def
    intro!: objects_visited intro: typed_operations [THEN typed_object])+

interpretation endorser_actions: acts_as "endorser_http TM D" "endorser_api D" for TM D
proof (unfold_locales, rule endorser_http_related [OF acting.levels_axioms], unfold endorser_ops)
qed (rule respond_acts, simp, simp add: endorser_server)+

end
