(* ===== verification/Wire.thy ===== *)
theory Wire imports Owner_Generated Issuer_Generated Endorser_Generated begin

text \<open>
  What a client receives from the three nodes, through the generated code: the handlers of
  \<open>Owner_Generated\<close>, \<open>Issuer_Generated\<close> and \<open>Endorser_Generated\<close> on a new connection. When the body can be
  marshalled it is the response of the API; when it cannot, the status is out before the error.
\<close>

definition on_wire ::
  "('c, 'w) whandler \<Rightarrow> request \<Rightarrow> ('c, 'w, nat \<times> (string \<times> string) list \<times> chunk list) prog" where
  "on_wire H r = andThen (H r new_writer) (\<lambda>wr. ret (sent wr))"

text \<open>The headers of a response of the generated handlers, and of the router.\<close>

definition plain_headers :: "(string \<times> string) list set" where
  "plain_headers =
     {[(''Content-Type'', ''application/json'')],
      [(''Content-Type'', ''text/plain; charset=utf-8''), (''X-Content-Type-Options'', ''nosniff'')]}"

definition plain :: "('c, 'w, 'b) handler \<Rightarrow> bool" where
  "plain h \<longleftrightarrow> (\<forall>r w resp es w'. h r w = (Ok resp, es, w') \<longrightarrow> Header resp \<in> plain_headers)"

lemma plainD: "plain h \<Longrightarrow> h r w = (Ok resp, es, w') \<Longrightarrow> Header resp \<in> plain_headers"
  unfolding plain_def by blast

lemma plain_responses [simp]:
  "Header (json_response code b) \<in> plain_headers" "Header (http_Error msg code) \<in> plain_headers"
  by (simp_all add: json_response_def http_Error_def plain_headers_def)

lemma plain_strict_respond [intro!]: "plain (\<lambda>r. strict_respond m)"
  unfolding plain_def
proof (intro allI impI)
  fix r :: request and w resp es w'
  assume "strict_respond m w = (Ok resp, es, w')"
  then show "Header resp \<in> plain_headers"
    by (auto simp: strict_respond_def andThen_eq_iff attempt_eq_iff basic_eq_iff)
qed

lemma plain_strict_body [intro!]: "plain (strict_body dec zero m)"
  unfolding plain_def strict_body_def
  by (auto simp: basic_eq_iff split: sum.splits dest: plainD [OF plain_strict_respond])

lemma plain_with_id [intro!]: "(\<And>acc. plain (h acc)) \<Longrightarrow> plain (with_id A h args)"
  by (auto simp: plain_def with_id_def run_iffs split: sum.splits)

lemma plain_with_query [intro!]: "(\<And>v. plain (h v)) \<Longrightarrow> plain (with_query A name h)"
  by (auto simp: plain_def with_query_def run_iffs split: sum.splits)

lemma plain_mux:
  assumes "\<And>m ps h args. (m, ps, h) \<in> set rs \<Longrightarrow> plain (h args)"
  shows "plain (serve_mux rs)"
  unfolding plain_def serve_mux_def
  by (auto simp: run_iffs split: option.splits if_splits dest!: find_route_in dest: plainD [OF assms])

lemma plain_apis:
  "plain (serve_mux (owner_routes E A fuel))" "plain (serve_mux (issuer_routes E))"
  "plain (serve_mux (endorser_routes D))"
proof -
  note ops = strict_Healthz_def strict_Readyz_def strict_OwnerAccounts_def strict_OwnerAccount_def
    strict_OwnerTransactions_def strict_Claim_def strict_Lock_def strict_Reclaim_def strict_Redeem_def
    strict_Transfer_def strict_Issue_def strict_Init_def wrapper_defs wrapper_OwnerAccount_def
  show "plain (serve_mux (owner_routes E A fuel))" "plain (serve_mux (issuer_routes E))"
    "plain (serve_mux (endorser_routes D))"
    by (rule plain_mux, auto simp: owner_routes_def issuer_routes_def endorser_routes_def ops [abs_def])+
qed

lemma cors_distinct:
  assumes "plain h" and "WithAnyCORS h r w = (Ok resp, es, w')"
  shows "distinct (map fst (Header resp))"
proof -
  from assms(2) have "Header resp = cors_headers \<or> (\<exists>hs \<in> plain_headers. Header resp = cors_headers @ hs)"
    by (auto simp: WithAnyCORS_def run_iffs dest!: plainD [OF assms(1)] split: if_splits)
  then show ?thesis by (auto simp: cors_headers_def plain_headers_def)
qed

context serves_as
begin

lemma received:
  assumes "\<And>w resp es w'. h r w = (Ok resp, es, w') \<Longrightarrow> distinct (map fst (Header resp))"
  shows "on_wire H r = andThen (h r) (\<lambda>resp. ret (Status resp, Header resp, body_chunks TM (Content resp)))"
proof
  fix w
  show "on_wire H r w = andThen (h r) (\<lambda>resp. ret (Status resp, Header resp, body_chunks TM (Content resp))) w"
    using assms [of w] sent_send [of _ TM]
    by (cases "h r w"; cases "fst (h r w)")
      (auto simp: on_wire_def sends [OF open_new_writer] andThen_def ret_def)
qed

end

lemma servers_received:
  "on_wire (owner_http TM E A fuel) r =
     andThen (owner_api E A fuel r) (\<lambda>resp. ret (Status resp, Header resp, body_chunks TM (Content resp)))"
  "on_wire (issuer_http TM E) r =
     andThen (issuer_api E r) (\<lambda>resp. ret (Status resp, Header resp, body_chunks TM (Content resp)))"
  "on_wire (endorser_http TM D) r' =
     andThen (endorser_api D r') (\<lambda>resp. ret (Status resp, Header resp, body_chunks TM (Content resp)))"
proof -
  show "on_wire (owner_http TM E A fuel) r =
     andThen (owner_api E A fuel r) (\<lambda>resp. ret (Status resp, Header resp, body_chunks TM (Content resp)))"
    by (rule owner_wire.received) (auto simp: owner_api_def dest: cors_distinct [OF plain_apis(1)])
  show "on_wire (issuer_http TM E) r =
     andThen (issuer_api E r) (\<lambda>resp. ret (Status resp, Header resp, body_chunks TM (Content resp)))"
    by (rule issuer_wire.received) (auto simp: issuer_api_def dest: cors_distinct [OF plain_apis(2)])
  show "on_wire (endorser_http TM D) r' =
     andThen (endorser_api D r') (\<lambda>resp. ret (Status resp, Header resp, body_chunks TM (Content resp)))"
    by (rule endorser_wire.received) (auto simp: endorser_api_def dest: cors_distinct [OF plain_apis(3)])
qed

definition delivered :: "time_marshaller \<Rightarrow> api_json response \<Rightarrow> nat \<times> (string \<times> string) list \<times> chunk list" where
  "delivered TM resp =
     (Status resp, Header resp,
      (case Content resp of
         Json b \<Rightarrow> (case Marshal TM b of Inr j \<Rightarrow> [JsonText j] | Inl err \<Rightarrow> [RawText (Error err @ [CHR 0x0A])])
       | PlainText s \<Rightarrow> [RawText (s @ [CHR 0x0A])]
       | NoContent \<Rightarrow> []))"

lemma delivered_chunks: "delivered TM resp = (Status resp, Header resp, body_chunks TM (Content resp))"
  by (cases "Content resp") (simp_all add: delivered_def)

text \<open>
  C10: The generated servers implement the APIs. What each node builds from its generated code (interfaces,
  wrappers, middlewares, strict handlers, type assertions, response writers) serves exactly the API it is
  described by: on a new connection, for every request and whatever marshals the times, it makes the same
  calls in the same order, leaves the same world, ends in a panic exactly when the API does, and otherwise
  sends the API's status, its headers in their order, and, once, its body (\<open>delivered\<close>): the JSON of the
  body if that can be marshalled, and if it cannot, the text of the error in its place.
\<close>

theorem generated_servers_serve_apis:
  "on_wire (owner_http TM E A fuel) r = andThen (owner_api E A fuel r) (\<lambda>resp. ret (delivered TM resp)) \<and>
   on_wire (issuer_http TM E) r = andThen (issuer_api E r) (\<lambda>resp. ret (delivered TM resp)) \<and>
   on_wire (endorser_http TM D) r' = andThen (endorser_api D r') (\<lambda>resp. ret (delivered TM resp))"
  by (intro conjI servers_received [unfolded delivered_chunks [symmetric]])

text \<open>Times that can always be marshalled.\<close>

definition total_times :: "(int \<Rightarrow> string) \<Rightarrow> time_marshaller" where
  "total_times T t = Inr (T t)"

lemma Marshal_total_times [simp]: "Marshal (total_times T) b = Inr (encode_body T b)"
  using Marshal_total [of T b] by (simp add: total_times_def [abs_def])

text \<open>
  C11: What a server does does not depend on the connection. Whatever the state of the response writer
  (new, written to before, or of a client that has gone, so that writing fails), and whether or not the body
  can be marshalled, the three nodes make the calls of their APIs for the request, in the same order, leave
  the same world, and panic exactly when the API does: a transfer is neither dropped nor repeated because
  its answer cannot be delivered.
\<close>

theorem effects_independent_of_connection:
  "effect (owner_http TM E A fuel r wr) = effect (owner_api E A fuel r) \<and>
   effect (issuer_http TM E r wr) = effect (issuer_api E r) \<and>
   effect (endorser_http TM D r' wr) = effect (endorser_api D r')"
  by (intro conjI owner_actions.effects issuer_actions.effects endorser_actions.effects)

subsection \<open>What a client learns\<close>

text \<open>The id a client finds in a JSON body: its payload, or the \<open>txId\<close> of its payload.\<close>

fun json_member :: "string \<Rightarrow> json \<Rightarrow> json option" where
  "json_member k (JObj ms) = map_of ms k"
| "json_member k j = None"

definition read_id :: "json \<Rightarrow> string option" where
  "read_id j =
     (case json_member ''payload'' j of
        None \<Rightarrow> None
      | Some p \<Rightarrow>
          (case (case json_member ''txId'' p of None \<Rightarrow> p | Some i \<Rightarrow> i) of JStr i \<Rightarrow> Some i | _ \<Rightarrow> None))"

lemma read_id_encode:
  "payload_id b = Some i \<Longrightarrow> read_id (encode_body T b) = Some i"
  by (cases b) (auto simp: read_id_def encode_message_def encode_LockResult_def split: option.split)

definition as_received ::
  "time_marshaller \<Rightarrow> api_json response res \<Rightarrow> (nat \<times> (string \<times> string) list \<times> chunk list) res" where
  "as_received TM y = (case y of
     Ok resp \<Rightarrow> Ok (Status resp, Header resp, body_chunks TM (Content resp)) | Err e \<Rightarrow> Err e | Panic p \<Rightarrow> Panic p)"

lemma received_cases:
  assumes "andThen m (\<lambda>resp. ret (Status resp, Header resp, body_chunks TM (Content resp))) w = (x, es, w')"
  obtains y where "m w = (y, es, w')" and "x = as_received TM y"
  using assms by (auto simp: andThen_eq_iff basic_eq_iff as_received_def)

lemma answered_on_wire:
  assumes "answered ident y p" and run: "settle_run Preparing es = Some p" and "as_received (total_times T) y = Ok (StatusOK, hs, body)"
  shows "\<exists>j tx. body = [JsonText j] \<and> read_id j = Some (ident tx) \<and> settled_once es tx"
proof -
  from assms obtain b tx where "body = [JsonText (encode_body T b)]" "payload_id b = Some (ident tx)" "p = Committed tx"
    by (cases y) (auto simp: answered_def as_received_def)
  moreover from this committed_settled_once run have "settled_once es tx" by simp
  ultimately show ?thesis using read_id_encode by blast
qed

lemma unconfirmed_on_wire:
  assumes "unconfirmed y p" and "settle_run Preparing es = Some p" and "\<forall>hs body. as_received (total_times T) y \<noteq> Ok (StatusOK, hs, body)"
  shows "\<forall>o1 \<in> set (order_events es). \<not> succeeded o1"
proof -
  have "\<forall>tx. p \<noteq> Committed tx"
    using assms(1,3) by (cases y) (auto simp: unconfirmed_def as_received_def)
  with assms(2) show ?thesis using not_committed_orders by blast
qed

text \<open>
  C4: What a client of an owner or an issuer can tell from the bytes it receives. If a \<open>POST\<close> is answered with status
  200, the body is one JSON text in which it finds the id of a transaction that was endorsed once, ordered
  once and confirmed for this request, and no other transaction was signed or ordered. If a
  \<open>POST\<close> other than a lock is answered in any other way, or not at all, nothing was confirmed. Any
  other method runs no view: it signs and orders nothing.
\<close>

theorem client_learns_outcome:
  assumes env: "initiates E"
    and run: "on_wire (owner_http (total_times T) E A fuel) r w = (x, es, w') \<or>
      on_wire (issuer_http (total_times T) E) r w = (x, es, w')"
  shows "if Method r = ''POST'' then
      (\<forall>hs body. x = Ok (StatusOK, hs, body) \<longrightarrow>
         (\<exists>j tx. body = [JsonText j] \<and> read_id j = Some (txID (ttx E) tx) \<and> settled_once es tx)) \<and>
      ((\<forall>hs body. x \<noteq> Ok (StatusOK, hs, body)) \<and> last (Path r) \<noteq> ''lock'' \<longrightarrow>
         (\<forall>o1 \<in> set (order_events es). \<not> succeeded o1))
    else \<forall>e \<in> set es. \<forall>v. op e \<noteq> Fsc (CRunView v)"
proof -
  from run obtain y where y: "owner_api E A fuel r w = (y, es, w') \<or> issuer_api E r w = (y, es, w')"
    and x: "x = as_received (total_times T) y"
    unfolding servers_received by (elim disjE received_cases) blast+
  show ?thesis
  proof (cases "Method r = ''POST''")
    case True
    have a: "\<exists>p. settle_run Preparing es = Some p \<and> answered (txID (ttx E)) y p"
      using y confD [OF owner_post_answered [OF env True]] issuer_post_settled [OF env True] by metis
    have u: "\<exists>p. settle_run Preparing es = Some p \<and> unconfirmed y p" if "last (Path r) \<noteq> ''lock''"
      using y confD [OF owner_post_unconfirmed [OF env True that]] issuer_post_settled [OF env True] by metis
    show ?thesis
      unfolding if_P [OF True] x
    proof (intro conjI allI impI)
      show "\<exists>j tx. body = [JsonText j] \<and> read_id j = Some (txID (ttx E) tx) \<and> settled_once es tx"
        if "as_received (total_times T) y = Ok (StatusOK, hs, body)" for hs body
        using a answered_on_wire [OF _ _ that] by blast
    next
      assume "(\<forall>hs body. as_received (total_times T) y \<noteq> Ok (StatusOK, hs, body)) \<and> last (Path r) \<noteq> ''lock''"
      then show "\<forall>o1 \<in> set (order_events es). \<not> succeeded o1"
        using u unconfirmed_on_wire by blast
    qed
  next
    case False
    from y forbidD(2) [OF owner_get_quiet [OF False, of E A fuel w]] forbidD(2) [OF issuer_get_quiet [OF False, of E w]]
    show ?thesis unfolding if_not_P [OF False] by blast
  qed
qed

text \<open>The route table as the router sees it, and the handler of the history.\<close>

lemma owner_mux_routes:
  "mux_routes (owner_HandlerFromMux A si []) =
     [(''GET'', [Lit ''healthz''], owner_siw_Healthz (new_wrapper si (mux_options []))),
      (''GET'', [Lit ''owner'', Lit ''accounts''], owner_siw_OwnerAccounts (new_wrapper si (mux_options []))),
      (''GET'', [Lit ''owner'', Lit ''accounts'', Wild], owner_siw_OwnerAccount A (new_wrapper si (mux_options []))),
      (''POST'', [Lit ''owner'', Lit ''accounts'', Wild, Lit ''claim''], owner_siw_Claim A (new_wrapper si (mux_options []))),
      (''POST'', [Lit ''owner'', Lit ''accounts'', Wild, Lit ''lock''], owner_siw_Lock A (new_wrapper si (mux_options []))),
      (''POST'', [Lit ''owner'', Lit ''accounts'', Wild, Lit ''reclaim''], owner_siw_Reclaim A (new_wrapper si (mux_options []))),
      (''POST'', [Lit ''owner'', Lit ''accounts'', Wild, Lit ''redeem''], owner_siw_Redeem A (new_wrapper si (mux_options []))),
      (''GET'', [Lit ''owner'', Lit ''accounts'', Wild, Lit ''transactions''],
        owner_siw_OwnerTransactions A (new_wrapper si (mux_options []))),
      (''POST'', [Lit ''owner'', Lit ''accounts'', Wild, Lit ''transfer''], owner_siw_Transfer A (new_wrapper si (mux_options []))),
      (''GET'', [Lit ''readyz''], owner_siw_Readyz (new_wrapper si (mux_options [])))]"
  by (simp add: mux_routes_def owner_HandlerFromMux_def owner_HandlerWithOptions_def HandleFunc_def
      owner_patterns Let_def)

lemma respond_encoding_error:
  assumes run: "m w = (Ok cb, es, w')" and obj: "obj cb = Some y" and as: "as (any y) = Some y"
    and vis: "vis y = json_response code b" and marshal: "Marshal TM b = Inl err"
    and f: "sel q = Some a" "f a = andThen m (\<lambda>cb. ret (obj cb))"
  shows "respond (NewStrictHandler s []) name as (\<lambda>y. visit TM (vis y)) (call_server sel any f) q r wr w =
    (Ok (http_Error_to (Error err) StatusInternalServerError
       (WriteHeader code (Header_Set ''Content-Type'' ''application/json'' wr))), es, w')"
  using assms
  by (simp add: respond_def call_server_def NewStrictHandler_def andThen_def attempt_def onError_def ret_def
      visit_def json_response_def Encode_def error_handler_def Let_def)

text \<open>
  C15: An error of the encoder comes too late to be one. When the time of a record of the history cannot be
  marshalled, the owner's server answers the request for the history with status 200 and the content
  type of JSON, which are out before the body is encoded; what follows is not JSON but the text of the
  error. The status 500 and the headers the error handler sets are lost.
\<close>

theorem encoding_error_follows_status:
  assumes req: "Method r = ''GET''" "Path r = [''owner'', ''accounts'', i, ''transactions'']" "i \<noteq> ''''"
    and id: "bindPath A ''id'' i = Inr acc"
    and run: "Server_OwnerTransactions E fuel acc w = (Ok (StatusOK, TransactionsSuccess m ts), es, w')"
    and fails: "first_error (map TM (map TxTimestamp ts)) = Some err"
  shows "on_wire (owner_http TM E A fuel) r w =
    (Ok (StatusOK, cors_headers @ [(''Content-Type'', ''application/json'')], [RawText (Error err @ [CHR 0x0A])]), es, w')"
proof -
  let ?sh = "NewStrictHandler (owner_NewServer E fuel) []"
  have marshal: "Marshal TM (TransactionsSuccess m ts) = Inl err"
    using fails by (simp add: Marshal_def)
  have sh: "owner_sh_OwnerTransactions TM ?sh acc r wr w =
    (Ok (http_Error_to (Error err) StatusInternalServerError
       (WriteHeader StatusOK (Header_Set ''Content-Type'' ''application/json'' wr))), es, w')" for wr
    unfolding owner_sh_OwnerTransactions_def
    by (rule respond_encoding_error [where m = "Server_OwnerTransactions E fuel acc" and
          obj = owner_transactions_object and y = "OwnerTransactions200JSONResponse m ts", OF run _ _ _ marshal])
      (simp_all add: NewStrictHandler_def owner_NewServer_def status_defs)
  have find: "find_route (mux_routes (owner_HandlerFromMux A (owner_interface TM ?sh) [])) r =
    Some (owner_sh_OwnerTransactions TM ?sh acc r)"
    using req id
    by (simp add: owner_mux_routes match_method_def owner_siw_OwnerTransactions_def bind_path_def owner_interface_def
        fun_eq_iff)
  show ?thesis
    using req
    by (simp add: on_wire_def owner_http_def WithAnyCORS_to_def mux_ServeHTTP_def find Let_def andThen_def sh ret_def
        http_Error_to_def Write_def WriteHeader_def Header_Set_def new_writer_def sent_def cors_headers_def)
qed

end
