(* ===== verification/Swap.thy ===== *)
theory Swap imports Wire begin

text \<open>
  The two halves of a hash time-locked swap, through the APIs of two owners: what the owner answers to a lock
  request, as its client receives it, and what any owner is asked to do when that answer is sent back to it in a
  claim or a reclaim request.
\<close>

text \<open>The bytes of a slice; a \<open>nil\<close> slice has none.\<close>

definition slice_bytes :: "bytes option \<Rightarrow> bytes" where
  "slice_bytes s = (case s of None \<Rightarrow> [] | Some bs \<Rightarrow> bs)"

text \<open>
  What stands behind a lock: the lock operation of the library returned the pre-image, its transaction was
  endorsed and ordered, and the script of its first output has the hash.
\<close>

definition locked :: "('w, 'h) env \<Rightarrow> ('h call, 'w) event list \<Rightarrow> bytes \<Rightarrow> bytes \<Rightarrow> string \<Rightarrow> bool" where
  "locked E es preimage hash i \<longleftrightarrow>
     (\<exists>tx wal me typ q recipient d h v v1 v2 v3 script rest.
        i = txID (ttx E) tx \<and>
        txLock (htlc E) tx wal me typ q recipient d h v = (Ok preimage, v1) \<and>
        Event (Htlc (CLock tx wal me typ q recipient d h)) True v1 \<in> set es \<and>
        (\<exists>v4. Event (Fsc (CRunView (HtlcCollectEndorsementsView tx))) True v4 \<in> set es) \<and>
        (\<exists>v5. Event (Fsc (CRunView (HtlcOrderingAndFinalityView tx))) True v5 \<in> set es) \<and>
        htlcOutputs (htlc E) tx v2 = (Ok (Some script # rest), v3) \<and> hash = slice_bytes (ScriptHash script))"

lemma lockedI:
  assumes "txLock (htlc E) tx wal me typ q recipient d h v = (Ok pre, v1)"
    and "htlcOutputs (htlc E) tx v2 = (Ok (Some script # rest), v3)"
    and "Event (Htlc (CLock tx wal me typ q recipient d h)) True v1 \<in> set es"
    and "\<exists>v4. Event (Fsc (CRunView (HtlcCollectEndorsementsView tx))) True v4 \<in> set es"
    and "\<exists>v5. Event (Fsc (CRunView (HtlcOrderingAndFinalityView tx))) True v5 \<in> set es"
  shows "locked E es pre (slice_bytes (ScriptHash script)) (txID (ttx E) tx)"
  unfolding locked_def using assms by blast

lemma lock_view_locked:
  "conf collect fs (LockView_Call E v)
     (\<lambda>r es w1. \<forall>a. r = Ok a \<longrightarrow> (\<exists>l. a = ALockResult l \<and> locked E es (PreImage l) (slice_bytes (Hash l)) (TxID l))) w"
  by (auto simp: LockView_Call_def script_hash_at0_def sign_and_order_def api_defs prog_simps
      cong: conf_cong split: option.split list.split) (erule (1) lockedI; auto)+

definition lock_answer :: "('w, 'h) env \<Rightarrow> (nat \<times> api_json) res \<Rightarrow> ('h call, 'w) event list \<Rightarrow> bool" where
  "lock_answer E r es \<longleftrightarrow>
     (\<forall>b. r = Ok (StatusOK, b) \<longrightarrow>
        (\<exists>m l pre. b = LockSuccess m l \<and> locked E es pre (slice_bytes (PHash l)) (PTxId l) \<and>
           PPreimage l = (if pre = [] then None else Some pre)))"

lemma FSC_Lock_locked:
  assumes env: "initiates E"
  shows "conf collect fs (FSC_Lock E ty q acc recipient node d hash tms)
    (\<lambda>r es w1. \<forall>l. r = Ok l \<longrightarrow> locked E es (PreImage l) (slice_bytes (Hash l)) (TxID l)) w"
proof -
  have init: "conf collect gs (InitiateView E (LockView_Call E v))
      (\<lambda>r es w1. \<forall>a. r = Ok a \<longrightarrow> (\<exists>l. a = ALockResult l \<and> locked E es (PreImage l) (slice_bytes (Hash l)) (TxID l))) w1" for gs v w1
    by (rule conf_InitiateView [OF env conf_mono [OF lock_view_locked]]) (auto split: res.split)
  show ?thesis
    unfolding FSC_Lock_def GetManager_def
    by (auto simp: prog_simps intro!: conf_mono [OF init] split: res.split any.split)
qed

lemma lock_answer_simps [simp]:
  "lock_answer E (Err e) es" "lock_answer E (Panic p) es" "code \<noteq> StatusOK \<Longrightarrow> lock_answer E (Ok (code, b)) es"
  "locked E es pre (slice_bytes h) i \<Longrightarrow> pre \<noteq> [] \<Longrightarrow>
     lock_answer E (Ok (StatusOK, LockSuccess m \<lparr>PHash = h, PPreimage = Some pre, PTxId = i\<rparr>)) es"
  "locked E es [] (slice_bytes h) i \<Longrightarrow> lock_answer E (Ok (StatusOK, LockSuccess m \<lparr>PHash = h, PPreimage = None, PTxId = i\<rparr>)) es"
  by (auto simp: lock_answer_def)

lemma Server_Lock_locked:
  assumes env: "initiates E"
  shows "conf collect fs (Server_Lock E acc (Some body)) (\<lambda>r es w1. lock_answer E r es) w"
proof -
  have lock: "conf collect fs
    (andThen (FSC_Lock E ty q acc recipient rnode d h tms) (\<lambda>res. ret (StatusOK, LockSuccess ''ok''
       \<lparr>PHash = Hash res, PPreimage = (if 0 < length (PreImage res) then Some (PreImage res) else None), PTxId = TxID res\<rparr>)))
    (\<lambda>r es w1. lock_answer E r es) w" for ty q recipient rnode d h tms
    unfolding conf_andThen
    by (rule conf_mono [OF FSC_Lock_locked [OF env]]) (auto simp: prog_simps split: res.split)
  have refused: "conf collect fs (ret (StatusBadRequest, b)) (\<lambda>r es w1. lock_answer E r es) w" for b
    by (simp add: prog_simps status_defs)
  obtain d ok where "toDeadline (LqDeadline body) = (d, ok)" by (cases "toDeadline (LqDeadline body)")
  then show ?thesis
    by (simp only: Server_Lock_def option.case prod.case Let_def lock refused simp_thms split: if_split)
qed

text \<open>The owner's API on the path of a lock.\<close>

definition api_lock_answer :: "('w, 'h) env \<Rightarrow> api_json response res \<Rightarrow> ('h call, 'w) event list \<Rightarrow> bool" where
  "api_lock_answer E x es \<longleftrightarrow>
     (\<forall>resp. x = Ok resp \<and> Status resp = StatusOK \<longrightarrow>
        (\<exists>b. Content resp = Json b \<and> lock_answer E (Ok (StatusOK, b)) es))"

lemma strict_Lock_locked:
  assumes env: "initiates E"
  shows "conf collect fs (strict_Lock E acc r) (\<lambda>x es w1. api_lock_answer E x es) w"
  unfolding strict_Lock_def strict_body_def strict_respond_def
  by (auto simp: prog_simps api_lock_answer_def http_Error_def json_response_def status_defs
      intro!: conf_mono [OF Server_Lock_locked [OF env]] split: sum.split res.split)

lemma owner_lock_locked:
  assumes env: "initiates E" and "Method r = ''POST''" and "last (Path r) = ''lock''"
  shows "conf collect [] (owner_api E A fuel r) (\<lambda>x es w1. api_lock_answer E x es) w"
  unfolding owner_api_def
proof (rule conf_WithAnyCORS, rule conf_serve_mux)
  fix m ps h args
  assume "(m, ps, h) \<in> set (owner_routes E A fuel)" and "match_method m (Method r)"
    and "match_path ps (Path r) = Some args"
  with assms(2,3) have "h = wrapper_Lock E A"
    by (auto simp: owner_routes_def match_method_def dest: match_path_last)
  then show "conf collect [] (h args r)
      (\<lambda>x q w1. case x of
         Ok resp \<Rightarrow> api_lock_answer E (Ok (resp\<lparr>Header := cors_headers @ Header resp\<rparr>)) q
       | Err e \<Rightarrow> api_lock_answer E (Err e) q | Panic s \<Rightarrow> api_lock_answer E (Panic s) q) w"
    by (auto simp: wrapper_defs api_lock_answer_def http_Error_def status_defs
        intro!: conf_with_id conf_mono [OF strict_Lock_locked [OF env]] split: res.split)
qed (simp_all add: api_lock_answer_def status_defs http_Error_def)

subsection \<open>Sending the answer back\<close>

definition sent_back :: "string \<Rightarrow> string \<Rightarrow> string \<Rightarrow> json \<Rightarrow> request" where
  "sent_back acc action k j = \<lparr>Method = ''POST'', Path = [''owner'', ''accounts'', acc, action], Query = [],
     RequestBody = Inr (JObj [(k, j)])\<rparr>"

lemma decode_sent_back:
  "decode_ClaimRequest (JObj [(''preimage'', encode_bytes p)]) zero_claim_request = Inr \<lparr>CqPreimage = p, CqTmsId = None\<rparr>"
  "decode_ReclaimRequest (JObj [(''hash'', encode_bytes h)]) zero_reclaim_request = Inr \<lparr>KqHash = h, KqTmsId = None\<rparr>"
  by (simp_all add: decode_ClaimRequest_def decode_ReclaimRequest_def decode_struct_def find_field_def field_def
      zero_claim_request_def zero_reclaim_request_def decode_encode_bytes lower_def Let_def)

lemma owner_actions_found:
  assumes "bindPath A ''id'' i = Inr acc" and "i \<noteq> ''''"
  shows "owner_api E A fuel (sent_back i ''claim'' k j) =
      WithAnyCORS (strict_Claim E acc) (sent_back i ''claim'' k j)"
    and "owner_api E A fuel (sent_back i ''reclaim'' k j) =
      WithAnyCORS (strict_Reclaim E acc) (sent_back i ''reclaim'' k j)"
  using assms
  by (simp_all add: owner_api_def WithAnyCORS_def serve_mux_def owner_routes_def sent_back_def match_method_def
      wrapper_defs with_id_def)

lemma preimage_sent_back:
  assumes "bindPath A ''id'' i = Inr acc" and "i \<noteq> ''''" and "p \<noteq> []"
  shows "owner_api E A fuel (sent_back i ''claim'' ''preimage'' (encode_bytes p)) =
    WithAnyCORS (\<lambda>_. strict_respond (andThen (FSC_Claim E acc p None) (\<lambda>txID. ret (StatusOK, ClaimSuccess ''ok'' txID))))
      (sent_back i ''claim'' ''preimage'' (encode_bytes p))"
  unfolding owner_actions_found [OF assms(1,2)]
  by (simp add: WithAnyCORS_def strict_Claim_def strict_body_def sent_back_def decode_sent_back Server_Claim_def
      assms(3) toTMSID_def)

lemma hash_sent_back:
  assumes "bindPath A ''id'' i = Inr acc" and "i \<noteq> ''''" and "h \<noteq> []"
  shows "owner_api E A fuel (sent_back i ''reclaim'' ''hash'' (encode_bytes h)) =
    WithAnyCORS (\<lambda>_. strict_respond (andThen (FSC_Reclaim E acc h None) (\<lambda>txID. ret (StatusOK, ReclaimSuccess ''ok'' txID))))
      (sent_back i ''reclaim'' ''hash'' (encode_bytes h))"
  unfolding owner_actions_found [OF assms(1,2)]
  by (simp add: WithAnyCORS_def strict_Reclaim_def strict_body_def sent_back_def decode_sent_back Server_Reclaim_def
      assms(3) toTMSID_def)

text \<open>
  C21: A swap can be completed with what the client of the sender receives. When an owner answers a lock request with
  status 200, the body names the transaction of the lock, its hash, and, unless the client chose the hash
  itself, the pre-image the lock operation returned. The \<open>preimage\<close> member of the answer, put into a claim request to any
  owner, has that owner claim for the named account with exactly this pre-image; the \<open>hash\<close> member, put into
  a reclaim request, has it reclaim with exactly the hash in the script of the lock.
\<close>

theorem lock_answer_sent_back:
  assumes env: "initiates E" and lock: "Method r = ''POST''" "last (Path r) = ''lock''"
    and run: "on_wire (owner_http (total_times T) E A fuel) r w = (Ok (StatusOK, hs, body), es, w')"
    and other: "bindPath A' ''id'' i = Inr acc" "i \<noteq> ''''"
  shows "\<exists>j p tx_id pre h y. body = [JsonText j] \<and> json_member ''payload'' j = Some p \<and>
    json_member ''txId'' p = Some (JStr tx_id) \<and> locked E es pre h tx_id \<and>
    (if pre = [] then json_member ''preimage'' p = None
     else \<exists>x. json_member ''preimage'' p = Some x \<and>
       owner_api E' A' fuel' (sent_back i ''claim'' ''preimage'' x) =
         WithAnyCORS (\<lambda>_. strict_respond (andThen (FSC_Claim E' acc pre None) (\<lambda>txID. ret (StatusOK, ClaimSuccess ''ok'' txID))))
           (sent_back i ''claim'' ''preimage'' x)) \<and>
    json_member ''hash'' p = Some y \<and>
    (h \<noteq> [] \<longrightarrow> owner_api E' A' fuel' (sent_back i ''reclaim'' ''hash'' y) =
       WithAnyCORS (\<lambda>_. strict_respond (andThen (FSC_Reclaim E' acc h None) (\<lambda>txID. ret (StatusOK, ReclaimSuccess ''ok'' txID))))
         (sent_back i ''reclaim'' ''hash'' y))"
proof -
  from run obtain resp where api: "owner_api E A fuel r w = (Ok resp, es, w')" and "Status resp = StatusOK"
    and b: "body = body_chunks (total_times T) (Content resp)"
    unfolding servers_received by (auto simp: andThen_eq_iff basic_eq_iff)
  with collectD [OF owner_lock_locked [OF env lock] api] obtain m l pre where l: "Content resp = Json (LockSuccess m l)"
    "locked E es pre (slice_bytes (PHash l)) (PTxId l)" "PPreimage l = (if pre = [] then None else Some pre)"
    by (auto simp: api_lock_answer_def lock_answer_def)
  have members: "json_member ''payload'' (encode_message m (encode_LockResult l)) = Some (encode_LockResult l)"
    "json_member ''txId'' (encode_LockResult l) = Some (JStr (PTxId l))"
    "json_member ''hash'' (encode_LockResult l) = Some (encode_slice (PHash l))"
    "json_member ''preimage'' (encode_LockResult l) = (if pre = [] then None else Some (encode_bytes pre))"
    by (simp_all add: encode_message_def encode_LockResult_def l(3))
  have hash: "encode_slice (PHash l) = encode_bytes (slice_bytes (PHash l))" if "slice_bytes (PHash l) \<noteq> []"
    using that by (simp add: encode_slice_def slice_bytes_def split: option.splits)
  show ?thesis
    by (rule exI [of _ "encode_message m (encode_LockResult l)"], rule exI [of _ "encode_LockResult l"],
        rule exI [of _ "PTxId l"], rule exI [of _ pre], rule exI [of _ "slice_bytes (PHash l)"],
        rule exI [of _ "encode_slice (PHash l)"])
      (simp add: b l(1,2) members hash preimage_sent_back [OF other] hash_sent_back [OF other])
qed

end
