(* ===== verification/Ce_System.thy ===== *)
theory Ce_System imports Ce_Client Ce_Ledger begin

text \<open>
  The custom endorser as a system: the command line client (\<open>cmd/client\<close>), the service it asks
  (\<open>service.go\<close> with the sample executor) and a ledger, composed through the SDK between them. Over any
  sequence of \<open>query\<close> and \<open>invoke\<close> commands of several clients, whose submissions the peer commits later, in
  any order, or never, the users see a key-value store.
\<close>

subsection \<open>The SDK between client and service\<close>

text \<open>How the client's side reads a proposal response and the writes of an endorsement.\<close>

record ('e, 'p) endorsement_view =
  respOf :: "'p \<Rightarrow> proposal_response"
  writesOf :: "'p \<Rightarrow> kv"
  endorsed :: "'e \<Rightarrow> 'p"

text \<open>
  The documented behaviour of the SDK. An endorsement builder puts a result into the response: status 200
  with the payload and the writes, or status 400 with the message. \<open>ExecuteTransaction\<close> has a proposal
  with the given arguments processed by the endorser, and returns its response as the first. Nothing the
  client calls commits anything: a submission is only queued.
\<close>

definition builds_responses ::
  "('w, 'h, 'r, 'q, 'p) sdk \<Rightarrow> ('w, 'h, 'r) ledger_view \<Rightarrow> ('e, 'p) endorsement_view \<Rightarrow> bool" where
  "builds_responses S V X \<longleftrightarrow>
     (\<forall>k call rws payload w p w1. endorse S k call (Success rws payload) w = (Ok p, w1) \<longrightarrow>
        RespStatus (respOf X p) = 200 \<and> RespPayload (respOf X p) = payload \<and> writesOf X p = writes V rws) \<and>
     (\<forall>k call msg w p w1. endorse S k call (BadRequest msg) w = (Ok p, w1) \<longrightarrow> RespStatus (respOf X p) = 400)"

lemma builds_responsesD:
  assumes "builds_responses S V X"
  shows "endorse S k call (Success rws payload) w = (Ok p, w1) \<Longrightarrow> RespStatus (respOf X p) = 200"
    "endorse S k call (Success rws payload) w = (Ok p, w1) \<Longrightarrow> RespPayload (respOf X p) = payload"
    "endorse S k call (Success rws payload) w = (Ok p, w1) \<Longrightarrow> writesOf X p = writes V rws"
    "endorse S k call (BadRequest msg) w = (Ok p, w1) \<Longrightarrow> RespStatus (respOf X p) = 400"
  using assms unfolding builds_responses_def by blast+

definition asks_endorser ::
  "('w, 'c, 's, 'e) client_env \<Rightarrow> ('w, 'h, 'r, 'q, 'p) sdk \<Rightarrow> (('h, 'r, 'q) ce_call, 'w, 'h, 'r) service \<Rightarrow>
   ('w, 'h, 'r) ledger_view \<Rightarrow> ('e, 'p) endorsement_view \<Rightarrow> bool" where
  "asks_endorser C S s V X \<longleftrightarrow>
     (\<forall>ec ns version args w e w'. executeTransaction C ec ns version args w = (Ok e, w') \<longrightarrow>
        (\<exists>prop es w1. (\<forall>call w2. parse S prop w = (Ok call, w2) \<longrightarrow> Args call = args) \<and>
           ProcessProposal S s prop w = (Ok (Inr (endorsed X e)), es, w1) \<and> ledger V w' = ledger V w1 \<and>
           (\<exists>rs. responses C e = respOf X (endorsed X e) # rs)))"

definition client_commits_nothing :: "('w, 'c, 's, 'e) client_env \<Rightarrow> ('w, 'h, 'r) ledger_view \<Rightarrow> bool" where
  "client_commits_nothing C V \<longleftrightarrow>
     (\<forall>f w. ledger V (snd (openFile C f w)) = ledger V w) \<and>
     (\<forall>w. ledger V (snd (readConfig C w)) = ledger V w) \<and>
     (\<forall>w. ledger V (snd (unmarshalConfig C w)) = ledger V w) \<and>
     (\<forall>f w. ledger V (snd (flagString C f w)) = ledger V w) \<and>
     (\<forall>d m w. ledger V (snd (signerFromMSP C d m w)) = ledger V w) \<and>
     (\<forall>cs sg ch ns v w. ledger V (snd (newEndorsementClient C cs sg ch ns v w)) = ledger V w) \<and>
     (\<forall>k cs sg w. ledger V (snd (newSubmitter C k cs sg w)) = ledger V w) \<and>
     (\<forall>h ns v as w. ledger V (snd (executeTransaction C h ns v as w)) = ledger V w) \<and>
     (\<forall>h e w. ledger V (snd (submit C h e w)) = ledger V w) \<and>
     (\<forall>h w. ledger V (snd (closeClient C h w)) = ledger V w) \<and>
     (\<forall>h w. ledger V (snd (closeSubmitter C h w)) = ledger V w) \<and>
     (\<forall>t w. ledger V (snd (print C t w)) = ledger V w)"

lemma client_frames:
  assumes "client_commits_nothing C V"
  shows "openFile C f w = (x1, w1) \<Longrightarrow> ledger V w1 = ledger V w"
    "readConfig C w = (x2, w1) \<Longrightarrow> ledger V w1 = ledger V w"
    "unmarshalConfig C w = (x3, w1) \<Longrightarrow> ledger V w1 = ledger V w"
    "flagString C g w = (x4, w1) \<Longrightarrow> ledger V w1 = ledger V w"
    "signerFromMSP C d m w = (x5, w1) \<Longrightarrow> ledger V w1 = ledger V w"
    "newEndorsementClient C cs sg ch ns v w = (x6, w1) \<Longrightarrow> ledger V w1 = ledger V w"
    "newSubmitter C k cs sg w = (x7, w1) \<Longrightarrow> ledger V w1 = ledger V w"
    "executeTransaction C h ns v as w = (x8, w1) \<Longrightarrow> ledger V w1 = ledger V w"
    "submit C h e w = (x9, w1) \<Longrightarrow> ledger V w1 = ledger V w"
    "closeClient C h w = (x10, w1) \<Longrightarrow> ledger V w1 = ledger V w"
    "closeSubmitter C h w = (x11, w1) \<Longrightarrow> ledger V w1 = ledger V w"
    "print C t w = (x12, w1) \<Longrightarrow> ledger V w1 = ledger V w"
  using assms unfolding client_commits_nothing_def by (metis snd_conv)+

subsection \<open>One endorsement\<close>

lemma process_endorses:
  assumes "ProcessProposal S s prop w = (Ok (Inr p), es, w')"
  shows "\<exists>k call res v v'. endorse S k call res v = (Ok p, v') \<and> Event (CEndorse k call res) True v' \<in> set es"
proof -
  have exec: "conf collect fs (execute ns call) (\<lambda>r gs w2. True) v" for execute ns call fs v
    by (simp add: conf_def run_collect split: prod.split)
  have "conf collect [] (ProcessProposal S s prop) (\<lambda>r es w1. r = Ok (Inr p) \<longrightarrow>
    (\<exists>k call res v v'. endorse S k call res v = (Ok p, v') \<and> Event (CEndorse k call res) True v' \<in> set es)) w"
    unfolding ProcessProposal_def Let_def
    by (auto simp: prog_simps Endorse_def split: option.split res.split intro!: conf_mono [OF exec]) blast
  from collectD [OF this assms] show ?thesis by simp
qed

lemma executed_is_kv_exec:
  assumes laws: "lawful_store S V" and sample: "executors s = sample_executors S"
    and builds: "builds_responses S V X" and asks: "asks_endorser C S s V X"
    and exec: "executeTransaction C ec ns version args w = (Ok e, w')"
    and resp: "responses C e = resp # rs" and ok: "ok_status resp"
  shows "kv_exec (ledger V w ''mynamespace'') args = Some (writesOf X (endorsed X e), RespPayload resp)"
proof -
  from asks exec obtain q es w1 where args: "\<And>call w2. parse S q w = (Ok call, w2) \<Longrightarrow> Args call = args"
    and run: "ProcessProposal S s q w = (Ok (Inr (endorsed X e)), es, w1)"
    and first: "resp = respOf X (endorsed X e)"
    unfolding asks_endorser_def using resp by fastforce
  from process_endorses [OF run] obtain k call res v v' where
    made: "endorse S k call res v = (Ok (endorsed X e), v')" and ev: "Event (CEndorse k call res) True v' \<in> set es"
    by blast
  have "res \<noteq> BadRequest m" for m
    using builds_responsesD(4) [OF builds] made ok first by (auto simp: ok_status_def)
  then obtain rws payload where res: "res = Success rws payload" by (cases res) auto
  with builds_responsesD(2,3) [OF builds] made first
  have w: "writesOf X (endorsed X e) = writes V rws" "RespPayload resp = payload" by auto
  have "kv_exec (ledger V w ''mynamespace'') (Args call) = Some (writes V rws, payload)"
    using endorsed_is_kv_exec [OF laws sample run] ev res by blast
  moreover have "Args call = args"
  proof -
    from sample_endorses_properly [OF sample run, unfolded endorsed_properly_def, rule_format, OF ev]
    obtain call0 w2 where "parse S q w = (Ok call0, w2)" "call = default_version call0" by auto
    with args show ?thesis by simp
  qed
  ultimately show ?thesis by (simp add: w)
qed

subsection \<open>One command\<close>

fun printing :: "('c, 's, 'e) client_call \<Rightarrow> string option" where
  "printing (CPrint text) = Some text"
| "printing c = None"

definition printed :: "(('c, 's, 'e) client_call, 'w) event list \<Rightarrow> string list" where
  "printed es = List.map_filter (\<lambda>e. printing (op e)) es"

text \<open>What a command that got that far had endorsed, and what it did with it.\<close>

definition endorsement_of ::
  "('w, 'c, 's, 'e) client_env \<Rightarrow> ('w, 'h, 'r) ledger_view \<Rightarrow> error + json \<Rightarrow> 'w \<Rightarrow> 'e \<Rightarrow> proposal_response \<Rightarrow> bool"
where
  "endorsement_of C V arg w e resp \<longleftrightarrow>
     (\<exists>ec ns version args rs w1 w2. parseTxArgs arg = Inr args \<and>
        executeTransaction C ec ns version args w1 = (Ok e, w2) \<and> ledger V w1 = ledger V w \<and>
        responses C e = resp # rs \<and> ok_status resp)"

text \<open>The parts of a command that neither submit nor print: what they keep, and what their result satisfies.\<close>

lemma printed_simps [simp]:
  "printed [] = []" "printed (es @ fs) = printed es @ printed fs"
  "printed (e # es) = (case printing (op e) of None \<Rightarrow> printed es | Some text \<Rightarrow> text # printed es)"
  by (simp_all add: printed_def List.map_filter_def split: option.split)

lemma submissions_simps [simp]:
  "submissions [] = []" "submissions (es @ fs) = submissions es @ submissions fs"
  "submissions (e # es) =
     (case submission (op e) of None \<Rightarrow> submissions es | Some x \<Rightarrow> (x, succeeded e) # submissions es)"
  by (simp_all add: submissions_def List.map_filter_def split: option.split)

definition silent ::
  "('w, 'h, 'r) ledger_view \<Rightarrow> ('a \<Rightarrow> bool) \<Rightarrow> (('c, 's, 'e) client_call, 'w, 'a) prog \<Rightarrow> bool" where
  "silent V P m \<longleftrightarrow>
     (\<forall>w r es w'. m w = (r, es, w') \<longrightarrow>
        ledger V w' = ledger V w \<and> submissions es = [] \<and> printed es = [] \<and> (\<forall>x. r = Ok x \<longrightarrow> P x))"

lemma silentI:
  "(\<And>w r es w'. m w = (r, es, w') \<Longrightarrow> ledger V w' = ledger V w \<and> submissions es = [] \<and> printed es = [] \<and>
      (\<forall>x. r = Ok x \<longrightarrow> P x)) \<Longrightarrow> silent V P m"
  unfolding silent_def by blast

lemma silentD:
  assumes "silent V P m" and "m w = (r, es, w')"
  shows "ledger V w' = ledger V w" "submissions es = []" "printed es = []" "r = Ok x \<Longrightarrow> P x"
  using assms unfolding silent_def by blast+

lemma silent_basic [intro!]:
  "P x \<Longrightarrow> silent V P (ret x)" "silent V P (throw e)" "silent V P (panic s)"
  by (auto intro!: silentI simp: basic_eq_iff)

lemma silent_andThen:
  assumes "silent V R m" and "\<And>x. R x \<Longrightarrow> silent V P (k x)"
  shows "silent V P (andThen m k)"
proof (rule silentI)
  fix w r es w'
  assume run: "andThen m k w = (r, es, w')"
  show "ledger V w' = ledger V w \<and> submissions es = [] \<and> printed es = [] \<and> (\<forall>x. r = Ok x \<longrightarrow> P x)"
  proof (cases "m w")
    case (fields r1 es1 w1)
    note s = silentD [OF assms(1) fields]
    show ?thesis
    proof (cases r1)
      case (Ok x)
      obtain r2 es2 w2 where run2: "k x w1 = (r2, es2, w2)" by (cases "k x w1")
      from silentD [OF assms(2) [OF s(4) [OF Ok]] this] s run fields Ok run2 show ?thesis
        by (auto simp: andThen_def)
    qed (use s run fields in \<open>auto simp: andThen_def\<close>)
  qed
qed

lemmas silent_then = silent_andThen [where R = "\<lambda>x. True", simplified]

lemma silent_wrapErr [intro]: "silent V P m \<Longrightarrow> silent V P (wrapErr msg m)"
  by (rule silentI) (auto simp: wrapErr_eq_iff dest: silentD)

lemma silent_ext:
  assumes "submission c = None" and "printing c = None"
    and "\<And>w x w'. f w = (x, w') \<Longrightarrow> ledger V w' = ledger V w"
  shows "silent V (\<lambda>x. True) (ext c f)"
  by (rule silentI) (use assms in \<open>auto simp: ext_eq_iff\<close>)

lemma silent_extv:
  assumes "submission c = None" and "printing c = None"
    and "\<And>w x w'. f w = (x, w') \<Longrightarrow> ledger V w' = ledger V w"
  shows "silent V (\<lambda>x. True) (extv c f)"
  by (rule silentI) (use assms in \<open>auto simp: extv_eq_iff\<close>)

lemma conf_silent:
  assumes "silent V P m"
    and "\<And>r fs w1. ledger V w1 = ledger V w \<Longrightarrow> submissions fs = submissions es \<Longrightarrow> printed fs = printed es \<Longrightarrow>
      (\<forall>x. r = Ok x \<longrightarrow> P x) \<Longrightarrow> Q r fs w1"
  shows "conf collect es m Q w"
proof (rule confI)
  fix r gs w1
  assume run: "m w = (r, gs, w1)"
  note s = silentD [OF assms(1) run]
  show "\<exists>q. run_aut collect es gs = Some q \<and> Q r q w1"
    by (intro exI [of _ "es @ gs"] conjI assms(2)) (use s in \<open>auto simp: run_collect\<close>)
qed

lemma silent_parts:
  assumes quiet: "client_commits_nothing C V"
  shows "silent V (\<lambda>(cfg, args). parseTxArgs arg = Inr args) (prepare C arg)"
    and "silent V (\<lambda>x. True) (namespaceOrDefault C ns)"
    and "silent V (\<lambda>x. True) (load_identity C cfg)"
    and "silent V (\<lambda>x. True) (buildEndorsementClient C cfg signer ns)"
    and "silent V (\<lambda>x. True) (new_submitter C cfg confs signer)"
    and "silent V (\<lambda>x. True) (run_res res)"
proof -
  note frame = client_frames [OF quiet]
  have res: "silent V (\<lambda>x. True) (run_res res')" for res' :: "'x res"
    by (cases res') (auto simp: run_res_def)
  show "silent V (\<lambda>x. True) (run_res res)" by (rule res)
  show "silent V (\<lambda>(cfg, args). parseTxArgs arg = Inr args) (prepare C arg)"
    unfolding prepare_def loadConfig_def
    by (intro silent_then silent_wrapErr silent_ext silent_extv; auto intro: frame split: option.split sum.split)
  show "silent V (\<lambda>x. True) (namespaceOrDefault C ns)"
    unfolding namespaceOrDefault_def by (rule silent_andThen [OF silent_extv]) (auto intro: frame)
  show "silent V (\<lambda>x. True) (load_identity C cfg)"
    unfolding load_identity_def
    by (cases "CliIdentity cfg"; auto intro!: silent_wrapErr silent_ext intro: frame)
  show "silent V (\<lambda>x. True) (buildEndorsementClient C cfg signer ns)"
    unfolding buildEndorsementClient_def
    by (rule silent_then [OF res]) (auto intro!: silent_wrapErr silent_ext intro: frame)
  show "silent V (\<lambda>x. True) (new_submitter C cfg confs signer)"
    unfolding new_submitter_def by (auto intro!: silent_wrapErr silent_ext intro: frame)
qed

text \<open>The outcome of a command: as it was, or with an endorsement it submitted, printed, or both.\<close>

definition outcome ::
  "('w, 'c, 's, 'e) client_env \<Rightarrow> ('w, 'h, 'r) ledger_view \<Rightarrow> bool \<Rightarrow> error + json \<Rightarrow> 'w \<Rightarrow> unit res \<Rightarrow>
   (('c, 's, 'e) client_call, 'w) event list \<Rightarrow> 'w \<Rightarrow> bool"
where
  "outcome C V submits arg w r es w' \<longleftrightarrow>
     ledger V w' = ledger V w \<and>
     (submissions es = [] \<and> printed es = [] \<and> r \<noteq> Ok () \<or>
      (\<exists>e resp ok. endorsement_of C V arg w e resp \<and> (r = Ok () \<longleftrightarrow> ok) \<and>
         submissions es = (if submits then [(e, ok)] else []) \<and> printed es = (if ok then [RespPayload resp] else [])))"

lemma outcome_none:
  "ledger V w1 = ledger V w \<Longrightarrow> submissions es = [] \<Longrightarrow> printed es = [] \<Longrightarrow> r \<noteq> Ok () \<Longrightarrow>
   outcome C V submits arg w r es w1"
  by (simp add: outcome_def)

text \<open>A silent part before the rest, and one deferred to its end.\<close>

lemma outcome_andThen:
  assumes "silent V P m"
    and start: "ledger V v = ledger V w" "submissions es = []" "printed es = []"
    and rest: "\<And>x fs v'. P x \<Longrightarrow> ledger V v' = ledger V w \<Longrightarrow> submissions fs = [] \<Longrightarrow> printed fs = [] \<Longrightarrow>
      conf collect fs (k x) (outcome C V submits arg w) v'"
  shows "conf collect es (andThen m k) (outcome C V submits arg w) v"
  unfolding conf_andThen
  by (rule conf_silent [OF assms(1)]) (auto simp: start intro: rest outcome_none split: res.split)

lemma outcome_deferred:
  assumes close: "submission c = None" "printing c = None"
    and frame: "\<And>v x v'. f v = (x, v') \<Longrightarrow> ledger V v' = ledger V v"
    and body: "conf collect es m (outcome C V submits arg w) v"
  shows "conf collect es (deferred m (extv c f)) (outcome C V submits arg w) v"
  unfolding conf_deferred conf_extv
proof (rule conf_mono [OF body], intro allI impI)
  fix r q v1 x v2
  assume o: "outcome C V submits arg w r q v1" and f: "f v1 = (x, v2)"
  have "outcome C V submits arg w r (q @ [Event c True v2]) v2"
    using o frame [OF f] close by (simp add: outcome_def)
  then show "case collect q (Event c True v2) of None \<Rightarrow> False
      | Some q' \<Rightarrow> case Ok x of Panic s \<Rightarrow> outcome C V submits arg w (Panic s) q' v2 | _ \<Rightarrow> outcome C V submits arg w r q' v2"
    by (simp add: collect_def)
qed

lemma outcome_execute:
  fixes C :: "('w, 'c, 's, 'e) client_env" and es :: "(('c, 's, 'e) client_call, 'w) event list"
  assumes quiet: "client_commits_nothing C V" and args: "parseTxArgs arg = Inr args"
    and start: "ledger V v = ledger V w" "submissions es = []" "printed es = []"
    and rest: "\<And>e v' fs. executeTransaction C ec ns version args v = (Ok e, v') \<Longrightarrow> ledger V v' = ledger V w \<Longrightarrow>
      submissions fs = [] \<Longrightarrow> printed fs = [] \<Longrightarrow>
      (\<And>resp rs. responses C e = resp # rs \<Longrightarrow> ok_status resp \<Longrightarrow> endorsement_of C V arg w e resp) \<Longrightarrow>
      conf collect fs (k e) (outcome C V submits arg w) v'"
  shows "conf collect es
    (andThen (wrapErr msg (ext (CExecuteTransaction ec ns version args) (executeTransaction C ec ns version args))) k)
    (outcome C V submits arg w) v"
proof -
  have kept: "ledger V v' = ledger V w" if "executeTransaction C ec ns version args v = (x, v')" for x v'
    using client_frames(8) [OF quiet that] start(1) by simp
  have made: "endorsement_of C V arg w e resp"
    if "executeTransaction C ec ns version args v = (Ok e, v')" "responses C e = resp # rs" "ok_status resp" for e v' resp rs
    unfolding endorsement_of_def using that args start(1) by blast
  show ?thesis
    unfolding conf_andThen conf_wrapErr conf_ext
    by (auto simp: collect_def start intro!: rest outcome_none dest: kept intro: made)
qed

lemma outcome_prepare:
  fixes C :: "('w, 'c, 's, 'e) client_env"
  assumes quiet: "client_commits_nothing C V"
    and rest: "\<And>cfg args fs v. parseTxArgs arg = Inr args \<Longrightarrow> ledger V v = ledger V w \<Longrightarrow> submissions fs = [] \<Longrightarrow>
      printed fs = [] \<Longrightarrow> conf collect fs (k (cfg, args)) (outcome C V submits arg w) v"
  shows "conf collect [] (andThen (prepare C arg) k) (outcome C V submits arg w) w"
  by (rule outcome_andThen [OF silent_parts(1) [OF quiet]]) (auto intro: rest)

lemma query_outcome:
  fixes C :: "('w, 'c, 's, 'e) client_env"
  assumes quiet: "client_commits_nothing C V"
    and first: "\<And>ec ns version args w e w'. executeTransaction C ec ns version args w = (Ok e, w') \<Longrightarrow> responses C e \<noteq> []"
    and run: "query C arg w = (r, es, w')"
  shows "outcome C V False arg w r es w'"
proof -
  note frame = client_frames [OF quiet]
  note parts = silent_parts [OF quiet]
  have finish: "conf collect fs (case responses C e of
        [] \<Rightarrow> ret ()
      | resp # _ \<Rightarrow> if \<not> ok_status resp then throw (status_error resp)
          else extv (CPrint (RespPayload resp)) (print C (RespPayload resp))) (outcome C V False arg w) v"
    if "responses C e \<noteq> []" "ledger V v = ledger V w" "submissions fs = []" "printed fs = []"
      "\<And>resp rs. responses C e = resp # rs \<Longrightarrow> ok_status resp \<Longrightarrow> endorsement_of C V arg w e resp"
    for e v and fs :: "(('c, 's, 'e) client_call, 'w) event list"
    using that
    by (cases "responses C e") (auto simp: prog_simps outcome_def dest: frame(12) split: if_splits)
  have "conf collect [] (query C arg) (outcome C V False arg w) w"
    unfolding query_def
    by (auto intro!: outcome_prepare [OF quiet] outcome_andThen [OF parts(2)] outcome_andThen [OF parts(3)]
        outcome_andThen [OF parts(4)] outcome_deferred outcome_execute [OF quiet] finish intro: frame(10) dest: first)
  from collectD [OF this run] show ?thesis .
qed

lemma invoke_outcome:
  fixes C :: "('w, 'c, 's, 'e) client_env"
  assumes quiet: "client_commits_nothing C V" and run: "invoke C arg w = (r, es, w')"
  shows "outcome C V True arg w r es w'"
proof -
  note frame = client_frames [OF quiet]
  note parts = silent_parts [OF quiet]
  have finish: "conf collect fs (case responses C e of
        [] \<Rightarrow> throw (New ''no responses'')
      | resp # _ \<Rightarrow> if \<not> ok_status resp then throw (status_error resp)
          else andThen (wrapErr ''submit failed'' (ext (CSubmit submitter e) (submit C submitter e))) (\<lambda>_.
            extv (CPrint (RespPayload resp)) (print C (RespPayload resp)))) (outcome C V True arg w) v"
    if "ledger V v = ledger V w" "submissions fs = []" "printed fs = []"
      "\<And>resp rs. responses C e = resp # rs \<Longrightarrow> ok_status resp \<Longrightarrow> endorsement_of C V arg w e resp"
    for submitter e v and fs :: "(('c, 's, 'e) client_call, 'w) event list"
    using that
    by (cases "responses C e")
      (auto simp: prog_simps outcome_def dest: frame(9,12) trans [OF frame(12) frame(9)] split: if_splits)
  have "conf collect [] (invoke C arg) (outcome C V True arg w) w"
    unfolding invoke_def
    by (auto intro!: outcome_prepare [OF quiet] outcome_andThen [OF parts(2)] outcome_andThen [OF parts(3)]
        outcome_andThen [OF parts(4)] outcome_andThen [OF parts(5)] outcome_andThen [OF parts(6)]
        outcome_deferred outcome_execute [OF quiet] finish
        intro: frame(10,11) simp: conf_throw outcome_none split: option.split)
  from collectD [OF this run] show ?thesis .
qed

subsection \<open>A session\<close>

definition command_args :: "error + json \<Rightarrow> bytes list" where
  "command_args arg = (case parseTxArgs arg of Inl err \<Rightarrow> [] | Inr args \<Rightarrow> args)"

text \<open>What the user sees of a command: what it printed, when it succeeded.\<close>

definition seen :: "unit res \<Rightarrow> (('c, 's, 'e) client_call, 'w) event list \<Rightarrow> bytes option" where
  "seen r es = (if r = Ok () then Some (concat (printed es)) else None)"

text \<open>
  A session: any of several clients runs a command, or the peer commits the writes of an endorsement that
  was submitted and is not committed yet, at any later time and in any order, or never. (A submission whose
  answer was an error may be committed all the same.) The pool holds the submitted endorsements: the
  arguments of their commands and their writes. Anything else may change other parts of the world.
\<close>

inductive client_session ::
  "('w, 'c, 's, 'e) client_env set \<Rightarrow> ('w, 'h, 'r) ledger_view \<Rightarrow> ('e, 'p) endorsement_view \<Rightarrow> 'w \<Rightarrow>
   kv_step list \<Rightarrow> 'w \<Rightarrow> (bytes list \<times> kv) multiset \<Rightarrow> bool"
  for Cs V X w where
  start: "client_session Cs V X w [] w {#}"
| queried: "client_session Cs V X w hist w1 pool \<Longrightarrow> C \<in> Cs \<Longrightarrow> query C arg w1 = (r, es, w2) \<Longrightarrow>
    ledger V w3 ''mynamespace'' = ledger V w2 ''mynamespace'' \<Longrightarrow>
    client_session Cs V X w (hist @ [Ran (command_args arg) False (seen r es)]) w3 pool"
| invoked: "client_session Cs V X w hist w1 pool \<Longrightarrow> C \<in> Cs \<Longrightarrow> invoke C arg w1 = (r, es, w2) \<Longrightarrow>
    ledger V w3 ''mynamespace'' = ledger V w2 ''mynamespace'' \<Longrightarrow>
    client_session Cs V X w (hist @ [Ran (command_args arg) (submissions es \<noteq> []) (seen r es)]) w3
      (mset (map (\<lambda>(e, ok). (command_args arg, writesOf X (endorsed X e))) (submissions es)) + pool)"
| committed: "client_session Cs V X w hist w1 pool \<Longrightarrow> (args, ws) \<in># pool \<Longrightarrow>
    ledger V w2 ''mynamespace'' = ledger V w1 ''mynamespace'' ++ ws \<Longrightarrow>
    client_session Cs V X w (hist @ [Commit args]) w2 (pool - {#(args, ws)#})"

text \<open>An outcome is a step of the store.\<close>

lemma outcome_step:
  assumes laws: "lawful_store S V" "executors s = sample_executors S" "builds_responses S V X" "asks_endorser C S s V X"
    and o: "outcome C V submits arg w r es w'"
    and inv: "in_step m hist (ledger V w ''mynamespace'') pool"
  shows "in_step m (hist @ [Ran (command_args arg) (submissions es \<noteq> []) (seen r es)]) (ledger V w' ''mynamespace'')
      (mset (map (\<lambda>(e, ok). (command_args arg, writesOf X (endorsed X e))) (submissions es)) + pool)"
    and "\<not> submits \<Longrightarrow> submissions es = []"
proof -
  from o show "\<not> submits \<Longrightarrow> submissions es = []" by (auto simp: outcome_def)
  from o have same: "ledger V w' = ledger V w" by (simp add: outcome_def)
  from o consider "r \<noteq> Ok ()" "submissions es = []" |
    (made) e resp ok where "endorsement_of C V arg w e resp" "r = Ok () \<longleftrightarrow> ok"
      "submissions es = (if submits then [(e, ok)] else [])" "printed es = (if ok then [RespPayload resp] else [])"
    unfolding outcome_def by blast
  then show "in_step m (hist @ [Ran (command_args arg) (submissions es \<noteq> []) (seen r es)]) (ledger V w' ''mynamespace'')
      (mset (map (\<lambda>(e, ok). (command_args arg, writesOf X (endorsed X e))) (submissions es)) + pool)"
  proof cases
    case made
    then obtain ec ns version args rs w1 w2 where "parseTxArgs arg = Inr args" "ledger V w1 = ledger V w"
      and exec: "executeTransaction C ec ns version args w1 = (Ok e, w2)" "responses C e = resp # rs" "ok_status resp"
      unfolding endorsement_of_def by blast
    with executed_is_kv_exec [OF laws exec] have
      "kv_exec (ledger V w ''mynamespace'') (command_args arg) = Some (writesOf X (endorsed X e), RespPayload resp)"
      by (simp add: command_args_def)
    from in_step_ran [OF inv this, of "seen r es" submits] made show ?thesis
      by (cases submits) (auto simp: seen_def same)
  qed (use inv in \<open>simp add: seen_def same in_step_refused\<close>)
qed

text \<open>
  C9: Clients, endorser and ledger together are a key-value store. In any session of \<open>query\<close> and
  \<open>invoke\<close> commands of several clients, whose submissions are committed later, in any order, or never, every
  command that succeeds prints the answer the store gives to its arguments in the state committed when it
  runs: a \<open>get\<close> prints the value of the last committed \<open>set\<close> of its key. Only calls the store accepts and a
  client submitted are ever committed, each submission at most once, and the committed state is that of
  running the committed calls one after another, in the order of their commits.
\<close>

theorem client_sees_kv_store:
  assumes store: "lawful_store S V" and builds: "builds_responses S V X"
    and clients: "\<And>C. C \<in> Cs \<Longrightarrow> client_commits_nothing C V \<and>
      (\<exists>s. executors s = sample_executors S \<and> asks_endorser C S s V X)"
    and session: "client_session Cs V X w hist w' pool"
  shows "kv_machine (ledger V w ''mynamespace'') {#} hist = Some (ledger V w' ''mynamespace'', image_mset fst pool) \<and>
    kv_serial (ledger V w ''mynamespace'') (commits hist) = Some (ledger V w' ''mynamespace'')"
proof (rule in_stepD)
  from session show "in_step (ledger V w ''mynamespace'') hist (ledger V w' ''mynamespace'') pool"
  proof (induction rule: client_session.induct)
    case (queried hist w1 pool C arg r es w2 w3)
    then obtain s where s: "executors s = sample_executors S" "asks_endorser C S s V X" and quiet: "client_commits_nothing C V"
      using clients by blast
    have "responses C e \<noteq> []" if "executeTransaction C ec ns version args v = (Ok e, v')" for ec ns version args v e v'
      using s(2) that unfolding asks_endorser_def by fastforce
    then have "outcome C V False arg w1 r es w2" by (rule query_outcome [OF quiet _ queried.hyps(3)])
    from outcome_step [OF store s(1) builds s(2) this queried.IH] queried.hyps(4) show ?case by simp
  next
    case (invoked hist w1 pool C arg r es w2 w3)
    then obtain s where s: "executors s = sample_executors S" "asks_endorser C S s V X" and quiet: "client_commits_nothing C V"
      using clients by blast
    from outcome_step(1) [OF store s(1) builds s(2) invoke_outcome [OF quiet invoked.hyps(3)] invoked.IH] invoked.hyps(4)
    show ?case by simp
  next
    case (committed hist w1 pool args ws w2)
    from in_step_commit [OF committed.IH committed.hyps(2)] committed.hyps(3) show ?case by simp
  qed simp
qed

end
