(* ===== verification/System_Witnesses.thy ===== *)
theory System_Witnesses imports History_Witnesses Api_Requests Swap Ce_System begin

text \<open>
  The properties of whole systems, applied at concrete inputs: a published request of the owner's API, its
  generated server on a history whose time stamps cannot be encoded, a transfer and a lock as their clients
  receive them, and the client and the endorser over a small ledger.
\<close>

subsection \<open>The generated server\<close>

text \<open>A body with its members in another order, and one more than the schema names.\<close>

definition published_body :: json where
  "published_body = JObj [(''comment'', JNull),
     (''counterparty'', JObj [(''node'', JStr ''owner2''), (''account'', JStr ''bob'')]),
     (''amount'', JObj [(''value'', JNum ''100''), (''code'', JStr ''USD'')])]"

theorem published_requests_reach_server_witness:
  "strict_Transfer sample ''alice'' (post ''transfer'' published_body) =
     strict_respond (Server_Transfer sample ''alice'' (Some
       \<lparr>TqAmount = \<lparr>Code = ''USD'', Value = 100\<rparr>, TqCounterparty = \<lparr>Account = ''bob'', Node = ''owner2''\<rparr>,
        TqMessage = None\<rparr>))"
proof -
  have "published TransferRequest_schema published_body" by code_simp
  moreover have "transfer_of published_body =
    \<lparr>TqAmount = \<lparr>Code = ''USD'', Value = 100\<rparr>, TqCounterparty = \<lparr>Account = ''bob'', Node = ''owner2''\<rparr>, TqMessage = None\<rparr>"
    by code_simp
  ultimately show ?thesis
    using published_requests_reach_server [of "post ''transfer'' published_body" published_body sample "''alice''"]
    by (simp add: post_def)
qed

definition history_request :: request where
  "history_request = \<lparr>Method = ''GET'', Path = [''owner'', ''accounts'', ''alice'', ''transactions''], Query = [],
     RequestBody = Inl (New ''EOF'')\<rparr>"

definition no_time :: time_marshaller where
  "no_time t = Inl (New ''year outside of range'')"

theorem encoding_error_follows_status_witness:
  "fst (on_wire (owner_http no_time sample sample_oapi 2) history_request [''x'']) =
     Ok (StatusOK, cors_headers @ [(''Content-Type'', ''application/json'')],
         [RawText (''year outside of range'' @ [CHR 0x0A])])"
proof -
  let ?ts = "[\<lparr>TxAmount = \<lparr>Code = ''USD'', Value = 100\<rparr>, TxId = ''tx0'', TxMessage = '''', TxRecipient = ''bob'',
    TxSender = ''alice'', TxStatus = ''Confirmed'', TxTimestamp = 0\<rparr>]"
  have "fst (Server_OwnerTransactions sample 2 ''alice'' [''x'']) = Ok (StatusOK, TransactionsSuccess ''ok'' ?ts)"
    by code_simp
  from encoding_error_follows_status [OF _ _ _ _ run_split [OF this], where r = history_request and i = "''alice''"
      and A = sample_oapi and TM = no_time and err = "New ''year outside of range''"]
  show ?thesis by (simp add: history_request_def sample_oapi_def no_time_def)
qed

text \<open>The answer to a transfer, as the client receives it.\<close>

theorem client_learns_outcome_witness:
  "\<exists>j tx. fst (on_wire (owner_http (total_times (\<lambda>t. ''now'')) sample sample_oapi 0) (post ''transfer'' transfer_body) []) =
      Ok (StatusOK, cors_headers @ [(''Content-Type'', ''application/json'')], [JsonText j]) \<and>
    read_id j = Some (txID (ttx sample) tx) \<and>
    settled_once (fst (snd (on_wire (owner_http (total_times (\<lambda>t. ''now'')) sample sample_oapi 0)
      (post ''transfer'' transfer_body) []))) tx"
proof -
  let ?wire = "on_wire (owner_http (total_times (\<lambda>t. ''now'')) sample sample_oapi 0) (post ''transfer'' transfer_body) []"
  let ?resp = "\<lparr>Status = StatusOK, Header = cors_headers @ [(''Content-Type'', ''application/json'')],
    Content = Json (TransferSuccess ''ok'' ''tx1'')\<rparr>"
  have "fst (api_run (post ''transfer'' transfer_body) []) = Ok ?resp" by code_simp
  then have x: "fst ?wire = Ok (StatusOK, cors_headers @ [(''Content-Type'', ''application/json'')],
      [JsonText (encode_body (\<lambda>t. ''now'') (TransferSuccess ''ok'' ''tx1''))])"
    unfolding servers_received by (auto simp: andThen_def ret_def split: prod.splits)
  have "Method (post ''transfer'' transfer_body) = ''POST''" by (simp add: post_def)
  with client_learns_outcome [OF initiates_sample disjI1 [OF run_split [OF x]]] x show ?thesis by auto
qed

text \<open>A lock of the first owner, its answer sent to a second account.\<close>

definition lock_json :: json where
  "lock_json = JObj [(''amount'', JObj [(''code'', JStr ''USD''), (''value'', JNum ''100'')]),
     (''counterparty'', JObj [(''account'', JStr ''bob''), (''node'', JStr ''owner2'')]), (''deadline'', JNum ''60'')]"

theorem lock_answer_sent_back_witness:
  "\<exists>x. fst (on_wire (owner_http (total_times (\<lambda>t. ''now'')) sample sample_oapi 0) (post ''lock'' lock_json) []) =
      Ok (StatusOK, cors_headers @ [(''Content-Type'', ''application/json'')],
        [JsonText (JObj [(''message'', JStr ''ok''), (''payload'',
          JObj [(''hash'', encode_bytes ''hash''), (''preimage'', x), (''txId'', JStr ''tx1'')])])]) \<and>
    owner_api sample sample_oapi 0 (sent_back ''bob'' ''claim'' ''preimage'' x) =
      WithAnyCORS (\<lambda>_. strict_respond (andThen (FSC_Claim sample ''bob'' ''secret'' None)
        (\<lambda>txID. ret (StatusOK, ClaimSuccess ''ok'' txID)))) (sent_back ''bob'' ''claim'' ''preimage'' x)"
proof -
  let ?wire = "on_wire (owner_http (total_times (\<lambda>t. ''now'')) sample sample_oapi 0) (post ''lock'' lock_json) []"
  let ?body = "LockSuccess ''ok'' \<lparr>PHash = Some ''hash'', PPreimage = Some ''secret'', PTxId = ''tx1''\<rparr>"
  have "fst (api_run (post ''lock'' lock_json) []) =
    Ok \<lparr>Status = StatusOK, Header = cors_headers @ [(''Content-Type'', ''application/json'')], Content = Json ?body\<rparr>"
    by code_simp
  then have x: "fst ?wire = Ok (StatusOK, cors_headers @ [(''Content-Type'', ''application/json'')],
      [JsonText (encode_body (\<lambda>t. ''now'') ?body)])"
    unfolding servers_received by (auto simp: andThen_def ret_def split: prod.splits)
  have "Method (post ''lock'' lock_json) = ''POST''" "last (Path (post ''lock'' lock_json)) = ''lock''" by (simp_all add: post_def)
  from lock_answer_sent_back [OF initiates_sample this run_split [OF x], of sample_oapi "''bob''" "''bob''" sample 0]
  obtain pre h y where "locked sample (fst (snd ?wire)) pre h ''tx1''"
    "if pre = [] then False else owner_api sample sample_oapi 0 (sent_back ''bob'' ''claim'' ''preimage'' (encode_bytes ''secret'')) =
      WithAnyCORS (\<lambda>_. strict_respond (andThen (FSC_Claim sample ''bob'' pre None)
        (\<lambda>txID. ret (StatusOK, ClaimSuccess ''ok'' txID)))) (sent_back ''bob'' ''claim'' ''preimage'' (encode_bytes ''secret''))"
    by (auto simp: sample_oapi_def encode_message_def encode_LockResult_def split: if_splits)
  moreover from this(1) have "pre = ''secret''" by (auto simp: locked_def sample_def sample_htlc_def)
  ultimately show ?thesis
    using x by (intro exI [of _ "encode_bytes ''secret''"]) (simp add: encode_message_def encode_LockResult_def encode_slice_def)
qed

subsection \<open>Client, endorser and ledger\<close>

text \<open>
  The endorser of \<open>History_Witnesses\<close> whose responses are the results themselves, and a client whose
  \<open>ExecuteTransaction\<close> calls it.
\<close>

abbreviation "kv_endorser \<equiv> kv_service_with (\<lambda>res. res)"

fun response_of :: "kv exec_result \<Rightarrow> proposal_response" where
  "response_of (Success rws payload) = \<lparr>RespStatus = 200, RespMessage = '''', RespPayload = payload\<rparr>"
| "response_of (BadRequest msg) = \<lparr>RespStatus = 400, RespMessage = msg, RespPayload = ''''\<rparr>"

definition kv_endorsements :: "(kv exec_result, kv exec_result) endorsement_view" where
  "kv_endorsements = \<lparr>respOf = response_of,
     writesOf = (\<lambda>res. case res of Success rws payload \<Rightarrow> rws | BadRequest msg \<Rightarrow> Map.empty), endorsed = (\<lambda>e. e)\<rparr>"

definition kv_client :: "(kv_world, nat, nat, kv exec_result) client_env" where
  "kv_client = \<lparr>openFile = (\<lambda>f w. (Ok (), w)), readConfig = (\<lambda>w. (Ok (), w)),
     unmarshalConfig = (\<lambda>w. (fst (unmarshalConfig sample_client 0), w)),
     flagString = (\<lambda>f w. ('''', w)), signerFromMSP = (\<lambda>d m w. (Ok 0, w)),
     newEndorsementClient = (\<lambda>cs s ch ns v w. (Ok 1, w)), newSubmitter = (\<lambda>k cs s w. (Ok 2, w)),
     executeTransaction = (\<lambda>h ns v args w.
       case ProcessProposal (kv_sdk_with (\<lambda>res. res)) kv_endorser args w of
         (Ok (Inr e), es, w1) \<Rightarrow> (Ok e, w1)
       | (_, es, w1) \<Rightarrow> (Err (New ''rejected''), w1)),
     submit = (\<lambda>h e w. (Ok (), w)), closeClient = (\<lambda>h w. ((), w)), closeSubmitter = (\<lambda>h w. ((), w)),
     print = (\<lambda>t w. ((), w)), responses = (\<lambda>e. [response_of e])\<rparr>"

lemma kv_builds: "builds_responses (kv_sdk_with (\<lambda>res. res)) kv_view kv_endorsements"
  by (simp add: builds_responses_def kv_sdk_with_def kv_view_def kv_endorsements_def)

lemma kv_asks: "asks_endorser kv_client (kv_sdk_with (\<lambda>res. res)) kv_endorser kv_view kv_endorsements"
  unfolding asks_endorser_def
proof (intro allI impI)
  fix ec ns version args w e w'
  assume "executeTransaction kv_client ec ns version args w = (Ok e, w')"
  then obtain es where run: "ProcessProposal (kv_sdk_with (\<lambda>res. res)) kv_endorser args w = (Ok (Inr e), es, w')"
    by (auto simp: kv_client_def split: prod.splits res.splits sum.splits)
  have "Args call = args" if "parse (kv_sdk_with (\<lambda>res. res)) args w = (Ok call, w2)" for call and w2 :: kv_world
    using that by (auto simp: kv_sdk_with_def sample_call_def)
  with run show "\<exists>q es w1. (\<forall>call w2. parse (kv_sdk_with (\<lambda>res. res)) q w = (Ok call, w2) \<longrightarrow> Args call = args) \<and>
      ProcessProposal (kv_sdk_with (\<lambda>res. res)) kv_endorser q w = (Ok (Inr (endorsed kv_endorsements e)), es, w1) \<and>
      ledger kv_view w' = ledger kv_view w1 \<and>
      (\<exists>rs. responses kv_client e = respOf kv_endorsements (endorsed kv_endorsements e) # rs)"
    by (intro exI [of _ args] exI [of _ es] exI [of _ w']) (simp add: kv_client_def kv_endorsements_def)
qed

lemma kv_quiet: "client_commits_nothing kv_client kv_view"
proof -
  have "ledger kv_view (snd (executeTransaction kv_client h ns v args w)) = ledger kv_view w" for h ns v args w
  proof -
    obtain r es w1 where run: "ProcessProposal (kv_sdk_with (\<lambda>res. res)) kv_endorser args w = (r, es, w1)"
      by (cases "ProcessProposal (kv_sdk_with (\<lambda>res. res)) kv_endorser args w")
    from process_commits_nothing [OF kv_lawful _ run] have "ledger kv_view w1 = ledger kv_view w"
      by (simp add: kv_service_with_def)
    with run show ?thesis by (simp add: kv_client_def split: res.split sum.split)
  qed
  then show ?thesis by (simp add: client_commits_nothing_def) (simp add: kv_client_def)
qed

definition call_json :: "string list \<Rightarrow> error + json" where
  "call_json args = Inr (JObj [(''Args'', JArr (map JStr args))])"

lemma kv_args:
  "parseTxArgs (call_json [''set'', ''k'', ''v'']) = Inr [''set'', ''k'', ''v'']"
  "parseTxArgs (call_json [''set'', ''k'', ''w'']) = Inr [''set'', ''k'', ''w'']"
  "parseTxArgs (call_json [''get'', ''k'']) = Inr [''get'', ''k'']"
  by code_simp+

lemma kv_prepare:
  assumes "parseTxArgs arg = Inr args"
  shows "\<exists>cfg es o1 p i. prepare kv_client arg w = (Ok (cfg, args), es, w) \<and> submissions es = [] \<and> printed es = [] \<and>
    CliProtocol cfg = '''' \<and> CliIdentity cfg = Some i \<and> peer_confs (Endorsers cfg) = Ok p \<and>
    Orderer cfg = Some o1 \<and> (\<exists>c. ToOrdererConf o1 = Ok c)"
  using assms
  by (simp add: prepare_def loadConfig_def kv_client_def sample_client_def andThen_def ext_def extv_def wrapErr_def
      onError_def ret_def validate_def ToPeerConf_def ToOrdererConf_def)

lemma kv_commands:
  "parseTxArgs arg = Inr [''set'', k, v] \<Longrightarrow>
     \<exists>es w'. invoke kv_client arg (l, s, p) = (Ok (), es, w') \<and> fst w' = l \<and>
       submissions es = [(Success [k \<mapsto> v] (k @ ''='' @ v), True)] \<and> printed es = [k @ ''='' @ v]"
  "parseTxArgs arg = Inr [''get'', k] \<Longrightarrow>
     \<exists>es w'. query kv_client arg (l, s, p) = (Ok (), es, w') \<and> fst w' = l \<and>
       printed es = [kv_value (l ''mynamespace'') k]"
proof -
  note env = kv_client_def andThen_def ext_def extv_def wrapErr_def onError_def ret_def deferred_def run_res_def
    namespaceOrDefault_def load_identity_def buildEndorsementClient_def new_submitter_def ok_status_def
  assume arg: "parseTxArgs arg = Inr [''set'', k, v]"
  obtain es1 w1 where "ProcessProposal (kv_sdk_with (\<lambda>res. res)) kv_endorser [''set'', k, v] (l, s, p) =
      (Ok (Inr (Success [k \<mapsto> v] (k @ ''='' @ v))), es1, w1)" "fst w1 = l"
    using kv_process(1) [of "\<lambda>res. res" k v l s p] by auto
  with kv_prepare [OF arg, of "(l, s, p)"]
  show "\<exists>es w'. invoke kv_client arg (l, s, p) = (Ok (), es, w') \<and> fst w' = l \<and>
      submissions es = [(Success [k \<mapsto> v] (k @ ''='' @ v), True)] \<and> printed es = [k @ ''='' @ v]"
    by (cases w1) (auto simp: invoke_def env)
next
  note env = kv_client_def andThen_def ext_def extv_def wrapErr_def onError_def ret_def deferred_def run_res_def
    namespaceOrDefault_def load_identity_def buildEndorsementClient_def new_submitter_def ok_status_def
  assume arg: "parseTxArgs arg = Inr [''get'', k]"
  obtain es1 w1 where "ProcessProposal (kv_sdk_with (\<lambda>res. res)) kv_endorser [''get'', k] (l, s, p) =
      (Ok (Inr (Success Map.empty (kv_value (l ''mynamespace'') k))), es1, w1)" "fst w1 = l"
    using kv_process(2) [of "\<lambda>res. res" k l s p] by auto
  with kv_prepare [OF arg, of "(l, s, p)"]
  show "\<exists>es w'. query kv_client arg (l, s, p) = (Ok (), es, w') \<and> fst w' = l \<and>
      printed es = [kv_value (l ''mynamespace'') k]"
    by (cases w1) (auto simp: query_def env)
qed

text \<open>Steps of a session of this client.\<close>

abbreviation "kv_clients \<equiv> client_session {kv_client} kv_view kv_endorsements (kv_at Map.empty)"

lemma kv_invokes:
  assumes "kv_clients hist (kv_at m) pool" and "parseTxArgs arg = Inr [''set'', k, v]"
  shows "kv_clients (hist @ [Ran [''set'', k, v] True (Some (k @ ''='' @ v))]) (kv_at m)
    (add_mset ([''set'', k, v], [k \<mapsto> v]) pool)"
proof -
  from kv_commands(1) [OF assms(2)] obtain es w2 where run: "invoke kv_client arg (kv_at m) = (Ok (), es, w2)"
    "fst w2 = (\<lambda>ns. m)" "submissions es = [(Success [k \<mapsto> v] (k @ ''='' @ v), True)]" "printed es = [k @ ''='' @ v]"
    by blast
  from client_session.invoked [OF assms(1) _ run(1), of "kv_at m"] run(2-4) show ?thesis
    by (simp add: command_args_def seen_def assms(2) kv_view_def kv_endorsements_def)
qed

lemma kv_queries:
  assumes "kv_clients hist (kv_at m) pool" and "parseTxArgs arg = Inr [''get'', k]"
  shows "kv_clients (hist @ [Ran [''get'', k] False (Some (kv_value m k))]) (kv_at m) pool"
proof -
  from kv_commands(2) [OF assms(2)] obtain es w2 where run: "query kv_client arg (kv_at m) = (Ok (), es, w2)"
    "fst w2 = (\<lambda>ns. m)" "printed es = [kv_value m k]" by blast
  from client_session.queried [OF assms(1) _ run(1), of "kv_at m"] run(2,3) show ?thesis
    by (simp add: command_args_def seen_def assms(2) kv_view_def)
qed

lemma kv_submitted:
  assumes "kv_clients hist (kv_at m) pool" and "(args, [k \<mapsto> v]) \<in># pool"
  shows "kv_clients (hist @ [Commit args]) (kv_at (m(k \<mapsto> v))) (pool - {#(args, [k \<mapsto> v])#})"
  using client_session.committed [OF assms, of "kv_at (m(k \<mapsto> v))"] by (simp add: kv_view_def)

lemma kv_sample_client:
  "C \<in> {kv_client} \<Longrightarrow> client_commits_nothing C kv_view \<and>
     (\<exists>s. executors s = sample_executors (kv_sdk_with (\<lambda>res. res)) \<and>
        asks_endorser C (kv_sdk_with (\<lambda>res. res)) s kv_view kv_endorsements)"
  using kv_quiet kv_asks by (auto intro!: exI [of _ kv_endorser]) (simp add: kv_service_with_def)

text \<open>Two submissions to one key are committed in the other order; the \<open>get\<close> sees the last one committed.\<close>

theorem client_sees_kv_store_witness:
  "kv_machine Map.empty {#}
     [Ran [''set'', ''k'', ''v''] True (Some ''k=v''), Ran [''set'', ''k'', ''w''] True (Some ''k=w''),
      Commit [''set'', ''k'', ''w''], Commit [''set'', ''k'', ''v''], Ran [''get'', ''k''] False (Some ''v'')] =
     Some ([''k'' \<mapsto> ''v''], {#}) \<and>
   kv_serial Map.empty [[''set'', ''k'', ''w''], [''set'', ''k'', ''v'']] = Some [''k'' \<mapsto> ''v'']"
proof -
  have "kv_clients [] (kv_at Map.empty) {#}" by (rule client_session.start)
  from kv_invokes [OF kv_invokes [OF this kv_args(1)] kv_args(2)]
  have "kv_clients [Ran [''set'', ''k'', ''v''] True (Some ''k=v''), Ran [''set'', ''k'', ''w''] True (Some ''k=w'')]
    (kv_at Map.empty) {#([''set'', ''k'', ''w''], [''k'' \<mapsto> ''w'']), ([''set'', ''k'', ''v''], [''k'' \<mapsto> ''v''])#}" by simp
  from kv_submitted [OF this, of "[''set'', ''k'', ''w'']" "''k''" "''w''"]
  have "kv_clients [Ran [''set'', ''k'', ''v''] True (Some ''k=v''), Ran [''set'', ''k'', ''w''] True (Some ''k=w''),
    Commit [''set'', ''k'', ''w'']] (kv_at [''k'' \<mapsto> ''w'']) {#([''set'', ''k'', ''v''], [''k'' \<mapsto> ''v''])#}" by simp
  from kv_queries [OF kv_submitted [OF this, of "[''set'', ''k'', ''v'']" "''k''" "''v''"] kv_args(3)]
  have "kv_clients [Ran [''set'', ''k'', ''v''] True (Some ''k=v''), Ran [''set'', ''k'', ''w''] True (Some ''k=w''),
    Commit [''set'', ''k'', ''w''], Commit [''set'', ''k'', ''v''], Ran [''get'', ''k''] False (Some ''v'')]
    (kv_at [''k'' \<mapsto> ''v'']) {#}" by (simp add: kv_value_def)
  from client_sees_kv_store [OF kv_lawful kv_builds kv_sample_client this] show ?thesis
    by (simp add: kv_view_def)
qed

end
