(* ===== verification/Common_Fsc.thy ===== *)
theory Common_Fsc imports Token_Api "HOL-Library.Multiset" begin

text \<open>
  \<open>tokens/common\<close>: how a token node comes up. \<open>fsc.go\<close> starts the Fabric Smart Client node and
  binds the endorsing identities; the \<open>sdk_*.go\<close> files hold one \<open>SDK\<close> per build, chosen by the
  build tags \<open>fabricx\<close> and \<open>evm\<close>, whose \<open>Install\<close> registers the drivers of the build before it
  installs the SDK it extends. The node, its container and its services are the record
  \<open>node_env\<close>, over a world \<open>'w\<close> and references \<open>'h\<close>.
\<close>

datatype dig_option = Group string | As string

text \<open>
  The calls. A constructor given to the container is named as in the code; \<open>CProvide\<close> and
  \<open>CRegisterTokenDriverDependencies\<close> are the registrations an \<open>Install\<close> makes.
\<close>

datatype base_sdk = TokenSDK | TokenFromFabricXSDK

datatype 'h node_call =
  CMkdirAll string
| CNewWithConfPath string
| CNewSDK base_sdk 'h
| CInstallSDK 'h
| CStart 'h
| CRegisterTokenDriverDependencies
| CProvide string "dig_option option"
| CSDKInstall
| CRegister string
| CGetFabricNetworkService string
| CGetIDProvider
| CGetIdentityByID 'h string
| CProviderIdentity string
| CBindIdentity identity identity

record ('w, 'h) node_env =
  mkdirAll :: "string \<Rightarrow> 'w \<Rightarrow> unit res \<times> 'w"
  newWithConfPath :: "string \<Rightarrow> 'w \<Rightarrow> 'h \<times> 'w"
  newSDK :: "base_sdk \<Rightarrow> 'h \<Rightarrow> 'w \<Rightarrow> unit \<times> 'w"
  installSDK :: "'h \<Rightarrow> ('h node_call, 'w, unit) prog \<Rightarrow> ('h node_call, 'w, unit) prog"
  nodeStart :: "'h \<Rightarrow> 'w \<Rightarrow> unit res \<times> 'w"
  registerTokenDriverDependencies :: "'w \<Rightarrow> unit res \<times> 'w"
  provide :: "string \<Rightarrow> dig_option option \<Rightarrow> 'w \<Rightarrow> unit res \<times> 'w"
  sdkInstall :: "'w \<Rightarrow> unit res \<times> 'w"
  register :: "string \<Rightarrow> 'w \<Rightarrow> unit res \<times> 'w"
  getFabricNetworkService :: "string \<Rightarrow> 'w \<Rightarrow> 'h res \<times> 'w"
  getIDProvider :: "'w \<Rightarrow> unit res \<times> 'w"
  getIdentityByID :: "'h \<Rightarrow> string \<Rightarrow> 'w \<Rightarrow> identity res \<times> 'w"
  nodeIdentity :: "string \<Rightarrow> 'w \<Rightarrow> identity \<times> 'w"
  bindIdentity :: "identity \<Rightarrow> identity \<Rightarrow> 'w \<Rightarrow> unit res \<times> 'w"
  identityIsNone :: "identity \<Rightarrow> bool"
  mapOrder :: "(string \<times> string) list \<Rightarrow> (string \<times> string) list"

subsection \<open>Installing the SDK of a build\<close>

text \<open>
  \<open>errors.Join(f(), g(), ...)\<close>: the arguments are evaluated in order, whatever they return.
\<close>

fun attempt_all :: "('c, 'w, unit) prog list \<Rightarrow> ('c, 'w, error option list) prog" where
  "attempt_all [] = ret []"
| "attempt_all (m # ms) =
     andThen (attempt m) (\<lambda>r.
     andThen (attempt_all ms) (\<lambda>errs.
     ret ((case r of Inl err \<Rightarrow> Some err | Inr _ \<Rightarrow> None) # errs)))"

definition join_all :: "('c, 'w, unit) prog list \<Rightarrow> ('c, 'w, unit) prog" where
  "join_all ms =
     andThen (attempt_all ms) (\<lambda>errs.
       case errors_Join errs of None \<Rightarrow> ret () | Some err \<Rightarrow> throw err)"

definition Provide ::
  "('w, 'h) node_env \<Rightarrow> string \<Rightarrow> dig_option option \<Rightarrow> ('h node_call, 'w, unit) prog" where
  "Provide N constructor opt = ext (CProvide constructor opt) (provide N constructor opt)"

definition RegisterTokenDriverDependencies :: "('w, 'h) node_env \<Rightarrow> ('h node_call, 'w, unit) prog" where
  "RegisterTokenDriverDependencies N =
     ext CRegisterTokenDriverDependencies (registerTokenDriverDependencies N)"

definition Register :: "('w, 'h) node_env \<Rightarrow> string \<Rightarrow> ('h node_call, 'w, unit) prog" where
  "Register N service = ext (CRegister service) (register N service)"

definition SDK_3_Install :: "('w, 'h) node_env \<Rightarrow> ('h node_call, 'w, unit) prog" where
  "SDK_3_Install N =
     andThen
       (join_all
          [RegisterTokenDriverDependencies N,
           Provide N ''fabric.NewGenericDriver'' (Some (Group ''network-drivers'')),
           Provide N ''dlog.NewTokenDriver'' (Some (Group ''token-drivers'')),
           Provide N ''dlog.NewValidatorDriver'' (Some (Group ''validator-drivers''))])
       (\<lambda>_. ext CSDKInstall (sdkInstall N))"

definition provideEVMDriver :: "('w, 'h) node_env \<Rightarrow> ('h node_call, 'w, unit) prog" where
  "provideEVMDriver N =
     join_all
       [Provide N ''digutils.Identity[*core.TokenDriverService]'' (Some (As ''endorsement.PublicParamsValidator'')),
        Provide N ''evm.NewDriver'' (Some (Group ''network-drivers''))]"

definition SDK_EVM_Install :: "('w, 'h) node_env \<Rightarrow> ('h node_call, 'w, unit) prog" where
  "SDK_EVM_Install N =
     andThen
       (join_all
          [RegisterTokenDriverDependencies N,
           Provide N ''fabric.NewGenericDriver'' (Some (Group ''network-drivers'')),
           provideEVMDriver N,
           Provide N ''dlog.NewTokenDriver'' (Some (Group ''token-drivers'')),
           Provide N ''dlog.NewValidatorDriver'' (Some (Group ''validator-drivers''))])
       (\<lambda>_. ext CSDKInstall (sdkInstall N))"

text \<open>
  The Fabric-X SDK: the error so far is joined with that of each extra driver in turn, and what is
  left of it is returned before the base SDK is installed.
\<close>

fun join_extra ::
  "error option \<Rightarrow> ('c, 'w, unit) prog list \<Rightarrow> ('c, 'w, error option) prog" where
  "join_extra err [] = ret err"
| "join_extra err (m # ms) =
     andThen (attempt m) (\<lambda>r.
       join_extra (errors_Join [err, case r of Inl e \<Rightarrow> Some e | Inr _ \<Rightarrow> None]) ms)"

definition SDK_X_Install ::
  "('w, 'h) node_env \<Rightarrow> ('h node_call, 'w, unit) prog list \<Rightarrow> ('h node_call, 'w, unit) prog" where
  "SDK_X_Install N extraNetworkDrivers =
     andThen
       (attempt_all
          [RegisterTokenDriverDependencies N,
           Provide N ''dlog.NewTokenDriver'' (Some (Group ''token-drivers'')),
           Provide N ''dlog.NewValidatorDriver'' (Some (Group ''validator-drivers'')),
           Provide N ''fabricx.NewDriver'' (Some (Group ''network-drivers'')),
           Provide N ''tms.NewSubmitterFromFNS'' (Some (As ''tms.Submitter'')),
           Provide N ''tms.NewTMSDeployerService'' (Some (As ''tms.DeployerService'')),
           Provide N ''pp.NewPublicParametersService'' None,
           Provide N ''digutils.Identity[*pp.PublicParametersService]'' (Some (As ''pp.Loader''))]) (\<lambda>errs.
     andThen (join_extra (errors_Join errs) extraNetworkDrivers) (\<lambda>err.
       case err of
         Some e \<Rightarrow> throw e
       | None \<Rightarrow>
           andThen (ext CSDKInstall (sdkInstall N)) (\<lambda>_.
           join_all
             [Register N ''state.VaultService'', Register N ''tms.DeployerService'',
              Register N ''pp.Loader''])))"

text \<open>
  The build: the constraint of each file (\<open>!fabricx && !evm\<close>, \<open>evm && !fabricx\<close>, \<open>fabricx\<close>,
  \<open>fabricx && evm\<close>, \<open>evm\<close>) decides which \<open>NewSDK\<close> and \<open>Install\<close> are compiled in, and whether
  \<open>init\<close> of \<open>sdk_x_evm.go\<close> adds the EVM driver to the extra ones.
\<close>

record build_tags =
  fabricx :: bool
  evm :: bool

definition extraNetworkDrivers :: "('w, 'h) node_env \<Rightarrow> build_tags \<Rightarrow> ('h node_call, 'w, unit) prog list" where
  "extraNetworkDrivers N tags = (if fabricx tags \<and> evm tags then [provideEVMDriver N] else [])"

definition SDK_Install :: "('w, 'h) node_env \<Rightarrow> build_tags \<Rightarrow> ('h node_call, 'w, unit) prog" where
  "SDK_Install N tags =
     (if fabricx tags then SDK_X_Install N (extraNetworkDrivers N tags)
      else if evm tags then SDK_EVM_Install N
      else SDK_3_Install N)"

definition NewSDK :: "('w, 'h) node_env \<Rightarrow> build_tags \<Rightarrow> 'h \<Rightarrow> ('h node_call, 'w, unit) prog" where
  "NewSDK N tags registry =
     (let base = (if fabricx tags then TokenFromFabricXSDK else TokenSDK) in
      extv (CNewSDK base registry) (newSDK N base registry))"

subsection \<open>Starting a node\<close>

definition StartFSC ::
  "('w, 'h) node_env \<Rightarrow> build_tags \<Rightarrow> string \<Rightarrow> string \<Rightarrow> ('h node_call, 'w, 'h) prog" where
  "StartFSC N tags confPath datadir =
     andThen
       (if length datadir \<noteq> 0
        then wrapErr (''error creating data directory '' @ datadir) (ext (CMkdirAll datadir) (mkdirAll N datadir))
        else ret ()) (\<lambda>_.
     andThen (extv (CNewWithConfPath confPath) (newWithConfPath N confPath)) (\<lambda>node.
     andThen (NewSDK N tags node) (\<lambda>_.
     andThen (wrapErr ''error installing fsc'' (installSDK N node (SDK_Install N tags))) (\<lambda>_.
     andThen (wrapErr ''error starting fsc'' (ext (CStart node) (nodeStart N node))) (\<lambda>_.
     ret node)))))"

subsection \<open>Binding the endorsing identities\<close>

text \<open>
  Each pair of the map is handled on its own: one that does not resolve is skipped, a binding that
  fails is logged. \<open>mapOrder\<close> is the order in which Go ranges over the map.
\<close>

fun bind_each ::
  "('w, 'h) node_env \<Rightarrow> 'h \<Rightarrow> (string \<times> string) list \<Rightarrow> ('h node_call, 'w, unit) prog" where
  "bind_each N fns [] = ret ()"
| "bind_each N fns ((mspLabel, p2pName) # rest) =
     andThen (attempt (ext (CGetIdentityByID fns mspLabel) (getIdentityByID N fns mspLabel))) (\<lambda>r.
       case r of
         Inl err \<Rightarrow> bind_each N fns rest
       | Inr endorsingIdentity \<Rightarrow>
     andThen (extv (CProviderIdentity p2pName) (nodeIdentity N p2pName)) (\<lambda>p2pIdentity.
       if identityIsNone N p2pIdentity then bind_each N fns rest
       else
     andThen
       (attempt (ext (CBindIdentity endorsingIdentity p2pIdentity)
          (bindIdentity N endorsingIdentity p2pIdentity))) (\<lambda>_.
     bind_each N fns rest)))"

definition BindEndorsingIdentities ::
  "('w, 'h) node_env \<Rightarrow> string \<Rightarrow> (string \<times> string) list \<Rightarrow> ('h node_call, 'w, unit) prog" where
  "BindEndorsingIdentities N network mspLabelToP2PName =
     (if length mspLabelToP2PName = 0 then ret ()
      else
        andThen
          (attempt (ext (CGetFabricNetworkService network) (getFabricNetworkService N network))) (\<lambda>r.
          case r of
            Inl err \<Rightarrow> ret ()
          | Inr fns \<Rightarrow>
        andThen (attempt (ext CGetIDProvider (getIDProvider N))) (\<lambda>r.
          case r of
            Inl err \<Rightarrow> ret ()
          | Inr _ \<Rightarrow> bind_each N fns (mapOrder N mspLabelToP2PName))))"

subsection \<open>What an installation does\<close>

text \<open>
  The contract of a registration: unless it panics, it makes exactly the calls \<open>cs\<close>, and it
  succeeds exactly when all of them do. Joining registrations keeps the contract.
\<close>

definition registers :: "('c, 'w, unit) prog \<Rightarrow> 'c list \<Rightarrow> bool" where
  "registers m cs \<longleftrightarrow>
     (\<forall>w r es w'. m w = (r, es, w') \<longrightarrow> (\<forall>p. r \<noteq> Panic p) \<longrightarrow>
        map op es = cs \<and> (r = Ok () \<longleftrightarrow> list_all succeeded es))"

lemma registersD:
  assumes "registers m cs" and "m w = (r, es, w')" and "\<And>p. r \<noteq> Panic p"
  shows "map op es = cs" and "r = Ok () \<longleftrightarrow> list_all succeeded es"
  using assms by (auto simp: registers_def)

lemma registers_ext [intro]: "registers (ext c f) [c]"
  by (auto simp: registers_def ext_def split: prod.splits res.splits elim: is_ok.elims)

lemma attempt_all_registers:
  assumes "list_all2 registers ms css" and "attempt_all ms w = (r, es, w')" and "\<And>p. r \<noteq> Panic p"
  shows "\<exists>errs. r = Ok errs \<and> map op es = concat css \<and>
    (list_all (\<lambda>e. e = None) errs \<longleftrightarrow> list_all succeeded es)"
  using assms
proof (induction ms css arbitrary: w r es w' rule: list_all2_induct)
  case Nil
  then show ?case by (auto simp: ret_def)
next
  case (Cons m ms cs css)
  from Cons.prems obtain x es1 w1 es2 where head: "attempt m w = (Ok x, es1, w1)"
    and tail: "andThen (attempt_all ms)
      (\<lambda>errs. ret ((case x of Inl err \<Rightarrow> Some err | Inr _ \<Rightarrow> None) # errs)) w1 = (r, es2, w')"
    and es: "es = es1 @ es2"
    by (auto simp: andThen_eq_iff [of "attempt m"] attempt_eq_iff)
  from tail Cons.prems(2) obtain y es3 w2 where rest: "attempt_all ms w1 = (y, es3, w2)" "\<And>p. y \<noteq> Panic p"
    and r: "\<And>errs. y = Ok errs \<Longrightarrow>
      r = Ok ((case x of Inl err \<Rightarrow> Some err | Inr _ \<Rightarrow> None) # errs) \<and> es2 = es3 \<and> w' = w2"
    by (auto simp: andThen_eq_iff ret_def)
  from Cons.IH [OF rest] obtain errs where IH: "y = Ok errs" "map op es3 = concat css"
      "list_all (\<lambda>e. e = None) errs \<longleftrightarrow> list_all succeeded es3" by blast
  have "map op es1 = cs \<and> ((\<exists>u. x = Inr u) \<longleftrightarrow> list_all succeeded es1)"
    using head registersD [OF Cons.hyps(1)] by (fastforce simp: attempt_eq_iff)
  with IH r [OF IH(1)] es show ?case by (auto split: sum.split)
qed

lemma registers_join_all:
  assumes "list_all2 registers ms css"
  shows "registers (join_all ms) (concat css)"
  unfolding registers_def
proof (intro allI impI)
  fix w r es w'
  assume run: "join_all ms w = (r, es, w')" and ok: "\<forall>p. r \<noteq> Panic p"
  then obtain x es1 w1 where all: "attempt_all ms w = (x, es1, w1)" "\<And>p. x \<noteq> Panic p"
    and r: "\<And>errs. x = Ok errs \<Longrightarrow>
      (case errors_Join errs of None \<Rightarrow> r = Ok () | Some err \<Rightarrow> r = Err err) \<and> es = es1"
    by (auto simp: join_all_def andThen_eq_iff ret_def throw_def split: option.splits)
  from attempt_all_registers [OF assms all] obtain errs where "x = Ok errs" "map op es1 = concat css"
    "list_all (\<lambda>e. e = None) errs \<longleftrightarrow> list_all succeeded es1" by blast
  with r show "map op es = concat css \<and> (r = Ok () \<longleftrightarrow> list_all succeeded es)"
    using errors_Join_None_iff [of errs] by (cases "errors_Join errs") (auto simp: list_all_iff)
qed

lemma join_extra_registers:
  assumes "list_all2 registers ms css" and "join_extra err ms w = (r, es, w')" and "\<And>p. r \<noteq> Panic p"
  shows "\<exists>err'. r = Ok err' \<and> map op es = concat css \<and>
    (err' = None \<longleftrightarrow> err = None \<and> list_all succeeded es)"
  using assms
proof (induction ms css arbitrary: err w r es w' rule: list_all2_induct)
  case Nil
  then show ?case by (auto simp: ret_def)
next
  case (Cons m ms cs css)
  let ?e = "\<lambda>x. errors_Join [err, case x of Inl e \<Rightarrow> Some e | Inr _ \<Rightarrow> None]"
  from Cons.prems obtain x es1 w1 es2 where head: "attempt m w = (Ok x, es1, w1)"
    and tail: "join_extra (?e x) ms w1 = (r, es2, w')" and es: "es = es1 @ es2"
    by (auto simp: andThen_eq_iff attempt_eq_iff)
  from Cons.IH [OF tail Cons.prems(2)] obtain err' where IH: "r = Ok err'" "map op es2 = concat css"
    "err' = None \<longleftrightarrow> ?e x = None \<and> list_all succeeded es2" by blast
  have "map op es1 = cs \<and> ((\<exists>u. x = Inr u) \<longleftrightarrow> list_all succeeded es1)"
    using head registersD [OF Cons.hyps(1)] by (fastforce simp: attempt_eq_iff)
  with IH es show ?case by (auto simp: errors_Join_None_iff split: sum.splits)
qed

text \<open>What each build registers, in the order it does so, and what it registers afterwards.\<close>

definition provisions :: "build_tags \<Rightarrow> 'h node_call list" where
  "provisions tags =
     (let token = CProvide ''dlog.NewTokenDriver'' (Some (Group ''token-drivers''));
          validator = CProvide ''dlog.NewValidatorDriver'' (Some (Group ''validator-drivers''));
          fabric = CProvide ''fabric.NewGenericDriver'' (Some (Group ''network-drivers''));
          evmDriver =
            [CProvide ''digutils.Identity[*core.TokenDriverService]'' (Some (As ''endorsement.PublicParamsValidator'')),
             CProvide ''evm.NewDriver'' (Some (Group ''network-drivers''))] in
      CRegisterTokenDriverDependencies #
      (if fabricx tags then
         [token, validator,
          CProvide ''fabricx.NewDriver'' (Some (Group ''network-drivers'')),
          CProvide ''tms.NewSubmitterFromFNS'' (Some (As ''tms.Submitter'')),
          CProvide ''tms.NewTMSDeployerService'' (Some (As ''tms.DeployerService'')),
          CProvide ''pp.NewPublicParametersService'' None,
          CProvide ''digutils.Identity[*pp.PublicParametersService]'' (Some (As ''pp.Loader''))]
         @ (if evm tags then evmDriver else [])
       else [fabric] @ (if evm tags then evmDriver else []) @ [token, validator]))"

definition late_registrations :: "build_tags \<Rightarrow> 'h node_call list" where
  "late_registrations tags =
     (if fabricx tags
      then [CRegister ''state.VaultService'', CRegister ''tms.DeployerService'', CRegister ''pp.Loader'']
      else [])"

lemma registers_calls [intro]:
  "registers (Provide N c opt) [CProvide c opt]"
  "registers (RegisterTokenDriverDependencies N) [CRegisterTokenDriverDependencies]"
  "registers (Register N s) [CRegister s]"
  by (auto simp: Provide_def RegisterTokenDriverDependencies_def Register_def)

lemma registers_join_allI:
  assumes "list_all2 registers ms css" and "cs = concat css"
  shows "registers (join_all ms) cs"
  using registers_join_all [OF assms(1)] assms(2) by simp

lemma registers_evm [intro]:
  "registers (provideEVMDriver N)
     [CProvide ''digutils.Identity[*core.TokenDriverService]'' (Some (As ''endorsement.PublicParamsValidator'')),
      CProvide ''evm.NewDriver'' (Some (Group ''network-drivers''))]"
  unfolding provideEVMDriver_def
  by (rule registers_join_allI [where css = "map (\<lambda>c. [c]) [_, _]"]) (auto simp: Provide_def)

text \<open>
  The shape of every \<open>Install\<close>: the registrations \<open>cs\<close>, and only when all of them succeeded the
  installation of the base SDK and then the registrations \<open>ds\<close>.
\<close>

definition installs_after ::
  "'h node_call list \<Rightarrow> 'h node_call list \<Rightarrow> unit res \<Rightarrow> ('h node_call, 'w) event list \<Rightarrow> bool" where
  "installs_after cs ds r es \<longleftrightarrow>
     (\<exists>es1 es2. es = es1 @ es2 \<and> map op es1 = cs \<and>
        (if list_all succeeded es1
         then \<exists>ok v es3. es2 = Event CSDKInstall ok v # es3 \<and> map op es3 = (if ok then ds else []) \<and>
                (r = Ok () \<longleftrightarrow> list_all succeeded es2)
         else es2 = [] \<and> (\<exists>e. r = Err e)))"

lemma registers_ret [intro]: "registers (ret ()) []"
  by (auto simp: registers_def ret_def)

lemma installs_after_ok:
  assumes "map op es1 = cs" and "list_all succeeded es1"
    and "map op es3 = (if ok then ds else [])" and "r = Ok () \<longleftrightarrow> ok \<and> list_all succeeded es3"
  shows "installs_after cs ds r (es1 @ Event CSDKInstall ok v # es3)"
  unfolding installs_after_def
  by (rule exI [of _ es1], rule exI [of _ "Event CSDKInstall ok v # es3"]) (use assms in simp)

lemma installs_after_fail:
  assumes "map op es = cs" and "\<not> list_all succeeded es"
  shows "installs_after cs ds (Err e) es"
  unfolding installs_after_def by (rule exI [of _ es], rule exI [of _ "[]"]) (use assms in simp)

lemma installs_afterI:
  assumes m: "registers m cs" and k: "registers k ds" and ok: "\<And>p. r \<noteq> Panic p"
    and run: "andThen m (\<lambda>_. andThen (ext CSDKInstall f) (\<lambda>_. k)) w = (r, es, w')"
  shows "installs_after cs ds r es"
proof (cases "m w")
  case (fields x es1 w1)
  show ?thesis
  proof (cases x)
    case (Ok u)
    with fields run obtain es2 where rest: "andThen (ext CSDKInstall f) (\<lambda>_. k) w1 = (r, es2, w')"
      and es: "es = es1 @ es2" by (auto simp: andThen_eq_iff [of m])
    have cs: "map op es1 = cs" "list_all succeeded es1"
      using registersD [OF m fields] Ok by simp_all
    obtain y w2 where f: "f w1 = (y, w2)" by (cases "f w1")
    show ?thesis
    proof (cases y)
      case Ok': (Ok v)
      with rest f obtain es3 where "k w2 = (r, es3, w')" "es2 = Event CSDKInstall True w2 # es3"
        by (auto simp: andThen_eq_iff ext_def)
      with registersD [OF m fields] registersD [OF k this(1) ok] es cs show ?thesis
        by (simp add: installs_after_ok)
    next
      case (Err e)
      with rest f have "es2 = [Event CSDKInstall False w2]" "r = Err e"
        by (auto simp: andThen_eq_iff ext_def)
      with es cs show ?thesis by (simp add: installs_after_ok)
    qed (use rest f ok in \<open>auto simp: andThen_eq_iff ext_def\<close>)
  next
    case (Err e)
    with fields run have "r = Err e" "es = es1" by (auto simp: andThen_eq_iff)
    with registersD [OF m fields] Err show ?thesis by (simp add: installs_after_fail)
  qed (use fields run ok in \<open>auto simp: andThen_eq_iff\<close>)
qed

text \<open>The joined registrations of the Fabric-X build, up to the first test of the error.\<close>

lemma registers_join_extra:
  assumes "list_all2 registers ms css" and "list_all2 registers ns dss"
  shows "registers
     (andThen (attempt_all ms) (\<lambda>errs.
      andThen (join_extra (errors_Join errs) ns) (\<lambda>err.
        case err of Some e \<Rightarrow> throw e | None \<Rightarrow> ret ())))
     (concat css @ concat dss)"
  unfolding registers_def
proof (intro allI impI)
  fix w r es w'
  assume ok: "\<forall>p. r \<noteq> Panic p"
    and run: "andThen (attempt_all ms) (\<lambda>errs. andThen (join_extra (errors_Join errs) ns) (\<lambda>err.
        case err of Some e \<Rightarrow> throw e | None \<Rightarrow> ret ())) w = (r, es, w')"
  obtain x es1 w1 where all: "attempt_all ms w = (x, es1, w1)" by (cases "attempt_all ms w")
  with run ok have "\<And>p. x \<noteq> Panic p" by (auto simp: andThen_eq_iff)
  from attempt_all_registers [OF assms(1) all this] obtain errs where
    *: "x = Ok errs" "map op es1 = concat css" "list_all (\<lambda>e. e = None) errs \<longleftrightarrow> list_all succeeded es1" by blast
  obtain y es2 w2 where extra: "join_extra (errors_Join errs) ns w1 = (y, es2, w2)"
    by (cases "join_extra (errors_Join errs) ns w1")
  with run ok all * have "\<And>p. y \<noteq> Panic p" by (auto simp: andThen_eq_iff)
  from join_extra_registers [OF assms(2) extra this] obtain err where
    "y = Ok err" "map op es2 = concat dss" "err = None \<longleftrightarrow> errors_Join errs = None \<and> list_all succeeded es2" by blast
  with * run all extra show "map op es = concat css @ concat dss \<and> (r = Ok () \<longleftrightarrow> list_all succeeded es)"
    by (auto simp: andThen_eq_iff errors_Join_None_iff list_all_iff throw_def ret_def split: option.splits)
qed

lemma installs_after_simple:
  assumes "registers m cs" and "\<And>p. r \<noteq> Panic p"
    and "andThen m (\<lambda>_. ext CSDKInstall f) w = (r, es, w')"
  shows "installs_after cs [] r es"
proof -
  have "ext CSDKInstall f = andThen (ext CSDKInstall f) (\<lambda>_. ret ())"
    using andThen_ret [of "ext CSDKInstall f"] by simp
  with assms(3) have "andThen m (\<lambda>_. andThen (ext CSDKInstall f) (\<lambda>_. ret ())) w = (r, es, w')" by simp
  from installs_afterI [OF assms(1) registers_ret assms(2) this] show ?thesis .
qed

text \<open>Every build installs its SDK after its registrations, and only if all of them succeeded.\<close>

lemma sdk_3_shape:
  assumes "SDK_3_Install N w = (r, es, w')" and "\<And>p. r \<noteq> Panic p"
    and "\<not> fabricx tags" and "\<not> evm tags"
  shows "installs_after (provisions tags) [] r es"
  by (rule installs_after_simple [OF _ assms(2) assms(1) [unfolded SDK_3_Install_def]],
      rule registers_join_allI [where css = "[[_], [_], [_], [_]]"])
    (use assms(3,4) in \<open>auto simp: provisions_def\<close>)

lemma sdk_evm_shape:
  assumes "SDK_EVM_Install N w = (r, es, w')" and "\<And>p. r \<noteq> Panic p"
    and "\<not> fabricx tags" and "evm tags"
  shows "installs_after (provisions tags) [] r es"
  by (rule installs_after_simple [OF _ assms(2) assms(1) [unfolded SDK_EVM_Install_def]],
      rule registers_join_allI [where css = "[[_], [_], [_, _], [_], [_]]"])
    (use assms(3,4) in \<open>auto simp: provisions_def\<close>)

lemma sdk_x_shape:
  assumes run: "SDK_X_Install N (extraNetworkDrivers N tags) w = (r, es, w')" and ok: "\<And>p. r \<noteq> Panic p"
    and x: "fabricx tags"
  shows "installs_after (provisions tags) (late_registrations tags) r es"
proof -
  let ?ms = "[RegisterTokenDriverDependencies N,
    Provide N ''dlog.NewTokenDriver'' (Some (Group ''token-drivers'')),
    Provide N ''dlog.NewValidatorDriver'' (Some (Group ''validator-drivers'')),
    Provide N ''fabricx.NewDriver'' (Some (Group ''network-drivers'')),
    Provide N ''tms.NewSubmitterFromFNS'' (Some (As ''tms.Submitter'')),
    Provide N ''tms.NewTMSDeployerService'' (Some (As ''tms.DeployerService'')),
    Provide N ''pp.NewPublicParametersService'' None,
    Provide N ''digutils.Identity[*pp.PublicParametersService]'' (Some (As ''pp.Loader''))]"
  let ?late = "join_all [Register N ''state.VaultService'', Register N ''tms.DeployerService'',
    Register N ''pp.Loader'']"
  let ?reg = "andThen (attempt_all ?ms) (\<lambda>errs.
    andThen (join_extra (errors_Join errs) (extraNetworkDrivers N tags)) (\<lambda>err.
      case err of Some e \<Rightarrow> throw e | None \<Rightarrow> ret ()))"
  have split: "SDK_X_Install N (extraNetworkDrivers N tags) =
      andThen ?reg (\<lambda>_. andThen (ext CSDKInstall (sdkInstall N)) (\<lambda>_. ?late))"
    unfolding SDK_X_Install_def andThen_assoc
    by (intro arg_cong2 [where f = andThen] refl HOL.ext) (simp split: option.split)
  have reg: "registers ?reg (provisions tags)"
  proof -
    have ms: "list_all2 registers ?ms [[CRegisterTokenDriverDependencies],
        [CProvide ''dlog.NewTokenDriver'' (Some (Group ''token-drivers''))],
        [CProvide ''dlog.NewValidatorDriver'' (Some (Group ''validator-drivers''))],
        [CProvide ''fabricx.NewDriver'' (Some (Group ''network-drivers''))],
        [CProvide ''tms.NewSubmitterFromFNS'' (Some (As ''tms.Submitter''))],
        [CProvide ''tms.NewTMSDeployerService'' (Some (As ''tms.DeployerService''))],
        [CProvide ''pp.NewPublicParametersService'' None],
        [CProvide ''digutils.Identity[*pp.PublicParametersService]'' (Some (As ''pp.Loader''))]]"
      by auto
    have "list_all2 registers (extraNetworkDrivers N tags) (if evm tags
        then [[CProvide ''digutils.Identity[*core.TokenDriverService]''
                (Some (As ''endorsement.PublicParamsValidator'')),
              CProvide ''evm.NewDriver'' (Some (Group ''network-drivers''))]] else [])"
      using x by (auto simp: extraNetworkDrivers_def)
    from registers_join_extra [OF ms this] x show ?thesis
      by (simp add: provisions_def Let_def split: if_splits)
  qed
  have late: "registers ?late (late_registrations tags)"
    by (rule registers_join_allI [where css = "[[_], [_], [_]]"]) (use x in \<open>auto simp: late_registrations_def\<close>)
  from installs_afterI [OF reg late ok run [unfolded split]] show ?thesis .
qed

lemma sdk_install_shape:
  assumes "SDK_Install N tags w = (r, es, w')" and "\<And>p. r \<noteq> Panic p"
  shows "installs_after (provisions tags) (late_registrations tags) r es"
  using assms sdk_x_shape [of N tags w r es w'] sdk_evm_shape [of N w r es w' tags]
    sdk_3_shape [of N w r es w' tags]
  by (auto simp: SDK_Install_def late_registrations_def split: if_splits)

text \<open>
  C34: Whatever the build, installing the SDK of a node attempts every registration of that build,
  in order, whether or not earlier ones failed, so that the error it returns reports all of them;
  it installs the SDK it extends exactly when all of them succeeded, and never before; and it
  succeeds exactly when that, and what Fabric-X registers afterwards, did.
\<close>

theorem sdk_install_attempts_all:
  assumes "SDK_Install N tags w = (r, es, w')" and "\<forall>p. r \<noteq> Panic p"
  shows "\<exists>es1 es2. es = es1 @ es2 \<and> map op es1 = provisions tags \<and>
    (if list_all succeeded es1
     then \<exists>ok v es3. es2 = Event CSDKInstall ok v # es3 \<and>
       map op es3 = (if ok then late_registrations tags else []) \<and> (r = Ok () \<longleftrightarrow> list_all succeeded es2)
     else es2 = [] \<and> (\<exists>e. r = Err e))"
  using sdk_install_shape [OF assms(1)] assms(2) by (simp add: installs_after_def)

subsection \<open>A node is started only when it is installed\<close>

text \<open>
  What the code relies on of \<open>InstallSDK\<close> of the node: it fails before it does anything with the
  SDK, or it runs the SDK's \<open>Install\<close> and returns what that returns.
\<close>

definition runs_install :: "('w, 'h) node_env \<Rightarrow> bool" where
  "runs_install N \<longleftrightarrow>
     (\<forall>node m w. (\<exists>e. installSDK N node m w = (Err e, [], w)) \<or> installSDK N node m w = m w)"

lemma avoids_attempt_all [intro!]: "list_all (avoids P) ms \<Longrightarrow> avoids P (attempt_all ms)"
  by (induction ms) auto

lemma avoids_join_all [intro!]: "list_all (avoids P) ms \<Longrightarrow> avoids P (join_all ms)"
  unfolding join_all_def
  by (intro avoids_andThen avoids_attempt_all) (auto split: option.split)

lemma avoids_join_extra [intro!]: "list_all (avoids P) ms \<Longrightarrow> avoids P (join_extra err ms)"
  by (induction ms arbitrary: err) auto

lemma sdk_install_avoids_start: "avoids (\<lambda>c. \<exists>node. c = CStart node) (SDK_Install N tags)"
  unfolding SDK_Install_def SDK_3_Install_def SDK_EVM_Install_def SDK_X_Install_def
    extraNetworkDrivers_def provideEVMDriver_def Provide_def Register_def RegisterTokenDriverDependencies_def
  by (auto split: option.split)

lemma conf_installSDK:
  assumes inst: "runs_install N"
    and ok: "\<And>es w1. list_all succeeded es \<Longrightarrow> \<forall>node ok v. Event (CStart node) ok v \<notin> set es \<Longrightarrow>
      map op es = provisions tags @ CSDKInstall # late_registrations tags \<Longrightarrow> Q (Ok ()) (fs @ es) w1"
    and bad: "\<And>r es w1. r \<noteq> Ok () \<Longrightarrow> \<forall>node ok v. Event (CStart node) ok v \<notin> set es \<Longrightarrow> Q r (fs @ es) w1"
  shows "conf collect fs (installSDK N node (SDK_Install N tags)) Q w"
proof -
  obtain r es w1 where run: "installSDK N node (SDK_Install N tags) w = (r, es, w1)"
    by (cases "installSDK N node (SDK_Install N tags) w")
  consider e where "r = Err e" "es = []" | "SDK_Install N tags w = (r, es, w1)"
    using inst run unfolding runs_install_def by (metis prod.inject)
  then have "Q r (fs @ es) w1"
  proof cases
    case 1
    then show ?thesis using bad [of r "[]"] by simp
  next
    case 2
    then have quiet: "\<forall>node ok v. Event (CStart node) ok v \<notin> set es"
      using avoidsD [OF sdk_install_avoids_start 2] by fastforce
    show ?thesis
    proof (cases "r = Ok ()")
      case True
      with sdk_install_shape [OF 2] obtain ok v es1 es3 where "list_all succeeded es"
        "es = es1 @ Event CSDKInstall ok v # es3" "map op es1 = provisions tags"
        "map op es3 = (if ok then late_registrations tags else [])"
        by (auto simp: installs_after_def split: if_splits)
      with quiet ok True show ?thesis by simp
    qed (use quiet bad in simp)
  qed
  with run show ?thesis by (simp add: conf_def run_collect)
qed

text \<open>
  C35: A node is started only when it is fully installed: before \<open>Start\<close> the data directory was
  created (if one is given), the node was made from the configuration, the SDK of the build was made
  for it, and every registration of that build and the installation of the SDK succeeded, in this
  order and with nothing in between. \<open>StartFSC\<close> returns the node exactly when it then starts.
\<close>

theorem start_fsc_installed:
  assumes inst: "runs_install N" and run: "StartFSC N tags confPath datadir w = (r, es, w')"
    and start: "Event (CStart node) ok v \<in> set es"
  shows "last es = Event (CStart node) ok v \<and> list_all succeeded (butlast es) \<and>
    map op (butlast es) = (if datadir = '''' then [] else [CMkdirAll datadir]) @
      [CNewWithConfPath confPath, CNewSDK (if fabricx tags then TokenFromFabricXSDK else TokenSDK) node] @
      provisions tags @ CSDKInstall # late_registrations tags \<and>
    (\<forall>n. r = Ok n \<longleftrightarrow> ok \<and> n = node)"
    (is "?G r es node ok v")
proof -
  have "conf collect [] (StartFSC N tags confPath datadir)
    (\<lambda>r es w1. \<forall>node ok v. Event (CStart node) ok v \<in> set es \<longrightarrow> ?G r es node ok v) w"
    by (auto simp: StartFSC_def NewSDK_def Let_def prog_simps cong: conf_cong
        intro!: conf_installSDK [OF inst] split: res.split)
  from collectD [OF this run] start show ?thesis by blast
qed


subsection \<open>The order of the map does not matter\<close>

text \<open>The bindings a run asked for: long-term identity first, as in the call.\<close>

fun binding :: "'h node_call \<Rightarrow> (identity \<times> identity) option" where
  "binding (CBindIdentity longTerm ephemeral) = Some (longTerm, ephemeral)"
| "binding c = None"

definition bound :: "('h node_call, 'w) event list \<Rightarrow> (identity \<times> identity) list" where
  "bound es = List.map_filter (\<lambda>e. binding (op e)) es"

lemma bound_simps [simp]:
  "bound [] = []" "bound (es @ fs) = bound es @ bound fs"
  "bound (e # es) = (case binding (op e) of None \<Rightarrow> bound es | Some b \<Rightarrow> b # bound es)"
  by (simp_all add: bound_def List.map_filter_def split: option.split)

text \<open>
  The binding of one pair of the map, from the endorsing identities \<open>ids\<close> of the labels and the
  P2P identities \<open>peers\<close> of the names: none when either does not resolve.
\<close>

definition wanted ::
  "('w, 'h) node_env \<Rightarrow> (string \<Rightarrow> identity res) \<Rightarrow> (string \<Rightarrow> identity) \<Rightarrow> string \<times> string \<Rightarrow>
   (identity \<times> identity) option" where
  "wanted N ids peers p =
     (case ids (fst p) of
        Ok endorsing \<Rightarrow> if identityIsNone N (peers (snd p)) then None else Some (endorsing, peers (snd p))
      | _ \<Rightarrow> None)"

lemma bind_each_bound:
  assumes ids: "\<And>l w. fst (getIdentityByID N fns l w) = ids l"
    and peers: "\<And>n w. fst (nodeIdentity N n w) = peers n"
    and "bind_each N fns ps w = (Ok (), es, w')"
  shows "bound es = List.map_filter (wanted N ids peers) ps"
  using assms(3)
proof (induction ps arbitrary: w es)
  case (Cons p ps)
  obtain l n where p: "p = (l, n)" by (cases p)
  obtain w1 where get: "getIdentityByID N fns l w = (ids l, w1)" using ids [of l w] by (metis prod.collapse)
  show ?case
  proof (cases "ids l")
    case (Ok e)
    obtain w2 where peer: "nodeIdentity N n w1 = (peers n, w2)" using peers [of n w1] by (metis prod.collapse)
    from Cons.prems get peer Ok Cons.IH show ?thesis
      by (auto simp: p andThen_eq_iff attempt_eq_iff ext_def extv_def wanted_def List.map_filter_def
          split: if_splits prod.splits)
  next
    case (Err e)
    with Cons.prems get Cons.IH show ?thesis
      by (auto simp: p andThen_eq_iff attempt_eq_iff ext_def wanted_def List.map_filter_def)
  next
    case (Panic s)
    with Cons.prems get show ?thesis by (auto simp: p andThen_eq_iff attempt_eq_iff ext_def)
  qed
qed (simp add: ret_def List.map_filter_def)

lemma bindings_independent:
  assumes order: "mset (mapOrder N m) = mset m"
    and ids: "\<And>l w. fst (getIdentityByID N fns l w) = ids l"
    and peers: "\<And>n w. fst (nodeIdentity N n w) = peers n"
    and run: "bind_each N fns (mapOrder N m) w = (Ok (), es, w')"
  shows "mset (bound es) = mset (List.map_filter (wanted N ids peers) m)"
  using bind_each_bound [OF ids peers run] order by (metis List.map_filter_def mset_filter mset_map)

end
