(* ===== verification/Node_Mains.thy ===== *)
theory Node_Mains imports Common_Fsc Ce_Config begin

text \<open>
  The \<open>main\<close> functions of the token nodes (\<open>tokens/owner/main.go\<close>, \<open>tokens/issuer/main.go\<close>,
  \<open>tokens/endorser/main.go\<close>): start the node, register the views that other nodes and the
  command line may start, serve the API until a signal or an error of the server, then shut
  down. The two channels of the \<open>select\<close> are the environment's choice. The flags are arguments.
\<close>

text \<open>The views, and the full names of their Go types: the module, the directory of the package, the name.\<close>

datatype view_type =
  views_AcceptCashView
| views_IssuerRedeemAcceptView
| views_IssueCashView
| views_RedeemView
| issuer_service_IssueCashView
| owner_service_TransferView
| owner_service_RedeemView
| owner_service_LockView
| owner_service_LockAcceptView
| owner_service_ClaimView
| owner_service_ReclaimView

definition module_path :: string where
  "module_path = ''github.com/hyperledger/fabric-samples/token-sdk''"

fun type_path :: "view_type \<Rightarrow> string" where
  "type_path views_AcceptCashView = module_path @ ''/common/views/AcceptCashView''"
| "type_path views_IssuerRedeemAcceptView = module_path @ ''/common/views/IssuerRedeemAcceptView''"
| "type_path views_IssueCashView = module_path @ ''/common/views/IssueCashView''"
| "type_path views_RedeemView = module_path @ ''/common/views/RedeemView''"
| "type_path issuer_service_IssueCashView = module_path @ ''/issuer/service/IssueCashView''"
| "type_path owner_service_TransferView = module_path @ ''/owner/service/TransferView''"
| "type_path owner_service_RedeemView = module_path @ ''/owner/service/RedeemView''"
| "type_path owner_service_LockView = module_path @ ''/owner/service/LockView''"
| "type_path owner_service_LockAcceptView = module_path @ ''/owner/service/LockAcceptView''"
| "type_path owner_service_ClaimView = module_path @ ''/owner/service/ClaimView''"
| "type_path owner_service_ReclaimView = module_path @ ''/owner/service/ReclaimView''"

text \<open>The second argument of \<open>RegisterResponder\<close>: the initiator's path, or a value of its type.\<close>

datatype initiator = InitiatorPath string | InitiatorType view_type

datatype registration =
  RegisterResponder view_type initiator
| RegisterFactory string view_type

datatype stop_reason = Signal | ServerError error

datatype 'h main_call =
  MNode "'h node_call"
| CGetRegistry 'h
| CRegistration registration
| CListenAndServe string
| CSelectStop
| CShutdown
| CStopNode 'h

record ('w, 'h) main_env =
  node :: "('w, 'h) node_env"
  tags :: build_tags
  dataDir :: "string \<Rightarrow> string"
  getRegistry :: "'h \<Rightarrow> 'w \<Rightarrow> unit \<times> 'w"
  makeRegistration :: "registration \<Rightarrow> 'w \<Rightarrow> unit res \<times> 'w"
  listenAndServe :: "string \<Rightarrow> 'w \<Rightarrow> unit \<times> 'w"
  selectStop :: "'w \<Rightarrow> stop_reason \<times> 'w"
  shutdown :: "'w \<Rightarrow> unit res \<times> 'w"
  stopNode :: "'h \<Rightarrow> 'w \<Rightarrow> unit \<times> 'w"

text \<open>\<open>log.Fatal\<close> prints and exits the process; otherwise \<open>main\<close> returns.\<close>

datatype exit = Fatal string | Returned

text \<open>The errors of registrations are not looked at.\<close>

fun register_all :: "('w, 'h) main_env \<Rightarrow> registration list \<Rightarrow> ('h main_call, 'w, unit) prog" where
  "register_all M [] = ret ()"
| "register_all M (g # gs) =
     andThen (attempt (ext (CRegistration g) (makeRegistration M g))) (\<lambda>_. register_all M gs)"

text \<open>
  The end of every \<open>main\<close>: the server runs in a goroutine that reports its error on a channel,
  and \<open>main\<close> waits for that or for a signal, whichever comes.
\<close>

definition serve_until_stopped :: "('w, 'h) main_env \<Rightarrow> 'h \<Rightarrow> string \<Rightarrow> ('h main_call, 'w, exit) prog" where
  "serve_until_stopped M fscNode port =
     (let addr = JoinHostPort ''0.0.0.0'' port in
      andThen (extv (CListenAndServe addr) (listenAndServe M addr)) (\<lambda>_.
      andThen (extv CSelectStop (selectStop M)) (\<lambda>_.
      andThen (attempt (ext CShutdown (shutdown M))) (\<lambda>_.
      andThen (extv (CStopNode fscNode) (stopNode M fscNode)) (\<lambda>_.
      ret Returned)))))"

definition start_node :: "('w, 'h) main_env \<Rightarrow> string \<Rightarrow> ('h main_call, 'w, error + 'h) prog" where
  "start_node M pth = attempt (mapCalls MNode (StartFSC (node M) (tags M) pth (dataDir M pth)))"

definition endorser_bindings :: "(string \<times> string) list" where
  "endorser_bindings =
     [(''endorser1-endorsing'', ''endorser1''), (''endorser2-endorsing'', ''endorser2'')]"

definition owner_registrations :: "registration list" where
  "owner_registrations =
     [RegisterResponder views_AcceptCashView
        (InitiatorPath ''github.com/hyperledger/fabric-samples/token-sdk/issuer/service/IssueCashView''),
      RegisterResponder views_AcceptCashView (InitiatorType owner_service_TransferView),
      RegisterFactory ''redeem'' views_RedeemView,
      RegisterResponder owner_service_LockAcceptView (InitiatorType owner_service_LockView),
      RegisterFactory ''lock'' owner_service_LockView,
      RegisterFactory ''claim'' owner_service_ClaimView,
      RegisterFactory ''reclaim'' owner_service_ReclaimView]"

definition owner_main :: "('w, 'h) main_env \<Rightarrow> string \<Rightarrow> string \<Rightarrow> ('h main_call, 'w, exit) prog" where
  "owner_main M pth port =
     andThen (start_node M pth) (\<lambda>r.
       case r of
         Inl err \<Rightarrow> ret (Fatal (Error err))
       | Inr fscNode \<Rightarrow>
     andThen (mapCalls MNode (BindEndorsingIdentities (node M) ''default'' endorser_bindings)) (\<lambda>_.
     andThen (extv (CGetRegistry fscNode) (getRegistry M fscNode)) (\<lambda>_.
     andThen (register_all M owner_registrations) (\<lambda>_.
     serve_until_stopped M fscNode port))))"

definition issuer_registrations :: "registration list" where
  "issuer_registrations =
     [RegisterFactory ''issue'' views_IssueCashView,
      RegisterResponder views_IssuerRedeemAcceptView
        (InitiatorPath ''github.com/hyperledger/fabric-samples/token-sdk/owner/service/RedeemView'')]"

definition issuer_main :: "('w, 'h) main_env \<Rightarrow> string \<Rightarrow> string \<Rightarrow> ('h main_call, 'w, exit) prog" where
  "issuer_main M pth port =
     andThen (start_node M pth) (\<lambda>r.
       case r of
         Inl err \<Rightarrow> ret (Fatal (Error err))
       | Inr fscNode \<Rightarrow>
     andThen (mapCalls MNode (BindEndorsingIdentities (node M) ''default'' endorser_bindings)) (\<lambda>_.
     andThen (extv (CGetRegistry fscNode) (getRegistry M fscNode)) (\<lambda>_.
     andThen (register_all M issuer_registrations) (\<lambda>_.
     serve_until_stopped M fscNode port))))"

definition endorser_main :: "('w, 'h) main_env \<Rightarrow> string \<Rightarrow> string \<Rightarrow> ('h main_call, 'w, exit) prog" where
  "endorser_main M pth port =
     andThen (start_node M pth) (\<lambda>r.
       case r of
         Inl err \<Rightarrow> ret (Fatal (Error err))
       | Inr fscNode \<Rightarrow> serve_until_stopped M fscNode port)"

subsection \<open>What the mains do\<close>

text \<open>The registrations a run attempted, whether or not they succeeded.\<close>

fun registration_of :: "'h main_call \<Rightarrow> registration option" where
  "registration_of (CRegistration g) = Some g"
| "registration_of c = None"

definition registered :: "('h main_call, 'w) event list \<Rightarrow> registration list" where
  "registered es = List.map_filter (\<lambda>e. registration_of (op e)) es"

lemma registered_simps [simp]:
  "registered [] = []" "registered (es @ fs) = registered es @ registered fs"
  "registered (e # es) = (case registration_of (op e) of None \<Rightarrow> registered es | Some b \<Rightarrow> b # registered es)"
  "registered (map (\<lambda>e. Event (MNode (op e)) (succeeded e) (after e)) xs) = []"
  by (simp_all add: registered_def List.map_filter_def split: option.split)

lemma register_all_registers:
  "register_all M gs w = (r, es, w') \<Longrightarrow> r = Ok () \<Longrightarrow> registered es = gs"
  by (induction gs arbitrary: w es)
    (auto simp: run_iffs)

lemma serve_until_stopped_run:
  assumes "serve_until_stopped M fscNode port w = (Ok x, es, w')"
  shows "x = Returned \<and> map op es =
    [CListenAndServe (JoinHostPort ''0.0.0.0'' port), CSelectStop, CShutdown, CStopNode fscNode]"
  using assms
  by (auto simp: serve_until_stopped_def Let_def run_iffs)

text \<open>Whether a node is up: what serving it or stopping it means in the trace.\<close>

fun serves_or_stops :: "'h main_call \<Rightarrow> bool" where
  "serves_or_stops (CListenAndServe a) = True"
| "serves_or_stops CShutdown = True"
| "serves_or_stops (CStopNode h) = True"
| "serves_or_stops c = False"

lemma start_node_ok:
  assumes "start_node M pth w = (Ok (Inr fscNode), es, w')"
  shows "\<exists>v. Event (MNode (CStart fscNode)) True v \<in> set es"
  using assms by (auto simp: start_node_def StartFSC_def run_iffs)

lemma mnode_quiet:
  assumes "mapCalls MNode m w = (r, es, w')"
  shows "registered es = []" and "\<forall>e \<in> set es. \<not> serves_or_stops (op e)"
  using assms by (auto simp: run_iffs)

lemma register_all_quiet:
  "register_all M gs w = (r, es, w') \<Longrightarrow> e \<in> set es \<Longrightarrow> \<not> serves_or_stops (op e)"
  by (induction gs arbitrary: w es) (auto simp: run_iffs)


text \<open>The shape of the mains: what is between starting the node and serving is \<open>mid\<close>.\<close>

lemma main_cases:
  assumes run: "andThen (start_node M pth) (\<lambda>r. case r of
        Inl err \<Rightarrow> ret (Fatal (Error err))
      | Inr n \<Rightarrow> andThen (mid n) (\<lambda>_. serve_until_stopped M n port)) w = (Ok x, es, w')"
    and mid: "\<And>n v fs v'. mid n v = (Ok (), fs, v') \<Longrightarrow>
      (\<forall>e \<in> set fs. \<not> serves_or_stops (op e)) \<and> registered fs = gs"
  shows "case x of
      Fatal m \<Rightarrow> (\<forall>e \<in> set es. \<not> serves_or_stops (op e)) \<and> registered es = []
    | Returned \<Rightarrow>
        (\<exists>es1 es2 fscNode. es = es1 @ es2 \<and> (\<forall>e \<in> set es1. \<not> serves_or_stops (op e)) \<and>
           registered es1 = gs \<and> (\<exists>v. Event (MNode (CStart fscNode)) True v \<in> set es1) \<and>
           map op es2 =
             [CListenAndServe (JoinHostPort ''0.0.0.0'' port), CSelectStop, CShutdown, CStopNode fscNode])"
proof -
  obtain r fs w1 where s: "start_node M pth w = (r, fs, w1)" by (cases "start_node M pth w")
  then have start: "registered fs = []" "\<forall>e \<in> set fs. \<not> serves_or_stops (op e)"
    by (auto simp: start_node_def run_iffs)
  from run s consider err where "r = Ok (Inl err)" "x = Fatal (Error err)" "es = fs"
    | n gs1 w2 es2 where "r = Ok (Inr n)" "mid n w1 = (Ok (), gs1, w2)"
        "serve_until_stopped M n port w2 = (Ok x, es2, w')" "es = fs @ gs1 @ es2"
  proof -
    from run s obtain y fs2 where y: "r = Ok y" and rest: "(case y of
        Inl err \<Rightarrow> ret (Fatal (Error err))
      | Inr n \<Rightarrow> andThen (mid n) (\<lambda>_. serve_until_stopped M n port)) w1 = (Ok x, fs2, w')" "es = fs @ fs2"
      by (auto simp: andThen_eq_iff [of "start_node M pth"])
    show thesis
      by (cases y) (use rest y that in \<open>auto simp: run_iffs\<close>)
  qed
  then show ?thesis
  proof cases
    case 1
    with start show ?thesis by simp
  next
    case 2
    from serve_until_stopped_run [OF 2(3)] have x: "x = Returned" and ops: "map op es2 =
      [CListenAndServe (JoinHostPort ''0.0.0.0'' port), CSelectStop, CShutdown, CStopNode n]" by auto
    have "\<exists>v. Event (MNode (CStart n)) True v \<in> set (fs @ gs1)"
      using start_node_ok [OF s [unfolded 2(1)]] by auto
    moreover have "\<forall>e \<in> set (fs @ gs1). \<not> serves_or_stops (op e)" "registered (fs @ gs1) = gs"
      using start mid [OF 2(2)] by auto
    ultimately have shape: "es = (fs @ gs1) @ es2 \<and> (\<forall>e \<in> set (fs @ gs1). \<not> serves_or_stops (op e)) \<and>
      registered (fs @ gs1) = gs \<and> (\<exists>v. Event (MNode (CStart n)) True v \<in> set (fs @ gs1)) \<and>
      map op es2 = [CListenAndServe (JoinHostPort ''0.0.0.0'' port), CSelectStop, CShutdown, CStopNode n]"
      using ops 2(4) by simp
    show ?thesis unfolding x exit.case by (rule exI, rule exI, rule exI, rule shape)
  qed
qed

lemma mid_registers:
  assumes "andThen (mapCalls MNode m) (\<lambda>_. andThen (extv (CGetRegistry n) f) (\<lambda>_. register_all M gs)) v
    = (Ok (), fs, v')"
  shows "(\<forall>e \<in> set fs. \<not> serves_or_stops (op e)) \<and> registered fs = gs"
proof -
  from assms obtain r es1 w1 w2 es2 where "mapCalls MNode m v = (r, es1, w1)"
    "register_all M gs w2 = (Ok (), es2, v')" "fs = es1 @ Event (CGetRegistry n) True w2 # es2"
    by (auto simp: andThen_eq_iff extv_eq_iff)
  with mnode_quiet [OF this(1)] register_all_registers [OF this(2)] register_all_quiet [OF this(2)]
  show ?thesis by auto
qed

lemma mains_shape:
  assumes "(main, gs) \<in> {(owner_main, owner_registrations), (issuer_main, issuer_registrations), (endorser_main, [])}"
    and "main M pth port w = (Ok x, es, w')"
  shows "case x of
      Fatal m \<Rightarrow> (\<forall>e \<in> set es. \<not> serves_or_stops (op e)) \<and> registered es = []
    | Returned \<Rightarrow>
        (\<exists>es1 es2 fscNode. es = es1 @ es2 \<and> (\<forall>e \<in> set es1. \<not> serves_or_stops (op e)) \<and>
           registered es1 = gs \<and> (\<exists>v. Event (MNode (CStart fscNode)) True v \<in> set es1) \<and>
           map op es2 =
             [CListenAndServe (JoinHostPort ''0.0.0.0'' port), CSelectStop, CShutdown, CStopNode fscNode])"
proof -
  let ?mid = "\<lambda>gs n. andThen (mapCalls MNode (BindEndorsingIdentities (node M) ''default'' endorser_bindings))
    (\<lambda>_. andThen (extv (CGetRegistry n) (getRegistry M n)) (\<lambda>_. register_all M gs))"
  from assms(1) consider "main = owner_main" "gs = owner_registrations"
    | "main = issuer_main" "gs = issuer_registrations" | "main = endorser_main" "gs = []" by auto
  then show ?thesis
  proof cases
    case 1
    with assms(2) show ?thesis
      by (intro main_cases [where mid = "?mid owner_registrations" and M = M and pth = pth and w = w and w' = w'] mid_registers)
        (simp_all add: owner_main_def andThen_assoc cong: sum.case_cong)
  next
    case 2
    with assms(2) show ?thesis
      by (intro main_cases [where mid = "?mid issuer_registrations" and M = M and pth = pth and w = w and w' = w'] mid_registers)
        (simp_all add: issuer_main_def andThen_assoc cong: sum.case_cong)
  next
    case 3
    with assms(2) show ?thesis
      by (intro main_cases [where mid = "\<lambda>n. ret ()" and M = M and pth = pth and w = w and w' = w'])
        (simp_all add: endorser_main_def basic_eq_iff cong: sum.case_cong)
  qed
qed

text \<open>
  C37: Every node stops what it started. Its \<open>main\<close> exits at once when the node could not be
  started, and then serves and registers nothing. Otherwise it starts the node, makes all its
  registrations, whether or not some fail, and only then serves the API on the port it was given;
  when a signal comes or the server fails it shuts the server down first and then stops that same
  node, each once, and these are its last calls.
\<close>

theorem mains_stop_what_they_start:
  assumes "(main, gs) \<in> {(owner_main, owner_registrations), (issuer_main, issuer_registrations), (endorser_main, [])}"
    and "main M pth port w = (Ok x, es, w')"
  shows "case x of
      Fatal m \<Rightarrow> (\<forall>e \<in> set es. \<not> serves_or_stops (op e)) \<and> registered es = []
    | Returned \<Rightarrow>
        (\<exists>es1 es2 fscNode. es = es1 @ es2 \<and> (\<forall>e \<in> set es1. \<not> serves_or_stops (op e)) \<and>
           registered es1 = gs \<and> (\<exists>v. Event (MNode (CStart fscNode)) True v \<in> set es1) \<and>
           map op es2 =
             [CListenAndServe (JoinHostPort ''0.0.0.0'' port), CSelectStop, CShutdown, CStopNode fscNode])"
  by (rule mains_shape [OF assms])


subsection \<open>Which responders a node has\<close>

text \<open>
  What the mains rely on of the view registry of the Fabric Smart Client. It identifies a view given as a value
  by some name (\<open>ident\<close>), the full name of its Go type; \<open>responders w\<close> is the responder it has in the world \<open>w\<close> for the
  initiator of a name. The registry of a node that was just started has no responder for the views of this
  repository; registering a factory changes no responder; \<open>RegisterResponder\<close> changes no responder but that for
  the initiator it is given, and if there was none for it, there is the new one when it succeeds and none when
  it fails.
\<close>

fun initiator_name :: "(view_type \<Rightarrow> string) \<Rightarrow> initiator \<Rightarrow> string" where
  "initiator_name ident (InitiatorPath p) = p"
| "initiator_name ident (InitiatorType v) = ident v"

definition lawful_registry ::
  "('w, 'h) main_env \<Rightarrow> (view_type \<Rightarrow> string) \<Rightarrow> ('w \<Rightarrow> string \<Rightarrow> view_type option) \<Rightarrow> bool" where
  "lawful_registry M ident responders \<longleftrightarrow>
     (\<forall>v. ident v = type_path v) \<and>
     (\<forall>n w w1. getRegistry M n w = ((), w1) \<longrightarrow> (\<forall>v. responders w1 (ident v) = None)) \<and>
     (\<forall>g w r w1. makeRegistration M g w = (r, w1) \<longrightarrow>
        (case g of
           RegisterFactory name u \<Rightarrow> responders w1 = responders w
         | RegisterResponder u i \<Rightarrow>
             (\<forall>j. j \<noteq> initiator_name ident i \<longrightarrow> responders w1 j = responders w j) \<and>
             (responders w (initiator_name ident i) = None \<longrightarrow>
                responders w1 (initiator_name ident i) = (if is_ok r then Some u else None))))"

lemma registration_law:
  assumes "lawful_registry M ident responders" and "makeRegistration M g w = (r, w1)"
  shows "\<forall>u i. g = RegisterResponder u i \<longrightarrow> initiator_name ident i \<noteq> j \<Longrightarrow> responders w1 j = responders w j"
    and "g = RegisterResponder u i \<Longrightarrow> initiator_name ident i = j \<Longrightarrow> responders w j = None \<Longrightarrow>
      responders w1 j = (if is_ok r then Some u else None)"
  using assms by (cases g; fastforce simp: lawful_registry_def)+

text \<open>What a sequence of registrations leaves for one initiator, which at most one of them is for.\<close>

definition for_others :: "(view_type \<Rightarrow> string) \<Rightarrow> string \<Rightarrow> registration list \<Rightarrow> bool" where
  "for_others ident j gs \<longleftrightarrow>
     list_all (\<lambda>g. case g of RegisterResponder u i \<Rightarrow> initiator_name ident i \<noteq> j | RegisterFactory n u \<Rightarrow> True) gs"

lemma register_all_ConsD:
  "register_all M (g # gs) w = (Ok (), es, w') \<Longrightarrow>
   \<exists>r w1 es2. makeRegistration M g w = (r, w1) \<and> es = Event (CRegistration g) (is_ok r) w1 # es2 \<and>
     register_all M gs w1 = (Ok (), es2, w')"
  by (auto simp: run_iffs)

lemma register_all_others:
  assumes law: "lawful_registry M ident responders"
  shows "register_all M gs w = (Ok (), es, w') \<Longrightarrow> for_others ident j gs \<Longrightarrow> responders w' j = responders w j"
proof (induction gs arbitrary: w es)
  case (Cons g gs)
  from Cons.prems(1) obtain r w1 es2 where call: "makeRegistration M g w = (r, w1)"
    and rest: "register_all M gs w1 = (Ok (), es2, w')"
    by (blast dest: register_all_ConsD)
  have "for_others ident j gs" "\<forall>u i. g = RegisterResponder u i \<longrightarrow> initiator_name ident i \<noteq> j"
    using Cons.prems(2) by (auto simp: for_others_def)
  with Cons.IH [OF rest] registration_law(1) [OF law call] show ?case by simp
qed (simp add: basic_eq_iff)

lemma register_all_append: "register_all M (gs @ hs) = andThen (register_all M gs) (\<lambda>_. register_all M hs)"
  by (induction gs) (simp_all add: andThen_assoc)

lemma register_all_responder:
  assumes law: "lawful_registry M ident responders"
    and run: "register_all M all w = (Ok (), es, w')" and all: "all = gs @ RegisterResponder u i # hs"
    and j: "initiator_name ident i = j" "for_others ident j gs" "for_others ident j hs" and new: "responders w j = None"
  shows "\<exists>ok x. Event (CRegistration (RegisterResponder u i)) ok x \<in> set es \<and>
    responders w' j = (if ok then Some u else None)"
proof -
  from run obtain es1 w1 fs where 1: "register_all M gs w = (Ok (), es1, w1)" and es: "es = es1 @ fs"
    and tail: "register_all M (RegisterResponder u i # hs) w1 = (Ok (), fs, w')"
    unfolding all register_all_append andThen_eq_iff by auto
  from register_all_ConsD [OF tail] obtain r w2 es2 where
    2: "makeRegistration M (RegisterResponder u i) w1 = (r, w2)"
      "fs = Event (CRegistration (RegisterResponder u i)) (is_ok r) w2 # es2"
    and 3: "register_all M hs w2 = (Ok (), es2, w')" by blast
  have "responders w2 j = (if is_ok r then Some u else None)"
    using registration_law(2) [OF law 2(1) refl j(1)] register_all_others [OF law 1 j(2)] new by simp
  with register_all_others [OF law 3 j(3)] 2(2) es show ?thesis by (metis in_set_conv_decomp)
qed

lemma register_all_makes:
  "register_all M gs w = (Ok (), es, w') \<Longrightarrow> g \<in> set gs \<Longrightarrow> \<exists>ok x. Event (CRegistration g) ok x \<in> set es"
proof (induction gs arbitrary: w es)
  case (Cons g' gs)
  from register_all_ConsD [OF Cons.prems(1)] obtain r w1 es2 where
    "makeRegistration M g' w = (r, w1)" "es = Event (CRegistration g') (is_ok r) w1 # es2"
    "register_all M gs w1 = (Ok (), es2, w')" by blast
  with Cons.IH [OF this(3)] Cons.prems(2) show ?case by (metis list.set_intros set_ConsD)
qed simp

lemma linked_register_all: "linked (register_all M gs)"
  by (induction gs) (auto intro!: linked_andThen linked_attempt)

text \<open>The registrations of a main, between the registry it is given and its server.\<close>

lemma main_registry:
  assumes law: "lawful_registry M ident responders"
    and run: "andThen (start_node M pth) (\<lambda>r. case r of
        Inl err \<Rightarrow> ret (Fatal (Error err))
      | Inr n \<Rightarrow> andThen (mid n) (\<lambda>_. andThen (extv (CGetRegistry n) (getRegistry M n)) (\<lambda>_.
          andThen (register_all M gs) (\<lambda>_. serve_until_stopped M n port)))) w = (Ok Returned, es, w')"
  obtains es1 e es2 v1 fs where "es = es1 @ e # es2" "op e = CListenAndServe (JoinHostPort ''0.0.0.0'' port)"
    "\<forall>v. responders v1 (type_path v) = None" "register_all M gs v1 = (Ok (), fs, last_world w es1)" "set fs \<subseteq> set es1"
proof -
  from run obtain r es0 w0 fs0 where "start_node M pth w = (Ok r, es0, w0)" "es = es0 @ fs0" and rest: "(case r of
        Inl err \<Rightarrow> ret (Fatal (Error err))
      | Inr n \<Rightarrow> andThen (mid n) (\<lambda>_. andThen (extv (CGetRegistry n) (getRegistry M n)) (\<lambda>_.
          andThen (register_all M gs) (\<lambda>_. serve_until_stopped M n port)))) w0 = (Ok Returned, fs0, w')"
    by (auto simp: andThen_eq_iff [of "start_node M pth"])
  moreover from rest obtain n where "r = Inr n" by (cases r) (auto simp: basic_eq_iff)
  ultimately obtain es0' v v1 fs w2 es2 where es: "es = es0' @ Event (CGetRegistry n) True v1 # fs @ es2"
    and reg: "getRegistry M n v = ((), v1)" and all: "register_all M gs v1 = (Ok (), fs, w2)"
    and serve: "serve_until_stopped M n port w2 = (Ok Returned, es2, w')"
    by (auto simp: andThen_eq_iff [of "mid n"] andThen_eq_iff [of "extv c f" for c f] extv_eq_iff
        andThen_eq_iff [of "register_all M gs"]) (metis append_assoc append_Cons)
  from serve_until_stopped_run [OF serve] obtain e es3 where e: "es2 = e # es3"
    "op e = CListenAndServe (JoinHostPort ''0.0.0.0'' port)" by (auto simp: map_eq_Cons_conv)
  have "w2 = last_world w (es0' @ Event (CGetRegistry n) True v1 # fs)"
    using linkedD [OF linked_register_all all] by (simp add: last_world_def)
  moreover have "\<forall>v. responders v1 (type_path v) = None"
    using law reg by (auto simp: lawful_registry_def)
  ultimately show thesis
    using that [of "es0' @ Event (CGetRegistry n) True v1 # fs" e es3 v1 fs] es e all by auto
qed

definition answers_when_registered ::
  "('h main_call, 'w) event list \<Rightarrow> (string \<Rightarrow> view_type option) \<Rightarrow> string \<Rightarrow> view_type \<Rightarrow> initiator \<Rightarrow> bool" where
  "answers_when_registered es own name u i \<longleftrightarrow>
     (\<exists>ok x. Event (CRegistration (RegisterResponder u i)) ok x \<in> set es \<and> own name = (if ok then Some u else None))"

lemma answers_mono:
  "set gs \<subseteq> set es \<Longrightarrow> answers_when_registered gs own n u i \<Longrightarrow> answers_when_registered es own n u i"
  unfolding answers_when_registered_def by blast

text \<open>
  C38: The nodes fit together. When an owner starts to serve, the registry of its views has the responder that
  is meant for them for the issuer's issue view and for another owner's transfer and lock views, and when an issuer
  starts to serve its registry has the responder for the owner's redeem view; each of them exactly when the call that
  registers it, which was made, succeeded (the mains do not look at the errors and serve all the same). But the views
  that the factories \<open>issue\<close> (issuer) and \<open>redeem\<close> (owner) start have no responder on the other side, whatever
  succeeded: these are the views of \<open>common/views\<close>, and the responders are registered for those of the services.
\<close>

theorem responders_registered:
  assumes owner: "owner_main M pth port w = (Ok Returned, es, w')" and "lawful_registry M ident responders"
    and issuer: "issuer_main M' pth' port' v = (Ok Returned, fs, v')" and "lawful_registry M' ident' responders'"
  shows "\<exists>es1 e es2 fs1 f fs2 own iss.
    es = es1 @ e # es2 \<and> op e = CListenAndServe (JoinHostPort ''0.0.0.0'' port) \<and> own = responders (last_world w es1) \<and>
    fs = fs1 @ f # fs2 \<and> op f = CListenAndServe (JoinHostPort ''0.0.0.0'' port') \<and> iss = responders' (last_world v fs1) \<and>
    answers_when_registered es1 own (ident issuer_service_IssueCashView) views_AcceptCashView
      (InitiatorPath ''github.com/hyperledger/fabric-samples/token-sdk/issuer/service/IssueCashView'') \<and>
    answers_when_registered es1 own (ident owner_service_TransferView) views_AcceptCashView
      (InitiatorType owner_service_TransferView) \<and>
    answers_when_registered es1 own (ident owner_service_LockView) owner_service_LockAcceptView
      (InitiatorType owner_service_LockView) \<and>
    answers_when_registered fs1 iss (ident' owner_service_RedeemView) views_IssuerRedeemAcceptView
      (InitiatorPath ''github.com/hyperledger/fabric-samples/token-sdk/owner/service/RedeemView'') \<and>
    (\<exists>ok x. Event (CRegistration (RegisterFactory ''issue'' views_IssueCashView)) ok x \<in> set fs1) \<and>
    own (ident views_IssueCashView) = None \<and>
    (\<exists>ok x. Event (CRegistration (RegisterFactory ''redeem'' views_RedeemView)) ok x \<in> set es1) \<and>
    iss (ident' views_RedeemView) = None"
proof -
  have names: "ident u = type_path u" "ident' u = type_path u" for u
    using assms(2,4) by (auto simp: lawful_registry_def)
  from owner obtain es1 e es2 v1 gs where es: "es = es1 @ e # es2" "op e = CListenAndServe (JoinHostPort ''0.0.0.0'' port)"
    and new: "\<forall>u. responders v1 (type_path u) = None"
    and own: "register_all M owner_registrations v1 = (Ok (), gs, last_world w es1)" "set gs \<subseteq> set es1"
    unfolding owner_main_def by (elim main_registry [OF assms(2)])
  from issuer obtain fs1 f fs2 v2 hs where fs: "fs = fs1 @ f # fs2" "op f = CListenAndServe (JoinHostPort ''0.0.0.0'' port')"
    and new': "\<forall>u. responders' v2 (type_path u) = None"
    and iss: "register_all M' issuer_registrations v2 = (Ok (), hs, last_world v fs1)" "set hs \<subseteq> set fs1"
    unfolding issuer_main_def by (elim main_registry [OF assms(4)])
  let ?owner = "\<lambda>n. take n owner_registrations" and ?rest = "\<lambda>n. drop (Suc n) owner_registrations"
  let ?own = "responders (last_world w es1)" and ?iss = "responders' (last_world v fs1)"
  let ?owner = "\<lambda>n. take n owner_registrations" and ?rest = "\<lambda>n. drop (Suc n) owner_registrations"
  note own' = answers_mono [OF own(2) register_all_responder [OF assms(2) own(1) _ _ _ _ new [THEN spec],
      folded answers_when_registered_def]]
    and iss' = answers_mono [OF iss(2) register_all_responder [OF assms(4) iss(1) _ _ _ _ new' [THEN spec],
      folded answers_when_registered_def]]
  have issue: "answers_when_registered es1 ?own (type_path issuer_service_IssueCashView) views_AcceptCashView
      (InitiatorPath ''github.com/hyperledger/fabric-samples/token-sdk/issuer/service/IssueCashView'')"
    by (rule own' [where gs1 = "?owner 0" and hs1 = "?rest 0"])
      (simp_all add: owner_registrations_def for_others_def names module_path_def)
  have transfer: "answers_when_registered es1 ?own (type_path owner_service_TransferView)
      views_AcceptCashView (InitiatorType owner_service_TransferView)"
    by (rule own' [where gs1 = "?owner 1" and hs1 = "?rest 1"])
      (simp_all add: owner_registrations_def for_others_def names module_path_def)
  have lock: "answers_when_registered es1 ?own (type_path owner_service_LockView)
      owner_service_LockAcceptView (InitiatorType owner_service_LockView)"
    by (rule own' [where gs1 = "?owner 3" and hs1 = "?rest 3"])
      (simp_all add: owner_registrations_def for_others_def names module_path_def numeral_3_eq_3)
  have redeem: "answers_when_registered fs1 ?iss (type_path owner_service_RedeemView) views_IssuerRedeemAcceptView
      (InitiatorPath ''github.com/hyperledger/fabric-samples/token-sdk/owner/service/RedeemView'')"
    by (rule iss' [where gs1 = "take 1 issuer_registrations" and hs1 = "[]"])
      (simp_all add: issuer_registrations_def for_others_def names module_path_def)
  have none: "?own (type_path views_IssueCashView) = None" "?iss (type_path views_RedeemView) = None"
    using register_all_others [OF assms(2) own(1), of "type_path views_IssueCashView"]
      register_all_others [OF assms(4) iss(1), of "type_path views_RedeemView"]
      new [THEN spec, of views_IssueCashView] new' [THEN spec, of views_RedeemView]
    by (simp_all add: owner_registrations_def issuer_registrations_def for_others_def names module_path_def)
  have "RegisterFactory ''redeem'' views_RedeemView \<in> set owner_registrations"
    "RegisterFactory ''issue'' views_IssueCashView \<in> set issuer_registrations"
    by (simp_all add: owner_registrations_def issuer_registrations_def)
  with register_all_makes [OF own(1)] register_all_makes [OF iss(1)] own(2) iss(2) have factories:
    "\<exists>ok x. Event (CRegistration (RegisterFactory ''redeem'' views_RedeemView)) ok x \<in> set es1"
    "\<exists>ok x. Event (CRegistration (RegisterFactory ''issue'' views_IssueCashView)) ok x \<in> set fs1"
    by (meson subsetD)+
  show ?thesis
    unfolding names
    by (rule exI [of _ es1], rule exI [of _ e], rule exI [of _ es2], rule exI [of _ fs1], rule exI [of _ f],
      rule exI [of _ fs2], rule exI [of _ ?own], rule exI [of _ ?iss])
      (intro conjI refl es fs issue transfer lock redeem factories none)
qed

end
