(* ===== verification/Ce_Main.thy ===== *)
theory Ce_Main imports Ce_Service begin

text \<open>
  \<open>custom-endorser/cmd/endorser/main.go\<close>: the command that loads and validates the configuration of
  the endorser, creates its service with the sample executor and serves it; with \<open>New\<close> of
  \<open>service.go\<close>. The flags are fields of the environment \<open>run_env\<close>, which extends the SDK of the
  service by the file, the configuration parser, the MSP and the gRPC server; \<open>'s\<close> is the library's
  server configuration.
\<close>

datatype ('w, 'h, 'r, 'q, 's) run_call =
  CService "('h, 'r, 'q) ce_call"
| COpen string
| CReadConfig
| CCloseFile
| CUnmarshal
| CInitLogging string
| CSignerFromMSP string string
| CStartAndServe "(('h, 'r, 'q) ce_call, 'w, 'h, 'r) service" 's

record ('w, 'h, 'r, 'q, 'p, 's) run_env =
  runSdk :: "('w, 'h, 'r, 'q, 'p) sdk"
  configFile :: string
  logLevel :: "string option"
  openFile :: "string \<Rightarrow> 'w \<Rightarrow> unit res \<times> 'w"
  readConfigFile :: "'w \<Rightarrow> unit res \<times> 'w"
  closeFile :: "'w \<Rightarrow> unit \<times> 'w"
  unmarshalConfig :: "'w \<Rightarrow> 's config res \<times> 'w"
  initLogging :: "string \<Rightarrow> 'w \<Rightarrow> unit \<times> 'w"
  signerFromMSP :: "string \<Rightarrow> string \<Rightarrow> 'w \<Rightarrow> unit res \<times> 'w"
  startAndServe :: "(('h, 'r, 'q) ce_call, 'w, 'h, 'r) service \<Rightarrow> 's \<Rightarrow> 'w \<Rightarrow> unit res \<times> 'w"

definition New_Service ::
  "('w, 'h, 'r, 'q, 'p, 's) run_env \<Rightarrow> service_config \<Rightarrow> string \<Rightarrow> string \<Rightarrow>
   (string \<Rightarrow> (('h, 'r, 'q) ce_call, 'w, 'h, 'r) executor option) \<Rightarrow>
   (('w, 'h, 'r, 'q, 's) run_call, 'w, (('h, 'r, 'q) ce_call, 'w, 'h, 'r) service) prog" where
  "New_Service R cfg mspDir mspID execs =
     andThen (wrapErr ''failed to load signer'' (ext (CSignerFromMSP mspDir mspID) (signerFromMSP R mspDir mspID))) (\<lambda>_.
     mapCalls CService (NewWithSigner (runSdk R) cfg execs))"

text \<open>
  The second half of \<open>run\<close>, on a validated configuration. \<open>Validate\<close> has made sure that the
  committer has an endpoint and that there is a server configuration; nothing has made sure that
  there is an identity.
\<close>

definition create_and_serve ::
  "('w, 'h, 'r, 'q, 'p, 's) run_env \<Rightarrow> 's config \<Rightarrow> (('w, 'h, 'r, 'q, 's) run_call, 'w, unit) prog" where
  "create_and_serve R cfg =
     (case ToPeerConf (Committer cfg) of
        Panic m \<Rightarrow> panic m
      | Err err \<Rightarrow> throw err
      | Ok committer \<Rightarrow>
      case CfgIdentity cfg of
        None \<Rightarrow> panic ''invalid memory address or nil pointer dereference''
      | Some ident \<Rightarrow>
      andThen
        (wrapErr ''failed to create service''
           (New_Service R
              \<lparr>SvcChannelID = ChannelID cfg, SvcProtocol = Protocol cfg, SvcCommitter = committer,
               SvcDBConnStr = ConnStr cfg\<rparr>
              (MSPDir ident) (MspID ident) (sample_executors (runSdk R)))) (\<lambda>svc.
      case Server cfg of
        None \<Rightarrow> panic ''invalid memory address or nil pointer dereference''
      | Some server \<Rightarrow>
          wrapErr ''service failed'' (ext (CStartAndServe svc server) (startAndServe R svc server))))"

definition with_log_level :: "('w, 'h, 'r, 'q, 'p, 's) run_env \<Rightarrow> 's config \<Rightarrow> 's config" where
  "with_log_level R cfg = (case logLevel R of None \<Rightarrow> cfg | Some level \<Rightarrow> cfg\<lparr>LogSpec := level\<rparr>)"

lemma with_log_level_simps [simp]:
  "CfgIdentity (with_log_level R cfg) = CfgIdentity cfg" "Server (with_log_level R cfg) = Server cfg"
  "Committer (with_log_level R cfg) = Committer cfg" "ChannelID (with_log_level R cfg) = ChannelID cfg"
  "Protocol (with_log_level R cfg) = Protocol cfg" "ConnStr (with_log_level R cfg) = ConnStr cfg"
  by (simp_all add: with_log_level_def split: option.split)

definition run ::
  "('w, 'h, 'r, 'q, 'p, 's) run_env \<Rightarrow> (('w, 'h, 'r, 'q, 's) run_call, 'w, unit) prog" where
  "run R =
     andThen (wrapErr ''failed to open config'' (ext (COpen (configFile R)) (openFile R (configFile R)))) (\<lambda>_.
     andThen
       (onError (ext CReadConfig (readConfigFile R)) (\<lambda>err.
          andThen (extv CCloseFile (closeFile R)) (\<lambda>_. throw (Wrap ''failed to read config'' err)))) (\<lambda>_.
     andThen (extv CCloseFile (closeFile R)) (\<lambda>_.
     andThen (wrapErr ''invalid config'' (ext CUnmarshal (unmarshalConfig R))) (\<lambda>cfg.
     case Validate cfg of
       Some err \<Rightarrow> throw (Wrap ''invalid config'' err)
     | None \<Rightarrow>
     let cfg = with_log_level R cfg in
     andThen (extv (CInitLogging (LogSpec cfg)) (initLogging R (LogSpec cfg))) (\<lambda>_.
     create_and_serve R cfg)))))"

subsection \<open>What is served\<close>

lemma Validate_None_iff:
  "Validate cfg = None \<longleftrightarrow>
     ConnStr cfg \<noteq> '''' \<and> ChannelID cfg \<noteq> '''' \<and> Protocol cfg \<in> {'''', ''fabric'', ''fabric-x''} \<and>
     Endpoint (Committer cfg) \<noteq> None \<and> Server cfg \<noteq> None"
  by (auto simp: Validate_def errors_Join_None_iff Let_def)

text \<open>
  A service made from a validated configuration is complete: its builder is that of its protocol.
  Making it loads the signer first, and serves nothing.
\<close>

definition service_of ::
  "('w, 'h, 'r, 'q, 'p) sdk \<Rightarrow> service_config \<Rightarrow> (('h, 'r, 'q) ce_call, 'w, 'h, 'r) service" where
  "service_of S cfg =
     \<lparr>channel = SvcChannelID cfg, executors = sample_executors S,
      builder = Some (if SvcProtocol cfg = ''fabric'' then FabricBuilder else FabricXBuilder),
      monotonicVersions = (SvcProtocol cfg \<noteq> ''fabric'')\<rparr>"

fun serving :: "('w, 'h, 'r, 'q, 's) run_call \<Rightarrow> bool" where
  "serving (CStartAndServe svc server) = True"
| "serving c = False"

lemma New_Service_run:
  assumes run: "New_Service R cfg dir mid (sample_executors (runSdk R)) w = (r, fs, w')"
    and "SvcProtocol cfg \<in> {'''', ''fabric'', ''fabric-x''}"
  shows "\<forall>e \<in> set fs. \<not> serving (op e)"
    and "r = Ok svc \<Longrightarrow> svc = service_of (runSdk R) cfg \<and> (\<exists>u. Event (CSignerFromMSP dir mid) True u \<in> set fs)"
proof -
  show "\<forall>e \<in> set fs. \<not> serving (op e)" using run by (auto simp: New_Service_def run_iffs)
  show "svc = service_of (runSdk R) cfg \<and> (\<exists>u. Event (CSignerFromMSP dir mid) True u \<in> set fs)" if "r = Ok svc"
    using assms that by (auto simp: New_Service_def NewWithSigner_def service_of_def Let_def run_iffs)
qed

text \<open>The part of \<open>run\<close> on a validated configuration, when it comes to serving.\<close>

definition serves_config ::
  "('w, 'h, 'r, 'q, 'p, 's) run_env \<Rightarrow> 's config \<Rightarrow> (('h, 'r, 'q) ce_call, 'w, 'h, 'r) service \<Rightarrow> 's \<Rightarrow> bool"
where
  "serves_config R cfg svc server \<longleftrightarrow>
     Server cfg = Some server \<and>
     (\<exists>c. ToPeerConf (Committer cfg) = Ok c \<and>
        svc = service_of (runSdk R)
          \<lparr>SvcChannelID = ChannelID cfg, SvcProtocol = Protocol cfg, SvcCommitter = c,
           SvcDBConnStr = ConnStr cfg\<rparr>)"

lemma create_and_serve_run:
  assumes run: "create_and_serve R cfg w = (r, es, w')"
    and serve: "Event (CStartAndServe svc server) ok v \<in> set es"
    and proto: "Protocol cfg \<in> {'''', ''fabric'', ''fabric-x''}"
  shows "serves_config R cfg svc server"
    and "\<exists>ident u. CfgIdentity cfg = Some ident \<and> Event (CSignerFromMSP (MSPDir ident) (MspID ident)) True u \<in> set es"
    and "last es = Event (CStartAndServe svc server) ok v" and "r = Ok () \<longleftrightarrow> ok"
proof -
  from run serve obtain c ident where c: "ToPeerConf (Committer cfg) = Ok c" and i: "CfgIdentity cfg = Some ident"
    by (auto simp: create_and_serve_def basic_eq_iff split: res.splits option.splits)
  let ?sc = "\<lparr>SvcChannelID = ChannelID cfg, SvcProtocol = Protocol cfg, SvcCommitter = c, SvcDBConnStr = ConnStr cfg\<rparr>"
  obtain r1 fs w1 where new: "New_Service R ?sc (MSPDir ident) (MspID ident) (sample_executors (runSdk R)) w = (r1, fs, w1)"
    by (cases "New_Service R ?sc (MSPDir ident) (MspID ident) (sample_executors (runSdk R)) w")
  from proto have proto': "SvcProtocol ?sc \<in> {'''', ''fabric'', ''fabric-x''}" by simp
  note ns = New_Service_run [OF new proto']
  from ns(1) serve have notin: "Event (CStartAndServe svc server) ok v \<notin> set fs" by auto
  with run serve new c i obtain r1': "r1 = Ok svc" and srv: "Server cfg = Some server"
    and es: "es = fs @ [Event (CStartAndServe svc server) ok v]" and r: "r = Ok () \<longleftrightarrow> ok"
    by (cases "Server cfg"; cases r1; cases r) (auto simp: create_and_serve_def run_iffs)
  from ns(2) [OF r1'] srv c show "serves_config R cfg svc server" by (auto simp: serves_config_def)
  from ns(2) [OF r1'] i es show "\<exists>ident u. CfgIdentity cfg = Some ident \<and> Event (CSignerFromMSP (MSPDir ident) (MspID ident)) True u \<in> set es"
    by auto
  from es show "last es = Event (CStartAndServe svc server) ok v" by simp
  from r show "r = Ok () \<longleftrightarrow> ok" .
qed

text \<open>
  The command serves only what was validated. Whenever it hands a service to the gRPC server,
  the configuration it parsed passed \<open>Validate\<close> and names an identity, whose signer was loaded; the
  server settings are those of the configuration; the service is for its channel, with the sample
  executors and the builder of its protocol (Fabric-X when none is named); the configuration file was
  closed; and serving is the last thing it does, its error is the command's.
\<close>

lemma run_serves_validated:
  assumes run: "run R w = (r, es, w')" and serve: "Event (CStartAndServe svc server) ok v \<in> set es"
  shows "\<exists>cfg w1 w2 ident c u1 u2. unmarshalConfig R w1 = (Ok cfg, w2) \<and> Validate cfg = None \<and>
    CfgIdentity cfg = Some ident \<and> Event (CSignerFromMSP (MSPDir ident) (MspID ident)) True u1 \<in> set es \<and>
    Server cfg = Some server \<and> ToPeerConf (Committer cfg) = Ok c \<and>
    svc = service_of (runSdk R) \<lparr>SvcChannelID = ChannelID cfg, SvcProtocol = Protocol cfg,
      SvcCommitter = c, SvcDBConnStr = ConnStr cfg\<rparr> \<and>
    Event CCloseFile True u2 \<in> set es \<and> last es = Event (CStartAndServe svc server) ok v \<and>
    (r = Ok () \<longleftrightarrow> ok)"
proof -
  from run serve obtain cfg v1 v2 v3 v4 v5 fs where cfg: "unmarshalConfig R v3 = (Ok cfg, v4)" "Validate cfg = None"
    and tail: "create_and_serve R (with_log_level R cfg) v5 = (r, fs, w')"
    and es: "es = [Event (COpen (configFile R)) True v1, Event CReadConfig True v2, Event CCloseFile True v3,
      Event CUnmarshal True v4, Event (CInitLogging (LogSpec (with_log_level R cfg))) True v5] @ fs"
    by (auto simp: run_def Let_def run_iffs split: option.splits)
  from es serve have serve': "Event (CStartAndServe svc server) ok v \<in> set fs" by auto
  from cfg have proto: "Protocol (with_log_level R cfg) \<in> {'''', ''fabric'', ''fabric-x''}"
    by (simp add: Validate_None_iff)
  note cs = create_and_serve_run [OF tail serve' proto]
  from cs(2) obtain ident u1 where "CfgIdentity cfg = Some ident"
    "Event (CSignerFromMSP (MSPDir ident) (MspID ident)) True u1 \<in> set fs" by auto
  moreover from serve' es cs(3) have "last es = Event (CStartAndServe svc server) ok v" by (auto simp: last_append)
  ultimately show ?thesis using cfg es cs(1,4) by (auto simp: serves_config_def)
qed

text \<open>
  C40: A configuration without an identity is not refused, it panics. \<open>Validate\<close> does not ask for the
  identity, and the command reads its fields: when the file can be read and its configuration, valid
  to \<open>Validate\<close>, names no identity, the command ends in a panic and serves nothing.
\<close>

theorem run_panics_without_identity:
  assumes read: "openFile R (configFile R) w = (Ok (), w1)" "readConfigFile R w1 = (Ok (), w2)"
    and cfg: "closeFile R w2 = ((), w3)" "unmarshalConfig R w3 = (Ok cfg, w4)"
    and valid: "Validate cfg = None" and noid: "CfgIdentity cfg = None"
  shows "fst (run R w) = Panic ''invalid memory address or nil pointer dereference'' \<and>
    list_all (\<lambda>e. \<not> serving (op e)) (fst (snd (run R w)))"
proof -
  from valid_committer [OF valid] obtain c where c: "ToPeerConf (Committer cfg) = Ok c" by blast
  obtain u w5 where log: "initLogging R (LogSpec (with_log_level R cfg)) w4 = (u, w5)"
    by (cases "initLogging R (LogSpec (with_log_level R cfg)) w4")
  have "create_and_serve R (with_log_level R cfg) w5 =
    (Panic ''invalid memory address or nil pointer dereference'', [], w5)"
    by (simp add: create_and_serve_def c noid panic_def)
  with read cfg valid log show ?thesis
    by (simp add: run_def Let_def andThen_def wrapErr_def onError_def ext_def extv_def)
qed

end
