(* ===== verification/Endorser_Binding.thy ===== *)
theory Endorser_Binding imports Common_Fsc begin

text \<open>
  What binding the endorsing identities achieves (\<open>BindEndorsingIdentities\<close> of \<open>common/fsc.go\<close>), with
  the binding store of the node as the comment above that function describes it: a table from an
  identity to its canonical long-term one, in which an identity that has an entry is never
  re-keyed. The endorsing identities may already have one, which is why the code binds the P2P
  identity to the endorsing identity and not the other way around.
\<close>

subsection \<open>The binding store\<close>

type_synonym bindings = "identity \<rightharpoonup> identity"

definition canonical :: "bindings \<Rightarrow> identity \<Rightarrow> identity" where
  "canonical s i = (case s i of None \<Rightarrow> i | Some l \<Rightarrow> l)"

definition put_binding :: "bindings \<Rightarrow> identity \<times> identity \<Rightarrow> bindings" where
  "put_binding s = (\<lambda>(longTerm, ephemeral).
     if s ephemeral = None then s(ephemeral \<mapsto> canonical s longTerm) else s)"

text \<open>The node keeps such a store, and only a successful \<open>Bind\<close> changes it.\<close>

definition keeps_bindings :: "('w, 'h) node_env \<Rightarrow> ('w \<Rightarrow> bindings) \<Rightarrow> bool" where
  "keeps_bindings N store \<longleftrightarrow>
     (\<forall>l e w. store (snd (bindIdentity N l e w)) =
        (if fst (bindIdentity N l e w) = Ok () then put_binding (store w) (l, e) else store w)) \<and>
     (\<forall>n w. store (snd (getFabricNetworkService N n w)) = store w) \<and>
     (\<forall>w. store (snd (getIDProvider N w)) = store w) \<and>
     (\<forall>h l w. store (snd (getIdentityByID N h l w)) = store w) \<and>
     (\<forall>n w. store (snd (nodeIdentity N n w)) = store w)"

lemma keeps_bindingsD:
  assumes "keeps_bindings N store"
  shows "bindIdentity N l e w = (r, w1) \<Longrightarrow>
      store w1 = (if r = Ok () then put_binding (store w) (l, e) else store w)"
    "getFabricNetworkService N n w = (r1, w1) \<Longrightarrow> store w1 = store w"
    "getIDProvider N w = (r2, w1) \<Longrightarrow> store w1 = store w"
    "getIdentityByID N h l w = (r3, w1) \<Longrightarrow> store w1 = store w"
    "nodeIdentity N n w = (r4, w1) \<Longrightarrow> store w1 = store w"
  using assms unfolding keeps_bindings_def by (metis fst_conv snd_conv)+

text \<open>An entry, once made, stays, and identities that are not bound keep what they had.\<close>

lemma put_bindings_other: "x \<notin> snd ` set bs \<Longrightarrow> foldl put_binding s bs x = s x"
  by (induction bs arbitrary: s) (auto simp: put_binding_def)

lemma put_binding_keep: "s x = Some c \<Longrightarrow> put_binding s b x = Some c"
  by (auto simp: put_binding_def split: prod.split)

lemma put_bindings_keep: "s x = Some c \<Longrightarrow> foldl put_binding s bs x = Some c"
  by (induction bs arbitrary: s) (simp_all add: put_binding_keep)

text \<open>
  Bindings of fresh identities take effect: each is then of the same long-term identity as the one
  it was bound to.
\<close>

lemma put_bindings_bind:
  assumes "\<And>l e. (l, e) \<in> set bs \<Longrightarrow> s e = None \<or> s e = Some (canonical s l)"
    and "\<And>l e l' e'. (l, e) \<in> set bs \<Longrightarrow> (l', e') \<in> set bs \<Longrightarrow> l \<noteq> e'"
    and "\<And>l l' e. (l, e) \<in> set bs \<Longrightarrow> (l', e) \<in> set bs \<Longrightarrow> l = l'"
    and "(l, e) \<in> set bs"
  shows "canonical (foldl put_binding s bs) l = canonical (foldl put_binding s bs) e"
  using assms
proof (induction bs arbitrary: s)
  case (Cons b bs)
  obtain l1 e1 where b: "b = (l1, e1)" by (cases b)
  let ?s = "put_binding s b"
  have head: "?s e1 = Some (canonical s l1)"
    using Cons.prems(1) [of l1 e1] by (auto simp: b put_binding_def)
  have same: "canonical ?s l' = canonical s l'" if "(l', e') \<in> set (b # bs)" for l' e'
    using Cons.prems(2) [OF that, of l1 e1] by (simp add: b put_binding_def canonical_def)
  have fresh: "?s e' = None \<or> ?s e' = Some (canonical ?s l')" if "(l', e') \<in> set bs" for l' e'
  proof (cases "e' = e1")
    case True
    with Cons.prems(3) [of l1 e1 l'] that have "l' = l1" by (simp add: b)
    with head True same [of l1 e1] show ?thesis by (simp add: b)
  next
    case False
    with Cons.prems(1) [of l' e'] that same [of l' e'] show ?thesis by (simp add: b put_binding_def)
  qed
  show ?case
  proof (cases "(l, e) \<in> set bs")
    case True
    have "canonical (foldl put_binding ?s bs) l = canonical (foldl put_binding ?s bs) e"
      by (rule Cons.IH [OF fresh _ _ True]) (meson Cons.prems(2,3) list.set_intros(2))+
    then show ?thesis by simp
  next
    case False
    with Cons.prems(4) have le: "l = l1" "e = e1" by (simp_all add: b)
    have "(l', l1) \<notin> set bs" for l' using Cons.prems(2) [of l1 e1 l' l1] by (auto simp: b)
    then have "l1 \<notin> snd ` set bs" by auto
    then have "foldl put_binding ?s bs l1 = ?s l1" by (rule put_bindings_other)
    then have "canonical (foldl put_binding ?s bs) l1 = canonical s l1"
      using same [of l1 e1] by (simp add: canonical_def b)
    moreover have "canonical (foldl put_binding ?s bs) e1 = canonical s l1"
      using put_bindings_keep [where s = ?s and x = e1, OF head] by (simp add: canonical_def)
    ultimately show ?thesis by (simp add: le)
  qed
qed simp

subsection \<open>The bindings of a run\<close>

text \<open>The bindings that succeeded, in order; they are what changes the store.\<close>

definition bound_ok :: "('h node_call, 'w) event list \<Rightarrow> (identity \<times> identity) list" where
  "bound_ok es = bound (filter succeeded es)"

lemma bind_each_store:
  assumes "keeps_bindings N store" and "bind_each N fns ps w = (Ok (), es, w')"
  shows "store w' = foldl put_binding (store w) (bound_ok es)"
  using assms(2)
proof (induction ps arbitrary: w es)
  case (Cons p ps)
  note law = keeps_bindingsD [OF assms(1)]
  obtain l n where p: "p = (l, n)" by (cases p)
  obtain r w1 where get: "getIdentityByID N fns l w = (r, w1)" by (cases "getIdentityByID N fns l w")
  obtain peer w2 where peer: "nodeIdentity N n w1 = (peer, w2)" by (cases "nodeIdentity N n w1")
  note keep = law(4) [OF get] law(5) [OF peer]
  show ?case
  proof (cases r)
    case (Ok e)
    obtain x w3 where bind: "bindIdentity N e peer w2 = (x, w3)" by (cases "bindIdentity N e peer w2")
    from Cons.prems Cons.IH get peer Ok bind law(1) [OF bind] keep show ?thesis
      by (cases x) (auto simp: p run_iffs bound_ok_def split: if_splits)
  next
    case (Err e)
    with Cons.prems Cons.IH get keep show ?thesis by (auto simp: p run_iffs bound_ok_def)
  next
    case (Panic m)
    with Cons.prems get show ?thesis by (auto simp: p run_iffs)
  qed
qed (simp add: bound_ok_def basic_eq_iff)

lemma bound_ok_subset: "set (bound_ok es) \<subseteq> set (bound es)"
  by (auto simp: bound_ok_def bound_def List.map_filter_def)

lemma bound_ok_event:
  "(l, e) \<in> set (bound es) \<Longrightarrow> \<exists>ok v. Event (CBindIdentity l e) ok v \<in> set es \<and> (ok \<longrightarrow> (l, e) \<in> set (bound_ok es))"
proof -
  assume "(l, e) \<in> set (bound es)"
  then obtain ev where ev: "ev \<in> set es" "binding (op ev) = Some (l, e)"
    by (auto simp: bound_def List.map_filter_def)
  then have "op ev = CBindIdentity l e" by (cases "op ev") auto
  moreover have "(l, e) \<in> set (bound_ok es)" if "succeeded ev"
    using ev that by (force simp: bound_ok_def bound_def List.map_filter_def)
  ultimately show ?thesis using ev(1) by (cases ev) auto
qed

text \<open>
  C36: Binding the endorsing identities does what it is for, in whatever order Go ranges over the map
  and whichever bindings fail. When the services are there, the bindings asked for are, as a multiset,
  one for each pair of the map whose label has an endorsing identity and whose name has a P2P
  identity. And when the P2P identities are new to the binding store and are no endorsing identities,
  each of these bindings that succeeds makes the two identities of one long-term identity, also when
  the endorsing identity was already bound to another one.
\<close>

theorem endorsers_bound:
  assumes order: "mset (mapOrder N m) = mset m"
    and ids: "\<And>l w. fst (getIdentityByID N fns l w) = ids l"
    and peers: "\<And>n w. fst (nodeIdentity N n w) = peers n"
    and services: "getFabricNetworkService N network w = (Ok fns, w1)" "getIDProvider N w1 = (Ok (), w2)"
    and store: "keeps_bindings N store"
    and new: "\<And>l e. (l, e) \<in> set (List.map_filter (wanted N ids peers) m) \<Longrightarrow> store w e = None"
    and apart: "\<And>l e l' e'. (l, e) \<in> set (List.map_filter (wanted N ids peers) m) \<Longrightarrow>
      (l', e') \<in> set (List.map_filter (wanted N ids peers) m) \<Longrightarrow> l \<noteq> e' \<and> (e = e' \<longrightarrow> l = l')"
    and run: "BindEndorsingIdentities N network m w = (Ok (), es, w')"
  shows "mset (bound es) = mset (List.map_filter (wanted N ids peers) m) \<and>
    (\<forall>(l, e) \<in> set (bound es). \<exists>ok v. Event (CBindIdentity l e) ok v \<in> set es \<and>
       (ok \<longrightarrow> canonical (store w') l = canonical (store w') e))"
proof (cases "m = []")
  case True
  with run show ?thesis by (simp add: BindEndorsingIdentities_def ret_def List.map_filter_def)
next
  case False
  let ?W = "set (List.map_filter (wanted N ids peers) m)"
  from False run services obtain fs where each: "bind_each N fns (mapOrder N m) w2 = (Ok (), fs, w')"
    and es: "es = [Event (CGetFabricNetworkService network) True w1, Event CGetIDProvider True w2] @ fs"
    by (auto simp: BindEndorsingIdentities_def run_iffs)
  have mset: "mset (bound es) = mset (List.map_filter (wanted N ids peers) m)"
    using bindings_independent [OF order ids peers each] es by simp
  then have bound: "set (bound es) = ?W" by (metis set_mset_mset)
  have ok: "set (bound_ok es) \<subseteq> ?W" using bound bound_ok_subset by blast
  have "store w2 = store w" using keeps_bindingsD(2,3) [OF store] services by metis
  then have final: "store w' = foldl put_binding (store w) (bound_ok es)"
    using bind_each_store [OF store each] es by (simp add: bound_ok_def)
  have "canonical (store w') l = canonical (store w') e" if "(l, e) \<in> set (bound_ok es)" for l e
    unfolding final by (rule put_bindings_bind [OF _ _ _ that]) (use ok new apart in blast)+
  with bound_ok_event have "\<forall>(l, e) \<in> set (bound es). \<exists>ok v. Event (CBindIdentity l e) ok v \<in> set es \<and>
      (ok \<longrightarrow> canonical (store w') l = canonical (store w') e)"
    by fastforce
  with mset show ?thesis by simp
qed

end
