(* ===== verification/Start_Witnesses.thy ===== *)
theory Start_Witnesses imports Witnesses Node_Mains Ce_Main Endorser_Binding begin

text \<open>
  The properties of the start-up of the nodes and of the custom endorser, applied at concrete
  inputs: a node whose world counts the calls and whose drivers are all there but for one the
  world chooses, and an endorser that reads a small configuration.
\<close>

subsection \<open>Token nodes\<close>

text \<open>The EVM driver is missing when the world is an odd number.\<close>

definition sample_node :: "(nat, string) node_env" where
  "sample_node = \<lparr>
     mkdirAll = (\<lambda>d w. (Ok (), w)),
     newWithConfPath = (\<lambda>p w. (''node'', w)),
     newSDK = (\<lambda>b h w. ((), w)),
     installSDK = (\<lambda>h m. m),
     nodeStart = (\<lambda>h w. (Ok (), w)),
     registerTokenDriverDependencies = (\<lambda>w. (Ok (), w)),
     provide = (\<lambda>c opt w. (if c = ''evm.NewDriver'' \<and> odd w then Err (New ''no driver'') else Ok (), w)),
     sdkInstall = (\<lambda>w. (Ok (), w)),
     register = (\<lambda>s w. (Ok (), w)),
     getFabricNetworkService = (\<lambda>n w. (Ok n, w)),
     getIDProvider = (\<lambda>w. (Ok (), w)),
     getIdentityByID = (\<lambda>h l w. (if l = ''endorser2-endorsing'' then Err (New ''unknown'') else Ok l, w)),
     nodeIdentity = (\<lambda>n w. (n, w)),
     bindIdentity = (\<lambda>a b w. (Err (New ''already bound''), w)),
     identityIsNone = (\<lambda>i. i = ''''),
     mapOrder = rev\<rparr>"

definition all_tags :: build_tags where
  "all_tags = \<lparr>fabricx = True, evm = True\<rparr>"

lemma run_parts: "fst t = x \<Longrightarrow> t = (x, fst (snd t), snd (snd t))"
  by auto

theorem sdk_install_attempts_all_witness:
  "map op (fst (snd (SDK_Install sample_node all_tags 1))) = provisions all_tags"
proof -
  have r: "fst (SDK_Install sample_node all_tags 1) = Err (Joined [Joined [New ''no driver'']])" by code_simp
  have bad: "list_all (\<lambda>e. op e \<noteq> CSDKInstall) (fst (snd (SDK_Install sample_node all_tags 1)))" by code_simp
  have np: "\<forall>p. Err (Joined [Joined [New ''no driver'']]) \<noteq> (Panic p :: unit res)" by simp
  obtain es1 es2 where es: "fst (snd (SDK_Install sample_node all_tags 1)) = es1 @ es2" "map op es1 = provisions all_tags"
    and rest: "if list_all succeeded es1
      then \<exists>ok v es3. es2 = Event CSDKInstall ok v # es3 \<and> map op es3 = (if ok then late_registrations all_tags else [])
        \<and> (Err (Joined [Joined [New ''no driver'']]) = Ok () \<longleftrightarrow> list_all succeeded es2)
      else es2 = [] \<and> (\<exists>e. (Err (Joined [Joined [New ''no driver'']]) :: unit res) = Err e)"
    using sdk_install_attempts_all [OF run_parts [OF r] np] by (elim exE conjE) (rule that)
  have "es2 = []"
  proof (rule ccontr)
    assume "es2 \<noteq> []"
    with rest obtain ok v es3 where "es2 = Event CSDKInstall ok v # es3" by (auto split: if_splits)
    with bad es(1) show False by simp
  qed
  with es show ?thesis by simp
qed

theorem start_fsc_installed_witness:
  "fst (StartFSC sample_node all_tags ''conf'' ''data'' 0) = Ok ''node''"
proof -
  let ?run = "StartFSC sample_node all_tags ''conf'' ''data'' 0"
  have inst: "runs_install sample_node" by (simp add: runs_install_def sample_node_def)
  have "Event (CStart ''node'') True 0 \<in> set (fst (snd ?run))" by code_simp
  from start_fsc_installed [OF inst run_parts [OF refl] this] show ?thesis by simp
qed

text \<open>A node whose world is its binding store, where the endorsing identity is already bound.\<close>

definition binding_node :: "(bindings, string) node_env" where
  "binding_node = \<lparr>
     mkdirAll = (\<lambda>d w. (Ok (), w)), newWithConfPath = (\<lambda>p w. (''node'', w)), newSDK = (\<lambda>b h w. ((), w)),
     installSDK = (\<lambda>h m. m), nodeStart = (\<lambda>h w. (Ok (), w)),
     registerTokenDriverDependencies = (\<lambda>w. (Ok (), w)), provide = (\<lambda>c opt w. (Ok (), w)),
     sdkInstall = (\<lambda>w. (Ok (), w)), register = (\<lambda>s w. (Ok (), w)),
     getFabricNetworkService = (\<lambda>n w. (Ok n, w)), getIDProvider = (\<lambda>w. (Ok (), w)),
     getIdentityByID = (\<lambda>h l w. (if l = ''endorser2-endorsing'' then Err (New ''unknown'') else Ok l, w)),
     nodeIdentity = (\<lambda>n w. (n, w)), bindIdentity = (\<lambda>l e w. (Ok (), put_binding w (l, e))),
     identityIsNone = (\<lambda>i. i = ''''), mapOrder = rev\<rparr>"

theorem endorsers_bound_witness:
  "mset (bound (fst (snd (BindEndorsingIdentities binding_node ''default'' endorser_bindings
      [''endorser1-endorsing'' \<mapsto> ''me''])))) = {#(''endorser1-endorsing'', ''endorser1'')#}"
proof -
  let ?ids = "\<lambda>l. if l = ''endorser2-endorsing'' then Err (New ''unknown'') else Ok l"
  let ?s = "[''endorser1-endorsing'' \<mapsto> ''me''] :: bindings"
  let ?run = "BindEndorsingIdentities binding_node ''default'' endorser_bindings ?s"
  have run: "fst ?run = Ok ()"
    by (simp add: BindEndorsingIdentities_def endorser_bindings_def binding_node_def attempt_def andThen_def
        onError_def ext_def extv_def ret_def)
  have W: "List.map_filter (wanted binding_node ?ids (\<lambda>n. n)) endorser_bindings =
      [(''endorser1-endorsing'', ''endorser1'')]"
    by (simp add: endorser_bindings_def List.map_filter_def wanted_def binding_node_def)
  have "mset (bound (fst (snd ?run))) = mset (List.map_filter (wanted binding_node ?ids (\<lambda>n. n)) endorser_bindings) \<and>
    (\<forall>(l, e) \<in> set (bound (fst (snd ?run))). \<exists>ok v. Event (CBindIdentity l e) ok v \<in> set (fst (snd ?run)) \<and>
       (ok \<longrightarrow> canonical (snd (snd ?run)) l = canonical (snd (snd ?run)) e))"
    by (rule endorsers_bound [where N = binding_node and network = "''default''" and w = ?s and store = "\<lambda>w. w"
          and fns = "''default''" and ?w1.0 = ?s and ?w2.0 = ?s,
          OF _ _ _ _ _ _ _ _ run_parts [OF run]])
      (simp_all only: W, simp_all add: binding_node_def keeps_bindings_def)
  then show ?thesis by (simp add: W)
qed

definition sample_main :: "(nat, string) main_env" where
  "sample_main = \<lparr>
     node = sample_node, tags = all_tags,
     dataDir = (\<lambda>p. p @ ''/data''),
     getRegistry = (\<lambda>h w. ((), w)),
     makeRegistration = (\<lambda>g w. (Ok (), w)),
     listenAndServe = (\<lambda>a w. ((), w)),
     selectStop = (\<lambda>w. (Signal, w)),
     shutdown = (\<lambda>w. (Err (New ''context deadline exceeded''), w)),
     stopNode = (\<lambda>h w. ((), w))\<rparr>"

theorem mains_stop_what_they_start_witness:
  "\<exists>n. op (last (fst (snd (endorser_main sample_main ''conf'' ''9000'' 0)))) = CStopNode n"
proof -
  let ?run = "endorser_main sample_main ''conf'' ''9000'' 0"
  have "fst ?run = Ok Returned" by code_simp
  from mains_stop_what_they_start [where main = endorser_main and gs = "[]", OF _ run_parts [OF this]]
  obtain es1 es2 n where "fst (snd ?run) = es1 @ es2"
    "map op es2 = [CListenAndServe (JoinHostPort ''0.0.0.0'' ''9000''), CSelectStop, CShutdown, CStopNode n]"
    by auto
  then show ?thesis by (auto simp: map_eq_Cons_conv)
qed

text \<open>
  A node whose world is the responders of its registry. The registration of the responder for locks fails on
  it, the others succeed.
\<close>

definition registry_node :: "(string \<Rightarrow> view_type option, string) node_env" where
  "registry_node = \<lparr>
     mkdirAll = (\<lambda>d w. (Ok (), w)), newWithConfPath = (\<lambda>p w. (''node'', w)), newSDK = (\<lambda>b h w. ((), w)),
     installSDK = (\<lambda>h m. m), nodeStart = (\<lambda>h w. (Ok (), w)),
     registerTokenDriverDependencies = (\<lambda>w. (Ok (), w)), provide = (\<lambda>c opt w. (Ok (), w)),
     sdkInstall = (\<lambda>w. (Ok (), w)), register = (\<lambda>s w. (Ok (), w)),
     getFabricNetworkService = (\<lambda>n w. (Ok n, w)), getIDProvider = (\<lambda>w. (Ok (), w)),
     getIdentityByID = (\<lambda>h l w. (Ok l, w)), nodeIdentity = (\<lambda>n w. (n, w)), bindIdentity = (\<lambda>l e w. (Ok (), w)),
     identityIsNone = (\<lambda>i. i = ''''), mapOrder = rev\<rparr>"

definition registry_main :: "(string \<Rightarrow> view_type option, string) main_env" where
  "registry_main = \<lparr>
     node = registry_node, tags = all_tags, dataDir = (\<lambda>p. p @ ''/data''), getRegistry = (\<lambda>h w. ((), Map.empty)),
     makeRegistration = (\<lambda>g w. case g of
        RegisterFactory n u \<Rightarrow> (Ok (), w)
      | RegisterResponder u i \<Rightarrow>
          if u = owner_service_LockAcceptView then (Err (New ''registry is closed''), w)
          else (Ok (), w(initiator_name type_path i \<mapsto> u))),
     listenAndServe = (\<lambda>a w. ((), w)), selectStop = (\<lambda>w. (Signal, w)), shutdown = (\<lambda>w. (Ok (), w)),
     stopNode = (\<lambda>h w. ((), w))\<rparr>"

lemma registry_lawful: "lawful_registry registry_main type_path (\<lambda>w. w)"
  by (auto simp: lawful_registry_def registry_main_def split: registration.splits if_splits)

lemma answers_as_made:
  assumes "answers_when_registered es own n u i"
    and "\<And>ok x. Event (CRegistration (RegisterResponder u i)) ok x \<in> set es \<Longrightarrow> ok = made"
  shows "own n = (if made then Some u else None)"
  using assms unfolding answers_when_registered_def by blast

theorem responders_registered_witness:
  "\<exists>es1 e es2. fst (snd (owner_main registry_main ''conf'' ''9500'' Map.empty)) = es1 @ e # es2 \<and>
     last_world Map.empty es1 (type_path owner_service_TransferView) = Some views_AcceptCashView \<and>
     last_world Map.empty es1 (type_path owner_service_LockView) = None"
proof -
  let ?own = "owner_main registry_main ''conf'' ''9500'' Map.empty" and ?iss = "issuer_main registry_main ''conf'' ''9100'' Map.empty"
  let ?transfer = "RegisterResponder views_AcceptCashView (InitiatorType owner_service_TransferView)"
  let ?lock = "RegisterResponder owner_service_LockAcceptView (InitiatorType owner_service_LockView)"
  have runs: "fst ?own = Ok Returned" "fst ?iss = Ok Returned" by code_simp+
  have "list_all (\<lambda>e. (op e = CRegistration ?transfer \<longrightarrow> succeeded e) \<and> (op e = CRegistration ?lock \<longrightarrow> \<not> succeeded e))
    (fst (snd ?own))" by code_simp
  then have made: "Event (CRegistration ?transfer) ok x \<in> set (fst (snd ?own)) \<Longrightarrow> ok"
    "Event (CRegistration ?lock) ok x \<in> set (fst (snd ?own)) \<Longrightarrow> \<not> ok" for ok x
    by (auto simp: list_all_iff)
  from responders_registered [OF run_parts [OF runs(1)] registry_lawful run_parts [OF runs(2)] registry_lawful]
  obtain es1 e es2 where es: "fst (snd ?own) = es1 @ e # es2"
    and transfer: "answers_when_registered es1 (last_world Map.empty es1) (type_path owner_service_TransferView)
      views_AcceptCashView (InitiatorType owner_service_TransferView)"
    and lock: "answers_when_registered es1 (last_world Map.empty es1) (type_path owner_service_LockView)
      owner_service_LockAcceptView (InitiatorType owner_service_LockView)"
    by blast
  have sub: "e' \<in> set es1 \<Longrightarrow> e' \<in> set (fst (snd ?own))" for e' using es by auto
  have "last_world Map.empty es1 (type_path owner_service_TransferView) = (if True then Some views_AcceptCashView else None)"
    by (rule answers_as_made [OF transfer]) (use made(1) sub in blast)
  moreover have "last_world Map.empty es1 (type_path owner_service_LockView) =
      (if False then Some owner_service_LockAcceptView else None)"
    by (rule answers_as_made [OF lock]) (use made(2) sub in blast)
  ultimately show ?thesis using es by auto
qed

subsection \<open>The command of the custom endorser\<close>

definition sample_config :: "string config" where
  "sample_config = \<lparr>ChannelID = ''ch'', Server = Some ''grpc'',
     Committer = \<lparr>Endpoint = Some \<lparr>Host = ''localhost'', Port = 7051\<rparr>,
       TLS = \<lparr>TlsMode = ''none'', CertPath = '''', KeyPath = '''', CACertPaths = []\<rparr>\<rparr>,
     CfgIdentity = Some \<lparr>MspID = ''Org1MSP'', MSPDir = ''msp''\<rparr>, LogSpec = ''INFO'', Protocol = '''',
     ConnStr = ''file:db''\<rparr>"

definition sample_run :: "string config \<Rightarrow> (string, nat, string, bytes list, string, string) run_env" where
  "sample_run cfg = \<lparr>
     runSdk = sample_sdk, configFile = ''endorser.yaml'', logLevel = Some ''DEBUG'',
     openFile = (\<lambda>f w. (Ok (), w)), readConfigFile = (\<lambda>w. (Ok (), w)), closeFile = (\<lambda>w. ((), w)),
     unmarshalConfig = (\<lambda>w. (Ok cfg, w)), initLogging = (\<lambda>l w. ((), w)),
     signerFromMSP = (\<lambda>d m w. (Ok (), w)), startAndServe = (\<lambda>svc s w. (Ok (), w))\<rparr>"

theorem run_panics_without_identity_witness:
  "fst (run (sample_run (sample_config\<lparr>CfgIdentity := None\<rparr>)) '''') =
     Panic ''invalid memory address or nil pointer dereference''"
proof -
  have "Validate (sample_config\<lparr>CfgIdentity := None\<rparr>) = None" by code_simp
  from run_panics_without_identity [OF _ _ _ _ this, of "sample_run (sample_config\<lparr>CfgIdentity := None\<rparr>)"]
  show ?thesis by (simp add: sample_run_def)
qed

end
