(* ===== verification/Ce_Commands.thy ===== *)
theory Ce_Commands imports Ce_Client Ce_Main begin

text \<open>
  The processes of the custom endorser: \<open>main\<close> of \<open>cmd/client/main.go\<close> with its two commands, and
  \<open>main\<close> of \<open>cmd/endorser/main.go\<close>. A \<open>cobra.Command\<close> is data: what it is called, its flags, how many
  arguments it takes, what it runs and its subcommands. Parsing the command line and choosing the command
  is the library's \<open>ExecuteContext\<close>, a parameter.
\<close>

record flag =
  FlagName :: string
  Shorthand :: string
  Default :: string
  Required :: bool

datatype 'm cobra_command =
  Command (Use: string) (ExactArgs: "nat option") (Flags: "flag list") (PersistentFlags: "flag list")
    (RunE: "(string list \<Rightarrow> 'm) option") (subcommands: "'m cobra_command list")

text \<open>What a process does besides running its command, and how it ends.\<close>

datatype 'c process_call = CNotifyContext | CCommand 'c | CStderr string | CStop

datatype process_end = Exited nat | Finished

record ('c, 'w) process_env =
  notifyContext :: "'w \<Rightarrow> unit \<times> 'w"
  executeContext :: "('c, 'w, unit) prog cobra_command \<Rightarrow> ('c, 'w, unit) prog"
  stderr :: "string \<Rightarrow> 'w \<Rightarrow> unit \<times> 'w"
  stop :: "'w \<Rightarrow> unit \<times> 'w"

text \<open>\<open>os.Exit\<close> ends the process at once: what is deferred does not run then. After a panic it does.\<close>

definition deferred_until_exit ::
  "('c, 'w, process_end) prog \<Rightarrow> ('c, 'w, unit) prog \<Rightarrow> ('c, 'w, process_end) prog" where
  "deferred_until_exit m f w =
     (case m w of (Ok (Exited n), es, w1) \<Rightarrow> (Ok (Exited n), es, w1) | _ \<Rightarrow> deferred m f w)"

text \<open>
  The body both mains share, after the line they print of an error: the context of the signals, the command, and the exit status 1 with the
  error on the standard error output.
\<close>

definition error_line :: "error \<Rightarrow> string" where
  "error_line err = ''Error: '' @ Error err @ [CHR 0x0A]"

definition run_command ::
  "('c, 'w) process_env \<Rightarrow> ('c, 'w, unit) prog cobra_command \<Rightarrow> ('c process_call, 'w, process_end) prog" where
  "run_command M cmd =
     andThen (extv CNotifyContext (notifyContext M)) (\<lambda>ctx.
     deferred_until_exit
       (andThen (attempt (mapCalls CCommand (executeContext M cmd))) (\<lambda>r.
          case r of
            Inl err \<Rightarrow>
              andThen (extv (CStderr (error_line err)) (stderr M (error_line err))) (\<lambda>_. ret (Exited 1))
          | Inr _ \<Rightarrow> ret Finished))
       (extv CStop (stop M)))"

subsection \<open>The client\<close>

text \<open>\<open>args[0]\<close>\<close>

definition first_arg :: "string list \<Rightarrow> (string \<Rightarrow> ('c, 'w, 'a) prog) \<Rightarrow> ('c, 'w, 'a) prog" where
  "first_arg args k =
     (case args of
        [] \<Rightarrow> panic ''runtime error: index out of range [0] with length 0''
      | a # _ \<Rightarrow> k a)"

definition newQueryCmd ::
  "('w, 'h, 's, 'e) client_env \<Rightarrow> (string \<Rightarrow> error + json) \<Rightarrow>
   (('h, 's, 'e) client_call, 'w, unit) prog cobra_command" where
  "newQueryCmd C parseJSON =
     Command (''query '' @ [CHR 0x27] @ ''{'' @ Quote ''Args'' @ '':[]}'' @ [CHR 0x27])
       (Some 1) [] []
       (Some (\<lambda>args. first_arg args (\<lambda>txJSON. query C (parseJSON txJSON)))) []"

definition newInvokeCmd ::
  "('w, 'h, 's, 'e) client_env \<Rightarrow> (string \<Rightarrow> error + json) \<Rightarrow>
   (('h, 's, 'e) client_call, 'w, unit) prog cobra_command" where
  "newInvokeCmd C parseJSON =
     Command (''invoke '' @ [CHR 0x27] @ ''{'' @ Quote ''function'' @ '':'' @ Quote ''...'' @ '','' @ Quote ''Args'' @ '':[]}'' @ [CHR 0x27])
       (Some 1) [] []
       (Some (\<lambda>args. first_arg args (\<lambda>txJSON. invoke C (parseJSON txJSON)))) []"

definition client_command ::
  "('w, 'h, 's, 'e) client_env \<Rightarrow> (string \<Rightarrow> error + json) \<Rightarrow>
   (('h, 's, 'e) client_call, 'w, unit) prog cobra_command" where
  "client_command C parseJSON =
     Command ''client'' None []
       [\<lparr>FlagName = ''config'', Shorthand = ''c'', Default = '''', Required = True\<rparr>,
        \<lparr>FlagName = ''namespace'', Shorthand = '''', Default = '''', Required = False\<rparr>]
       None [newQueryCmd C parseJSON, newInvokeCmd C parseJSON]"

definition client_main ::
  "(('h, 's, 'e) client_call, 'w) process_env \<Rightarrow> ('w, 'h, 's, 'e) client_env \<Rightarrow> (string \<Rightarrow> error + json) \<Rightarrow>
   (('h, 's, 'e) client_call process_call, 'w, process_end) prog" where
  "client_main M C parseJSON = run_command M (client_command C parseJSON)"

subsection \<open>The endorser\<close>

definition endorser_command ::
  "('w, 'h, 'r, 'q, 'p, 's) run_env \<Rightarrow> (('w, 'h, 'r, 'q, 's) run_call, 'w, unit) prog cobra_command" where
  "endorser_command R =
     Command ''endorser'' None
       [\<lparr>FlagName = ''config'', Shorthand = ''c'', Default = '''', Required = True\<rparr>,
        \<lparr>FlagName = ''log-level'', Shorthand = '''', Default = ''INFO'', Required = False\<rparr>]
       [] (Some (\<lambda>args. run R)) []"

definition endorser_command_main ::
  "(('w, 'h, 'r, 'q, 's) run_call, 'w) process_env \<Rightarrow> ('w, 'h, 'r, 'q, 'p, 's) run_env \<Rightarrow>
   (('w, 'h, 'r, 'q, 's) run_call process_call, 'w, process_end) prog" where
  "endorser_command_main M R = run_command M (endorser_command R)"

subsection \<open>What the library runs\<close>

text \<open>The functions of a command and its subcommands, with the number of arguments they ask for.\<close>

fun runnables :: "'m cobra_command \<Rightarrow> (nat option \<times> (string list \<Rightarrow> 'm)) list" where
  "runnables (Command use n fs ps runE subs) =
     (case runE of None \<Rightarrow> [] | Some f \<Rightarrow> [(n, f)]) @ concat (map runnables subs)"

text \<open>
  The documented behaviour of \<open>ExecuteContext\<close>: it refuses the command line or prints a help text, with
  nothing run; or it runs one command of the tree, with as many arguments as that command asks for, and
  returns its error.
\<close>

definition dispatches :: "('c, 'w) process_env \<Rightarrow> bool" where
  "dispatches M \<longleftrightarrow>
     (\<forall>cmd w r es w'. executeContext M cmd w = (r, es, w') \<longrightarrow>
        (es = [] \<and> (\<forall>m. r \<noteq> Panic m)) \<or>
        (\<exists>(n, f) \<in> set (runnables cmd). \<exists>args w1 w2.
           (\<forall>k. n = Some k \<longrightarrow> length args = k) \<and> f args w1 = (r, es, w2)))"

text \<open>A run of a process: the command in between, and its end.\<close>

definition command_events :: "('c process_call, 'w) event list \<Rightarrow> ('c, 'w) event list" where
  "command_events es =
     List.map_filter (\<lambda>e. case op e of CCommand c \<Rightarrow> Some (Event c (succeeded e) (after e)) | _ \<Rightarrow> None) es"

lemma command_events_simps [simp]:
  "command_events [] = []" "command_events (es @ fs) = command_events es @ command_events fs"
  "command_events (Event CNotifyContext ok w # es) = command_events es"
  "command_events (Event (CStderr t) ok w # es) = command_events es"
  "command_events (Event CStop ok w # es) = command_events es"
  "command_events (Event (CCommand c) ok w # es) = Event c ok w # command_events es"
  by (simp_all add: command_events_def List.map_filter_def)

lemma command_events_map [simp]:
  "command_events (map (\<lambda>e. Event (CCommand (op e)) (succeeded e) (after e)) es) = es"
  by (induction es) (auto simp: command_events_def List.map_filter_def)

text \<open>How the process ends, for each way its command ends.\<close>

fun ends_with :: "unit res \<Rightarrow> process_end res \<Rightarrow> ('c process_call, 'w) event \<Rightarrow> bool" where
  "ends_with (Ok u) r e \<longleftrightarrow> r = Ok Finished \<and> op e = CStop"
| "ends_with (Err err) r e \<longleftrightarrow> r = Ok (Exited 1) \<and> op e = CStderr (error_line err)"
| "ends_with (Panic m) r e \<longleftrightarrow> r = Panic m \<and> op e = CStop"

lemma run_command_run:
  assumes run: "run_command M cmd w = (r, es, w')"
  obtains w1 r1 fs w2 where "executeContext M cmd w1 = (r1, fs, w2)" "command_events es = fs"
    "op (hd es) = CNotifyContext" "ends_with r1 r (last es)"
proof -
  obtain w1 where w1: "notifyContext M w = ((), w1)" by (cases "notifyContext M w") auto
  obtain r1 fs w2 where exec: "executeContext M cmd w1 = (r1, fs, w2)" by (cases "executeContext M cmd w1")
  let ?es = "map (\<lambda>e. Event (CCommand (op e)) (succeeded e) (after e)) fs"
  have "command_events es = fs \<and> op (hd es) = CNotifyContext \<and> ends_with r1 r (last es)"
  proof (cases r1)
    case (Err err)
    obtain u w3 where w3: "stderr M (error_line err) w2 = (u, w3)" by (cases "stderr M (error_line err) w2")
    have "es = Event CNotifyContext True w1 # ?es @ [Event (CStderr (error_line err)) True w3] \<and> r = Ok (Exited 1)"
      using run by (auto simp: run_command_def deferred_until_exit_def attempt_def onError_def andThen_def
          mapCalls_def extv_def ret_def w1 w3 exec Err)
    with Err show ?thesis by simp
  next
    case (Ok x)
    obtain u w3 where w3: "stop M w2 = (u, w3)" by (cases "stop M w2")
    have "es = Event CNotifyContext True w1 # ?es @ [Event CStop True w3] \<and> r = Ok Finished"
      using run by (auto simp: run_command_def deferred_until_exit_def deferred_def attempt_def onError_def andThen_def
          mapCalls_def extv_def ret_def w1 w3 exec Ok)
    with Ok show ?thesis by simp
  next
    case (Panic m)
    obtain u w3 where w3: "stop M w2 = (u, w3)" by (cases "stop M w2")
    have "es = Event CNotifyContext True w1 # ?es @ [Event CStop True w3] \<and> r = Panic m"
      using run by (auto simp: run_command_def deferred_until_exit_def deferred_def attempt_def onError_def andThen_def
          mapCalls_def extv_def ret_def w1 w3 exec Panic)
    with Panic show ?thesis by simp
  qed
  with exec that show thesis by blast
qed

lemma dispatchesE:
  assumes "dispatches M" and "executeContext M cmd w = (r, es, w')"
  obtains "es = []" "\<And>m. r \<noteq> Panic m"
  | n f args w1 w2 where "(n, f) \<in> set (runnables cmd)" "\<And>k. n = Some k \<Longrightarrow> length args = k" "f args w1 = (r, es, w2)"
proof -
  from assms have "(es = [] \<and> (\<forall>m. r \<noteq> Panic m)) \<or>
    (\<exists>(n, f) \<in> set (runnables cmd). \<exists>args w1 w2.
       (\<forall>k. n = Some k \<longrightarrow> length args = k) \<and> f args w1 = (r, es, w2))"
    unfolding dispatches_def by blast
  with that show thesis by blast
qed

lemma first_arg_run:
  assumes "length args = 1" and "first_arg args k w = x"
  obtains a where "args = [a]" "k a w = x"
  using assms by (cases args) (auto simp: first_arg_def)

subsection \<open>The processes\<close>

text \<open>
  C33: The client submits at most one transaction to the orderer, and only what the endorsers returned
  for the arguments of its command line, with a first response whose status is at least 200 and below
  400; it prints nothing but the payload of such a response. Having submitted, it ends normally exactly
  when the orderer accepted the submission; an error of its command is printed to the standard error
  output and is exit status 1, without the deferred stop.
\<close>

theorem client_submits_only_endorsed:
  assumes cobra: "dispatches M" and run: "client_main M C parseJSON w = (r, es, w')"
  shows "(submissions (command_events es) = [] \<or>
     (\<exists>end1 ok resp rs ec ns arg args w1 w2.
        submissions (command_events es) = [(end1, ok)] \<and> (r = Ok Finished \<longleftrightarrow> ok) \<and>
        parseTxArgs (parseJSON arg) = Inr args \<and> executeTransaction C ec ns ''1.0'' args w1 = (Ok end1, w2) \<and>
        responses C end1 = resp # rs \<and> ok_status resp)) \<and>
    (\<forall>e \<in> set (command_events es). prints_payload C e) \<and>
    (r = Ok Finished \<and> op (last es) = CStop \<or> (\<exists>m. r = Panic m \<and> op (last es) = CStop) \<or>
     r = Ok (Exited 1) \<and> (\<exists>err. op (last es) = CStderr (error_line err)))"
proof -
  from run_command_run [OF run [unfolded client_main_def]] obtain w1 r1 fs w2
    where exec: "executeContext M (client_command C parseJSON) w1 = (r1, fs, w2)"
      and fs: "command_events es = fs" and ends: "ends_with r1 r (last es)" .
  have "(submissions fs = [] \<or>
     (\<exists>end1 ok resp rs ec ns arg args w1 w2.
        submissions fs = [(end1, ok)] \<and> (r1 = Ok () \<longleftrightarrow> ok) \<and>
        parseTxArgs (parseJSON arg) = Inr args \<and> executeTransaction C ec ns ''1.0'' args w1 = (Ok end1, w2) \<and>
        responses C end1 = resp # rs \<and> ok_status resp)) \<and>
     (\<forall>e \<in> set fs. prints_payload C e)"
    using cobra exec
  proof (cases rule: dispatchesE)
    case (2 n f args v1 v2)
    then consider "first_arg args (\<lambda>txJSON. query C (parseJSON txJSON)) v1 = (r1, fs, v2)"
      | "length args = 1" "first_arg args (\<lambda>txJSON. invoke C (parseJSON txJSON)) v1 = (r1, fs, v2)"
      by (auto simp: client_command_def newQueryCmd_def newInvokeCmd_def)
    then show ?thesis
    proof cases
      case 1
      then have q: "submission (op e) = None \<and> prints_payload C e" if "e \<in> set fs" for e
        using that by (auto simp: first_arg_def basic_eq_iff split: list.splits dest: query_trace)
      then have "submissions fs = []" by (induction fs) (auto simp: submissions_def List.map_filter_def)
      with q show ?thesis by blast
    next
      case 2
      then obtain a where "invoke C (parseJSON a) v1 = (r1, fs, v2)" by (rule first_arg_run)
      from invoke_submits_only_endorsed [OF this] invoke_prints [OF this] show ?thesis by blast
    qed
  qed (simp add: submissions_def List.map_filter_def)
  with fs ends show ?thesis by (cases r1) auto
qed

text \<open>
  C39: The endorser's process serves only what was validated. Whenever it hands a service to the gRPC
  server, the configuration it parsed passed \<open>Validate\<close> and names an identity, whose signer was loaded;
  the server settings are those of the configuration; the service is for its channel, with the sample
  executors and the builder of its protocol (Fabric-X when none is named); the configuration file was
  closed. Serving is the last thing its command does, and an error of it is the exit status 1 of the
  process.
\<close>

theorem endorser_serves_validated:
  assumes cobra: "dispatches M" and run: "endorser_command_main M R w = (r, es, w')"
    and serve: "Event (CStartAndServe svc server) ok v \<in> set (command_events es)"
  shows "\<exists>cfg w1 w2 ident c u1 u2. unmarshalConfig R w1 = (Ok cfg, w2) \<and> Validate cfg = None \<and>
    CfgIdentity cfg = Some ident \<and>
    Event (CSignerFromMSP (MSPDir ident) (MspID ident)) True u1 \<in> set (command_events es) \<and>
    Server cfg = Some server \<and> ToPeerConf (Committer cfg) = Ok c \<and>
    svc = service_of (runSdk R) \<lparr>SvcChannelID = ChannelID cfg, SvcProtocol = Protocol cfg,
      SvcCommitter = c, SvcDBConnStr = ConnStr cfg\<rparr> \<and>
    Event CCloseFile True u2 \<in> set (command_events es) \<and>
    last (command_events es) = Event (CStartAndServe svc server) ok v \<and>
    (r = Ok Finished \<longleftrightarrow> ok) \<and> ((\<exists>n. r = Ok (Exited n)) \<longrightarrow> r = Ok (Exited 1))"
proof -
  from run_command_run [OF run [unfolded endorser_command_main_def]] obtain w1 r1 fs w2
    where exec: "executeContext M (endorser_command R) w1 = (r1, fs, w2)"
      and fs: "command_events es = fs" and ends: "ends_with r1 r (last es)" .
  from cobra exec obtain v1 v2 where "run R v1 = (r1, fs, v2)"
    by (cases rule: dispatchesE) (use serve fs in \<open>auto simp: endorser_command_def\<close>)
  note served = run_serves_validated [OF this serve [unfolded fs]]
  have "(r = Ok Finished \<longleftrightarrow> r1 = Ok ())" "(\<exists>n. r = Ok (Exited n)) \<longrightarrow> r = Ok (Exited 1)"
    using ends by (cases r1; auto)+
  with served fs show ?thesis by auto
qed

end
