(* ===== verification/Command_Witnesses.thy ===== *)
theory Command_Witnesses imports Start_Witnesses Ce_Commands begin

text \<open>
  The properties of the two processes of the custom endorser, applied at concrete inputs: the commands
  of the samples under a library that runs the last function of a command.
\<close>

definition sample_process :: "('c, 'w) process_env" where
  "sample_process = \<lparr>notifyContext = (\<lambda>w. ((), w)),
     executeContext = (\<lambda>cmd.
       case rev (runnables cmd) of
         [] \<Rightarrow> ret ()
       | (n, f) # _ \<Rightarrow> f (replicate (case n of None \<Rightarrow> 0 | Some k \<Rightarrow> k) ''{}'')),
     stderr = (\<lambda>t w. ((), w)), stop = (\<lambda>w. ((), w))\<rparr>"

lemma sample_dispatches: "dispatches sample_process"
  unfolding dispatches_def
proof (intro allI impI)
  fix cmd :: "('c, 'w, unit) prog cobra_command" and w r es w'
  assume run: "executeContext sample_process cmd w = (r, es, w')"
  show "(es = [] \<and> (\<forall>m. r \<noteq> Panic m)) \<or>
    (\<exists>(n, f) \<in> set (runnables cmd). \<exists>args w1 w2. (\<forall>k. n = Some k \<longrightarrow> length args = k) \<and> f args w1 = (r, es, w2))"
  proof (cases "rev (runnables cmd)")
    case Nil
    with run show ?thesis by (auto simp: sample_process_def ret_def)
  next
    case (Cons x rs)
    obtain n f where x: "x = (n, f)" by (cases x)
    let ?args = "replicate (case n of None \<Rightarrow> 0 | Some k \<Rightarrow> k) ''{}''"
    from Cons x have "(n, f) \<in> set (runnables cmd)" by (metis list.set_intros(1) set_rev)
    moreover from run Cons x have "f ?args w = (r, es, w')" by (simp add: sample_process_def)
    moreover have "\<forall>k. n = Some k \<longrightarrow> length ?args = k" by simp
    ultimately show ?thesis by blast
  qed
qed

theorem client_submits_only_endorsed_witness:
  "submissions (command_events (fst (snd (client_main sample_process sample_client (\<lambda>s. Inr (JObj [])) 0)))) =
     [(5, True)]"
proof -
  let ?run = "client_main sample_process sample_client (\<lambda>s. Inr (JObj [])) 0"
  have r: "fst ?run = Ok Finished" and some: "map fst (submissions (command_events (fst (snd ?run)))) = [5]" by code_simp+
  from client_submits_only_endorsed [OF sample_dispatches run_split [OF r]] some show ?thesis by auto
qed

theorem endorser_serves_validated_witness:
  "\<exists>svc v. Event (CStartAndServe svc ''grpc'') True v \<in> set (command_events
       (fst (snd (endorser_command_main sample_process (sample_run sample_config) '''')))) \<and>
     channel svc = ''ch'' \<and> builder svc = Some FabricXBuilder"
proof -
  let ?R = "sample_run sample_config"
  let ?run = "endorser_command_main sample_process ?R ''''"
  have valid: "Validate sample_config = None" by code_simp
  have "\<exists>svc es. run ?R '''' = (Ok (), es, '''') \<and> Event (CStartAndServe svc ''grpc'') True '''' \<in> set es"
    by (simp add: run_def create_and_serve_def New_Service_def NewWithSigner_def Let_def mapCalls_def andThen_def
        wrapErr_def onError_def ext_def extv_def ret_def sample_run_def sample_sdk_def ToPeerConf_def
        with_log_level_def sample_config_def valid [unfolded sample_config_def])
  then obtain svc es where run: "run ?R '''' = (Ok (), es, '''')"
    and ev: "Event (CStartAndServe svc ''grpc'') True '''' \<in> set es" by blast
  have "fst ?run = Ok Finished \<and> command_events (fst (snd ?run)) = es"
    by (simp add: endorser_command_main_def run_command_def endorser_command_def sample_process_def attempt_def
        deferred_until_exit_def deferred_def onError_def andThen_def mapCalls_def extv_def ret_def run)
  with ev have r: "fst ?run = Ok Finished"
    and serve: "Event (CStartAndServe svc ''grpc'') True '''' \<in> set (command_events (fst (snd ?run)))" by simp_all
  from endorser_serves_validated [OF sample_dispatches run_split [OF r] serve]
  have "channel svc = ''ch''" "builder svc = Some FabricXBuilder"
    by (auto simp: sample_run_def sample_config_def service_of_def)
  with serve show ?thesis by blast
qed

end
