(* ===== verification/Spec2Isabelle.thy ===== *)
theory Spec2Isabelle imports System_Witnesses Command_Witnesses begin

text \<open>
  A verification development of the Fabric-X samples (Go).

  The program. The repository holds two systems. \<open>src/tokens\<close> is a set of nodes that issue and
  move tokens: an issuer, owners and an endorser, each a Fabric Smart Client (FSC) node with a
  REST API (\<open>routes/routes.go\<close>, behind generated code in \<open>routes/routes.gen.go\<close> and the CORS
  middleware of \<open>common/fsc.go\<close>), a service (\<open>service/*.go\<close>) whose operations start views, and
  the views themselves, which talk to other nodes, have a transaction endorsed and hand it to the
  orderer. \<open>src/custom-endorser\<close> is a gRPC service that executes chaincode-like functions and
  endorses their read/write sets, with a command-line client.

  Everything below the code, that is the token SDK, FSC, the Fabric SDKs, the network and the
  databases, is a parameter: a record of functions over an arbitrary world \<open>'w\<close> and arbitrary
  references \<open>'h\<close>. A program (\<open>Prog\<close>) is a function from a world to a result (a value, a Go
  error or a panic), the trace of the calls it made, and the world it left. So what the code does
  to its environment, in which order, is a property of traces, and is proved for all
  environments. Go errors are the values of \<open>Go_Errors\<close>; a failed assertion of a view is a
  panic. Definitions compute on every concrete environment.

  Theories and the code they model.
  \<^item> \<open>Prelude\<close>, \<open>Go_Errors\<close>, \<open>Prog\<close>: types, errors, programs, and the logic of traces: \<open>conf\<close> runs
    an automaton over the trace of a program and gives its post-condition the final state of the
    automaton; \<open>collect\<close> and \<open>forbid\<close> are the automata for "what is the trace" and "this call
    happens only if".
  \<^item> \<open>Go_Numbers\<close>, \<open>Go_Json\<close>: the parts of Go's standard library the code computes with:
    \<open>strconv.ParseUint\<close> with its overflow checks on 64-bit words (proved equal to a reference on
    unbounded numbers), \<open>Itoa\<close>, JSON decoding by the rules of \<open>encoding/json\<close>, base64 (with its
    round trip).
  \<^item> \<open>Token_Api\<close>: the interface to the token SDK and FSC. \<open>Settlement\<close>: the protocol of a token
    operation as an automaton on phases (preparing, endorsed, committed, ...), with the locales
    \<open>settlement_view\<close> and \<open>atomic_view\<close> for a view that follows it and what follows for it.
  \<^item> \<open>View_Utils\<close>, \<open>Views\<close>: \<open>tokens/common/views\<close>: \<open>ServiceOpts\<close>, \<open>TxOpts\<close>, \<open>AssertTokens\<close>, the
    accept view, the issuer's endorsement of a redeem, and the issue and redeem views that a
    factory starts.
  \<^item> \<open>Owner_Service\<close> (transfer, redeem), \<open>Owner_Accounts\<close> (balances, history): \<open>tokens/owner/service/fsc.go\<close>;
    \<open>Htlc\<close>: \<open>htlc_lock.go\<close>, \<open>htlc_claim.go\<close>, \<open>htlc_reclaim.go\<close>; \<open>Issuer_Service\<close>:
    \<open>tokens/issuer/service/fsc.go\<close>.
  \<^item> \<open>Http\<close>: requests, responses, routing, CORS and the shape of the generated handlers;
    \<open>Http_Settlement\<close>: the contract between a server operation and the HTTP layer, as locales;
    \<open>Owner_Types\<close>, \<open>Owner_Routes\<close>, \<open>Owner_Api\<close>: the owner's request types, handlers and whole API;
    \<open>Issuer_Api\<close> the issuer's; \<open>Endorser_Service\<close> the token endorser's service and API.
  \<^item> \<open>Api_Responses\<close>: the response objects of every operation, their JSON, and the schemas of
    \<open>tokens/swagger.yaml\<close> they are checked against. \<open>Api_Requests\<close>: the schemas of the request bodies,
    the value a body of a schema stands for, and that the generated decoding finds it.
    \<open>View_Factories\<close>: the views started by name, from their JSON options (\<open>NewView\<close> of each factory).
  \<^item> \<open>Http_Writer\<close>: the response writer of \<open>net/http\<close>, the JSON encoder, \<open>http.Error\<close>, the router and the
    CORS middleware in terms of it. The locale \<open>levels\<close> states what a relation between a handler that writes and a
    handler that returns its response needs to pass through the router, the middleware and the generated
    constructs; it has two interpretations, for what is sent on an open connection and for the effects on
    any connection, and \<open>serves_as\<close> and \<open>acts_as\<close> are the contracts that result. \<open>Generated_Http\<close>: what the three \<open>routes.gen.go\<close> have in common
    (options, wrappers, middlewares, strict handlers, request and response objects, parameter errors);
    \<open>Owner_Generated\<close>, \<open>Issuer_Generated\<close>, \<open>Endorser_Generated\<close>: the generated server of each node,
    construct by construct, and the handler its main serves. \<open>Wire\<close>: what a client receives, and what it can
    conclude from it. \<open>Swap\<close>: the answer to a lock request, and what sending it back to an owner makes it do.
  \<^item> \<open>Common_Fsc\<close>: \<open>tokens/common/fsc.go\<close> and the SDK of each build (\<open>sdk_*.go\<close>, chosen by the build
    tags); \<open>Endorser_Binding\<close>: what binding the endorsing identities achieves in the binding store;
    \<open>Node_Mains\<close>: the three \<open>main.go\<close>, and which responders a node has when it starts to serve.
    \<open>Node_Runs\<close>: a node over time, as a relation whose actions are its API, its responders and its factories,
    with the locale \<open>accountable\<close>. The actions are concurrent: each runs with libraries of its own, which answer it
    whatever the others and the world make of them in between, and the log of the node is any interleaving of
    their calls. \<open>Progress\<close>: what can keep a view from returning.
  \<^item> \<open>Ce_Config\<close>, \<open>Ce_Service\<close>, \<open>Ce_Client\<close>: \<open>custom-endorser/config\<close>, \<open>service\<close> with the sample
    executor of \<open>cmd/endorser\<close>, and \<open>cmd/client\<close>. The locale \<open>executor\<close> is the contract of the
    Go interface \<open>Executor\<close>. \<open>Ce_Main\<close>: \<open>cmd/endorser/main.go\<close> with \<open>New\<close>. \<open>Ce_Ledger\<close>: a key-value
    store as the abstract machine of the endorser with the sample executor, whose calls are committed after
    they ran, in any order, and histories of proposals and commits. \<open>Ce_System\<close>: clients, the endorser and
    the ledger together, over sessions of commands and commits. \<open>Ce_Commands\<close>: the command trees and the two \<open>main\<close> functions, with exit status and standard
    error.
  \<^item> \<open>Samples\<close>, \<open>Witnesses\<close>, \<open>Start_Witnesses\<close>, \<open>History_Witnesses\<close>, \<open>System_Witnesses\<close>,
    \<open>Command_Witnesses\<close>: concrete environments, and every property applied in one.

  What is proved. Settlement: a 200 answer of an API carries the id of a transaction that was
  endorsed, ordered once and confirmed, and a failure means that nothing was confirmed, except
  that a lock can fail after the fact; so it is for the bytes a client receives, and whatever becomes of the
  connection the servers do what their APIs say. Swaps: what a lock answers is what a claim and a reclaim
  need. Requests: what a view adds to a transaction is what was
  asked for, deadlines are exact, lock requests are checked. Responders: a recipient signs only
  what names it. Accounts: balances are sums modulo \<open>2 ^ 64\<close>, the history is complete and its
  iterator closed. Custom endorser: it endorses only what its executor returned for a valid
  proposal, the client submits only what was endorsed; over any history it is a key-value store, in
  whatever order its endorsements are committed. Histories: in any
  concurrent history of a node the ids the orderer confirmed for it are those it reported and one for each action that
  failed after ordering, which only a lock and the views of \<open>common/views\<close> can. Progress: a view whose calls all succeed
  returns, unless the libraries answered that something does not exist; then it says so (a lock without a
  script panics). Responses: every JSON answer meets the published schema of its operation, but for a lock whose script
  has a \<open>nil\<close> hash; every request body of the published schema that spells no name twice reaches the server with its
  values; and the servers built from the generated code send exactly what the APIs say, with the text of the error in
  the place of a body that cannot be marshalled, after the status. The custom endorser as a system: over any session of commands of several clients,
  with commits in between, clients, endorser and ledger are a key-value store; the exit status of the client tells whether the orderer
  accepted. Start-up: a node starts only when everything of its build was registered and
  installed, serves only then, and stops what it started; the custom endorser serves only a
  validated configuration.

  Hypotheses on the libraries, where a property needs one: \<open>initiates\<close> (the view manager runs the
  view it is given, or fails before it starts), \<open>ranges_over\<close> (Go's \<open>range\<close> visits every entry
  of a map once, in some order; for the endorsing identities, that the order is a permutation of
  the map), \<open>keeps_bindings\<close> (the binding store the code describes, which never re-keys an
  identity), \<open>runs_install\<close> (\<open>InstallSDK\<close> of the node fails before it does anything, or runs the
  \<open>Install\<close> of the SDK), \<open>lawful_store\<close> (the simulation store reads the state it was opened at,
  collects what is put, and commits nothing), \<open>builds_responses\<close> (an endorsement builder puts the result
  into the response, with status 200 or 400), \<open>asks_endorser\<close> (\<open>ExecuteTransaction\<close> has a proposal with the
  given arguments processed by the endorser), \<open>prints_rfc3339\<close> (\<open>time.Time.MarshalJSON\<close> gives RFC 3339 texts),
  \<open>lawful_registry\<close> (\<open>RegisterResponder\<close> registers the responder for its initiator when it succeeds, and changes
  no other), \<open>client_commits_nothing\<close> (nothing the client calls changes the
  ledger at once) and \<open>dispatches\<close> (\<open>cobra\<close> runs at most one command, with the number of arguments it asks
  for). The witnesses have environments that satisfy them.

  Bounds. The loops over a library's iterator (\<open>drain\<close>) and of \<open>WaitForReady\<close> may run forever, so
  they take a number of steps; a run that uses it up has not returned. \<open>get_transactions_returns\<close>
  and \<open>wait_for_ready_returns\<close> show that one step more than the iterator has records, or than the
  service has to wait, is enough. All other loops are recursions on lists.

  Simplifications. Log messages are not modelled (except that the argument of one can panic). The
  text of a panic is the code's message without the formatting of the assertion library; the texts
  of JSON errors are a constant. A request body is its first JSON value or the error of reading
  it; the \<open>Allow\<close> header of a 405 is left out. \<open>Http\<close> and the APIs describe responses as values; that they
  are written as such is proved in \<open>Wire\<close>, for a new connection and whatever marshals the times.
  A command of the client of the custom endorser runs between two commits, not beside one.
  Declarations the generator repeats in every \<open>routes.gen.go\<close> with the same text (options of the router, error
  types) are modelled once, in \<open>Generated_Http\<close>, and mapped to the owner's copy.

  Not modelled: what \<open>cobra\<close> prints itself (usage, help) and its parsing of the command line (the flags
  are fields of the environments), the \<open>flag\<close> package of the node mains (flags are arguments, the signal is a
  choice of the environment), the success types the generator declares beside their \<open>JSONResponse\<close> twins and
  nothing uses, integration tests, scripts and Ansible playbooks.
\<close>

end
